(* ===== verification/Prelude.thy ===== *)
theory Prelude
  imports Main
begin

text \<open>
  The vocabulary every component shares: Python exceptions as values, programs that read and
  change a state and may raise, and the rules by which their results, frames and invariants are
  computed.

  A handler or service method of the repository is a \<open>prog\<close>: a function from the state it starts
  in to its outcome (\<open>Inl\<close> of the exception it raised, or \<open>Inr\<close> of what it returned) and the
  state it leaves, whichever way it ended.  An exception does not undo the state changes made
  before it, as in Python.
\<close>

named_theorems prog_simps "unfolding of the program combinators"
named_theorems keeps_intros "frame rules: a program leaves a part of the state unchanged"
named_theorems preserves_intros "invariant rules: a program keeps a predicate of the state"

section \<open>Exceptions\<close>

text \<open>
  The exceptions the modelled code raises or catches.  \<open>APIError\<close> carries \<open>status_code\<close>,
  \<open>code\<close> and \<open>message\<close> (shared/errors.py); \<open>PQCKeyError\<close> and \<open>S2STokenError\<close> carry their
  message.  The other constructors are exceptions of Python or of a library, told apart as far
  as an \<open>except\<close> clause of the code tells them apart.
\<close>

datatype py_exn =
    APIError int string string
  | PQCKeyError string
  | S2STokenError string
  | ValueError
  | TypeError
  | KeyError
  | AttributeError
  | OverflowError
  | OSError
  | RuntimeError string
  | IntegrityError
  | HTTPError
  | ExpiredSignatureError
  | InvalidTokenError
  | SignatureVerificationError
  | OtherError string

text \<open>The instances of \<open>except ValueError\<close>: \<open>S2STokenError\<close> is declared as a subclass of it.\<close>

definition is_value_error :: "py_exn \<Rightarrow> bool" where
  "is_value_error e = (case e of ValueError \<Rightarrow> True | S2STokenError _ \<Rightarrow> True | _ \<Rightarrow> False)"

section \<open>Results without a state\<close>

type_synonym 'a result = "py_exn + 'a"

definition bindE :: "'a result \<Rightarrow> ('a \<Rightarrow> 'b result) \<Rightarrow> 'b result" where
  "bindE r f = (case r of Inl e \<Rightarrow> Inl e | Inr x \<Rightarrow> f x)"

definition catchE :: "'a result \<Rightarrow> (py_exn \<Rightarrow> 'a result) \<Rightarrow> 'a result" where
  "catchE r h = (case r of Inl e \<Rightarrow> h e | Inr x \<Rightarrow> Inr x)"

definition of_option :: "py_exn \<Rightarrow> 'a option \<Rightarrow> 'a result" where
  "of_option e r = (case r of None \<Rightarrow> Inl e | Some x \<Rightarrow> Inr x)"

section \<open>Programs with a state\<close>

type_synonym ('s, 'a) prog = "'s \<Rightarrow> 'a result \<times> 's"

definition ret :: "'a \<Rightarrow> ('s, 'a) prog" where
  "ret x s = (Inr x, s)"

definition throw :: "py_exn \<Rightarrow> ('s, 'a) prog" where
  "throw e s = (Inl e, s)"

definition bindM :: "('s, 'a) prog \<Rightarrow> ('a \<Rightarrow> ('s, 'b) prog) \<Rightarrow> ('s, 'b) prog" where
  "bindM m f s = (case m s of (Inl e, t) \<Rightarrow> (Inl e, t) | (Inr x, t) \<Rightarrow> f x t)"

text \<open>\<open>try: m except: h\<close>, where \<open>h\<close> re-raises what its clauses do not catch.\<close>

definition catchM :: "('s, 'a) prog \<Rightarrow> (py_exn \<Rightarrow> ('s, 'a) prog) \<Rightarrow> ('s, 'a) prog" where
  "catchM m h s = (case m s of (Inl e, t) \<Rightarrow> h e t | (Inr x, t) \<Rightarrow> (Inr x, t))"

definition gets :: "('s \<Rightarrow> 'a) \<Rightarrow> ('s, 'a) prog" where
  "gets f s = (Inr (f s), s)"

definition modify :: "('s \<Rightarrow> 's) \<Rightarrow> ('s, unit) prog" where
  "modify f s = (Inr (), f s)"

definition liftE :: "'a result \<Rightarrow> ('s, 'a) prog" where
  "liftE r s = (r, s)"

section \<open>Computing with programs\<close>

lemma bindE_simps [simp, prog_simps]:
  "bindE (Inl e) f = Inl e" "bindE (Inr x) f = f x"
  by (simp_all add: bindE_def)

lemma catchE_simps [simp, prog_simps]:
  "catchE (Inl e) h = h e" "catchE (Inr x) h = Inr x"
  by (simp_all add: catchE_def)

lemma of_option_simps [simp, prog_simps]:
  "of_option e None = Inl e" "of_option e (Some x) = Inr x"
  by (simp_all add: of_option_def)

lemma bindE_eq_Inr [simp]: "bindE r f = Inr y \<longleftrightarrow> (\<exists>x. r = Inr x \<and> f x = Inr y)"
  by (cases r) auto

lemma of_option_eq_Inr [simp]: "of_option e r = Inr x \<longleftrightarrow> r = Some x"
  by (cases r) auto

lemma ret_apply [simp, prog_simps]: "ret x s = (Inr x, s)"
  by (simp add: ret_def)

lemma throw_apply [simp, prog_simps]: "throw e s = (Inl e, s)"
  by (simp add: throw_def)

lemma gets_apply [simp, prog_simps]: "gets f s = (Inr (f s), s)"
  by (simp add: gets_def)

lemma modify_apply [simp, prog_simps]: "modify f s = (Inr (), f s)"
  by (simp add: modify_def)

lemma liftE_apply [simp, prog_simps]: "liftE r s = (r, s)"
  by (simp add: liftE_def)

lemma bindM_apply_Inl [simp]: "m s = (Inl e, t) \<Longrightarrow> bindM m f s = (Inl e, t)"
  by (simp add: bindM_def)

lemma bindM_apply_Inr [simp]: "m s = (Inr x, t) \<Longrightarrow> bindM m f s = f x t"
  by (simp add: bindM_def)

lemma bindM_prim [simp, prog_simps]:
  "bindM (ret x) f s = f x s"
  "bindM (throw e) f s = (Inl e, s)"
  "bindM (gets g) f s = f (g s) s"
  "bindM (modify h) f' s = f' () (h s)"
  by simp_all

lemma catchM_apply_Inl [simp]: "m s = (Inl e, t) \<Longrightarrow> catchM m h s = h e t"
  by (simp add: catchM_def)

lemma catchM_apply_Inr [simp]: "m s = (Inr x, t) \<Longrightarrow> catchM m h s = (Inr x, t)"
  by (simp add: catchM_def)

text \<open>Inversion: how a sequence of two programs came to return, and how it came to raise.\<close>

lemma bindM_eq_Inr:
  "bindM m f s = (Inr y, u) \<longleftrightarrow> (\<exists>x t. m s = (Inr x, t) \<and> f x t = (Inr y, u))"
  by (auto simp: bindM_def split: prod.splits sum.splits)

lemma bindM_eq_Inl:
  "bindM m f s = (Inl e, u) \<longleftrightarrow>
     m s = (Inl e, u) \<or> (\<exists>x t. m s = (Inr x, t) \<and> f x t = (Inl e, u))"
  by (auto simp: bindM_def split: prod.splits sum.splits)

lemma bindM_liftE:
  "bindM (liftE r) f s = (case r of Inl e \<Rightarrow> (Inl e, s) | Inr x \<Rightarrow> f x s)"
  by (simp add: bindM_def)

text \<open>A handler that only raises adds no way to return.\<close>

lemma catchM_rethrow_Inr:
  assumes "\<And>e s v. h e s \<noteq> (Inr x, v)"
  shows "catchM m h s = (Inr x, v) \<longleftrightarrow> m s = (Inr x, v)"
  using assms by (auto simp: catchM_def split: prod.splits sum.splits)

text \<open>A sequence ends in its first program or goes on to its second.\<close>

lemma bindM_steps:
  "bindM m f s = (r, t) \<Longrightarrow>
     (\<exists>e. m s = (Inl e, t) \<and> r = Inl e) \<or> (\<exists>x u. m s = (Inr x, u) \<and> f x u = (r, t))"
  by (auto simp: bindM_def split: prod.splits sum.splits)

lemma bindM_assoc: "bindM (bindM m f) g = bindM m (\<lambda>x. bindM (f x) g)"
  by (rule ext) (auto simp: bindM_def split: prod.splits sum.splits)

lemma bindM_ret_right: "bindM m ret = m"
  by (rule ext) (auto simp: bindM_def split: prod.splits sum.splits)

section \<open>Frames and invariants\<close>

text \<open>
  \<open>keeps f m\<close>: whatever way \<open>m\<close> ends, the part \<open>f\<close> of the state is what it was.
  \<open>preserves I m\<close>: whatever way \<open>m\<close> ends, \<open>I\<close> holds if it held at the start.
\<close>

definition keeps :: "('s \<Rightarrow> 'p) \<Rightarrow> ('s, 'a) prog \<Rightarrow> bool" where
  "keeps f m \<longleftrightarrow> (\<forall>s. f (snd (m s)) = f s)"

definition preserves :: "('s \<Rightarrow> bool) \<Rightarrow> ('s, 'a) prog \<Rightarrow> bool" where
  "preserves I m \<longleftrightarrow> (\<forall>s. I s \<longrightarrow> I (snd (m s)))"

lemma keepsD: "keeps f m \<Longrightarrow> m s = (r, t) \<Longrightarrow> f t = f s"
  unfolding keeps_def by (metis snd_conv)

lemma preservesD: "preserves I m \<Longrightarrow> I s \<Longrightarrow> m s = (r, t) \<Longrightarrow> I t"
  unfolding preserves_def by (metis snd_conv)

lemma keeps_prim [keeps_intros, simp]:
  "keeps f (ret x)" "keeps f (throw e)" "keeps f (gets g)" "keeps f (liftE r)"
  by (simp_all add: keeps_def)

lemma preserves_prim [preserves_intros, simp]:
  "preserves I (ret x)" "preserves I (throw e)" "preserves I (gets g)" "preserves I (liftE r)"
  by (simp_all add: preserves_def)

lemma keeps_modify [keeps_intros]: "(\<And>s. f (h s) = f s) \<Longrightarrow> keeps f (modify h)"
  by (simp add: keeps_def)

lemma keeps_bindM [keeps_intros]:
  "keeps f m \<Longrightarrow> (\<And>x. keeps f (k x)) \<Longrightarrow> keeps f (bindM m k)"
  by (auto simp: keeps_def bindM_def split: prod.splits sum.splits) (metis snd_conv)+

lemma preserves_bindM [preserves_intros]:
  "preserves I m \<Longrightarrow> (\<And>x. preserves I (k x)) \<Longrightarrow> preserves I (bindM m k)"
  by (auto simp: preserves_def bindM_def split: prod.splits sum.splits)

lemma keeps_catchM [keeps_intros]:
  "keeps f m \<Longrightarrow> (\<And>e. keeps f (h e)) \<Longrightarrow> keeps f (catchM m h)"
  by (auto simp: keeps_def catchM_def split: prod.splits sum.splits) (metis snd_conv)+

lemma preserves_catchM [preserves_intros]:
  "preserves I m \<Longrightarrow> (\<And>e. preserves I (h e)) \<Longrightarrow> preserves I (catchM m h)"
  by (auto simp: preserves_def catchM_def split: prod.splits sum.splits)

lemma keeps_if [keeps_intros]: "keeps f m \<Longrightarrow> keeps f n \<Longrightarrow> keeps f (if b then m else n)"
  by simp

lemma preserves_if [preserves_intros]:
  "preserves I m \<Longrightarrow> preserves I n \<Longrightarrow> preserves I (if b then m else n)"
  by simp

lemma keeps_option [keeps_intros]:
  "keeps f m \<Longrightarrow> (\<And>x. keeps f (k x)) \<Longrightarrow> keeps f (case r of None \<Rightarrow> m | Some x \<Rightarrow> k x)"
  by (cases r) simp_all

lemma preserves_option [preserves_intros]:
  "preserves I m \<Longrightarrow> (\<And>x. preserves I (k x)) \<Longrightarrow>
     preserves I (case r of None \<Rightarrow> m | Some x \<Rightarrow> k x)"
  by (cases r) simp_all

text \<open>A program that keeps the part of the state an invariant reads keeps the invariant.\<close>

lemma preserves_prod [preserves_intros]:
  "(\<And>a b. preserves I (k a b)) \<Longrightarrow> preserves I (case p of (a, b) \<Rightarrow> k a b)"
  by (cases p) simp

lemma preserves_sum [preserves_intros]:
  "(\<And>e. preserves I (h e)) \<Longrightarrow> (\<And>x. preserves I (k x)) \<Longrightarrow>
     preserves I (case r of Inl e \<Rightarrow> h e | Inr x \<Rightarrow> k x)"
  by (cases r) simp_all

lemma keeps_preserves: "keeps f m \<Longrightarrow> (\<And>s. I s = J (f s)) \<Longrightarrow> preserves I m"
  by (simp add: keeps_def preserves_def)

text \<open>What the last step leaves alone was settled by the steps before it.\<close>

lemma bindM_tail:
  assumes "bindM m k s = (r, t)" and "\<And>x. keeps f (k x)"
  shows "\<exists>r' u. m s = (r', u) \<and> f t = f u"
  using assms(1) keepsD [OF assms(2)]
  by (auto simp: bindM_def split: prod.splits sum.splits)

lemma bindM_ret_state: "bindM m (\<lambda>x. ret (g x)) s = (r, t) \<Longrightarrow> \<exists>r'. m s = (r', t)"
  by (auto simp: bindM_def split: prod.splits sum.splits)

lemma outcome: "fst p = x \<Longrightarrow> p = (x, snd p)"
  by (cases p) simp

lemma runE:
  assumes "case p of (r, v) \<Rightarrow> P r v"
  obtains r v where "p = (r, v)" and "P r v"
  using assms by (cases p) simp

lemma run_to:
  assumes "case p of (r, v) \<Rightarrow> r = x \<and> Q v"
  obtains v where "p = (x, v)" and "Q v"
  using assms by (cases p) simp

section \<open>Lists with unique keys\<close>

text \<open>\<open>scalar_one_or_none\<close>: at most one row matches a key that is unique in the list.\<close>

lemma distinct_map_filter_length:
  "distinct (map f xs) \<Longrightarrow> length (filter (\<lambda>x. f x = k) xs) \<le> 1"
proof (induction xs)
  case Nil
  then show ?case by simp
next
  case (Cons x xs)
  show ?case
  proof (cases "f x = k")
    case True
    with Cons.prems have "\<forall>y\<in>set xs. f y \<noteq> k" by (auto simp: image_iff)
    then have "filter (\<lambda>y. f y = k) xs = []" by (simp add: filter_empty_conv)
    with True show ?thesis by simp
  next
    case False
    with Cons show ?thesis by simp
  qed
qed

lemma find_distinct_Some:
  "distinct (map f xs) \<Longrightarrow> x \<in> set xs \<Longrightarrow> find (\<lambda>y. f y = f x) xs = Some x"
  by (induction xs) (auto simp: image_iff)

lemma find_Some_set: "find P xs = Some x \<Longrightarrow> x \<in> set xs \<and> P x"
  by (induction xs) (auto split: if_splits)

end
