(* ===== verification/Py_Str.thy ===== *)
theory Py_Str
  imports Prelude
begin

text \<open>
  The operations of Python's \<open>str\<close> and \<open>int\<close> that the repository uses.

  A Python \<open>str\<close> is represented by its UTF-8 encoding, one HOL \<open>char\<close> for a byte.  The encoding is
  injective and respects concatenation, comparison by code point, prefixes, suffixes, substrings
  and splitting at an ASCII character, so those operations are the list operations below.  Two
  operations see more than bytes: \<open>lower\<close> is modelled on the ASCII letters (a non-ASCII letter
  is left alone) and \<open>len\<close> counts the bytes that start a character.  \<open>int\<close> is modelled on ASCII
  digits and white space.
\<close>

section \<open>Characters\<close>

definition code :: "char \<Rightarrow> int" where
  "code c = of_char c"

definition is_upper :: "char \<Rightarrow> bool" where
  "is_upper c \<longleftrightarrow> 65 \<le> code c \<and> code c \<le> 90"

definition lower_char :: "char \<Rightarrow> char" where
  "lower_char c = (if is_upper c then char_of (code c + 32) else c)"

text \<open>\<open>Py_ISSPACE\<close>: what \<open>int\<close> skips around a numeral.\<close>

definition is_space :: "char \<Rightarrow> bool" where
  "is_space c \<longleftrightarrow> code c = 32 \<or> 9 \<le> code c \<and> code c \<le> 13"

section \<open>Strings\<close>

definition upper_char :: "char \<Rightarrow> char" where
  "upper_char c = (if 97 \<le> code c \<and> code c \<le> 122 then char_of (code c - 32) else c)"

definition py_lower :: "string \<Rightarrow> string" where
  "py_lower s = map lower_char s"

definition py_len :: "string \<Rightarrow> nat" where
  "py_len s = length (filter (\<lambda>c. code c < 128 \<or> 192 \<le> code c) s)"

definition is_ascii :: "string \<Rightarrow> bool" where
  "is_ascii s \<longleftrightarrow> list_all (\<lambda>c. code c < 128) s"

definition startswith :: "string \<Rightarrow> string \<Rightarrow> bool" where
  "startswith p s \<longleftrightarrow> take (length p) s = p"

definition endswith :: "string \<Rightarrow> string \<Rightarrow> bool" where
  "endswith p s \<longleftrightarrow> startswith (rev p) (rev s)"

definition removeprefix :: "string \<Rightarrow> string \<Rightarrow> string" where
  "removeprefix p s = (if startswith p s then drop (length p) s else s)"

text \<open>\<open>part in s\<close>.\<close>

fun contains :: "string \<Rightarrow> string \<Rightarrow> bool" where
  "contains p [] = (p = [])"
| "contains p (c # s) = (startswith p (c # s) \<or> contains p s)"

definition lstrip :: "char list \<Rightarrow> string \<Rightarrow> string" where
  "lstrip cs s = dropWhile (\<lambda>c. c \<in> set cs) s"

definition rstrip :: "char list \<Rightarrow> string \<Rightarrow> string" where
  "rstrip cs s = rev (dropWhile (\<lambda>c. c \<in> set cs) (rev s))"

definition strip :: "char list \<Rightarrow> string \<Rightarrow> string" where
  "strip cs s = rstrip cs (lstrip cs s)"

text \<open>\<open>s.split(sep)\<close> for a separator of one character: never empty.\<close>

fun split_on :: "char \<Rightarrow> string \<Rightarrow> string list" where
  "split_on sep [] = [[]]"
| "split_on sep (c # s) =
     (if c = sep then [] # split_on sep s
      else case split_on sep s of [] \<Rightarrow> [[c]] | w # ws \<Rightarrow> (c # w) # ws)"

text \<open>\<open>s.replace(p, '')\<close>: the occurrences of \<open>p\<close>, found from the left, are dropped.\<close>

fun remove_all :: "string \<Rightarrow> string \<Rightarrow> string" where
  "remove_all p [] = []"
| "remove_all p (c # s) =
     (if p \<noteq> [] \<and> startswith p (c # s) then remove_all p (drop (length p - 1) s)
      else c # remove_all p s)"

text \<open>\<open>s or d\<close> for an optional string, and the truth value of one: the empty string is false.\<close>

definition truthy :: "string option \<Rightarrow> bool" where
  "truthy s = (case s of None \<Rightarrow> False | Some t \<Rightarrow> t \<noteq> [])"

definition str_or :: "string option \<Rightarrow> string \<Rightarrow> string" where
  "str_or s d = (case s of None \<Rightarrow> d | Some t \<Rightarrow> if t = [] then d else t)"

section \<open>Numerals\<close>

definition dec_digit :: "int \<Rightarrow> char" where
  "dec_digit d = char_of (48 + d)"

definition dec_val :: "char \<Rightarrow> int option" where
  "dec_val c = (if 48 \<le> code c \<and> code c \<le> 57 then Some (code c - 48) else None)"

definition hex_digit :: "int \<Rightarrow> char" where
  "hex_digit d = (if d < 10 then char_of (48 + d) else char_of (87 + d))"

definition hex_val :: "char \<Rightarrow> int option" where
  "hex_val c =
     (if 48 \<le> code c \<and> code c \<le> 57 then Some (code c - 48)
      else if 97 \<le> code c \<and> code c \<le> 102 then Some (code c - 87)
      else if 65 \<le> code c \<and> code c \<le> 70 then Some (code c - 55)
      else None)"

text \<open>The decimal numeral of a natural number, and \<open>str(i)\<close> for an integer.\<close>

function dec :: "int \<Rightarrow> string" where
  "dec n = (if n < 10 then [dec_digit n] else dec (n div 10) @ [dec_digit (n mod 10)])"
  by pat_completeness auto
termination
  by (relation "measure nat") auto

definition py_str_int :: "int \<Rightarrow> string" where
  "py_str_int i = (if i < 0 then CHR ''-'' # dec (- i) else dec i)"

text \<open>\<open>'%0kx' % n\<close>: at least the low \<open>k\<close> hexadecimal digits.\<close>

fun hex_fixed :: "nat \<Rightarrow> int \<Rightarrow> string" where
  "hex_fixed 0 n = []"
| "hex_fixed (Suc k) n = hex_fixed k (n div 16) @ [hex_digit (n mod 16)]"

text \<open>The digits of \<open>int(s, base)\<close>, a single underscore allowed between two digits.\<close>

fun more_digits :: "(char \<Rightarrow> int option) \<Rightarrow> int \<Rightarrow> int \<Rightarrow> string \<Rightarrow> int option" where
  "more_digits dv b acc [] = Some acc"
| "more_digits dv b acc (c # s) =
     (if c = CHR ''_'' then
        (case s of [] \<Rightarrow> None
         | d # t \<Rightarrow> (case dv d of None \<Rightarrow> None | Some v \<Rightarrow> more_digits dv b (acc * b + v) t))
      else (case dv c of None \<Rightarrow> None | Some v \<Rightarrow> more_digits dv b (acc * b + v) s))"

definition all_digits :: "(char \<Rightarrow> int option) \<Rightarrow> int \<Rightarrow> string \<Rightarrow> int option" where
  "all_digits dv b s =
     (case s of [] \<Rightarrow> None
      | c # t \<Rightarrow> (case dv c of None \<Rightarrow> None | Some v \<Rightarrow> more_digits dv b v t))"

definition space_strip :: "string \<Rightarrow> string" where
  "space_strip s = rev (dropWhile is_space (rev (dropWhile is_space s)))"

text \<open>\<open>0x\<close> before a hexadecimal numeral, and the one underscore that may follow it.\<close>

definition hex_prefix :: "string \<Rightarrow> string" where
  "hex_prefix s =
     (case s of a # x # t \<Rightarrow>
        if a = CHR ''0'' \<and> (x = CHR ''x'' \<or> x = CHR ''X'')
        then (case t of u # t' \<Rightarrow> if u = CHR ''_'' then t' else t | [] \<Rightarrow> t)
        else s
      | _ \<Rightarrow> s)"

definition signed :: "(string \<Rightarrow> int option) \<Rightarrow> string \<Rightarrow> int option" where
  "signed f s =
     (case s of [] \<Rightarrow> None
      | c # t \<Rightarrow> if c = CHR ''-'' then map_option uminus (f t)
               else if c = CHR ''+'' then f t
               else f s)"

text \<open>\<open>int(s)\<close> and \<open>int(s, 16)\<close>; \<open>None\<close> is \<open>ValueError\<close>.\<close>

definition py_int :: "string \<Rightarrow> int option" where
  "py_int s = signed (all_digits dec_val 10) (space_strip s)"

definition py_int16 :: "string \<Rightarrow> int option" where
  "py_int16 s = signed (\<lambda>t. all_digits hex_val 16 (hex_prefix t)) (space_strip s)"

declare dec.simps [simp del]

section \<open>Lemmas: characters and prefixes\<close>

lemma code_bounds [simp]: "0 \<le> code c" "code c < 256"
proof -
  have "code c = code c mod 256" by (simp add: code_def)
  then show "0 \<le> code c" and "code c < 256" by (simp_all add: pos_mod_sign pos_mod_bound)
qed

lemma char_of_code [simp]: "char_of (code c) = c"
  by (simp add: code_def)

lemma code_char_of [simp]: "0 \<le> n \<Longrightarrow> n < 256 \<Longrightarrow> code (char_of n) = n"
  by (simp add: code_def)

lemma code_inject: "code c = code d \<longleftrightarrow> c = d"
  by (simp add: code_def of_char_eq_iff)

lemma lower_char_idem [simp]: "lower_char (lower_char c) = lower_char c"
  by (auto simp: lower_char_def is_upper_def)

lemma py_lower_idem [simp]: "py_lower (py_lower s) = py_lower s"
  by (simp add: py_lower_def)

lemma py_lower_append: "py_lower (s @ t) = py_lower s @ py_lower t"
  by (simp add: py_lower_def)

lemma py_len_ascii: "is_ascii s \<Longrightarrow> py_len s = length s"
  unfolding is_ascii_def py_len_def by (induction s) auto

lemma startswith_append [simp]: "startswith p (p @ s)"
  by (simp add: startswith_def)

lemma startswith_iff: "startswith p s \<longleftrightarrow> (\<exists>t. s = p @ t)"
  by (metis append_eq_conv_conj startswith_def)

lemma startswith_Nil [simp]: "startswith [] s"
  by (simp add: startswith_def)

lemma endswith_iff: "endswith p s \<longleftrightarrow> (\<exists>t. s = t @ p)"
  by (metis endswith_def rev_append rev_rev_ident startswith_iff)

lemma removeprefix_append [simp]: "removeprefix p (p @ s) = s"
  by (simp add: removeprefix_def)

lemma contains_append: "startswith p v \<Longrightarrow> contains p (u @ v)"
proof (induction u)
  case Nil
  then show ?case by (cases v) (simp_all add: startswith_def)
next
  case (Cons a u)
  then show ?case by simp
qed

lemma contains_split: "contains p s \<Longrightarrow> \<exists>u v. s = u @ p @ v"
proof (induction s)
  case Nil
  then show ?case by simp
next
  case (Cons c s)
  then consider "startswith p (c # s)" | "contains p s" by auto
  then show ?case
  proof cases
    case 1
    then obtain t where "c # s = [] @ p @ t" by (auto simp: startswith_iff)
    then show ?thesis by blast
  next
    case 2
    with Cons.IH obtain u v where "c # s = (c # u) @ p @ v" by auto
    then show ?thesis by blast
  qed
qed

lemma contains_iff: "contains p s \<longleftrightarrow> (\<exists>u v. s = u @ p @ v)"
  using contains_split contains_append by fastforce

lemma rstrip_suffix: "\<exists>t. s = rstrip cs s @ t \<and> set t \<subseteq> set cs"
proof -
  let ?p = "\<lambda>c. c \<in> set cs"
  have "s = rev (dropWhile ?p (rev s)) @ rev (takeWhile ?p (rev s))"
    by (metis rev_append rev_rev_ident takeWhile_dropWhile_id)
  moreover have "set (rev (takeWhile ?p (rev s))) \<subseteq> set cs"
    by (auto dest: set_takeWhileD)
  ultimately show ?thesis unfolding rstrip_def by blast
qed

lemma rstrip_append_in: "set t \<subseteq> set cs \<Longrightarrow> rstrip cs (s @ t) = rstrip cs s"
  by (simp add: rstrip_def dropWhile_append subset_iff)

lemma rstrip_id: "s = [] \<or> last s \<notin> set cs \<Longrightarrow> rstrip cs s = s"
proof -
  assume a: "s = [] \<or> last s \<notin> set cs"
  have "dropWhile (\<lambda>c. c \<in> set cs) (rev s) = rev s"
  proof (cases s rule: rev_cases)
    case Nil
    then show ?thesis by simp
  next
    case (snoc ys y)
    with a show ?thesis by simp
  qed
  then show ?thesis by (simp add: rstrip_def)
qed

lemma lstrip_id: "s = [] \<or> hd s \<notin> set cs \<Longrightarrow> lstrip cs s = s"
  by (cases s) (auto simp: lstrip_def)

lemma strip_id: "set s \<inter> set cs = {} \<Longrightarrow> strip cs s = s"
  by (metis IntI empty_iff last_in_set list.set_sel(1) lstrip_id rstrip_id strip_def)

lemma split_on_nonempty [simp]: "split_on sep s \<noteq> []"
  by (induction s) (auto split: list.splits)

lemma split_on_none: "sep \<notin> set s \<Longrightarrow> split_on sep s = [s]"
  by (induction s) auto

lemma split_on_append: "sep \<notin> set s \<Longrightarrow> split_on sep (s @ sep # t) = s # split_on sep t"
  by (induction s) auto

text \<open>Joining the parts again gives the string: \<open>split\<close> loses nothing.\<close>

fun join_with :: "char \<Rightarrow> string list \<Rightarrow> string" where
  "join_with sep [] = []"
| "join_with sep [w] = w"
| "join_with sep (w # v # ws) = w @ sep # join_with sep (v # ws)"

lemma join_split: "join_with sep (split_on sep s) = s"
proof (induction s)
  case Nil
  then show ?case by simp
next
  case (Cons c s)
  obtain w ws where w: "split_on sep s = w # ws"
    by (cases "split_on sep s") auto
  with Cons.IH show ?case by (cases ws) auto
qed

lemma split_on_parts: "w \<in> set (split_on sep s) \<Longrightarrow> sep \<notin> set w"
proof (induction s arbitrary: w)
  case Nil
  then show ?case by simp
next
  case (Cons c s)
  obtain v vs where v: "split_on sep s = v # vs"
    by (cases "split_on sep s") auto
  with Cons.IH have "\<And>x. x \<in> set (v # vs) \<Longrightarrow> sep \<notin> set x" by simp
  with Cons.prems v show ?case by (auto split: if_splits)
qed

lemma remove_all_absent: "p \<noteq> [] \<Longrightarrow> hd p \<notin> set s \<Longrightarrow> remove_all p s = s"
  by (induction s) (auto simp: startswith_def neq_Nil_conv)

lemma remove_all_append_absent:
  "p = [c] \<Longrightarrow> remove_all p (s @ t) = remove_all p s @ remove_all p t"
  by (induction s) (auto simp: startswith_def)

lemma remove_all_self: "p = [c] \<Longrightarrow> remove_all p (c # s) = remove_all p s"
  by (simp add: startswith_def)

section \<open>Lemmas: numerals\<close>

lemma dec_val_digit [simp]: "0 \<le> d \<Longrightarrow> d < 10 \<Longrightarrow> dec_val (dec_digit d) = Some d"
  by (simp add: dec_val_def dec_digit_def)

lemma hex_val_digit [simp]: "0 \<le> d \<Longrightarrow> d < 16 \<Longrightarrow> hex_val (hex_digit d) = Some d"
  by (simp add: hex_val_def hex_digit_def)

lemma code_dec_digit: "0 \<le> d \<Longrightarrow> d < 10 \<Longrightarrow> code (dec_digit d) = 48 + d"
  by (simp add: dec_digit_def)

lemma code_hex_digit: "0 \<le> d \<Longrightarrow> d < 16 \<Longrightarrow> code (hex_digit d) = (if d < 10 then 48 + d else 87 + d)"
  by (simp add: hex_digit_def)

lemma underscore_no_digit [simp]: "dec_val CHR ''_'' = None" "hex_val CHR ''_'' = None"
  by (simp_all add: dec_val_def hex_val_def code_def)

text \<open>On a string of digits with no underscore, the value is the fold of its digits.\<close>

lemma more_digits_append:
  assumes "dv CHR ''_'' = None" and "more_digits dv b acc s = Some v"
    and "dv d = Some x"
  shows "more_digits dv b acc (s @ [d]) = Some (v * b + x)"
  using assms
proof (induction dv b acc s rule: more_digits.induct)
  case (1 dv b acc)
  then have "d \<noteq> CHR ''_''" by auto
  with 1 show ?case by simp
next
  case (2 dv b acc c s)
  then show ?case by (auto split: if_splits list.splits option.splits)
qed

lemma all_digits_snoc:
  "dv CHR ''_'' = None \<Longrightarrow> all_digits dv b s = Some v \<Longrightarrow> dv d = Some x \<Longrightarrow>
     all_digits dv b (s @ [d]) = Some (v * b + x)"
  by (auto simp: all_digits_def more_digits_append split: list.splits option.splits)

lemma all_digits_single [simp]: "dv d = Some x \<Longrightarrow> all_digits dv b [d] = Some x"
  by (simp add: all_digits_def)

lemma all_digits_dec: "0 \<le> n \<Longrightarrow> all_digits dec_val 10 (dec n) = Some n"
proof (induction n rule: dec.induct)
  case (1 n)
  show ?case
  proof (cases "n < 10")
    case True
    with 1 show ?thesis by (simp add: dec.simps [of n])
  next
    case False
    with 1 have "all_digits dec_val 10 (dec (n div 10) @ [dec_digit (n mod 10)])
        = Some (n div 10 * 10 + n mod 10)"
      by (intro all_digits_snoc) auto
    with False show ?thesis by (simp add: dec.simps [of n])
  qed
qed

lemma all_digits_hex_fixed:
  "0 < k \<Longrightarrow> 0 \<le> n \<Longrightarrow> n < 16 ^ k \<Longrightarrow> all_digits hex_val 16 (hex_fixed k n) = Some n"
proof (induction k arbitrary: n)
  case 0
  then show ?case by simp
next
  case (Suc k)
  show ?case
  proof (cases "k = 0")
    case True
    with Suc.prems show ?thesis by simp
  next
    case False
    with Suc.prems have "n div 16 < 16 ^ k" by simp
    with Suc False have "all_digits hex_val 16 (hex_fixed k (n div 16)) = Some (n div 16)" by simp
    then have "all_digits hex_val 16 (hex_fixed k (n div 16) @ [hex_digit (n mod 16)])
        = Some (n div 16 * 16 + n mod 16)"
      by (intro all_digits_snoc) auto
    then show ?thesis by simp
  qed
qed

lemma length_hex_fixed [simp]: "length (hex_fixed k n) = k"
  by (induction k arbitrary: n) auto

lemma set_hex_fixed: "c \<in> set (hex_fixed k n) \<Longrightarrow> hex_val c \<noteq> None"
  by (induction k arbitrary: n) auto

lemma set_hex_fixed_code:
  "c \<in> set (hex_fixed k n) \<Longrightarrow> (48 \<le> code c \<and> code c \<le> 57) \<or> (97 \<le> code c \<and> code c \<le> 102)"
proof (induction k arbitrary: n)
  case 0
  then show ?case by simp
next
  case (Suc k)
  have "code (hex_digit (n mod 16)) =
      (if n mod 16 < 10 then 48 + n mod 16 else 87 + n mod 16)" by (rule code_hex_digit) simp_all
  moreover have "n mod 16 < 16" "0 \<le> n mod 16" by simp_all
  ultimately have "c = hex_digit (n mod 16) \<Longrightarrow> ?case" by (simp split: if_splits) 
  with Suc show ?case by auto
qed

lemma dec_nonempty [simp]: "dec n \<noteq> []"
  by (subst dec.simps) simp

lemma set_dec_code: "0 \<le> n \<Longrightarrow> c \<in> set (dec n) \<Longrightarrow> 48 \<le> code c \<and> code c \<le> 57"
proof (induction n rule: dec.induct)
  case (1 n)
  show ?case
  proof (cases "n < 10")
    case True
    with 1 show ?thesis by (simp add: dec.simps [of n] code_dec_digit)
  next
    case False
    then have "c \<in> set (dec (n div 10)) \<or> c = dec_digit (n mod 10)"
      using 1(3) by (auto simp: dec.simps [of n])
    with 1(1) False show ?thesis using code_dec_digit [of "n mod 10"] by auto
  qed
qed

lemma space_strip_id:
  assumes "\<And>c. c \<in> set s \<Longrightarrow> \<not> is_space c"
  shows "space_strip s = s"
proof -
  have "dropWhile is_space t = t" if "set t \<subseteq> set s" for t
    using that assms by (cases t) auto
  from this [of s] this [of "rev s"] show ?thesis by (simp add: space_strip_def)
qed

lemma signed_unsigned:
  assumes "s \<noteq> []" and "hd s \<noteq> CHR ''-''" and "hd s \<noteq> CHR ''+''"
  shows "signed f s = f s"
  using assms by (cases s) (auto simp: signed_def)

lemma code_lit [simp]:
  "code CHR ''-'' = 45" "code CHR ''+'' = 43" "code CHR ''_'' = 95" "code CHR ''.'' = 46"
  by (simp_all add: code_def)

text \<open>\<open>int(str(i)) == i\<close>.\<close>

lemma py_int_str: "py_int (py_str_int i) = Some i"
proof -
  have sp: "space_strip (py_str_int i) = py_str_int i"
  proof (rule space_strip_id)
    fix c
    assume c: "c \<in> set (py_str_int i)"
    show "\<not> is_space c"
    proof (cases "c = CHR ''-''")
      case True
      then show ?thesis by (simp add: is_space_def)
    next
      case False
      with c have "48 \<le> code c \<and> code c \<le> 57"
        using set_dec_code [of i c] set_dec_code [of "- i" c]
        by (auto simp: py_str_int_def split: if_splits)
      then show ?thesis by (auto simp: is_space_def)
    qed
  qed
  show ?thesis
  proof (cases "i < 0")
    case True
    then have "signed (all_digits dec_val 10) (py_str_int i) = Some i"
      by (simp add: py_str_int_def signed_def all_digits_dec)
    with sp show ?thesis by (simp add: py_int_def)
  next
    case False
    then have hd: "48 \<le> code (hd (dec i))"
      by (intro conjunct1 [OF set_dec_code [of i]]) simp_all
    then have "hd (dec i) \<noteq> CHR ''-''" "hd (dec i) \<noteq> CHR ''+''"
      by auto
    with False have "signed (all_digits dec_val 10) (py_str_int i) = Some i"
      by (simp add: py_str_int_def signed_unsigned all_digits_dec)
    with sp show ?thesis by (simp add: py_int_def)
  qed
qed

end
