(* ===== verification/Json_Value.thy ===== *)
theory Json_Value
  imports Py_Str
begin

text \<open>
  The values that JSON documents denote in Python: \<open>None\<close>, \<open>bool\<close>, \<open>int\<close>, \<open>float\<close> (kept as the
  numeral it is written with), \<open>str\<close>, \<open>list\<close> and \<open>dict\<close> (its items in insertion order, keys
  distinct).  Webhook events, token claims and the \<open>data\<close> of a resource are such values.
\<close>

datatype json =
    JNull
  | JBool bool
  | JInt int
  | JFloat string
  | JStr string
  | JArr "json list"
  | JObj "(string \<times> json) list"

definition is_dict :: "json \<Rightarrow> bool" where
  "is_dict j = (case j of JObj _ \<Rightarrow> True | _ \<Rightarrow> False)"

text \<open>\<open>d.get(key)\<close> of a dict; no other value has the key.\<close>

definition dict_get :: "json \<Rightarrow> string \<Rightarrow> json option" where
  "dict_get j k = (case j of JObj items \<Rightarrow> map_of items k | _ \<Rightarrow> None)"

text \<open>The truth value of a Python object.\<close>

definition py_true :: "json \<Rightarrow> bool" where
  "py_true j =
     (case j of
        JNull \<Rightarrow> False | JBool b \<Rightarrow> b | JInt i \<Rightarrow> i \<noteq> 0
      | JFloat s \<Rightarrow> list_ex (\<lambda>c. 49 \<le> code c \<and> code c \<le> 57 \<or> c = CHR ''I'' \<or> c = CHR ''N'')
                     (takeWhile (\<lambda>c. c \<noteq> CHR ''e'' \<and> c \<noteq> CHR ''E'') s)
      | JStr s \<Rightarrow> s \<noteq> [] | JArr xs \<Rightarrow> xs \<noteq> [] | JObj items \<Rightarrow> items \<noteq> [])"

text \<open>\<open>int(v)\<close>; \<open>fi\<close> reads the numeral of a float, which may be infinite or not a number.\<close>

definition py_int_json :: "(string \<Rightarrow> int result) \<Rightarrow> json \<Rightarrow> int result" where
  "py_int_json fi v =
     (case v of
        JInt i \<Rightarrow> Inr i | JBool b \<Rightarrow> Inr (if b then 1 else 0)
      | JStr s \<Rightarrow> of_option ValueError (py_int s) | JFloat s \<Rightarrow> fi s | _ \<Rightarrow> Inl TypeError)"

lemma py_int_json_simps [simp]:
  "py_int_json fi (JInt i) = Inr i" "py_int_json fi (JStr s) = of_option ValueError (py_int s)"
  "py_int_json fi JNull = Inl TypeError"
  by (simp_all add: py_int_json_def)

lemma dict_get_simps [simp]:
  "dict_get (JObj items) k = map_of items k" "dict_get JNull k = None"
  "dict_get (JStr s) k = None" "dict_get (JInt i) k = None" "dict_get (JBool b) k = None"
  "dict_get (JArr xs) k = None" "dict_get (JFloat s) k = None"
  by (simp_all add: dict_get_def)

lemma py_true_simps [simp]:
  "py_true JNull = False" "py_true (JStr s) = (s \<noteq> [])" "py_true (JObj items) = (items \<noteq> [])"
  by (simp_all add: py_true_def)

end
