(* ===== verification/Request_Context.thy ===== *)
theory Request_Context
  imports Settings Json_Value
begin

text \<open>
  shared/request_context.py and shared/errors.py: the context variables of a request, the
  middleware that sets them around a request, the error payload, and the log records the code
  emits.

  A task's state is a \<open>task\<close> record: the values of the three context variables and the log records
  emitted so far.  A \<open>Token\<close> returned by \<open>ContextVar.set\<close> remembers the value the variable had,
  so \<open>context_tokens\<close> is the old context and \<open>reset\<close> puts it back.
\<close>

section \<open>Log records\<close>

text \<open>
  A value of a record's \<open>extra\<close> is one that JSON has, or another object, which the formatter writes as
  its \<open>str()\<close> (\<open>default=str\<close>): a uuid, a date, an exception.
\<close>

datatype log_value = LValue json | LObject string

abbreviation LNone :: log_value where "LNone \<equiv> LValue JNull"
abbreviation LInt :: "int \<Rightarrow> log_value" where "LInt i \<equiv> LValue (JInt i)"
abbreviation LFloat :: "string \<Rightarrow> log_value" where "LFloat s \<equiv> LValue (JFloat s)"
abbreviation LStr :: "string \<Rightarrow> log_value" where "LStr s \<equiv> LValue (JStr s)"

datatype severity = INFO | WARNING | ERROR

record log_record =
  severity :: severity
  message :: string
  extra :: "(string \<times> log_value) list"

definition log_opt :: "string option \<Rightarrow> log_value" where
  "log_opt v = (case v of None \<Rightarrow> LNone | Some s \<Rightarrow> LStr s)"

section \<open>Context variables\<close>

record req_ctx =
  request_id_var :: "string option"
  tenant_id_var :: "string option"
  user_id_var :: "string option"

record task =
  ctx :: req_ctx
  logs :: "log_record list"

definition empty_context :: req_ctx where
  "empty_context = \<lparr>request_id_var = None, tenant_id_var = None, user_id_var = None\<rparr>"

definition get_request_id :: "'z task_scheme \<Rightarrow> string option" where
  "get_request_id t = request_id_var (ctx t)"

definition get_tenant_id :: "'z task_scheme \<Rightarrow> string option" where
  "get_tenant_id t = tenant_id_var (ctx t)"

definition get_user_id :: "'z task_scheme \<Rightarrow> string option" where
  "get_user_id t = user_id_var (ctx t)"

type_synonym context_tokens = req_ctx

definition set_request_context ::
    "string option \<Rightarrow> string option \<Rightarrow> string option \<Rightarrow> ('z task_scheme, context_tokens) prog" where
  "set_request_context rid tid uid t =
     (Inr (ctx t), t\<lparr>ctx := \<lparr>request_id_var = rid, tenant_id_var = tid, user_id_var = uid\<rparr>\<rparr>)"

definition reset_request_context :: "context_tokens \<Rightarrow> ('z task_scheme, unit) prog" where
  "reset_request_context tokens = modify (ctx_update (\<lambda>_. tokens))"

definition log :: "severity \<Rightarrow> string \<Rightarrow> (string \<times> log_value) list \<Rightarrow> ('z task_scheme, unit) prog" where
  "log lv msg ex =
     modify (logs_update (\<lambda>ls. ls @ [\<lparr>severity = lv, message = msg, extra = ex\<rparr>]))"

section \<open>Errors\<close>

definition AUTH_REQUIRED :: string where "AUTH_REQUIRED = ''AUTH_REQUIRED''"
definition INVALID_TOKEN :: string where "INVALID_TOKEN = ''INVALID_TOKEN''"
definition ACCESS_DENIED :: string where "ACCESS_DENIED = ''ACCESS_DENIED''"
definition BAD_REQUEST :: string where "BAD_REQUEST = ''BAD_REQUEST''"
definition NOT_FOUND :: string where "NOT_FOUND = ''NOT_FOUND''"
definition CONFLICT :: string where "CONFLICT = ''CONFLICT''"
definition INTERNAL_ERROR :: string where "INTERNAL_ERROR = ''INTERNAL_ERROR''"

record error_body =
  error_code :: string
  error_message :: string
  error_request_id :: "string option"

text \<open>\<open>error_payload(code, message, request_id)\<close>: \<open>request_id or get_request_id()\<close>.\<close>

definition error_payload ::
    "string \<Rightarrow> string \<Rightarrow> string option \<Rightarrow> 'z task_scheme \<Rightarrow> error_body" where
  "error_payload code' msg rid t =
     \<lparr>error_code = code', error_message = msg,
      error_request_id = (if truthy rid then rid else get_request_id t)\<rparr>"

record request =
  req_method :: string
  req_path :: string
  req_headers :: "string \<Rightarrow> string option"

text \<open>\<open>Unprocessable\<close> stands for the list of pydantic's complaints in FastAPI's answer 422.\<close>

datatype 'b body = Payload 'b | ErrorBody error_body | Detail string | Unprocessable

record 'b response =
  status_code :: int
  body :: "'b body"
  resp_headers :: "(string \<times> string) list"

text \<open>
  \<open>register_error_handlers\<close>: an \<open>APIError\<close> that leaves the route becomes the JSON response with
  its status and payload; a 401 is logged as a failed authentication.  FastAPI has a handler of its
  own beside it, which answers a request with an invalid body.  Any other exception passes through.
\<close>

definition api_error_handler ::
    "request \<Rightarrow> py_exn \<Rightarrow> ('z task_scheme, 'b response) prog" where
  "api_error_handler req e =
     (case e of
        APIError st code' msg \<Rightarrow>
          bindM (if st = 401
                 then log WARNING ''security.auth_failed''
                        [(''event'', LStr ''security.auth_failed''), (''path'', LStr (req_path req)),
                         (''method'', LStr (req_method req)), (''status_code'', LInt 401)]
                 else ret ())
            (\<lambda>_. bindM (gets (error_payload code' msg None))
            (\<lambda>p. ret \<lparr>status_code = st, body = ErrorBody p, resp_headers = []\<rparr>))
      | _ \<Rightarrow> throw e)"

definition validation_error :: py_exn where
  "validation_error = OtherError ''RequestValidationError''"

definition error_handlers ::
    "request \<Rightarrow> py_exn \<Rightarrow> ('z task_scheme, 'b response) prog" where
  "error_handlers req e =
     (if e = validation_error then ret \<lparr>status_code = 422, body = Unprocessable, resp_headers = []\<rparr>
      else api_error_handler req e)"

definition with_error_handlers ::
    "(request \<Rightarrow> ('z task_scheme, 'b response) prog) \<Rightarrow>
     request \<Rightarrow> ('z task_scheme, 'b response) prog" where
  "with_error_handlers route req = catchM (route req) (error_handlers req)"

section \<open>The middleware\<close>

text \<open>
  Starlette runs the rest of the application in a task of its own, which starts with a copy of
  the context: what it sets in the context variables is not seen when it returns.  \<open>call_next\<close> is
  that inner application; \<open>in_child_task\<close> restores the context (and only the context) after it.
\<close>

definition in_child_task :: "('z task_scheme, 'a) prog \<Rightarrow> ('z task_scheme, 'a) prog" where
  "in_child_task m t = (case m t of (r, u) \<Rightarrow> (r, u\<lparr>ctx := ctx t\<rparr>))"

text \<open>
  \<open>RequestContextMiddleware.dispatch\<close>.  \<open>new_id\<close> is the \<open>str(uuid4())\<close> drawn when the header is
  missing or empty, \<open>latency\<close> the numeral of the measured milliseconds, a float.
\<close>

definition dispatch_body ::
    "settings \<Rightarrow> string \<Rightarrow> string \<Rightarrow> (request \<Rightarrow> ('z task_scheme, 'b response) prog) \<Rightarrow>
     request \<Rightarrow> ('z task_scheme, 'b response) prog" where
  "dispatch_body s request_id latency call_next req =
     catchM
       (bindM (in_child_task (call_next req)) (\<lambda>resp.
        bindM (log INFO ''api.request''
                 [(''event'', LStr ''api.request''), (''method'', LStr (req_method req)),
                  (''path'', LStr (req_path req)), (''status_code'', LInt (status_code resp)),
                  (''latency_ms'', LFloat latency)]) (\<lambda>_.
        ret (resp\<lparr>resp_headers := (request_id_header s, request_id) # resp_headers resp\<rparr>))))
       (\<lambda>e. bindM (log ERROR ''api.request_failed''
                 [(''event'', LStr ''api.request_failed''), (''method'', LStr (req_method req)),
                  (''path'', LStr (req_path req)), (''status_code'', LInt 500),
                  (''latency_ms'', LFloat latency)]) (\<lambda>_. throw e))"

definition dispatch ::
    "settings \<Rightarrow> string \<Rightarrow> string \<Rightarrow> (request \<Rightarrow> ('z task_scheme, 'b response) prog) \<Rightarrow>
     request \<Rightarrow> ('z task_scheme, 'b response) prog" where
  "dispatch s new_id latency call_next req =
     (let request_id = str_or (req_headers req (request_id_header s)) new_id in
      bindM (set_request_context (Some request_id) (req_headers req (tenant_id_header s))
               (req_headers req (user_id_header s))) (\<lambda>tokens t.
      case dispatch_body s request_id latency call_next req t of
        (r, u) \<Rightarrow> (case reset_request_context tokens u of (_, v) \<Rightarrow> (r, v))))"

section \<open>Lemmas\<close>

lemma log_apply [simp]:
  "log lv msg ex t = (Inr (), t\<lparr>logs := logs t @ [\<lparr>severity = lv, message = msg, extra = ex\<rparr>]\<rparr>)"
  by (simp add: log_def)

lemma reset_apply [simp]: "reset_request_context tokens t = (Inr (), t\<lparr>ctx := tokens\<rparr>)"
  by (simp add: reset_request_context_def)

lemma keeps_log [keeps_intros]: "(\<And>t ls. f (t\<lparr>logs := ls\<rparr>) = f t) \<Longrightarrow> keeps f (log lv msg ex)"
  by (simp add: keeps_def)

lemma keeps_set_request_context [keeps_intros]:
  "(\<And>t c. f (t\<lparr>ctx := c\<rparr>) = f t) \<Longrightarrow> keeps f (set_request_context rid tid uid)"
  by (simp add: keeps_def set_request_context_def)

lemma dispatch_restores: "ctx (snd (dispatch s new_id latency call_next req t)) = ctx t"
  by (simp add: dispatch_def set_request_context_def bindM_def Let_def split: prod.splits)

lemma dispatch_request_id:
  "dispatch s new_id latency call_next req t = (Inr resp, u) \<Longrightarrow>
     (request_id_header s, str_or (req_headers req (request_id_header s)) new_id)
       \<in> set (resp_headers resp)"
  by (auto simp: dispatch_def dispatch_body_def set_request_context_def bindM_def catchM_def Let_def
      split: prod.splits sum.splits)

end
