(* ===== verification/Auth.thy ===== *)
theory Auth
  imports Request_Context
begin

text \<open>
  shared/security_middleware.py: the JWKS cache, the verification of a bearer token, the user it
  stands for and the role check in front of every route.

  PyJWT and httpx are not part of the repository.  \<open>jwt_lib\<close> holds the PyJWT functions the code
  calls; \<open>net\<close> holds the answers of the network and the clock, one for each call in turn: the
  \<open>n\<close>-th HTTP request for the key set and the \<open>n\<close>-th reading of \<open>time.time()\<close>, and httpx's reading
  of a response body as JSON, which fails apart from the request.  Claims have the
  types that \<open>CurrentUser\<close> declares for them, as Keycloak issues them (idp/realm-export.json).
\<close>

section \<open>Libraries and state\<close>

record jwk =
  kid :: "string option"
  jwk_json :: string

record claims =
  sub :: string
  jti :: string
  claim_tenant_id :: "string option"
  claim_email :: "string option"
  realm_access :: "string list option option"

text \<open>
  \<open>get_unverified_header token\<close> gives the header's \<open>kid\<close>, if it has one; \<open>decode\<close> takes the token,
  the key, the algorithms, the audience, the issuer and the required claims.
\<close>

record 'k jwt_lib =
  get_unverified_header :: "string \<Rightarrow> string option result"
  from_jwk :: "string \<Rightarrow> 'k result"
  decode :: "string \<Rightarrow> 'k \<Rightarrow> string list \<Rightarrow> string \<Rightarrow> string option \<Rightarrow> string list \<Rightarrow> claims result"

text \<open>
  \<open>http_get\<close> gives the body of the answer, \<open>raise_for_status\<close> included; \<open>response_json\<close> reads the
  key set from a body.
\<close>

record net =
  http_get :: "nat \<Rightarrow> string \<Rightarrow> string result"
  response_json :: "string \<Rightarrow> jwk list result"
  clock :: "nat \<Rightarrow> int"

record jwks_cache =
  jwks :: "jwk list option"
  expires_at :: int

text \<open>
  \<open>cache\<close> is the \<open>JWKSCache\<close> object in use; \<open>app_has_cache\<close> tells whether \<open>app.state.jwks_cache\<close> is
  set, which none of the services does.  \<open>fetches\<close> and \<open>ticks\<close> count the HTTP requests and the
  clock readings made.
\<close>

record app = task +
  app_has_cache :: bool
  cache :: jwks_cache
  fetches :: nat
  ticks :: nat

record current_user =
  cu_user_id :: string
  cu_tenant_id :: "string option"
  cu_email :: "string option"
  cu_roles :: "string list"
  cu_jti :: string

section \<open>The JWKS cache\<close>

definition new_cache :: jwks_cache where
  "new_cache = \<lparr>jwks = None, expires_at = 0\<rparr>"

definition read_clock :: "net \<Rightarrow> ('z app_scheme, int) prog" where
  "read_clock n a = (Inr (clock n (ticks a)), a\<lparr>ticks := Suc (ticks a)\<rparr>)"

text \<open>The \<open>i\<close>-th load of the key set: the request, then \<open>response.json()\<close>.\<close>

definition load_jwks :: "net \<Rightarrow> nat \<Rightarrow> string \<Rightarrow> jwk list result" where
  "load_jwks n i url = bindE (http_get n i url) (response_json n)"

definition fetch_jwks :: "net \<Rightarrow> string \<Rightarrow> ('z app_scheme, jwk list) prog" where
  "fetch_jwks n url a = (load_jwks n (fetches a) url, a\<lparr>fetches := Suc (fetches a)\<rparr>)"

text \<open>\<open>_find_key\<close>: the first key with this \<open>kid\<close>.\<close>

definition find_key :: "jwk list \<Rightarrow> string \<Rightarrow> string option" where
  "find_key ks k = map_option jwk_json (find (\<lambda>key. kid key = Some k) ks)"

definition refresh :: "net \<Rightarrow> settings \<Rightarrow> ('z app_scheme, jwk list) prog" where
  "refresh n s =
     bindM (fetch_jwks n (jwks_url s)) (\<lambda>ks.
     bindM (modify (cache_update (jwks_update (\<lambda>_. Some ks)))) (\<lambda>_.
     bindM (read_clock n) (\<lambda>now.
     bindM (modify (cache_update (expires_at_update (\<lambda>_. now + jwks_cache_ttl_seconds s)))) (\<lambda>_.
     ret ks))))"

text \<open>\<open>self._jwks is None or time.time() >= self._expires_at\<close>: the clock is read only if needed.\<close>

definition get_jwks :: "net \<Rightarrow> settings \<Rightarrow> ('z app_scheme, jwk list) prog" where
  "get_jwks n s =
     bindM (gets (\<lambda>a. jwks (cache a))) (\<lambda>held.
     case held of
        None \<Rightarrow> refresh n s
      | Some ks \<Rightarrow> bindM (read_clock n) (\<lambda>now.
                   bindM (gets (\<lambda>a. expires_at (cache a))) (\<lambda>expiry.
                   if now \<ge> expiry then refresh n s else ret ks)))"

definition get_key ::
    "'k jwt_lib \<Rightarrow> net \<Rightarrow> settings \<Rightarrow> string \<Rightarrow> ('z app_scheme, 'k) prog" where
  "get_key lib n s k =
     bindM (get_jwks n s) (\<lambda>ks.
     bindM (case find_key ks k of
              None \<Rightarrow> bindM (refresh n s) (\<lambda>ks'. ret (find_key ks' k))
            | Some key \<Rightarrow> ret (Some key)) (\<lambda>key.
     case key of
        None \<Rightarrow> throw (APIError 401 INVALID_TOKEN ''Unknown token signing key'')
      | Some j \<Rightarrow> liftE (from_jwk lib j)))"

section \<open>Token verification\<close>

text \<open>
  The body of the \<open>try\<close>: header, \<open>kid\<close>, key, claims.  Without an application cache,
  \<open>jwks_cache or JWKSCache(settings)\<close> makes a new one for the call.
\<close>

definition REQUIRED_CLAIMS :: "string list" where
  "REQUIRED_CLAIMS = [''exp'', ''iat'', ''jti'', ''sub'']"

definition take_cache :: "('z app_scheme, unit) prog" where
  "take_cache = modify (\<lambda>a. if app_has_cache a then a else a\<lparr>cache := new_cache\<rparr>)"

definition decode_token :: "'k jwt_lib \<Rightarrow> net \<Rightarrow> settings \<Rightarrow> string \<Rightarrow> ('z app_scheme, claims) prog" where
  "decode_token lib n s token =
     bindM take_cache (\<lambda>_.
     bindM (liftE (get_unverified_header lib token)) (\<lambda>hdr.
     bindM (liftE (of_option KeyError hdr)) (\<lambda>k.
     bindM (get_key lib n s k) (\<lambda>public_key.
     liftE (decode lib token public_key [''RS256''] (jwt_audience s) (jwt_issuer s)
              REQUIRED_CLAIMS)))))"

definition map_jwt_error :: "py_exn \<Rightarrow> py_exn" where
  "map_jwt_error e =
     (case e of
        ExpiredSignatureError \<Rightarrow> APIError 401 INVALID_TOKEN ''Token has expired''
      | InvalidTokenError \<Rightarrow> APIError 401 INVALID_TOKEN ''Invalid token''
      | KeyError \<Rightarrow> APIError 401 INVALID_TOKEN ''Unable to validate token''
      | HTTPError \<Rightarrow> APIError 401 INVALID_TOKEN ''Unable to validate token''
      | _ \<Rightarrow> e)"

text \<open>\<open>claims.get('realm_access', {}).get('roles', [])\<close>.\<close>

definition roles_of :: "claims \<Rightarrow> string list" where
  "roles_of c = (case realm_access c of Some (Some rs) \<Rightarrow> rs | _ \<Rightarrow> [])"

definition user_of_claims :: "claims \<Rightarrow> current_user" where
  "user_of_claims c =
     \<lparr>cu_user_id = sub c, cu_tenant_id = claim_tenant_id c, cu_email = claim_email c,
      cu_roles = roles_of c, cu_jti = jti c\<rparr>"

definition verify_jwt_token ::
    "'k jwt_lib \<Rightarrow> net \<Rightarrow> settings \<Rightarrow> string \<Rightarrow> ('z app_scheme, current_user) prog" where
  "verify_jwt_token lib n s token =
     bindM (catchM (decode_token lib n s token) (\<lambda>e. throw (map_jwt_error e)))
       (\<lambda>c. ret (user_of_claims c))"

section \<open>The dependencies of the routes\<close>

text \<open>
  \<open>get_current_user\<close>: \<open>credentials\<close> is the bearer token, if the request has one.  The context is
  set from the verified claims; the call passes no \<open>request_id\<close>.
\<close>

definition get_current_user ::
    "'k jwt_lib \<Rightarrow> net \<Rightarrow> settings \<Rightarrow> string option \<Rightarrow> ('z app_scheme, current_user) prog" where
  "get_current_user lib n s credentials =
     (case credentials of
        None \<Rightarrow> throw (APIError 401 AUTH_REQUIRED ''Authorization bearer token is required'')
      | Some token \<Rightarrow>
          bindM (verify_jwt_token lib n s token) (\<lambda>user.
          bindM (set_request_context None (cu_tenant_id user) (Some (cu_user_id user))) (\<lambda>_.
          ret user)))"

definition check_roles :: "string list \<Rightarrow> current_user \<Rightarrow> ('z, current_user) prog" where
  "check_roles allowed user =
     (if set allowed \<inter> set (cu_roles user) = {}
      then throw (APIError 403 ACCESS_DENIED ''Access denied'')
      else ret user)"

definition require_roles ::
    "string list \<Rightarrow> 'k jwt_lib \<Rightarrow> net \<Rightarrow> settings \<Rightarrow> string option \<Rightarrow>
     ('z app_scheme, current_user) prog" where
  "require_roles allowed lib n s credentials =
     bindM (get_current_user lib n s credentials) (check_roles allowed)"

definition has_role :: "string \<Rightarrow> current_user \<Rightarrow> bool" where
  "has_role r u \<longleftrightarrow> r \<in> set (cu_roles u)"

section \<open>Lemmas: frames\<close>

text \<open>
  A part of the state is of no concern to authentication when the fields that authentication
  writes do not show in it.
\<close>

definition auth_blind :: "('z app_scheme \<Rightarrow> 'p) \<Rightarrow> bool" where
  "auth_blind f \<longleftrightarrow>
     (\<forall>a g. f (ctx_update g a) = f a) \<and> (\<forall>a g. f (cache_update g a) = f a) \<and>
     (\<forall>a g. f (fetches_update g a) = f a) \<and> (\<forall>a g. f (ticks_update g a) = f a)"

lemma auth_blindD:
  assumes "auth_blind f"
  shows "f (ctx_update g a) = f a" "f (cache_update h a) = f a" "f (fetches_update k a) = f a"
    "f (ticks_update k a) = f a"
  using assms by (simp_all add: auth_blind_def)

lemma keeps_auth_steps:
  assumes "auth_blind f"
  shows "keeps f (fetch_jwks n url)" "keeps f (read_clock n)" "keeps f take_cache"
    "keeps f (set_request_context rid tid uid)" "keeps f (modify (cache_update g))"
  by (simp_all add: keeps_def fetch_jwks_def read_clock_def take_cache_def
      set_request_context_def auth_blindD [OF assms])

lemma keeps_refresh: "auth_blind f \<Longrightarrow> keeps f (refresh n s)"
  unfolding refresh_def by (intro keeps_intros keeps_prim keeps_auth_steps)

lemma keeps_get_key: "auth_blind f \<Longrightarrow> keeps f (get_key lib n s k)"
  unfolding get_key_def get_jwks_def
  by (intro keeps_intros keeps_prim keeps_auth_steps keeps_refresh)

lemma keeps_require_roles [keeps_intros]:
  assumes "auth_blind f"
  shows "keeps f (require_roles allowed lib n s cred)"
  unfolding require_roles_def get_current_user_def verify_jwt_token_def decode_token_def check_roles_def
  by (intro keeps_intros keeps_prim keeps_auth_steps keeps_get_key assms)

section \<open>Lemmas: what authentication establishes\<close>

lemma find_key_Some:
  "find_key ks k = Some j \<Longrightarrow> \<exists>key\<in>set ks. kid key = Some k \<and> jwk_json key = j"
  by (auto simp: find_key_def dest: find_Some_set)

lemma check_roles_Inr [simp]:
  "check_roles allowed user a = (Inr u, b) \<longleftrightarrow>
     u = user \<and> b = a \<and> set allowed \<inter> set (cu_roles user) \<noteq> {}"
  by (auto simp: check_roles_def)

lemma get_current_user_Inr:
  assumes "get_current_user lib n s cred a = (Inr u, b)"
  shows "\<exists>token c. cred = Some token \<and> (\<exists>a'. decode_token lib n s token a = (Inr c, a')) \<and>
    u = user_of_claims c \<and> tenant_id_var (ctx b) = cu_tenant_id u \<and>
    user_id_var (ctx b) = Some (cu_user_id u) \<and> request_id_var (ctx b) = None"
  using assms
  by (auto simp: get_current_user_def verify_jwt_token_def set_request_context_def bindM_eq_Inr
      catchM_def split: option.splits prod.splits sum.splits)

lemma require_roles_Inr:
  assumes "require_roles allowed lib n s cred a = (Inr u, b)"
  shows "get_current_user lib n s cred a = (Inr u, b) \<and> set allowed \<inter> set (cu_roles u) \<noteq> {}"
  using assms by (auto simp: require_roles_def bindM_eq_Inr)

lemma require_roles_role:
  "require_roles [r] lib n s cred a = (Inr u, b) \<Longrightarrow> has_role r u"
  by (auto dest: require_roles_Inr simp: has_role_def)

lemma decode_token_Inr:
  assumes "decode_token lib n s token a = (Inr c, b)"
  shows "\<exists>k j pk. get_unverified_header lib token = Inr (Some k) \<and> from_jwk lib j = Inr pk \<and>
    (\<exists>ks. jwks (cache b) = Some ks \<and> find_key ks k = Some j) \<and>
    decode lib token pk [''RS256''] (jwt_audience s) (jwt_issuer s) REQUIRED_CLAIMS = Inr c"
  using assms
  by (fastforce simp: decode_token_def bindM_eq_Inr get_key_def get_jwks_def refresh_def
      fetch_jwks_def read_clock_def find_key_def split: option.splits if_splits)

lemma get_key_Inr:
  assumes "get_key lib n s k a = (Inr pk, b)"
  shows "\<exists>ks j. jwks (cache b) = Some ks \<and> find_key ks k = Some j \<and> from_jwk lib j = Inr pk"
  using assms
  by (fastforce simp: get_key_def get_jwks_def refresh_def bindM_eq_Inr
      fetch_jwks_def read_clock_def split: option.splits if_splits)

lemma refresh_apply:
  "refresh n s a =
     (case load_jwks n (fetches a) (jwks_url s) of
        Inl e \<Rightarrow> (Inl e, a\<lparr>fetches := Suc (fetches a)\<rparr>)
      | Inr ks \<Rightarrow> (Inr ks, a\<lparr>fetches := Suc (fetches a), ticks := Suc (ticks a),
          cache := \<lparr>jwks = Some ks, expires_at = clock n (ticks a) + jwks_cache_ttl_seconds s\<rparr>\<rparr>))"
  by (simp add: refresh_def fetch_jwks_def read_clock_def bindM_def split: sum.splits)

lemma get_jwks_held:
  assumes "jwks (cache a) = Some ks" and "clock n (ticks a) < expires_at (cache a)"
  shows "get_jwks n s a = (Inr ks, a\<lparr>ticks := Suc (ticks a)\<rparr>)"
  using assms by (simp add: get_jwks_def read_clock_def bindM_def)

lemma get_jwks_fetches:
  "get_jwks n s a = (r, b) \<Longrightarrow> fetches a \<le> fetches b \<and> fetches b \<le> Suc (fetches a) \<and>
     (jwks (cache a) = None \<longrightarrow> fetches b = Suc (fetches a))"
  by (auto simp: get_jwks_def read_clock_def bindM_def refresh_apply split: option.splits if_splits sum.splits)

lemma get_key_fetches:
  assumes "get_key lib n s k a = (r, b)"
  shows "fetches a \<le> fetches b \<and> fetches b \<le> fetches a + 2 \<and>
    (jwks (cache a) = None \<longrightarrow> fetches a < fetches b)"
proof -
  obtain r1 a1 where j: "get_jwks n s a = (r1, a1)" by (cases "get_jwks n s a")
  show ?thesis
    using assms get_jwks_fetches [OF j] j
    by (auto simp: get_key_def bindM_def refresh_apply split: option.splits sum.splits prod.splits)
qed

lemma take_cache_apply [simp]:
  "take_cache a = (Inr (), if app_has_cache a then a else a\<lparr>cache := new_cache\<rparr>)"
  by (simp add: take_cache_def)

section \<open>A concrete instance\<close>

text \<open>
  A token library that knows one key and one token, a network that always answers with one key
  set, default settings and a fresh process: the instance at which the properties are applied.
\<close>

definition demo_settings :: settings where
  "demo_settings = load_settings (\<lambda>_. 300) (\<lambda>_. True) Map.empty Map.empty Map.empty"

definition demo_claims :: "string \<Rightarrow> string option \<Rightarrow> string list \<Rightarrow> claims" where
  "demo_claims user tenant roles =
     \<lparr>sub = user, jti = ''j1'', claim_tenant_id = tenant, claim_email = None,
      realm_access = Some (Some roles)\<rparr>"

definition demo_lib :: "claims \<Rightarrow> string jwt_lib" where
  "demo_lib c =
     \<lparr>get_unverified_header = (\<lambda>t. Inr (Some ''k1'')),
      from_jwk = Inr,
      decode = (\<lambda>t pk algs aud iss req.
        if t = ''good'' \<and> pk = ''pem1'' then Inr c else Inl InvalidTokenError)\<rparr>"

definition demo_net :: net where
  "demo_net = \<lparr>http_get = (\<lambda>_ _. Inr ''jwks''),
     response_json = (\<lambda>_. Inr [\<lparr>kid = Some ''k1'', jwk_json = ''pem1''\<rparr>]), clock = int\<rparr>"

definition demo_app :: app where
  "demo_app =
     \<lparr>ctx = empty_context, logs = [], app_has_cache = False, cache = new_cache, fetches = 0, ticks = 0\<rparr>"

lemma demo_login:
  assumes "\<not> app_has_cache a"
  shows "get_current_user (demo_lib c) demo_net s (Some ''good'') a =
    (Inr (user_of_claims c),
     a\<lparr>cache := \<lparr>jwks = Some [\<lparr>kid = Some ''k1'', jwk_json = ''pem1''\<rparr>],
          expires_at = int (ticks a) + jwks_cache_ttl_seconds s\<rparr>,
       fetches := Suc (fetches a), ticks := Suc (ticks a),
       ctx := \<lparr>request_id_var = None, tenant_id_var = claim_tenant_id c, user_id_var = Some (sub c)\<rparr>\<rparr>)"
  using assms
  by (simp add: get_current_user_def verify_jwt_token_def decode_token_def get_key_def get_jwks_def
      new_cache_def refresh_apply load_jwks_def demo_net_def demo_lib_def find_key_def set_request_context_def
      user_of_claims_def bindM_def catchM_def)

section \<open>Properties\<close>

text \<open>
  The key cache works as its docstring says: while the held key set has not expired, a known
  \<open>kid\<close> is answered from it without any network access and without changing it.
\<close>

theorem get_key_from_cache:
  fixes a :: "'z app_scheme"
  assumes "jwks (cache a) = Some ks" and "clock n (ticks a) < expires_at (cache a)"
    and "find_key ks k = Some j"
  shows "get_key lib n s k a = (from_jwk lib j, a\<lparr>ticks := Suc (ticks a)\<rparr>)"
  using assms by (simp add: get_key_def get_jwks_held)

theorem get_key_from_cache_witness:
  "get_key (demo_lib (demo_claims ''u'' None [])) demo_net demo_settings ''k1''
     (demo_app\<lparr>cache := \<lparr>jwks = Some [\<lparr>kid = Some ''k1'', jwk_json = ''pem1''\<rparr>], expires_at = 5\<rparr>, ticks := 3\<rparr>) =
   (Inr ''pem1'',
     demo_app\<lparr>cache := \<lparr>jwks = Some [\<lparr>kid = Some ''k1'', jwk_json = ''pem1''\<rparr>], expires_at = 5\<rparr>, ticks := 4\<rparr>)"
  by (subst get_key_from_cache [where j = "''pem1''" and ks = "[\<lparr>kid = Some ''k1'', jwk_json = ''pem1''\<rparr>]"])
    (simp_all add: demo_app_def demo_net_def demo_lib_def find_key_def)

text \<open>
  A token with a \<open>kid\<close> that the key set does not have makes the cache load the key set again
  at once, whatever its age, and at most two loads are made; if the loaded set does not have it
  either, the token is refused with 401 and the new set is kept for its full lifetime.
\<close>

theorem get_key_unknown_kid:
  fixes a :: "'z app_scheme"
  assumes "jwks (cache a) = Some ks" and "clock n (ticks a) < expires_at (cache a)"
    and "find_key ks k = None" and "load_jwks n (fetches a) (jwks_url s) = Inr ks'"
  shows "get_key lib n s k a =
     (case find_key ks' k of
        None \<Rightarrow> Inl (APIError 401 INVALID_TOKEN ''Unknown token signing key'')
      | Some j \<Rightarrow> from_jwk lib j,
      a\<lparr>ticks := ticks a + 2, fetches := Suc (fetches a),
        cache := \<lparr>jwks = Some ks', expires_at = clock n (Suc (ticks a)) + jwks_cache_ttl_seconds s\<rparr>\<rparr>)"
  using assms
  by (simp add: get_key_def get_jwks_held refresh_apply bindM_def split: option.splits)

theorem get_key_unknown_kid_witness:
  "fst (get_key (demo_lib (demo_claims ''u'' None [])) demo_net demo_settings ''k9''
     (demo_app\<lparr>cache := \<lparr>jwks = Some [], expires_at = 5\<rparr>, ticks := 3\<rparr>)) =
   Inl (APIError 401 INVALID_TOKEN ''Unknown token signing key'')"
  by (subst get_key_unknown_kid [where ks = "[]" and ks' = "[\<lparr>kid = Some ''k1'', jwk_json = ''pem1''\<rparr>]"])
    (simp_all add: demo_app_def load_jwks_def demo_net_def find_key_def)

text \<open>
  C14.  An authenticated user is the one of a verified token: there was a bearer token, it was
  decoded with a key of the current key set that carries the token's \<open>kid\<close>, with RS256 only, for
  the configured audience and issuer and with \<open>exp\<close>, \<open>iat\<close>, \<open>jti\<close> and \<open>sub\<close> required; every field
  of the user comes from the decoded claims, the tenant and the user of the request context are
  those of the token whatever the request's headers said, and the user has an allowed role.
\<close>

theorem require_roles_verified:
  fixes a :: "'z app_scheme"
  assumes "require_roles allowed lib n s cred a = (Inr u, b)"
  shows "\<exists>token k j pk c ks. cred = Some token \<and>
    get_unverified_header lib token = Inr (Some k) \<and>
    jwks (cache b) = Some ks \<and> find_key ks k = Some j \<and> from_jwk lib j = Inr pk \<and>
    decode lib token pk [''RS256''] (jwt_audience s) (jwt_issuer s) [''exp'', ''iat'', ''jti'', ''sub''] = Inr c \<and>
    u = \<lparr>cu_user_id = sub c, cu_tenant_id = claim_tenant_id c, cu_email = claim_email c,
         cu_roles = roles_of c, cu_jti = jti c\<rparr> \<and>
    tenant_id_var (ctx b) = claim_tenant_id c \<and> user_id_var (ctx b) = Some (sub c) \<and>
    (\<exists>r\<in>set allowed. r \<in> set (roles_of c))"
proof -
  from require_roles_Inr [OF assms] have g: "get_current_user lib n s cred a = (Inr u, b)"
    and roles: "set allowed \<inter> set (cu_roles u) \<noteq> {}" by auto
  from g obtain token c a' where cred: "cred = Some token"
    and d: "decode_token lib n s token a = (Inr c, a')" and u: "u = user_of_claims c"
    and b: "b = a'\<lparr>ctx := \<lparr>request_id_var = None, tenant_id_var = cu_tenant_id u, user_id_var = Some (cu_user_id u)\<rparr>\<rparr>"
    by (auto simp: get_current_user_def verify_jwt_token_def set_request_context_def bindM_eq_Inr
        catchM_def split: option.splits prod.splits sum.splits)
  from decode_token_Inr [OF d] cred u b roles show ?thesis
    by (auto simp: user_of_claims_def REQUIRED_CLAIMS_def)
qed

theorem require_roles_verified_witness:
  "\<exists>a b c. require_roles [''tenant_user''] (demo_lib c) demo_net demo_settings (Some ''good'') a =
      (Inr (user_of_claims c), b) \<and>
    tenant_id_var (ctx b) = Some ''t1'' \<and> jwks (cache b) \<noteq> None \<and> (a :: app) = demo_app"
proof -
  let ?c = "demo_claims ''u1'' (Some ''t1'') [''tenant_user'']"
  obtain b where r: "require_roles [''tenant_user''] (demo_lib ?c) demo_net demo_settings (Some ''good'') demo_app =
      (Inr (user_of_claims ?c), b)"
    by (simp add: require_roles_def demo_login demo_app_def check_roles_def user_of_claims_def
        roles_of_def demo_claims_def)
  from require_roles_verified [OF r]
  have "tenant_id_var (ctx b) = Some ''t1''" and "jwks (cache b) \<noteq> None"
    by (auto simp: user_of_claims_def demo_claims_def)
  with r show ?thesis by blast
qed

text \<open>
  The exceptions the libraries document.  PyJWT: the header reader raises an \<open>InvalidTokenError\<close>,
  the decoder \<open>ExpiredSignatureError\<close> or another \<open>InvalidTokenError\<close>, and \<open>from_jwk\<close> an
  \<open>InvalidKeyError\<close> (which is no \<open>InvalidTokenError\<close>) for a key that is no RSA key, or a
  \<open>ValueError\<close> for bad numbers in it.  httpx: an \<open>HTTPError\<close> for a request that fails or is answered
  with an error status, and \<open>json()\<close> a \<open>ValueError\<close> for a body that is not JSON.
\<close>

definition documented_errors :: "'k jwt_lib \<Rightarrow> net \<Rightarrow> bool" where
  "documented_errors lib n \<longleftrightarrow>
     (\<forall>t e. get_unverified_header lib t = Inl e \<longrightarrow> e = InvalidTokenError) \<and>
     (\<forall>j e. from_jwk lib j = Inl e \<longrightarrow> e = OtherError ''InvalidKeyError'' \<or> e = ValueError) \<and>
     (\<forall>t pk algs aud iss req e. decode lib t pk algs aud iss req = Inl e \<longrightarrow>
        e = ExpiredSignatureError \<or> e = InvalidTokenError) \<and>
     (\<forall>i url e. http_get n i url = Inl e \<longrightarrow> e = HTTPError) \<and>
     (\<forall>text e. response_json n text = Inl e \<longrightarrow> e = ValueError)"

lemma documentedD:
  assumes "documented_errors lib n"
  shows "get_unverified_header lib t = Inl e \<Longrightarrow> e = InvalidTokenError"
    and "from_jwk lib j = Inl e \<Longrightarrow> e = OtherError ''InvalidKeyError'' \<or> e = ValueError"
    and "decode lib t pk algs aud iss req = Inl e \<Longrightarrow> e = ExpiredSignatureError \<or> e = InvalidTokenError"
    and "http_get n i url = Inl e \<Longrightarrow> e = HTTPError"
    and "response_json n text = Inl e \<Longrightarrow> e = ValueError"
  using assms by (auto simp: documented_errors_def)

text \<open>How a lookup fails: at the last load, on an unknown id, or on a key that is no RSA key.\<close>

lemma get_jwks_Inl:
  assumes "get_jwks n s a = (Inl e, b)"
  shows "\<exists>i. fetches a \<le> i \<and> fetches b = Suc i \<and> load_jwks n i (jwks_url s) = Inl e"
  using assms
  by (auto simp: get_jwks_def bindM_eq_Inl read_clock_def refresh_apply split: option.splits if_splits sum.splits)

lemma get_jwks_Inr:
  assumes "get_jwks n s a = (Inr ks, b)"
  shows "jwks (cache b) = Some ks \<and> fetches a \<le> fetches b"
  using assms
  by (auto simp: get_jwks_def bindM_eq_Inr read_clock_def refresh_apply split: option.splits if_splits sum.splits)

lemma get_key_Inl:
  assumes "get_key lib n s k a = (Inl e, b)"
  shows "(\<exists>i. fetches a \<le> i \<and> fetches b = Suc i \<and> load_jwks n i (jwks_url s) = Inl e) \<or>
    (\<exists>ks. jwks (cache b) = Some ks \<and> fetches a < fetches b \<and> find_key ks k = None \<and>
       e = APIError 401 INVALID_TOKEN ''Unknown token signing key'') \<or>
    (\<exists>ks j. jwks (cache b) = Some ks \<and> find_key ks k = Some j \<and> from_jwk lib j = Inl e)"
proof (cases "get_jwks n s a")
  case (Pair r c)
  show ?thesis
  proof (cases r)
    case (Inl e')
    with assms Pair get_jwks_Inl [of n s a e' c] show ?thesis by (auto simp: get_key_def bindM_def)
  next
    case (Inr ks)
    with assms Pair get_jwks_Inr [of n s a ks c] show ?thesis
      by (auto simp: get_key_def bindM_def refresh_apply split: option.splits sum.splits)
  qed
qed

lemma decode_token_Inl:
  assumes "decode_token lib n s token a = (Inl e, b)"
  defines "c \<equiv> (if app_has_cache a then a else a\<lparr>cache := new_cache\<rparr>)"
  shows "get_unverified_header lib token = Inl e \<or>
    get_unverified_header lib token = Inr None \<and> e = KeyError \<or>
    (\<exists>k. get_unverified_header lib token = Inr (Some k) \<and>
       (get_key lib n s k c = (Inl e, b) \<or>
        (\<exists>pk. get_key lib n s k c = (Inr pk, b) \<and>
           decode lib token pk [''RS256''] (jwt_audience s) (jwt_issuer s) REQUIRED_CLAIMS = Inl e)))"
proof (cases "get_unverified_header lib token")
  case (Inl x)
  with assms(1) show ?thesis by (auto simp: decode_token_def bindM_def)
next
  case (Inr q)
  with assms(1) show ?thesis
    unfolding c_def by (cases q) (auto simp: decode_token_def bindM_eq_Inl of_option_def)
qed

lemma load_jwks_documented:
  assumes "documented_errors lib n" and "load_jwks n i url = Inl e"
  shows "http_get n i url = Inl HTTPError \<and> e = HTTPError \<or>
    (\<exists>text. http_get n i url = Inr text \<and> response_json n text = Inl ValueError \<and> e = ValueError)"
  using assms(2) documentedD(4,5) [OF assms(1)]
  by (auto simp: load_jwks_def bindE_def split: sum.splits)


lemma documented_demo: "documented_errors (demo_lib c) demo_net"
  by (simp add: documented_errors_def demo_lib_def demo_net_def)


text \<open>
  The cache is not used between requests: no service sets \<open>app.state.jwks_cache\<close>, so each
  verification makes a \<open>JWKSCache\<close> of its own, and every request with an accepted token has loaded
  the key set over the network, however recently that was done before.
\<close>

theorem every_request_fetches_keys:
  fixes a :: "'z app_scheme"
  assumes "\<not> app_has_cache a" and "get_current_user lib n s cred a = (Inr u, b)"
  shows "fetches a < fetches b"
proof -
  from assms(2) obtain token c a' where d: "decode_token lib n s token a = (Inr c, a')"
    and b: "fetches b = fetches a'"
    by (auto simp: get_current_user_def verify_jwt_token_def set_request_context_def bindM_eq_Inr
        catchM_def split: option.splits prod.splits sum.splits)
  from d assms(1) obtain k r where "get_key lib n s k (a\<lparr>cache := new_cache\<rparr>) = (r, a')"
    by (auto simp: decode_token_def bindM_eq_Inr)
  from get_key_fetches [OF this] b show ?thesis by (simp add: new_cache_def)
qed

theorem every_request_fetches_keys_witness:
  "\<exists>u b. get_current_user (demo_lib (demo_claims ''u'' None [])) demo_net demo_settings (Some ''good'') demo_app = (Inr u, b) \<and>
    0 < fetches b"
proof -
  obtain u b where r: "get_current_user (demo_lib (demo_claims ''u'' None [])) demo_net demo_settings
      (Some ''good'') demo_app = (Inr u, b)"
    by (simp add: demo_login demo_app_def)
  have no: "\<not> app_has_cache demo_app" by (simp add: demo_app_def)
  from every_request_fetches_keys [OF no r] r show ?thesis by auto
qed

text \<open>
  Authentication loses the request id: \<open>get_current_user\<close> sets the context without one, so the
  error payload of every failure after a successful authentication (a refused role included) has
  no request id, although the middleware had put one into the context and its response header.
\<close>

theorem error_after_authentication_has_no_request_id:
  fixes a :: "'z app_scheme"
  assumes "get_current_user lib n s cred a = (Inr u, b)" and "ctx v = ctx b"
    and "api_error_handler req (APIError st code' msg) v = (Inr resp, w)"
  shows "\<exists>p. body resp = ErrorBody p \<and> error_request_id p = None"
  using get_current_user_Inr [OF assms(1)] assms(2,3)
  by (auto simp: api_error_handler_def bindM_def error_payload_def get_request_id_def truthy_def
      split: if_splits)

theorem error_after_authentication_has_no_request_id_witness:
  "\<exists>resp w p. api_error_handler
      \<lparr>req_method = ''GET'', req_path = ''/'', req_headers = (\<lambda>_. Some ''id-1'')\<rparr>
      (APIError 403 ACCESS_DENIED ''Access denied'')
      (snd (get_current_user (demo_lib (demo_claims ''u'' None [])) demo_net demo_settings (Some ''good'') demo_app)) =
      (Inr (resp :: unit response), w) \<and> body resp = ErrorBody p \<and> error_request_id p = None"
proof -
  let ?req = "\<lparr>req_method = ''GET'', req_path = ''/'', req_headers = (\<lambda>_. Some ''id-1'')\<rparr>"
  obtain u b where r: "get_current_user (demo_lib (demo_claims ''u'' None [])) demo_net demo_settings
      (Some ''good'') demo_app = (Inr u, b)"
    by (simp add: demo_login demo_app_def)
  obtain resp :: "unit response" and w
    where h: "api_error_handler ?req (APIError 403 ACCESS_DENIED ''Access denied'') b = (Inr resp, w)"
    by (simp add: api_error_handler_def bindM_def)
  from error_after_authentication_has_no_request_id [OF r refl h] h r show ?thesis by auto
qed

end
