(* ===== verification/Py_Uuid.thy ===== *)
theory Py_Uuid
  imports Py_Str "HOL-Library.Word"
begin

text \<open>
  Python's \<open>uuid.UUID\<close>, which the services use for every identifier: a 128-bit number, written by
  \<open>str\<close> in the canonical 8-4-4-4-12 form and read by \<open>UUID(s)\<close> from that form and from several
  others (braces, \<open>urn:uuid:\<close>, no hyphens, upper case).  \<open>None\<close> is the \<open>ValueError\<close> that the
  constructor raises.
\<close>

type_synonym uuid = "128 word"

text \<open>
  \<open>hex.replace('urn:', '').replace('uuid:', '').strip('{}').replace('-', '')\<close>, then the length
  test and \<open>int(hex, 16)\<close>.
\<close>

definition uuid_hex :: "string \<Rightarrow> string" where
  "uuid_hex s =
     remove_all ''-'' (strip ''{}'' (remove_all ''uuid:'' (remove_all ''urn:'' s)))"

definition uuid_of_str :: "string \<Rightarrow> uuid option" where
  "uuid_of_str s =
     (let h = uuid_hex s in
      if py_len h \<noteq> 32 then None
      else case py_int16 h of
        None \<Rightarrow> None
      | Some i \<Rightarrow> if 0 \<le> i \<and> i < 2 ^ 128 then Some (of_int i) else None)"

text \<open>\<open>str(u)\<close>.\<close>

definition uuid_str :: "uuid \<Rightarrow> string" where
  "uuid_str u =
     (let h = hex_fixed 32 (uint u) in
      take 8 h @ ''-'' @ take 4 (drop 8 h) @ ''-'' @ take 4 (drop 12 h) @ ''-'' @
      take 4 (drop 16 h) @ ''-'' @ drop 20 h)"

section \<open>The round trip\<close>

lemma hex_chars_plain:
  assumes "c \<in> set (hex_fixed k n)"
  shows "c \<noteq> CHR ''-''" "c \<noteq> CHR ''u''" "c \<noteq> CHR ''_''" "c \<noteq> CHR ''+''"
    "c \<notin> set ''{}''" "\<not> is_space c" "code c < 128" "c \<noteq> CHR ''x''" "c \<noteq> CHR ''X''"
  using set_hex_fixed_code [OF assms] by (auto simp: code_def is_space_def)

lemma uuid_str_chars:
  "c \<in> set (uuid_str u) \<Longrightarrow> c = CHR ''-'' \<or> c \<in> set (hex_fixed 32 (uint u))"
  by (auto simp: uuid_str_def Let_def dest: in_set_takeD in_set_dropD)

lemma remove_hyphen_hex:
  "set t \<subseteq> set (hex_fixed k n) \<Longrightarrow> remove_all ''-'' (t @ s) = t @ remove_all ''-'' s"
  by (subst remove_all_append_absent) (auto dest!: hex_chars_plain(1) intro!: remove_all_absent)

lemma remove_hyphens_uuid_str: "remove_all ''-'' (uuid_str u) = hex_fixed 32 (uint u)"
proof -
  let ?h = "hex_fixed 32 (uint u)"
  have t: "set (take i (drop j ?h)) \<subseteq> set ?h" for i j
    by (meson in_set_dropD in_set_takeD subsetI)
  have t0: "set (take i ?h) \<subseteq> set ?h" for i
    by (meson in_set_takeD subsetI)
  have d: "remove_all ''-'' (drop 20 ?h) = drop 20 ?h"
    by (rule remove_all_absent) (auto dest!: in_set_dropD hex_chars_plain(1))
  have h: "remove_all ''-'' (''-'' @ s) = remove_all ''-'' s" for s
    by (simp add: startswith_def)
  have j: "take 8 ?h @ take 4 (drop 8 ?h) @ take 4 (drop 12 ?h) @ take 4 (drop 16 ?h) @ drop 20 ?h
      = ?h" (is "?j = ?h")
  proof -
    have s: "take 4 (drop n ?h) @ drop (n + 4) ?h = drop n ?h" for n
      by (metis append_take_drop_id drop_drop add.commute)
    show ?thesis
      using s [of 16] s [of 12] s [of 8] by simp
  qed
  have "remove_all ''-'' (uuid_str u) = ?j"
    unfolding uuid_str_def Let_def
    by (simp only: remove_hyphen_hex [OF t0] remove_hyphen_hex [OF t] h d)
  with j show ?thesis by simp
qed

lemma strip_uuid_str: "strip ''{}'' (uuid_str u) = uuid_str u"
proof (rule strip_id)
  show "set (uuid_str u) \<inter> set ''{}'' = {}"
    using uuid_str_chars hex_chars_plain(5) by fastforce
qed

lemma uuid_hex_str: "uuid_hex (uuid_str u) = hex_fixed 32 (uint u)"
proof -
  have "CHR ''u'' \<notin> set (uuid_str u)"
    using uuid_str_chars hex_chars_plain(2) by fastforce
  then show ?thesis
    by (simp add: uuid_hex_def remove_all_absent strip_uuid_str remove_hyphens_uuid_str)
qed

lemma hex_prefix_hex: "hex_prefix (hex_fixed k n) = hex_fixed k n"
proof -
  have "CHR ''x'' \<notin> set (hex_fixed k n)" "CHR ''X'' \<notin> set (hex_fixed k n)"
    using hex_chars_plain(8,9) by blast+
  then show ?thesis
    by (auto simp: hex_prefix_def split: list.splits)
qed

lemma py_int16_hex_fixed:
  assumes "0 < k" and "0 \<le> n" and "n < 16 ^ k"
  shows "py_int16 (hex_fixed k n) = Some n"
proof -
  have sp: "space_strip (hex_fixed k n) = hex_fixed k n"
    by (rule space_strip_id) (rule hex_chars_plain(6))
  have ne: "hex_fixed k n \<noteq> []" using assms(1) by (cases k) simp_all
  then have "hd (hex_fixed k n) \<in> set (hex_fixed k n)" by simp
  then have "hd (hex_fixed k n) \<noteq> CHR ''-''" "hd (hex_fixed k n) \<noteq> CHR ''+''"
    by (auto dest: hex_chars_plain(1,4))
  with ne sp assms show ?thesis
    by (simp add: py_int16_def signed_unsigned hex_prefix_hex all_digits_hex_fixed)
qed

lemma uuid_of_str_uuid_str [simp]: "uuid_of_str (uuid_str u) = Some u"
proof -
  have l: "py_len (hex_fixed 32 (uint u)) = 32"
    by (subst py_len_ascii) (auto simp: is_ascii_def list_all_iff dest: hex_chars_plain(7))
  have b: "uint u < 16 ^ 32"
    using unsigned_less [of u, where 'a = int] by simp
  then have i: "py_int16 (hex_fixed 32 (uint u)) = Some (uint u)"
    by (intro py_int16_hex_fixed) simp_all
  with b show ?thesis
    by (simp add: uuid_of_str_def uuid_hex_str l i)
qed

lemma uuid_str_inject [simp]: "uuid_str u = uuid_str v \<longleftrightarrow> u = v"
  by (metis option.inject uuid_of_str_uuid_str)

end
