(* ===== verification/Database.thy ===== *)
theory Database
  imports Auth Py_Uuid Json_Value
begin

text \<open>
  The tables of scripts/db-init.sql (the \<open>db/models.py\<close> of the services map onto them), their
  constraints, the row-level security of scripts/apply-rls.sql, and the unit of work of a
  request's database session (\<open>db/database.py\<close>).

  A session collects changes (\<open>add\<close>, attribute assignments, \<open>delete\<close>) and sends them at \<open>commit\<close>; a
  \<open>rollback\<close> or the end of the session drops them.  Whether the server takes a batch of changes
  is its decision: \<open>commit\<close> has it as the parameter \<open>chk\<close>, which returns the exception the driver
  raises for a database state, or \<open>None\<close>.  What the code relies on is that a state that is taken
  satisfies the declared constraints (\<open>enforces chk\<close>); \<open>schema_verdict\<close> is the verdict that the SQL
  script itself describes.
\<close>

section \<open>Rows\<close>

record tenant_row =
  t_id :: uuid
  t_name :: string
  t_status :: string
  t_created_at :: int

record user_row =
  u_id :: uuid
  u_keycloak_user_id :: string
  u_tenant_id :: uuid
  u_email :: string
  u_role :: string
  u_status :: string
  u_created_at :: int

record resource_row =
  r_id :: uuid
  r_tenant_id :: uuid
  r_owner_user_id :: string
  r_name :: string
  r_data :: json
  r_url :: "string option"
  r_created_at :: int

record payment_row =
  p_id :: uuid
  p_tenant_id :: uuid
  p_user_id :: string
  p_stripe_payment_intent_id :: string
  p_amount :: int
  p_currency :: string
  p_status :: string
  p_created_at :: int

record event_row =
  e_event_id :: string
  e_event_type :: string
  e_payment_intent_id :: "string option"
  e_processed_at :: int

record database =
  tenants :: "tenant_row list"
  users :: "user_row list"
  resources :: "resource_row list"
  payments :: "payment_row list"
  events :: "event_row list"

definition empty_db :: database where
  "empty_db = \<lparr>tenants = [], users = [], resources = [], payments = [], events = []\<rparr>"

section \<open>Constraints\<close>

definition tenants_ok :: "tenant_row list \<Rightarrow> bool" where
  "tenants_ok ts \<longleftrightarrow> distinct (map t_id ts) \<and> distinct (map t_name ts) \<and>
     list_all (\<lambda>t. t_status t \<in> set [''active'', ''suspended'', ''deleted'']) ts"

definition has_tenant :: "database \<Rightarrow> uuid \<Rightarrow> bool" where
  "has_tenant d k \<longleftrightarrow> k \<in> set (map t_id (tenants d))"

definition users_ok :: "database \<Rightarrow> bool" where
  "users_ok d \<longleftrightarrow> distinct (map u_id (users d)) \<and> distinct (map u_keycloak_user_id (users d)) \<and>
     distinct (map (\<lambda>u. (u_tenant_id u, u_email u)) (users d)) \<and>
     list_all (\<lambda>u. has_tenant d (u_tenant_id u) \<and>
       u_role u \<in> set [''tenant_admin'', ''tenant_user'', ''platform_admin''] \<and>
       u_status u \<in> set [''active'', ''disabled'', ''deleted'']) (users d)"

definition resources_ok :: "database \<Rightarrow> bool" where
  "resources_ok d \<longleftrightarrow> distinct (map r_id (resources d)) \<and>
     distinct (map (\<lambda>r. (r_tenant_id r, r_name r)) (resources d)) \<and>
     list_all (\<lambda>r. has_tenant d (r_tenant_id r)) (resources d)"

definition PAYMENT_STATUSES :: "string list" where
  "PAYMENT_STATUSES = [''requires_payment_method'', ''requires_confirmation'', ''processing'',
     ''succeeded'', ''canceled'', ''failed'']"

definition payments_ok :: "database \<Rightarrow> bool" where
  "payments_ok d \<longleftrightarrow> distinct (map p_id (payments d)) \<and>
     distinct (map p_stripe_payment_intent_id (payments d)) \<and>
     list_all (\<lambda>p. has_tenant d (p_tenant_id p) \<and> 0 < p_amount p \<and>
       p_currency p = py_lower (p_currency p) \<and> p_status p \<in> set PAYMENT_STATUSES) (payments d)"

definition events_ok :: "event_row list \<Rightarrow> bool" where
  "events_ok es \<longleftrightarrow> distinct (map e_event_id es)"

definition schema_ok :: "database \<Rightarrow> bool" where
  "schema_ok d \<longleftrightarrow> tenants_ok (tenants d) \<and> users_ok d \<and> resources_ok d \<and> payments_ok d \<and>
     events_ok (events d)"

text \<open>\<open>amount INTEGER\<close>: a value outside 32 bits is refused by the driver before any constraint.\<close>

definition amounts_fit :: "database \<Rightarrow> bool" where
  "amounts_fit d \<longleftrightarrow> list_all (\<lambda>p. - (2 ^ 31) \<le> p_amount p \<and> p_amount p < 2 ^ 31) (payments d)"

type_synonym verdict = "database \<Rightarrow> py_exn option"

definition schema_verdict :: verdict where
  "schema_verdict d =
     (if \<not> amounts_fit d then Some (OtherError ''DataError'')
      else if schema_ok d then None else Some IntegrityError)"

definition enforces :: "verdict \<Rightarrow> bool" where
  "enforces chk \<longleftrightarrow> (\<forall>d. chk d = None \<longrightarrow> schema_ok d)"

section \<open>Changes\<close>

text \<open>
  The columns an update assigns, in the order of the assignments.  \<open>None\<close> is Python's \<open>None\<close>: a
  violation for a \<open>NOT NULL\<close> column, SQL \<open>NULL\<close> for the URL, and for the \<open>JSONB\<close> column the JSON
  value \<open>null\<close>, which is how SQLAlchemy's JSON types store it.
\<close>

datatype user_field = UserEmail "string option" | UserRole "string option" | UserStatus "string option"

datatype resource_field =
  ResourceName "string option" | ResourceData "json option" | ResourceUrl "string option"

datatype change =
    InsertTenant tenant_row
  | InsertUser user_row
  | InsertResource resource_row
  | InsertPayment payment_row
  | InsertEvent event_row
  | UpdateUser uuid "user_field list"
  | UpdateResource uuid "resource_field list"
  | DeleteResource uuid
  | SetPaymentStatus uuid string

fun set_user_field :: "user_field \<Rightarrow> user_row \<Rightarrow> user_row option" where
  "set_user_field (UserEmail v) u = map_option (\<lambda>x. u\<lparr>u_email := x\<rparr>) v"
| "set_user_field (UserRole v) u = map_option (\<lambda>x. u\<lparr>u_role := x\<rparr>) v"
| "set_user_field (UserStatus v) u = map_option (\<lambda>x. u\<lparr>u_status := x\<rparr>) v"

fun set_resource_field :: "resource_field \<Rightarrow> resource_row \<Rightarrow> resource_row option" where
  "set_resource_field (ResourceName v) r = map_option (\<lambda>x. r\<lparr>r_name := x\<rparr>) v"
| "set_resource_field (ResourceData v) r =
     Some (r\<lparr>r_data := (case v of None \<Rightarrow> JNull | Some x \<Rightarrow> x)\<rparr>)"
| "set_resource_field (ResourceUrl v) r = Some (r\<lparr>r_url := v\<rparr>)"

fun set_fields :: "('f \<Rightarrow> 'r \<Rightarrow> 'r option) \<Rightarrow> 'f list \<Rightarrow> 'r \<Rightarrow> 'r option" where
  "set_fields g [] r = Some r"
| "set_fields g (f # fs) r = (case g f r of None \<Rightarrow> None | Some r' \<Rightarrow> set_fields g fs r')"

text \<open>
  An update of the row with key \<open>k\<close>: \<open>IntegrityError\<close> if it puts \<open>NULL\<close> where it may not be,
  \<open>StaleDataError\<close> if there is no such row any more.
\<close>

fun update_row :: "('r \<Rightarrow> 'k) \<Rightarrow> 'k \<Rightarrow> ('r \<Rightarrow> 'r option) \<Rightarrow> 'r list \<Rightarrow> 'r list result" where
  "update_row key k g [] = Inl (OtherError ''StaleDataError'')"
| "update_row key k g (r # rs) =
     (if key r = k
      then (case g r of None \<Rightarrow> Inl IntegrityError | Some r' \<Rightarrow> Inr (r' # rs))
      else bindE (update_row key k g rs) (\<lambda>rs'. Inr (r # rs')))"

fun apply_change :: "int \<Rightarrow> change \<Rightarrow> database \<Rightarrow> database result" where
  "apply_change now (InsertTenant t) d = Inr (d\<lparr>tenants := tenants d @ [t\<lparr>t_created_at := now\<rparr>]\<rparr>)"
| "apply_change now (InsertUser u) d = Inr (d\<lparr>users := users d @ [u\<lparr>u_created_at := now\<rparr>]\<rparr>)"
| "apply_change now (InsertResource r) d =
     Inr (d\<lparr>resources := resources d @ [r\<lparr>r_created_at := now\<rparr>]\<rparr>)"
| "apply_change now (InsertPayment p) d =
     Inr (d\<lparr>payments := payments d @ [p\<lparr>p_created_at := now\<rparr>]\<rparr>)"
| "apply_change now (InsertEvent e) d = Inr (d\<lparr>events := events d @ [e\<lparr>e_processed_at := now\<rparr>]\<rparr>)"
| "apply_change now (UpdateUser k fs) d =
     bindE (update_row u_id k (set_fields set_user_field fs) (users d)) (\<lambda>us. Inr (d\<lparr>users := us\<rparr>))"
| "apply_change now (UpdateResource k fs) d =
     bindE (update_row r_id k (set_fields set_resource_field fs) (resources d))
       (\<lambda>rs. Inr (d\<lparr>resources := rs\<rparr>))"
| "apply_change now (DeleteResource k) d =
     Inr (d\<lparr>resources := filter (\<lambda>r. r_id r \<noteq> k) (resources d)\<rparr>)"
| "apply_change now (SetPaymentStatus k st) d =
     bindE (update_row p_id k (\<lambda>p. Some (p\<lparr>p_status := st\<rparr>)) (payments d))
       (\<lambda>ps. Inr (d\<lparr>payments := ps\<rparr>))"

fun apply_changes :: "int \<Rightarrow> change list \<Rightarrow> database \<Rightarrow> database result" where
  "apply_changes now [] d = Inr d"
| "apply_changes now (c # cs) d = bindE (apply_change now c d) (apply_changes now cs)"

section \<open>Sessions\<close>

text \<open>
  \<open>db_now\<close> is the server's clock; \<open>rls_tenant\<close> is the setting \<open>app.current_tenant\<close> of the running
  transaction; \<open>rls_bypass\<close> tells whether the role of the connection is exempt from row-level
  security, as the superuser that the services' database URLs name is.
\<close>

record world = app +
  db :: database
  pending :: "change list"
  rls_tenant :: "string option"
  rls_bypass :: bool
  db_now :: int

definition row_visible :: "world \<Rightarrow> resource_row \<Rightarrow> bool" where
  "row_visible w r \<longleftrightarrow> rls_bypass w \<or> rls_tenant w = Some (uuid_str (r_tenant_id r))"

definition view :: "world \<Rightarrow> database" where
  "view w =
     (let d = (case apply_changes (db_now w) (pending w) (db w) of Inl _ \<Rightarrow> db w | Inr d \<Rightarrow> d) in
      d\<lparr>resources := filter (row_visible w) (resources d)\<rparr>)"

text \<open>The policies of apply-rls.sql on what a transaction writes to \<open>resources\<close>.\<close>

fun rls_permits :: "world \<Rightarrow> change \<Rightarrow> bool" where
  "rls_permits w (InsertResource r) = row_visible w r"
| "rls_permits w (UpdateResource k fs) = list_ex (\<lambda>r. r_id r = k \<and> row_visible w r) (resources (db w))"
| "rls_permits w (DeleteResource k) = list_ex (\<lambda>r. r_id r = k \<and> row_visible w r) (resources (db w))"
| "rls_permits w _ = True"

definition select :: "(database \<Rightarrow> 'a) \<Rightarrow> (world, 'a) prog" where
  "select q = gets (\<lambda>w. q (view w))"

definition add :: "change \<Rightarrow> (world, unit) prog" where
  "add c = modify (pending_update (\<lambda>cs. cs @ [c]))"

definition end_transaction :: "world \<Rightarrow> world" where
  "end_transaction w = w\<lparr>pending := [], rls_tenant := None\<rparr>"

definition rollback :: "(world, unit) prog" where
  "rollback = modify end_transaction"

definition flush_result :: "verdict \<Rightarrow> world \<Rightarrow> database result" where
  "flush_result chk w =
     (if \<not> rls_bypass w \<and> \<not> list_all (rls_permits w) (pending w)
      then Inl (OtherError ''InsufficientPrivilege'')
      else bindE (apply_changes (db_now w) (pending w) (db w))
             (\<lambda>d. case chk d of None \<Rightarrow> Inr d | Some e \<Rightarrow> Inl e))"

definition commit :: "verdict \<Rightarrow> (world, unit) prog" where
  "commit chk w =
     (case flush_result chk w of
        Inl e \<Rightarrow> (Inl e, w)
      | Inr d \<Rightarrow> (Inr (), end_transaction (w\<lparr>db := d\<rparr>)))"

text \<open>\<open>db.refresh(row)\<close>: the row is read again; it must be visible.\<close>

definition reread :: "(database \<Rightarrow> 'r option) \<Rightarrow> (world, 'r) prog" where
  "reread q = bindM (select q) (\<lambda>r. liftE (of_option (OtherError ''InvalidRequestError'') r))"

definition set_tenant_context :: "string \<Rightarrow> (world, unit) prog" where
  "set_tenant_context tid = modify (rls_tenant_update (\<lambda>_. Some tid))"

text \<open>
  \<open>commit\<close> with the handler the services put around it:
  \<open>except IntegrityError: rollback; raise APIError(409, CONFLICT, msg)\<close>.
\<close>

definition commit_or_conflict :: "verdict \<Rightarrow> string \<Rightarrow> (world, unit) prog" where
  "commit_or_conflict chk msg =
     catchM (commit chk) (\<lambda>e.
       if e = IntegrityError
       then bindM rollback (\<lambda>_. throw (APIError 409 CONFLICT msg))
       else throw e)"

text \<open>\<open>get_db\<close>: a session for the request; what it did not commit is dropped with it.\<close>

definition get_db :: "(world, 'a) prog \<Rightarrow> (world, 'a) prog" where
  "get_db m w = (case m (end_transaction w) of (r, v) \<Rightarrow> (r, end_transaction v))"

end
