(* ===== verification/Tables.thy ===== *)
theory Tables
  imports Database "HOL-Library.Sublist"
begin

text \<open>
  What a service may rely on when it uses a table: the interface \<open>row_table\<close> (insertion appends the
  row, keys are unique under the schema), its extension \<open>tenant_table\<close> for the tables whose rows
  belong to a tenant, and their interpretations on the five tables of the database.  Then the
  frames and invariants of the session operations.
\<close>

section \<open>Session operations\<close>

lemma select_apply [simp, prog_simps]: "select q w = (Inr (q (view w)), w)"
  by (simp add: select_def)

lemma add_apply [simp, prog_simps]: "add c w = (Inr (), w\<lparr>pending := pending w @ [c]\<rparr>)"
  by (simp add: add_def)

lemma rollback_apply [simp, prog_simps]: "rollback w = (Inr (), end_transaction w)"
  by (simp add: rollback_def)

lemma set_tenant_context_apply [simp, prog_simps]:
  "set_tenant_context tid w = (Inr (), w\<lparr>rls_tenant := Some tid\<rparr>)"
  by (simp add: set_tenant_context_def)

lemma end_transaction_fields [simp]:
  "db (end_transaction w) = db w" "pending (end_transaction w) = []"
  "rls_tenant (end_transaction w) = None" "rls_bypass (end_transaction w) = rls_bypass w"
  "db_now (end_transaction w) = db_now w" "logs (end_transaction w) = logs w"
  "ctx (end_transaction w) = ctx w"
  by (simp_all add: end_transaction_def)

lemma end_transaction_idem [simp]: "end_transaction (end_transaction w) = end_transaction w"
  by (simp add: end_transaction_def)

lemma row_visible_cong [simp]:
  "row_visible (w\<lparr>db := d\<rparr>) = row_visible w" "row_visible (w\<lparr>pending := cs\<rparr>) = row_visible w"
  by (simp_all add: row_visible_def fun_eq_iff)

text \<open>With no pending change a session sees the committed tables, as far as it may see them.\<close>

lemma view_idle: "pending w = [] \<Longrightarrow>
  view w = (db w)\<lparr>resources := filter (row_visible w) (resources (db w))\<rparr>"
  by (simp add: view_def Let_def)

lemma view_bypass: "pending w = [] \<Longrightarrow> rls_bypass w \<Longrightarrow> view w = db w"
  by (simp add: view_idle row_visible_def)

lemma view_idle_tables [simp]:
  assumes "pending w = []"
  shows "users (view w) = users (db w)" "tenants (view w) = tenants (db w)"
    "payments (view w) = payments (db w)" "events (view w) = events (db w)"
  by (simp_all add: view_idle assms)

lemma commit_Inr:
  "commit chk w = (Inr x, v) \<longleftrightarrow>
     (\<exists>d. flush_result chk w = Inr d \<and> v = end_transaction (w\<lparr>db := d\<rparr>))"
  by (auto simp: commit_def split: sum.splits)

lemma commit_Inl: "commit chk w = (Inl e, v) \<longleftrightarrow> flush_result chk w = Inl e \<and> v = w"
  by (auto simp: commit_def split: sum.splits)

lemma commit_or_conflict_Inr:
  "commit_or_conflict chk msg w = (Inr x, v) \<longleftrightarrow>
     (\<exists>d. flush_result chk w = Inr d \<and> v = end_transaction (w\<lparr>db := d\<rparr>))"
  by (auto simp: commit_or_conflict_def catchM_def commit_Inr commit_Inl split: prod.splits sum.splits)

lemma commit_or_conflict_Inl:
  assumes "commit_or_conflict chk msg w = (Inl e, v)"
  shows "db v = db w \<and> (e = APIError 409 CONFLICT msg \<or> e \<noteq> IntegrityError)"
  using assms
  by (auto simp: commit_or_conflict_def catchM_def commit_Inl split: prod.splits sum.splits if_splits)

lemma flush_result_enforced:
  assumes "enforces chk" and "flush_result chk w = Inr d"
  shows "schema_ok d \<and> apply_changes (db_now w) (pending w) (db w) = Inr d"
  using assms
  by (auto simp: flush_result_def enforces_def split: if_splits option.splits)

lemma schema_verdict_enforces: "enforces schema_verdict"
  by (simp add: enforces_def schema_verdict_def)

section \<open>Frames and invariants of the session\<close>

text \<open>
  Everything but \<open>commit\<close> leaves the committed tables alone, so a route that only reads keeps
  them, and a route that commits keeps every invariant that a commit maintains: the schema, where the
  server enforces it, and what no batch of changes can undo.
\<close>

definition db_inv :: "(database \<Rightarrow> bool) \<Rightarrow> world \<Rightarrow> bool" where
  "db_inv J w \<longleftrightarrow> J (db w)"

definition maintains :: "verdict \<Rightarrow> (database \<Rightarrow> bool) \<Rightarrow> bool" where
  "maintains chk J \<longleftrightarrow> (\<forall>w d. flush_result chk w = Inr d \<longrightarrow> J (db w) \<longrightarrow> J d)"

lemma maintains_schema: "enforces chk \<Longrightarrow> maintains chk schema_ok"
  by (auto simp: maintains_def dest: flush_result_enforced)

lemma auth_blind_db [simp]:
  "auth_blind db" "auth_blind pending" "auth_blind rls_tenant" "auth_blind rls_bypass"
  "auth_blind db_now" "auth_blind (logs :: _ app_scheme \<Rightarrow> _)"
  by (simp_all add: auth_blind_def)

lemma keeps_db_prim [keeps_intros]:
  "keeps db (select q)" "keeps db (add c)" "keeps db rollback" "keeps db (set_tenant_context tid)"
  "keeps db (reread q')" "keeps db (log lv msg ex)"
  by (simp_all add: keeps_def reread_def)

lemma keeps_logs_prim [keeps_intros]:
  "keeps logs (select q)" "keeps logs (add c)" "keeps logs rollback" "keeps logs (set_tenant_context tid)"
  "keeps logs (reread q')"
  by (simp_all add: keeps_def reread_def)

lemma keeps_logs_commit [keeps_intros]: "keeps logs (commit chk)" "keeps logs (commit_or_conflict chk m)"
  by (auto simp: keeps_def commit_def commit_or_conflict_def catchM_def split: sum.splits prod.splits)

lemma keeps_rls_bypass_prim [keeps_intros]:
  "keeps rls_bypass (select q)" "keeps rls_bypass (add c)" "keeps rls_bypass rollback"
  "keeps rls_bypass (set_tenant_context tid)" "keeps rls_bypass (reread q')"
  "keeps rls_bypass (log lv msg ex)"
  by (simp_all add: keeps_def reread_def)

lemma keeps_preserves_db: "keeps db m \<Longrightarrow> preserves (db_inv J) m"
  by (rule keeps_preserves [where J = J]) (simp_all add: db_inv_def)

lemmas preserves_db_prim [preserves_intros] = keeps_db_prim [THEN keeps_preserves_db]

lemma preserves_commit [preserves_intros]:
  assumes "maintains chk J"
  shows "preserves (db_inv J) (commit chk)"
  using assms by (auto simp: preserves_def commit_def db_inv_def maintains_def split: sum.splits)

lemma preserves_commit_or_conflict [preserves_intros]:
  assumes "maintains chk J"
  shows "preserves (db_inv J) (commit_or_conflict chk msg)"
  unfolding commit_or_conflict_def
  by (intro preserves_intros assms preserves_prim keeps_preserves_db keeps_db_prim)

lemma keeps_get_db: "keeps f m \<Longrightarrow> (\<And>w. f (end_transaction w) = f w) \<Longrightarrow> keeps f (get_db m)"
  by (auto simp: keeps_def get_db_def split: prod.splits) (metis snd_conv)

lemma preserves_get_db [preserves_intros]:
  "preserves (db_inv J) m \<Longrightarrow> preserves (db_inv J) (get_db m)"
  by (auto simp: preserves_def get_db_def db_inv_def split: prod.splits) (metis end_transaction_fields(1) snd_conv)

section \<open>The interface of a table\<close>

locale row_table =
  fixes rows :: "database \<Rightarrow> 'r list"
    and key :: "'r \<Rightarrow> 'k"
    and insert_change :: "'r \<Rightarrow> change"
    and stamp :: "int \<Rightarrow> 'r \<Rightarrow> 'r"
  assumes apply_insert: "\<exists>d'. apply_change now (insert_change r) d = Inr d' \<and>
      rows d' = rows d @ [stamp now r]"
    and key_stamp [simp]: "key (stamp now r) = key r"
    and schema_distinct: "schema_ok d \<Longrightarrow> distinct (map key (rows d))"
begin

lemma inserted:
  assumes "enforces chk" and "pending w = []"
    and "commit chk (w\<lparr>pending := [insert_change r]\<rparr>) = (Inr x, v)"
  shows "rows (db v) = rows (db w) @ [stamp (db_now w) r]" and "schema_ok (db v)"
    and "key r \<notin> key ` set (rows (db w))"
proof -
  obtain d where d: "flush_result chk (w\<lparr>pending := [insert_change r]\<rparr>) = Inr d"
    and v: "v = end_transaction (w\<lparr>pending := [insert_change r], db := d\<rparr>)"
    using assms(3) by (auto simp: commit_Inr)
  from flush_result_enforced [OF assms(1) d]
  have ok: "schema_ok d" and ap: "apply_changes (db_now w) [insert_change r] (db w) = Inr d"
    by simp_all
  from ap apply_insert [of "db_now w" r "db w"]
  have rows: "rows d = rows (db w) @ [stamp (db_now w) r]" by auto
  with v show "rows (db v) = rows (db w) @ [stamp (db_now w) r]" by simp
  from v ok show "schema_ok (db v)" by simp
  from schema_distinct [OF ok] rows show "key r \<notin> key ` set (rows (db w))" by auto
qed

lemma find_inserted:
  assumes "enforces chk" and "pending w = []"
    and "commit chk (w\<lparr>pending := [insert_change r]\<rparr>) = (Inr x, v)"
  shows "find (\<lambda>s. key s = key r) (rows (db v)) = Some (stamp (db_now w) r)"
  using inserted [OF assms] find_distinct_Some [OF schema_distinct, of "db v" "stamp (db_now w) r"]
  by simp

lemma duplicate_refused:
  assumes "enforces chk" and "pending w = []" and "s \<in> set (rows (db w))" and "key s = key r"
  shows "\<exists>e. commit chk (w\<lparr>pending := [insert_change r]\<rparr>) = (Inl e, w\<lparr>pending := [insert_change r]\<rparr>)"
proof (cases "commit chk (w\<lparr>pending := [insert_change r]\<rparr>)")
  case (Pair res v)
  show ?thesis
  proof (cases res)
    case (Inl e)
    with Pair show ?thesis by (auto simp: commit_Inl)
  next
    case (Inr x)
    with Pair inserted(3) [OF assms(1,2)] have "key r \<notin> key ` set (rows (db w))" by blast
    with assms(3,4) show ?thesis by (metis imageI)
  qed
qed

lemma unique_row:
  "schema_ok d \<Longrightarrow> r \<in> set (rows d) \<Longrightarrow> s \<in> set (rows d) \<Longrightarrow> key r = key s \<Longrightarrow> r = s"
  using schema_distinct [of d] by (metis distinct_map inj_onD)

lemma find_row:
  "schema_ok d \<Longrightarrow> r \<in> set (rows d) \<Longrightarrow> find (\<lambda>s. key s = key r) (rows d) = Some r"
  by (rule find_distinct_Some [OF schema_distinct])

end

locale tenant_table = row_table rows key insert_change stamp
  for rows :: "database \<Rightarrow> 'r list" and key :: "'r \<Rightarrow> uuid" and insert_change and stamp +
  fixes owner :: "'r \<Rightarrow> uuid"
  assumes owner_stamp [simp]: "owner (stamp now r) = owner r"
    and schema_owner: "schema_ok d \<Longrightarrow> r \<in> set (rows d) \<Longrightarrow> has_tenant d (owner r)"
begin

lemma inserted_tenant_exists:
  assumes "enforces chk" and "pending w = []"
    and "commit chk (w\<lparr>pending := [insert_change r]\<rparr>) = (Inr x, v)"
  shows "has_tenant (db v) (owner r)"
  using inserted(1,2) [OF assms] schema_owner [of "db v" "stamp (db_now w) r"] by simp

text \<open>An insertion shows in the listing of its own tenant and in no other.\<close>

lemma inserted_listing:
  assumes "enforces chk" and "pending w = []"
    and "commit chk (w\<lparr>pending := [insert_change r]\<rparr>) = (Inr x, v)"
  shows "filter (\<lambda>s. owner s = t) (rows (db v)) =
    filter (\<lambda>s. owner s = t) (rows (db w)) @ (if owner r = t then [stamp (db_now w) r] else [])"
  using inserted(1) [OF assms] by simp

end

lemmas schema_ok_unfold =
  schema_ok_def tenants_ok_def users_ok_def resources_ok_def payments_ok_def events_ok_def list_all_iff

interpretation tenants_tab: row_table tenants t_id InsertTenant "\<lambda>now t. t\<lparr>t_created_at := now\<rparr>"
  by unfold_locales (auto simp: schema_ok_unfold)

interpretation events_tab: row_table events e_event_id InsertEvent "\<lambda>now e. e\<lparr>e_processed_at := now\<rparr>"
  by unfold_locales (auto simp: schema_ok_unfold)

interpretation users_tab: tenant_table users u_id InsertUser "\<lambda>now u. u\<lparr>u_created_at := now\<rparr>" u_tenant_id
  by unfold_locales (auto simp: schema_ok_unfold)

interpretation resources_tab: tenant_table resources r_id InsertResource
    "\<lambda>now r. r\<lparr>r_created_at := now\<rparr>" r_tenant_id
  by unfold_locales (auto simp: schema_ok_unfold)

interpretation payments_tab: tenant_table payments p_id InsertPayment
    "\<lambda>now p. p\<lparr>p_created_at := now\<rparr>" p_tenant_id
  by unfold_locales (auto simp: schema_ok_unfold)

text \<open>The same tables by their second unique column.\<close>

interpretation tenant_names: row_table tenants t_name InsertTenant "\<lambda>now t. t\<lparr>t_created_at := now\<rparr>"
  by unfold_locales (auto simp: schema_ok_unfold)

interpretation keycloak_ids: row_table users u_keycloak_user_id InsertUser "\<lambda>now u. u\<lparr>u_created_at := now\<rparr>"
  by unfold_locales (auto simp: schema_ok_unfold)

interpretation stripe_ids: row_table payments p_stripe_payment_intent_id InsertPayment
    "\<lambda>now p. p\<lparr>p_created_at := now\<rparr>"
  by unfold_locales (auto simp: schema_ok_unfold)

section \<open>Updates\<close>

lemma update_row_Inr:
  "update_row key k g rs = Inr rs' \<Longrightarrow>
     \<exists>us r r' vs. rs = us @ r # vs \<and> rs' = us @ r' # vs \<and> key r = k \<and> g r = Some r' \<and>
       (\<forall>u\<in>set us. key u \<noteq> k)"
proof (induction rs arbitrary: rs')
  case Nil
  then show ?case by simp
next
  case (Cons r rs)
  show ?case
  proof (cases "key r = k")
    case True
    with Cons.prems obtain r' where "g r = Some r'" "rs' = r' # rs" by (auto split: option.splits)
    with True show ?thesis by (metis append_Nil empty_iff list.set(1))
  next
    case False
    with Cons.prems obtain ss where "update_row key k g rs = Inr ss" "rs' = r # ss" by auto
    with Cons.IH obtain us x x' vs where "rs = us @ x # vs" "ss = us @ x' # vs" "key x = k"
      "g x = Some x'" "\<forall>u\<in>set us. key u \<noteq> k" by blast
    with False \<open>rs' = r # ss\<close> show ?thesis
      by (intro exI [of _ "r # us"] exI [of _ x] exI [of _ x'] exI [of _ vs]) simp
  qed
qed

lemma set_user_field_key: "set_user_field f u = Some u' \<Longrightarrow>
    u_id u' = u_id u \<and> u_tenant_id u' = u_tenant_id u \<and> u_keycloak_user_id u' = u_keycloak_user_id u"
  by (cases f) auto

lemma set_user_fields_key: "set_fields set_user_field fs u = Some u' \<Longrightarrow>
    u_id u' = u_id u \<and> u_tenant_id u' = u_tenant_id u \<and> u_keycloak_user_id u' = u_keycloak_user_id u"
  by (induction fs arbitrary: u) (auto dest: set_user_field_key split: option.splits)

lemma set_resource_field_key: "set_resource_field f r = Some r' \<Longrightarrow>
    r_id r' = r_id r \<and> r_tenant_id r' = r_tenant_id r \<and> r_owner_user_id r' = r_owner_user_id r"
  by (cases f) auto

lemma set_resource_fields_key: "set_fields set_resource_field fs r = Some r' \<Longrightarrow>
    r_id r' = r_id r \<and> r_tenant_id r' = r_tenant_id r \<and> r_owner_user_id r' = r_owner_user_id r"
  by (induction fs arbitrary: r) (auto dest: set_resource_field_key split: option.splits)

text \<open>A commit takes the whole batch or nothing; a batch of one change is that change.\<close>

lemma commit_effect:
  assumes "commit chk w = (res, v)"
  shows "db v = db w \<or> flush_result chk w = Inr (db v)"
  using assms by (auto simp: commit_def split: sum.splits)

lemma commit_or_conflict_effect:
  assumes "commit_or_conflict chk msg w = (res, v)"
  shows "db v = db w \<or> flush_result chk w = Inr (db v)"
  using assms by (cases res) (auto simp: commit_or_conflict_Inr dest: commit_or_conflict_Inl)

lemma flush_single:
  assumes "flush_result chk w = Inr d" and "pending w = [c]"
  shows "apply_change (db_now w) c (db w) = Inr d \<and> chk d = None"
  using assms by (auto simp: flush_result_def split: if_splits option.splits)

lemma flush_idle:
  assumes "flush_result chk w = Inr d" and "pending w = []"
  shows "d = db w"
  using assms by (auto simp: flush_result_def split: if_splits option.splits)

lemma reread_Inr [simp]: "reread q w = (Inr x, v) \<longleftrightarrow> q (view w) = Some x \<and> v = w"
  by (auto simp: reread_def bindM_eq_Inr)

text \<open>A row read back after the commit is one of the committed table's.\<close>

lemma find_visible:
  assumes "find P (resources (view w)) = Some r" and "pending w = []"
  shows "r \<in> set (resources (db w)) \<and> P r"
  using assms by (auto simp: view_idle dest!: find_Some_set)

lemma resources_unchanged: "resources d = rs \<Longrightarrow> d\<lparr>resources := rs\<rparr> = (d :: database)"
  by (cases d) simp

section \<open>What no change undoes\<close>

text \<open>
  Tenants and processed events are only ever appended; a profile keeps its id, tenant and Keycloak
  id; a payment keeps everything but its status; neither is ever deleted.
\<close>

definition user_identity :: "user_row \<Rightarrow> uuid \<times> uuid \<times> string" where
  "user_identity u = (u_id u, u_tenant_id u, u_keycloak_user_id u)"

definition payment_identity :: "payment_row \<Rightarrow> payment_row" where
  "payment_identity p = p\<lparr>p_status := []\<rparr>"

definition grows :: "database \<Rightarrow> database \<Rightarrow> bool" where
  "grows d d' \<longleftrightarrow> prefix (tenants d) (tenants d') \<and> prefix (events d) (events d') \<and>
     prefix (map user_identity (users d)) (map user_identity (users d')) \<and>
     prefix (map payment_identity (payments d)) (map payment_identity (payments d'))"

lemma grows_refl [simp]: "grows d d"
  by (simp add: grows_def)

lemma grows_trans [trans]: "grows a b \<Longrightarrow> grows b c \<Longrightarrow> grows a c"
  unfolding grows_def by (blast intro: prefix_order.trans)

lemma update_row_same:
  assumes "update_row key k g rs = Inr rs'" and "\<And>r r'. g r = Some r' \<Longrightarrow> f r' = f r"
  shows "map f rs' = map f rs"
  using update_row_Inr [OF assms(1)] assms(2) by auto

lemma apply_change_grows:
  assumes "apply_change now c d = Inr d'"
  shows "grows d d'"
proof (cases c)
  case (UpdateUser k fs)
  with assms obtain us where u: "update_row u_id k (set_fields set_user_field fs) (users d) = Inr us"
    and "d' = d\<lparr>users := us\<rparr>" by auto
  with update_row_same [OF u, of user_identity] set_user_fields_key show ?thesis
    by (auto simp: grows_def user_identity_def)
next
  case (SetPaymentStatus k st)
  with assms obtain ps where u: "update_row p_id k (\<lambda>p. Some (p\<lparr>p_status := st\<rparr>)) (payments d) = Inr ps"
    and "d' = d\<lparr>payments := ps\<rparr>" by auto
  with update_row_same [OF u, of payment_identity] show ?thesis
    by (auto simp: grows_def payment_identity_def)
qed (use assms in \<open>auto simp: grows_def\<close>)

lemma apply_changes_grows: "apply_changes now cs d = Inr d' \<Longrightarrow> grows d d'"
  by (induction cs arbitrary: d) (auto dest!: apply_change_grows intro: grows_trans)

lemma maintains_history: "maintains chk (grows d)"
  unfolding maintains_def
  by (auto simp: flush_result_def split: if_splits option.splits dest!: apply_changes_grows intro: grows_trans)

section \<open>Whose rows a change touches\<close>

definition tenant_resources :: "uuid \<Rightarrow> database \<Rightarrow> resource_row list" where
  "tenant_resources t d = filter (\<lambda>r. r_tenant_id r = t) (resources d)"

fun resource_targets :: "change \<Rightarrow> database \<Rightarrow> uuid set" where
  "resource_targets (InsertResource r) d = {r_tenant_id r}"
| "resource_targets (UpdateResource k fs) d = r_tenant_id ` {r \<in> set (resources d). r_id r = k}"
| "resource_targets (DeleteResource k) d = r_tenant_id ` {r \<in> set (resources d). r_id r = k}"
| "resource_targets c d = {}"

lemma tenant_resources_change:
  assumes "apply_change now c d = Inr d'" and "t \<notin> resource_targets c d"
  shows "tenant_resources t d' = tenant_resources t d"
proof (cases c)
  case (InsertResource r)
  with assms show ?thesis by (auto simp: tenant_resources_def)
next
  case (UpdateResource k fs)
  with assms(1) obtain rs where u: "update_row r_id k (set_fields set_resource_field fs) (resources d) = Inr rs"
    and d': "d' = d\<lparr>resources := rs\<rparr>" by auto
  from update_row_Inr [OF u] set_resource_fields_key assms(2) UpdateResource d' show ?thesis
    by (fastforce simp: tenant_resources_def)
next
  case (DeleteResource k)
  with assms have "d' = d\<lparr>resources := filter (\<lambda>r. r_id r \<noteq> k) (resources d)\<rparr>" by simp
  moreover have "filter (\<lambda>r. r_id r \<noteq> k \<and> r_tenant_id r = t) (resources d) =
      filter (\<lambda>r. r_tenant_id r = t) (resources d)"
    using assms(2) DeleteResource by (intro filter_cong) auto
  ultimately show ?thesis by (simp add: tenant_resources_def conj_commute)
qed (use assms(1) in \<open>auto simp: tenant_resources_def\<close>)

lemma resource_targets_key:
  assumes "schema_ok d" and "r \<in> set (resources d)" and "r_id r = k"
  shows "resource_targets (UpdateResource k fs) d = {r_tenant_id r}"
    and "resource_targets (DeleteResource k) d = {r_tenant_id r}"
  using assms resources_tab.unique_row [OF assms(1)] by auto

context tenant_table begin

text \<open>An update in place shows in the listing of the row's own tenant only.\<close>

lemma updated_listing:
  assumes "update_row key k g (rows d) = Inr rs" and "\<And>r r'. g r = Some r' \<Longrightarrow> owner r' = owner r"
    and "schema_ok d" and "r \<in> set (rows d)" and "key r = k" and "t \<noteq> owner r"
  shows "filter (\<lambda>s. owner s = t) rs = filter (\<lambda>s. owner s = t) (rows d)"
proof -
  from update_row_Inr [OF assms(1)] obtain us x x' vs
    where l: "rows d = us @ x # vs" "rs = us @ x' # vs" "key x = k" "g x = Some x'" by blast
  from l have "x \<in> set (rows d)" by simp
  with l(3) assms(3,4,5) have "x = r" by (metis unique_row)
  with l assms(2,6) show ?thesis by auto
qed

end

definition tenant_users :: "uuid \<Rightarrow> database \<Rightarrow> user_row list" where
  "tenant_users t d = filter (\<lambda>u. u_tenant_id u = t) (users d)"

lemma view_users_subset: "pending w = [] \<Longrightarrow> users (view w) = users (db w)"
  by simp

lemma tables_unchanged: "users d = us \<Longrightarrow> d\<lparr>users := us\<rparr> = (d :: database)"
  by (cases d) simp

end
