(* ===== verification/Tenant_Guard.thy ===== *)
theory Tenant_Guard
  imports Tables
begin

text \<open>
  What the routes of the user, resource and payment services share: the tenant of the
  authenticated user (\<open>_required_tenant_id\<close>, the same function in the three \<open>routes.py\<close>), and the
  interface of the check between loading a row and acting on it.  The three services provide that
  check in their own way; their routes rely on the laws of \<open>tenant_guard\<close> only.
\<close>

text \<open>
  What a service runs with: the token library, the network, its settings, and the database
  server's verdict on a batch of changes.
\<close>

record 'k env =
  env_jwt :: "'k jwt_lib"
  env_net :: net
  env_settings :: settings
  env_verdict :: verdict

definition login :: "'k env \<Rightarrow> string option \<Rightarrow> (world, current_user) prog" where
  "login e cred = get_current_user (env_jwt e) (env_net e) (env_settings e) cred"

definition authorize :: "'k env \<Rightarrow> string list \<Rightarrow> string option \<Rightarrow> (world, current_user) prog" where
  "authorize e allowed cred = require_roles allowed (env_jwt e) (env_net e) (env_settings e) cred"

definition required_tenant_id :: "current_user \<Rightarrow> uuid result" where
  "required_tenant_id u =
     (case cu_tenant_id u of
        None \<Rightarrow> Inl (APIError 403 ACCESS_DENIED ''Tenant context is required'')
      | Some t \<Rightarrow> of_option ValueError (uuid_of_str t))"

definition platform_admin :: "current_user \<Rightarrow> bool" where
  "platform_admin u \<longleftrightarrow> has_role ''platform_admin'' u"

definition not_found :: "string \<Rightarrow> py_exn" where
  "not_found msg = APIError 404 NOT_FOUND msg"

text \<open>FastAPI's verdicts on a request body and on a response, where the schemas are in the source.\<close>

definition validate_body :: "bool \<Rightarrow> unit result" where
  "validate_body ok = (if ok then Inr () else Inl validation_error)"

definition respond :: "bool \<Rightarrow> 'a \<Rightarrow> (world, 'a) prog" where
  "respond ok x = (if ok then ret x else throw (OtherError ''ResponseValidationError''))"

definition given :: "('a \<Rightarrow> bool) \<Rightarrow> 'a option option \<Rightarrow> bool" where
  "given P v = (case v of Some (Some x) \<Rightarrow> P x | _ \<Rightarrow> True)"

text \<open>The value of a field after an update that may set it; \<open>null\<close> counts as no value here.\<close>

definition patched :: "'a option option \<Rightarrow> 'a \<Rightarrow> 'a" where
  "patched v old = (case v of Some (Some x) \<Rightarrow> x | _ \<Rightarrow> old)"

record service_info =
  info_service :: string
  info_stage :: string
  info_status :: string

text \<open>\<open>ORDER BY f DESC\<close> and \<open>ORDER BY f\<close>; rows that tie keep the table's order.\<close>

definition order_desc :: "('r \<Rightarrow> int) \<Rightarrow> 'r list \<Rightarrow> 'r list" where
  "order_desc f rs = sort_key (\<lambda>r. - f r) rs"

text \<open>Who may touch a row of tenant \<open>t\<close>: its own users and the platform administrators.\<close>

definition may_access :: "current_user \<Rightarrow> uuid \<Rightarrow> bool" where
  "may_access u t \<longleftrightarrow> platform_admin u \<or> required_tenant_id u = Inr t"

locale tenant_guard =
  fixes owner :: "'r \<Rightarrow> uuid"
    and guard :: "current_user \<Rightarrow> 'r \<Rightarrow> (world, unit) prog"
  assumes guard_Inr: "guard u r w = (Inr x, v) \<Longrightarrow> may_access u (owner r) \<and> v = w"
    and guard_db: "keeps db (guard u r)"
begin

lemma guard_preserves: "preserves (db_inv J) (guard u r)"
  by (rule keeps_preserves_db [OF guard_db])

lemma guard_then:
  assumes "bindM (guard u r) k w = (Inr y, v)"
  shows "may_access u (owner r)" and "k () w = (Inr y, v)"
  using assms by (auto simp: bindM_eq_Inr dest!: guard_Inr)

text \<open>
  A loaded row is acted on only by a user who may access it: either the guard stopped the
  request and the tables are as they were, or it passed and the continuation ran.
\<close>

lemma guard_cases:
  assumes "bindM (guard u r) k w = (res, v)"
  obtains e where "res = Inl e" and "db v = db w"
  | "may_access u (owner r)" and "k () w = (res, v)"
proof (cases "guard u r w")
  case (Pair g t)
  show thesis
  proof (cases g)
    case (Inl e)
    with Pair assms have "res = Inl e" "v = t" by simp_all
    with that(1) Pair keepsD [OF guard_db] show thesis by metis
  next
    case (Inr x)
    with Pair guard_Inr have "may_access u (owner r)" "t = w" by blast+
    with Pair Inr assms that(2) show thesis by simp
  qed
qed

lemma fetch_guard:
  assumes "bindM (select q) (\<lambda>row. case row of None \<Rightarrow> throw e | Some r \<Rightarrow> bindM (guard u r) (\<lambda>_. k r)) w
    = (Inr y, v)"
  obtains r where "q (view w) = Some r" and "may_access u (owner r)" and "k r w = (Inr y, v)"
proof -
  from assms obtain r where r: "q (view w) = Some r" and b: "bindM (guard u r) (\<lambda>_. k r) w = (Inr y, v)"
    by (auto simp: bindM_def split: option.splits)
  from guard_then [OF b] r that show thesis by blast
qed

lemma fetch_guard_cases:
  assumes "bindM (select q) (\<lambda>row. case row of None \<Rightarrow> throw e | Some r \<Rightarrow> bindM (guard u r) (\<lambda>_. k r)) w
    = (res, v)"
  obtains "db v = db w"
  | r where "q (view w) = Some r" and "may_access u (owner r)" and "k r w = (res, v)"
proof (cases "q (view w)")
  case None
  with assms that(1) show thesis by (simp add: bindM_def)
next
  case (Some r)
  with assms have "bindM (guard u r) (\<lambda>_. k r) w = (res, v)" by (simp add: bindM_def)
  then show thesis using that Some by (cases rule: guard_cases) blast+
qed

end

text \<open>A guard that also records every refused access to another tenant's row.\<close>

locale audited_guard = tenant_guard owner guard
  for owner :: "'r \<Rightarrow> uuid" and guard +
  fixes event :: string
  assumes guard_denies: "\<not> platform_admin u \<Longrightarrow> required_tenant_id u = Inr t \<Longrightarrow> t \<noteq> owner r \<Longrightarrow>
      \<exists>ex. guard u r w = (Inl (APIError 403 ACCESS_DENIED ''Access denied''),
        w\<lparr>logs := logs w @ [\<lparr>severity = WARNING, message = event, extra = ex\<rparr>]\<rparr>) \<and>
        map_of ex ''user_id'' = Some (LStr (cu_user_id u))"
begin

lemma foreign_row_denied:
  assumes "\<not> platform_admin u" and "required_tenant_id u = Inr t"
    and "q (view w) = Some r" and "t \<noteq> owner r"
  shows "\<exists>ex v. bindM (select q)
      (\<lambda>row. case row of None \<Rightarrow> throw e | Some r \<Rightarrow> bindM (guard u r) (\<lambda>_. k r)) w =
      (Inl (APIError 403 ACCESS_DENIED ''Access denied''), v) \<and>
      logs v = logs w @ [\<lparr>severity = WARNING, message = event, extra = ex\<rparr>] \<and> db v = db w \<and>
      map_of ex ''user_id'' = Some (LStr (cu_user_id u))"
  using guard_denies [OF assms(1,2,4), of w] assms(3) by (auto simp: bindM_def)

end

section \<open>Lemmas\<close>

lemma may_access_tenant: "\<not> platform_admin u \<Longrightarrow> may_access u t \<longleftrightarrow> required_tenant_id u = Inr t"
  by (simp add: may_access_def)

lemma required_tenant_id_Inr:
  "required_tenant_id u = Inr t \<longleftrightarrow> (\<exists>s. cu_tenant_id u = Some s \<and> uuid_of_str s = Some t)"
  by (auto simp: required_tenant_id_def split: option.splits)

lemma validate_body_Inr [simp]: "validate_body ok = Inr x \<longleftrightarrow> ok"
  by (simp add: validate_body_def)

lemma valid_body_skip: "ok \<Longrightarrow> bindM (liftE (validate_body ok)) k = k ()"
  by (simp add: validate_body_def bindM_def fun_eq_iff)

lemma set_order_desc [simp]: "set (order_desc f rs) = set rs"
  by (simp add: order_desc_def)

lemma sorted_order_desc: "sorted (map (\<lambda>r. - f r) (order_desc f rs))"
  by (simp add: order_desc_def)

lemma liftE_eq_Inr [simp]: "liftE r w = (Inr x, v) \<longleftrightarrow> r = Inr x \<and> v = w"
  by auto

lemma get_db_eq: "get_db m w = (r, v) \<longleftrightarrow> (\<exists>u. m (end_transaction w) = (r, u) \<and> v = end_transaction u)"
  by (auto simp: get_db_def split: prod.splits)

lemma respond_Inr [simp]: "respond ok x w = (Inr y, v) \<longleftrightarrow> ok \<and> y = x \<and> v = w"
  by (auto simp: respond_def)

lemma respond_eq: "respond ok x w = (if ok then Inr x else Inl (OtherError ''ResponseValidationError''), w)"
  by (simp add: respond_def)

lemma keeps_respond [keeps_intros]: "keeps f (respond ok x)"
  by (simp add: respond_def)

text \<open>The first thing a route does: authenticate.  It leaves everything but its own fields.\<close>

lemma keeps_authorize [keeps_intros]: "auth_blind f \<Longrightarrow> keeps f (authorize e allowed cred)"
  by (simp add: authorize_def keeps_require_roles)

lemma preserves_authorize [preserves_intros]: "preserves (db_inv J) (authorize e allowed cred)"
  by (rule keeps_preserves_db) (simp add: keeps_authorize)

definition same_session :: "world \<Rightarrow> world \<Rightarrow> bool" where
  "same_session v w \<longleftrightarrow> db v = db w \<and> pending v = pending w \<and> rls_tenant v = rls_tenant w \<and>
     rls_bypass v = rls_bypass w \<and> db_now v = db_now w \<and> logs v = logs w"

lemma same_sessionD [dest?]:
  "same_session v w \<Longrightarrow> db v = db w" "same_session v w \<Longrightarrow> pending v = pending w"
  "same_session v w \<Longrightarrow> rls_tenant v = rls_tenant w" "same_session v w \<Longrightarrow> rls_bypass v = rls_bypass w"
  "same_session v w \<Longrightarrow> db_now v = db_now w" "same_session v w \<Longrightarrow> logs v = logs w"
  by (simp_all add: same_session_def)

lemma same_session_view: "same_session v w \<Longrightarrow> view v = view w"
proof -
  assume s: "same_session v w"
  then have "row_visible v = row_visible w" by (simp add: same_session_def row_visible_def fun_eq_iff)
  with s show "view v = view w" by (simp add: same_session_def view_def split: sum.split)
qed

lemma authorize_Inr:
  assumes "authorize e allowed cred w = (Inr u, v)"
  shows "login e cred w = (Inr u, v) \<and> set allowed \<inter> set (cu_roles u) \<noteq> {} \<and> same_session v w"
proof -
  note a = assms [unfolded authorize_def]
  show ?thesis
    using require_roles_Inr [OF a] keepsD [OF keeps_require_roles a] auth_blind_db
    unfolding login_def same_session_def by metis
qed

lemma authorize_role:
  assumes "login e cred w = (Inr u, w1)" and "has_role r u" and "r \<in> set roles"
  shows "authorize e roles cred w = (Inr u, w1)"
  using assms by (auto simp: authorize_def login_def require_roles_def check_roles_def has_role_def bindM_def)

lemma login_same_session:
  assumes "login e cred w = (Inr u, v)"
  shows "same_session v w"
proof -
  have "keeps f (login e cred :: (world, current_user) prog)" if "auth_blind f" for f :: "world \<Rightarrow> 'p"
    unfolding login_def get_current_user_def verify_jwt_token_def decode_token_def
    by (intro keeps_intros keeps_prim keeps_auth_steps keeps_get_key that)
  from keepsD [OF this assms] auth_blind_db show ?thesis unfolding same_session_def by metis
qed

text \<open>A request that ends in this error, with the tables and the log as they were.\<close>

definition turned_away :: "py_exn \<Rightarrow> (world, 'a) prog \<Rightarrow> world \<Rightarrow> bool" where
  "turned_away x m w \<longleftrightarrow> (\<exists>v. m w = (Inl x, v) \<and> db v = db w \<and> logs v = logs w)"

lemma role_refused:
  assumes "login e cred (end_transaction w) = (Inr u, w1)" and "set roles \<inter> set (cu_roles u) = {}"
  shows "turned_away (APIError 403 ACCESS_DENIED ''Access denied'') (get_db (bindM (authorize e roles cred) k)) w"
  using assms same_sessionD [OF login_same_session [OF assms(1)]]
  by (simp add: turned_away_def authorize_def login_def require_roles_def check_roles_def bindM_def get_db_def)

lemma body_refused:
  assumes "authorize e roles cred (end_transaction w) = (Inr u, w1)" and "\<not> ok"
  shows "turned_away validation_error
    (get_db (bindM (authorize e roles cred) (\<lambda>u. bindM (liftE (validate_body ok)) (k u)))) w"
  using assms authorize_Inr [OF assms(1)]
  by (auto simp: turned_away_def validate_body_def bindM_def get_db_def dest: same_sessionD)

lemma route_Inr:
  assumes "bindM (authorize e allowed cred) k w = (Inr y, v)"
  obtains u w1 where "login e cred w = (Inr u, w1)" and "set allowed \<inter> set (cu_roles u) \<noteq> {}"
    and "k u w1 = (Inr y, v)" and "same_session w1 w"
  using assms by (auto simp: bindM_eq_Inr dest!: authorize_Inr)

lemma route_cases:
  assumes "bindM (authorize e allowed cred) k w = (res, v)"
  obtains "db v = db w"
  | u w1 where "login e cred w = (Inr u, w1)" and "set allowed \<inter> set (cu_roles u) \<noteq> {}"
    and "k u w1 = (res, v)" and "same_session w1 w"
proof (cases "authorize e allowed cred w")
  case (Pair a w1)
  show thesis
  proof (cases a)
    case (Inl x)
    with Pair assms have "v = w1" by simp
    with that(1) keepsD [OF keeps_authorize [OF auth_blind_db(1)] Pair] show thesis by simp
  next
    case (Inr u)
    with Pair assms that(2) authorize_Inr show thesis by force
  qed
qed

text \<open>A request with an invalid body ends before anything is stored.\<close>

lemma invalid_body:
  assumes "get_db (bindM (authorize e roles cred) (\<lambda>u. bindM (liftE (validate_body ok)) (k u))) w = (res, v)"
    and "\<not> ok"
  shows "db v = db w \<and> res \<notin> range Inr"
proof -
  have "keeps db (bindM (authorize e roles cred) (\<lambda>u. bindM (liftE (validate_body ok)) (k u)))"
  proof (rule keeps_bindM [OF keeps_authorize [OF auth_blind_db(1)]])
    fix u
    show "keeps db (bindM (liftE (validate_body ok)) (k u))"
      using assms(2) by (simp add: keeps_def validate_body_def bindM_def)
  qed
  from keepsD [OF keeps_get_db [OF this end_transaction_fields(1)] assms(1)] have "db v = db w" .
  moreover have "res \<noteq> Inr x" for x using assms by (auto simp: get_db_eq bindM_eq_Inr)
  ultimately show ?thesis by blast
qed

section \<open>A concrete instance\<close>

text \<open>
  Two tenants, a database that enforces the schema, and a request whose token stands for the user
  with given roles of a given tenant.
\<close>

definition demo_env :: "claims \<Rightarrow> string env" where
  "demo_env c = \<lparr>env_jwt = demo_lib c, env_net = demo_net, env_settings = demo_settings,
     env_verdict = schema_verdict\<rparr>"

definition demo_user :: "uuid \<Rightarrow> string list \<Rightarrow> claims" where
  "demo_user t roles = demo_claims ''u1'' (Some (uuid_str t)) roles"

definition demo_tenants :: "tenant_row list" where
  "demo_tenants =
     [\<lparr>t_id = 1, t_name = ''acme'', t_status = ''active'', t_created_at = 0\<rparr>,
      \<lparr>t_id = 2, t_name = ''beta'', t_status = ''active'', t_created_at = 0\<rparr>]"

definition demo_db :: database where
  "demo_db = empty_db\<lparr>tenants := demo_tenants\<rparr>"

definition demo_world :: "database \<Rightarrow> world" where
  "demo_world d =
     \<lparr>ctx = empty_context, logs = [], app_has_cache = False, cache = new_cache, fetches = 0, ticks = 0,
      db = d, pending = [], rls_tenant = None, rls_bypass = True, db_now = 7\<rparr>"

lemma demo_enforces: "enforces (env_verdict (demo_env c))"
  by (simp add: demo_env_def schema_verdict_enforces)

lemma demo_login_user:
  "\<exists>w1. login (demo_env c) (Some ''good'') (end_transaction (demo_world d)) = (Inr (user_of_claims c), w1)"
  by (simp add: login_def demo_env_def demo_login demo_world_def end_transaction_def)

lemma demo_user_tenant: "required_tenant_id (user_of_claims (demo_user t roles)) = Inr t"
  by (simp add: required_tenant_id_def user_of_claims_def demo_user_def demo_claims_def)

lemma demo_user_roles: "cu_roles (user_of_claims (demo_user t roles)) = roles"
  by (simp add: user_of_claims_def demo_user_def demo_claims_def roles_of_def)

lemma demo_login_inject:
  "login (demo_env c) (Some ''good'') (end_transaction (demo_world d)) = (Inr u, w1) \<Longrightarrow> u = user_of_claims c"
  using demo_login_user [of c d] by auto

end
