(* ===== verification/Ip_Address.thy ===== *)
theory Ip_Address
  imports Py_Str
begin

text \<open>
  The part of Python's \<open>ipaddress\<close> module (3.11, the version of the services' image) that the SSRF
  guard of the resource service calls: the parser behind \<open>ip_address\<close> and the five predicates
  \<open>is_loopback\<close>, \<open>is_link_local\<close>, \<open>is_private\<close>, \<open>is_reserved\<close> and \<open>is_unspecified\<close>.
\<close>

datatype ip = V4 int | V6 int

section \<open>Parsing\<close>

definition parse_octet :: "string \<Rightarrow> int option" where
  "parse_octet s =
     (if s = [] \<or> \<not> list_all (\<lambda>c. dec_val c \<noteq> None) s \<or> length s > 3 \<or> (s \<noteq> ''0'' \<and> hd s = CHR ''0'')
      then None
      else case all_digits dec_val 10 s of None \<Rightarrow> None | Some v \<Rightarrow> if v > 255 then None else Some v)"

fun parse_octets :: "string list \<Rightarrow> int \<Rightarrow> int option" where
  "parse_octets [] acc = Some acc"
| "parse_octets (w # ws) acc =
     (case parse_octet w of None \<Rightarrow> None | Some v \<Rightarrow> parse_octets ws (acc * 256 + v))"

definition parse_v4 :: "string \<Rightarrow> int option" where
  "parse_v4 s =
     (let ws = split_on CHR ''.'' s in
      if CHR ''/'' \<in> set s \<or> length ws \<noteq> 4 then None else parse_octets ws 0)"

definition parse_hextet :: "string \<Rightarrow> int option" where
  "parse_hextet s =
     (if s = [] \<or> \<not> list_all (\<lambda>c. hex_val c \<noteq> None) s \<or> length s > 4 then None
      else all_digits hex_val 16 s)"

fun parse_hextets :: "string list \<Rightarrow> int \<Rightarrow> int option" where
  "parse_hextets [] acc = Some acc"
| "parse_hextets (w # ws) acc =
     (case parse_hextet w of None \<Rightarrow> None | Some v \<Rightarrow> parse_hextets ws (acc * 65536 + v))"

text \<open>An IPv4 suffix is rewritten as two hextets.\<close>

definition expand_v4_suffix :: "string list \<Rightarrow> string list option" where
  "expand_v4_suffix parts =
     (if CHR ''.'' \<in> set (last parts)
      then map_option (\<lambda>v. butlast parts @ [hex_fixed 4 (v div 65536), hex_fixed 4 (v mod 65536)])
             (parse_v4 (last parts))
      else Some parts)"

definition assemble_v6 :: "string list \<Rightarrow> int option" where
  "assemble_v6 parts =
     (let n = length parts in
      if n > 9 then None
      else case filter (\<lambda>i. parts ! i = []) [1..<n - 1] of
        [] \<Rightarrow> (if n \<noteq> 8 \<or> hd parts = [] \<or> last parts = [] then None else parse_hextets parts 0)
      | [i] \<Rightarrow>
          (let hi = (if hd parts = [] then i - 1 else i);
               lo = (if last parts = [] then n - i - 2 else n - i - 1) in
           if (hd parts = [] \<and> hi \<noteq> 0) \<or> (last parts = [] \<and> lo \<noteq> 0) \<or> hi + lo > 7 then None
           else case parse_hextets (take hi parts) 0 of
             None \<Rightarrow> None
           | Some acc \<Rightarrow> parse_hextets (drop (n - lo) parts) (acc * 65536 ^ (8 - (hi + lo))))
      | _ \<Rightarrow> None)"

definition parse_v6_addr :: "string \<Rightarrow> int option" where
  "parse_v6_addr s =
     (let parts = split_on CHR '':'' s in
      if s = [] \<or> length parts < 3 then None
      else Option.bind (expand_v4_suffix parts) assemble_v6)"

text \<open>The scope identifier after \<open>%\<close> must not be empty nor hold another \<open>%\<close>.\<close>

definition parse_v6 :: "string \<Rightarrow> int option" where
  "parse_v6 s =
     (if CHR ''/'' \<in> set s then None
      else case split_on CHR ''%'' s of
        [a] \<Rightarrow> parse_v6_addr a
      | [a, scope] \<Rightarrow> if scope = [] then None else parse_v6_addr a
      | _ \<Rightarrow> None)"

definition ip_address :: "string \<Rightarrow> ip option" where
  "ip_address s =
     (case parse_v4 s of Some v \<Rightarrow> Some (V4 v) | None \<Rightarrow> map_option V6 (parse_v6 s))"

section \<open>Networks and predicates\<close>

text \<open>A network of width \<open>w\<close> is its address and prefix length.\<close>

definition in_net :: "nat \<Rightarrow> int \<Rightarrow> int \<times> nat \<Rightarrow> bool" where
  "in_net w a net = (a div 2 ^ (w - snd net) = fst net div 2 ^ (w - snd net))"

definition v4 :: "int \<Rightarrow> int \<Rightarrow> int \<Rightarrow> int \<Rightarrow> int" where
  "v4 a b c d = ((a * 256 + b) * 256 + c) * 256 + d"

definition private_v4 :: "(int \<times> nat) list" where
  "private_v4 =
     [(v4 0 0 0 0, 8), (v4 10 0 0 0, 8), (v4 127 0 0 0, 8), (v4 169 254 0 0, 16),
      (v4 172 16 0 0, 12), (v4 192 0 0 0, 24), (v4 192 0 0 170, 31), (v4 192 0 2 0, 24),
      (v4 192 168 0 0, 16), (v4 198 18 0 0, 15), (v4 198 51 100 0, 24), (v4 203 0 113 0, 24),
      (v4 240 0 0 0, 4), (v4 255 255 255 255, 32)]"

definition private_v4_exceptions :: "(int \<times> nat) list" where
  "private_v4_exceptions = [(v4 192 0 0 9, 32), (v4 192 0 0 10, 32)]"

text \<open>The top 32 bits of an IPv6 network, and the second 32, for the tables below.\<close>

definition v6 :: "int \<Rightarrow> int \<Rightarrow> int" where
  "v6 hi32 lo32 = (hi32 * 2 ^ 32 + lo32) * 2 ^ 64"

definition private_v6 :: "(int \<times> nat) list" where
  "private_v6 =
     [(1, 128), (0, 128), (0xFFFF * 2 ^ 32, 96), (v6 0x0064FF9B 0x00010000, 48), (v6 0x01000000 0, 64),
      (v6 0x20010000 0, 23), (v6 0x20010DB8 0, 32), (v6 0x20020000 0, 16), (v6 0xFC000000 0, 7),
      (v6 0xFE800000 0, 10)]"

definition private_v6_exceptions :: "(int \<times> nat) list" where
  "private_v6_exceptions =
     [(v6 0x20010001 0 + 1, 128), (v6 0x20010001 0 + 2, 128), (v6 0x20010003 0, 32),
      (v6 0x20010004 0x01120000, 48), (v6 0x20010020 0, 28), (v6 0x20010030 0, 28)]"

definition reserved_v6 :: "(int \<times> nat) list" where
  "reserved_v6 =
     [(0, 8), (v6 0x01000000 0, 8), (v6 0x02000000 0, 7), (v6 0x04000000 0, 6), (v6 0x08000000 0, 5),
      (v6 0x10000000 0, 4), (v6 0x40000000 0, 3), (v6 0x60000000 0, 3), (v6 0x80000000 0, 3),
      (v6 0xA0000000 0, 3), (v6 0xC0000000 0, 3), (v6 0xE0000000 0, 4), (v6 0xF0000000 0, 5),
      (v6 0xF8000000 0, 6), (v6 0xFE000000 0, 9)]"

definition ipv4_mapped :: "int \<Rightarrow> int option" where
  "ipv4_mapped a = (if a div 2 ^ 32 = 0xFFFF then Some (a mod 2 ^ 32) else None)"

definition is_private_v4 :: "int \<Rightarrow> bool" where
  "is_private_v4 a \<longleftrightarrow>
     list_ex (in_net 32 a) private_v4 \<and> \<not> list_ex (in_net 32 a) private_v4_exceptions"

fun is_private :: "ip \<Rightarrow> bool" where
  "is_private (V4 a) = is_private_v4 a"
| "is_private (V6 a) =
     (case ipv4_mapped a of
        Some b \<Rightarrow> is_private_v4 b
      | None \<Rightarrow> list_ex (in_net 128 a) private_v6 \<and> \<not> list_ex (in_net 128 a) private_v6_exceptions)"

fun is_loopback :: "ip \<Rightarrow> bool" where
  "is_loopback (V4 a) = in_net 32 a (v4 127 0 0 0, 8)"
| "is_loopback (V6 a) = (a = 1)"

fun is_link_local :: "ip \<Rightarrow> bool" where
  "is_link_local (V4 a) = in_net 32 a (v4 169 254 0 0, 16)"
| "is_link_local (V6 a) = in_net 128 a (v6 0xFE800000 0, 10)"

fun is_reserved :: "ip \<Rightarrow> bool" where
  "is_reserved (V4 a) = in_net 32 a (v4 240 0 0 0, 4)"
| "is_reserved (V6 a) = list_ex (in_net 128 a) reserved_v6"

fun is_unspecified :: "ip \<Rightarrow> bool" where
  "is_unspecified (V4 a) = (a = 0)"
| "is_unspecified (V6 a) = (a = 0)"

section \<open>Dotted quads\<close>

definition quad_str :: "int \<Rightarrow> int \<Rightarrow> int \<Rightarrow> int \<Rightarrow> string" where
  "quad_str a b c d = dec a @ ''.'' @ dec b @ ''.'' @ dec c @ ''.'' @ dec d"

lemma length_dec: "0 \<le> n \<Longrightarrow> n < 1000 \<Longrightarrow> length (dec n) \<le> 3"
  by (simp add: dec.simps [of n] dec.simps [of "n div 10"] dec.simps [of "n div 10 div 10"])

lemma hd_dec: "0 < n \<Longrightarrow> hd (dec n) \<noteq> CHR ''0''"
proof (induction n rule: dec.induct)
  case (1 n)
  show ?case
  proof (cases "n < 10")
    case True
    have "code (dec_digit n) \<noteq> code CHR ''0''"
      using True 1(2) by (simp add: code_dec_digit) (simp add: code_def)
    then show ?thesis using True by (auto simp: dec.simps [of n])
  next
    case False
    with 1 show ?thesis by (simp add: dec.simps [of n] hd_append)
  qed
qed

lemma dec_digits_only: "0 \<le> n \<Longrightarrow> list_all (\<lambda>c. dec_val c \<noteq> None) (dec n)"
  by (auto simp: list_all_iff dec_val_def dest: set_dec_code)

lemma dec_zero: "dec 0 = ''0''"
  by code_simp

lemma parse_octet_dec:
  assumes "0 \<le> n" and "n < 256"
  shows "parse_octet (dec n) = Some n"
proof -
  have "dec n = ''0'' \<or> hd (dec n) \<noteq> CHR ''0''"
  proof (cases "n = 0")
    case True
    then show ?thesis by (simp add: dec_zero)
  next
    case False
    with assms show ?thesis using hd_dec [of n] by simp
  qed
  moreover have "\<not> length (dec n) > 3" using length_dec [of n] assms by simp
  ultimately show ?thesis
    using assms dec_digits_only [of n] by (auto simp: parse_octet_def all_digits_dec)
qed

lemma dec_no_char: "0 \<le> n \<Longrightarrow> code x < 48 \<or> 57 < code x \<Longrightarrow> x \<notin> set (dec n)"
  using set_dec_code by fastforce

lemma code_punct [simp]:
  "code CHR ''/'' = 47" "code CHR '':'' = 58" "code CHR ''%'' = 37" "code CHR ''['' = 91" "code CHR '']'' = 93"
  by (simp_all add: code_def)

lemma parse_v4_quad:
  assumes "0 \<le> a" "a < 256" "0 \<le> b" "b < 256" "0 \<le> c" "c < 256" "0 \<le> d" "d < 256"
  shows "parse_v4 (quad_str a b c d) = Some (v4 a b c d)"
proof -
  have "split_on CHR ''.'' (quad_str a b c d) = [dec a, dec b, dec c, dec d]"
    using assms by (simp add: quad_str_def split_on_append split_on_none dec_no_char)
  moreover have "CHR ''/'' \<notin> set (quad_str a b c d)"
    using assms by (simp add: quad_str_def dec_no_char)
  ultimately show ?thesis
    using assms by (simp add: parse_v4_def parse_octet_dec v4_def)
qed

section \<open>Which dotted quads are private\<close>

definition octet :: "int \<Rightarrow> bool" where
  "octet n \<longleftrightarrow> 0 \<le> n \<and> n < 256"

lemma byte_div: "octet d \<Longrightarrow> (x * 256 + d) div 256 = x"
  by (simp add: octet_def)

lemma byte_mod: "octet d \<Longrightarrow> (x * 256 + d) mod 256 = d"
  by (simp add: octet_def)

lemma pair_eq:
  assumes "0 \<le> d" "d < n" "0 \<le> e" "e < (n :: int)"
  shows "x * n + d = y * n + e \<longleftrightarrow> x = y \<and> d = e"
proof -
  have "(x * n + d) div n = x" "(y * n + e) div n = y" using assms by simp_all
  then show ?thesis by (metis add_left_cancel)
qed

lemma pair_256: "octet d \<Longrightarrow> octet e \<Longrightarrow> x * 256 + d = y * 256 + e \<longleftrightarrow> x = y \<and> d = e"
  by (simp add: octet_def pair_eq)

lemma v4_inject:
  assumes "octet b" "octet c" "octet d" "octet b'" "octet c'" "octet d'"
  shows "v4 a b c d = v4 a' b' c' d' \<longleftrightarrow> a = a' \<and> b = b' \<and> c = c' \<and> d = d'"
  by (simp only: v4_def pair_256 assms conj_assoc)

lemma v4_div:
  assumes "octet b" "octet c" "octet d"
  shows "v4 a b c d div 256 = (a * 256 + b) * 256 + c" "v4 a b c d div 65536 = a * 256 + b"
    "v4 a b c d div 131072 = a * 128 + b div 2" "v4 a b c d div 1048576 = a * 16 + b div 16"
    "v4 a b c d div 16777216 = a" "v4 a b c d div 268435456 = a div 16"
    "v4 a b c d div 2 = ((a * 256 + b) * 256 + c) * 128 + d div 2"
proof -
  note bd = assms [THEN byte_div]
  show d8: "v4 a b c d div 256 = (a * 256 + b) * 256 + c" by (simp only: v4_def bd)
  have "v4 a b c d div 65536 = v4 a b c d div 256 div 256" by (simp add: zdiv_zmult2_eq [symmetric])
  then show d16: "v4 a b c d div 65536 = a * 256 + b" by (simp only: d8 bd)
  have "v4 a b c d div 16777216 = v4 a b c d div 65536 div 256" by (simp add: zdiv_zmult2_eq [symmetric])
  then show d24: "v4 a b c d div 16777216 = a" by (simp only: d16 bd)
  have "v4 a b c d div 131072 = v4 a b c d div 65536 div 2" by (simp add: zdiv_zmult2_eq [symmetric])
  then show "v4 a b c d div 131072 = a * 128 + b div 2" unfolding d16 by simp
  have "v4 a b c d div 1048576 = v4 a b c d div 65536 div 16" by (simp add: zdiv_zmult2_eq [symmetric])
  then show "v4 a b c d div 1048576 = a * 16 + b div 16" unfolding d16 by simp
  have "v4 a b c d div 268435456 = v4 a b c d div 16777216 div 16" by (simp add: zdiv_zmult2_eq [symmetric])
  then show "v4 a b c d div 268435456 = a div 16" unfolding d24 .
  show "v4 a b c d div 2 = ((a * 256 + b) * 256 + c) * 128 + d div 2" unfolding v4_def by simp
qed

text \<open>Membership of a dotted quad in a network, by prefix length.\<close>

lemma in_net_quad:
  assumes "octet a" "octet b" "octet c" "octet d" "octet p" "octet q" "octet r" "octet s"
  shows "in_net 32 (v4 a b c d) (v4 p q r s, 4) \<longleftrightarrow> a div 16 = p div 16"
    "in_net 32 (v4 a b c d) (v4 p q r s, 8) \<longleftrightarrow> a = p"
    "in_net 32 (v4 a b c d) (v4 p q r s, 12) \<longleftrightarrow> a = p \<and> b div 16 = q div 16"
    "in_net 32 (v4 a b c d) (v4 p q r s, 15) \<longleftrightarrow> a = p \<and> b div 2 = q div 2"
    "in_net 32 (v4 a b c d) (v4 p q r s, 16) \<longleftrightarrow> a = p \<and> b = q"
    "in_net 32 (v4 a b c d) (v4 p q r s, 24) \<longleftrightarrow> a = p \<and> b = q \<and> c = r"
    "in_net 32 (v4 a b c d) (v4 p q r s, 31) \<Longrightarrow> a = p \<and> b = q \<and> c = r"
    "in_net 32 (v4 a b c d) (v4 p q r s, 32) \<longleftrightarrow> a = p \<and> b = q \<and> c = r \<and> d = s"
proof -
  note divs = v4_div [OF assms(2-4)] v4_div [OF assms(6-8)]
  note split = pair_256 [OF assms(2,6)] pair_256 [OF assms(3,7)]
  have "a * 16 + b div 16 = p * 16 + q div 16 \<longleftrightarrow> a = p \<and> b div 16 = q div 16"
    using assms(2,6) unfolding octet_def by (intro pair_eq) auto
  then show "in_net 32 (v4 a b c d) (v4 p q r s, 12) \<longleftrightarrow> a = p \<and> b div 16 = q div 16"
    by (simp add: in_net_def divs)
  have "a * 128 + b div 2 = p * 128 + q div 2 \<longleftrightarrow> a = p \<and> b div 2 = q div 2"
    using assms(2,6) unfolding octet_def by (intro pair_eq) auto
  then show "in_net 32 (v4 a b c d) (v4 p q r s, 15) \<longleftrightarrow> a = p \<and> b div 2 = q div 2"
    by (simp add: in_net_def divs)
  show "in_net 32 (v4 a b c d) (v4 p q r s, 31) \<Longrightarrow> a = p \<and> b = q \<and> c = r"
  proof -
    assume "in_net 32 (v4 a b c d) (v4 p q r s, 31)"
    then have "v4 a b c d div 2 div 128 = v4 p q r s div 2 div 128" by (simp add: in_net_def)
    then have "v4 a b c d div 256 = v4 p q r s div 256" by (simp add: zdiv_zmult2_eq [symmetric])
    then show ?thesis unfolding divs split by simp
  qed
  have "(a * 256 + b) * 256 + c = (p * 256 + q) * 256 + r \<longleftrightarrow> a = p \<and> b = q \<and> c = r"
    by (simp only: pair_256 assms conj_assoc)
  moreover have "2 ^ (32 - 24) = (256 :: int)" by simp
  ultimately show "in_net 32 (v4 a b c d) (v4 p q r s, 24) \<longleftrightarrow> a = p \<and> b = q \<and> c = r"
    by (simp only: in_net_def fst_conv snd_conv divs)
qed (simp_all add: in_net_def v4_div assms v4_inject pair_256)

lemma octet_num [simp]: "octet 0" "octet (numeral k) \<longleftrightarrow> numeral k < (256 :: int)"
  by (simp_all add: octet_def)

lemma private_quad:
  assumes "octet a" "octet b" "octet c" "octet d"
  shows "is_private_v4 (v4 a b c d) \<longleftrightarrow>
    a = 0 \<or> a = 10 \<or> a = 127 \<or> a = 169 \<and> b = 254 \<or> a = 172 \<and> 16 \<le> b \<and> b \<le> 31 \<or>
    a = 192 \<and> b = 168 \<or> a = 192 \<and> b = 0 \<and> (c = 0 \<and> d \<noteq> 9 \<and> d \<noteq> 10 \<or> c = 2) \<or>
    a = 198 \<and> (b = 18 \<or> b = 19 \<or> b = 51 \<and> c = 100) \<or> a = 203 \<and> b = 0 \<and> c = 113 \<or> 240 \<le> a"
    (is "_ \<longleftrightarrow> ?R")
proof -
  have nets: "list_ex (in_net 32 (v4 a b c d)) private_v4 \<longleftrightarrow>
    a = 0 \<or> a = 10 \<or> a = 127 \<or> a = 169 \<and> b = 254 \<or> a = 172 \<and> b div 16 = 1 \<or>
    a = 192 \<and> b = 0 \<and> c = 0 \<or> a = 192 \<and> b = 0 \<and> c = 2 \<or> a = 192 \<and> b = 168 \<or>
    a = 198 \<and> b div 2 = 9 \<or> a = 198 \<and> b = 51 \<and> c = 100 \<or> a = 203 \<and> b = 0 \<and> c = 113 \<or> a div 16 = 15"
  proof -
    have "in_net 32 (v4 a b c d) (v4 192 0 0 170, 31) \<Longrightarrow> a = 192 \<and> b = 0 \<and> c = 0"
      by (rule in_net_quad(7)) (simp_all add: assms)
    moreover have "in_net 32 (v4 a b c d) (v4 255 255 255 255, 32) \<Longrightarrow> a div 16 = 15"
      by (simp add: in_net_quad assms)
    ultimately show ?thesis
      by (simp add: private_v4_def in_net_quad(1-6) assms) argo
  qed
  have exc: "list_ex (in_net 32 (v4 a b c d)) private_v4_exceptions \<longleftrightarrow>
      a = 192 \<and> b = 0 \<and> c = 0 \<and> (d = 9 \<or> d = 10)"
    by (auto simp: private_v4_exceptions_def in_net_quad assms)
  have "b div 16 = 1 \<longleftrightarrow> 16 \<le> b \<and> b \<le> 31" "b div 2 = 9 \<longleftrightarrow> b = 18 \<or> b = 19" by presburger+
  moreover have "a div 16 = 15 \<longleftrightarrow> 240 \<le> a" using assms(1) unfolding octet_def by presburger
  ultimately show ?thesis unfolding is_private_v4_def nets exc by auto
qed

lemma ip_address_quad:
  assumes "octet a" "octet b" "octet c" "octet d"
  shows "ip_address (quad_str a b c d) = Some (V4 (v4 a b c d))"
  using parse_v4_quad assms by (simp add: ip_address_def octet_def)

lemma quad_str_chars:
  assumes "octet a" "octet b" "octet c" "octet d" and "x \<in> set (quad_str a b c d)"
  shows "x = CHR ''.'' \<or> 48 \<le> code x \<and> code x \<le> 57"
  using assms set_dec_code by (fastforce simp: quad_str_def octet_def)

lemma last_quad_str: "octet d \<Longrightarrow> 48 \<le> code (last (quad_str a b c d))"
  using set_dec_code [of d "last (dec d)"] by (simp add: quad_str_def octet_def)

end
