(* ===== verification/Public_Url.thy ===== *)
theory Public_Url
  imports Ip_Address Prelude
begin

text \<open>
  The URL check of services/resource-service/app/models/schemas.py: which hosts it calls internal.

  A URL that Pydantic accepted as \<open>HttpUrl\<close> is of a type of its own; \<open>url_lib\<close> gives its host and
  its text.
\<close>

section \<open>The check\<close>

record 'u url_lib =
  host :: "'u \<Rightarrow> string option"
  url_text :: "'u \<Rightarrow> string"

definition BLOCKED_INTERNAL_HOSTS :: "string list" where
  "BLOCKED_INTERNAL_HOSTS =
     [''localhost'', ''metadata.google.internal'', ''metadata'', ''vault'', ''opa'', ''postgres'',
      ''redis'', ''keycloak'']"

definition normalized :: "string \<Rightarrow> string" where
  "normalized h = strip ''[]'' (py_lower (rstrip ''.'' h))"

definition is_internal_ip :: "ip \<Rightarrow> bool" where
  "is_internal_ip i \<longleftrightarrow>
     is_loopback i \<or> is_link_local i \<or> is_private i \<or> is_reserved i \<or> is_unspecified i"

definition is_internal_host :: "string \<Rightarrow> bool" where
  "is_internal_host h =
     (let n = normalized h in
      if n \<in> set BLOCKED_INTERNAL_HOSTS \<or> endswith ''.local'' n then True
      else (case ip_address n of None \<Rightarrow> False | Some i \<Rightarrow> is_internal_ip i))"

definition validate_public_http_url :: "'u url_lib \<Rightarrow> 'u option \<Rightarrow> 'u option result" where
  "validate_public_http_url ul value =
     (case value of
        None \<Rightarrow> Inr None
      | Some u \<Rightarrow>
          (case host ul u of
             None \<Rightarrow> Inl ValueError
           | Some h \<Rightarrow> if is_internal_host h then Inl ValueError else Inr (Some u)))"

definition url_accepted :: "'u url_lib \<Rightarrow> 'u option \<Rightarrow> bool" where
  "url_accepted ul v \<longleftrightarrow> validate_public_http_url ul v = Inr v"

section \<open>Lemmas\<close>

lemma lower_char_id: "\<not> is_upper c \<Longrightarrow> lower_char c = c"
  by (simp add: lower_char_def)

lemma py_lower_digits: "list_all (\<lambda>c. code c \<le> 64) s \<Longrightarrow> py_lower s = s"
  by (induction s) (auto simp: py_lower_def lower_char_def is_upper_def)

lemma normalized_dots: "normalized (h @ replicate n CHR ''.'') = normalized h"
proof -
  have "rstrip ''.'' (h @ replicate n CHR ''.'') = rstrip ''.'' h" by (rule rstrip_append_in) auto
  then show ?thesis by (simp add: normalized_def)
qed

lemma is_internal_host_dots: "is_internal_host (h @ replicate n CHR ''.'') = is_internal_host h"
  by (simp add: is_internal_host_def normalized_dots)

lemma named_last: "s \<in> set BLOCKED_INTERNAL_HOSTS \<Longrightarrow> s \<noteq> [] \<and> 57 < code (last s)"
proof -
  have "list_all (\<lambda>s. s \<noteq> [] \<and> 57 < code (last s)) BLOCKED_INTERNAL_HOSTS" by code_simp
  then show "s \<in> set BLOCKED_INTERNAL_HOSTS \<Longrightarrow> s \<noteq> [] \<and> 57 < code (last s)" by (simp add: list_all_iff)
qed

lemma last_map_lower: "s \<noteq> [] \<Longrightarrow> last (py_lower s) = lower_char (last s)"
  by (simp add: py_lower_def last_map)

lemma named_host_internal:
  assumes "py_lower h \<in> set BLOCKED_INTERNAL_HOSTS \<or> endswith ''.local'' (py_lower h)"
  shows "is_internal_host h"
proof -
  have last: "57 < code (last (py_lower h))" and ne: "h \<noteq> []"
    using assms named_last by (auto simp: endswith_iff py_lower_def code_def)
  have dot: "lower_char CHR ''.'' = CHR ''.''" by code_simp
  have "last h \<noteq> CHR ''.''"
    using last dot by (auto simp: last_map_lower [OF ne] code_def)
  then have r: "rstrip ''.'' h = h" by (intro rstrip_id) simp
  show ?thesis
  proof (cases "py_lower h \<in> set BLOCKED_INTERNAL_HOSTS")
    case True
    moreover have "list_all (\<lambda>s. strip ''[]'' s = s) BLOCKED_INTERNAL_HOSTS" by code_simp
    ultimately have "normalized h = py_lower h" by (simp add: normalized_def r list_all_iff)
    with True show ?thesis by (simp add: is_internal_host_def)
  next
    case False
    with assms obtain t where t: "py_lower h = t @ ''.local''" by (auto simp: endswith_iff)
    have "strip ''[]'' (t @ ''.local'') = lstrip ''[]'' t @ ''.local''"
    proof -
      have "lstrip ''[]'' (t @ ''.local'') = lstrip ''[]'' t @ ''.local''"
        by (induction t) (simp_all add: lstrip_def)
      moreover have "rstrip ''[]'' (s @ ''.local'') = s @ ''.local''" for s by (rule rstrip_id) simp
      ultimately show ?thesis by (simp add: strip_def)
    qed
    with t have "endswith ''.local'' (normalized h)" by (auto simp: normalized_def r endswith_iff)
    then show ?thesis by (simp add: is_internal_host_def)
  qed
qed

lemma normalized_quad:
  assumes "octet a" "octet b" "octet c" "octet d"
  shows "normalized (quad_str a b c d) = quad_str a b c d"
proof -
  note chars = quad_str_chars [OF assms]
  have dot: "code CHR ''.'' = 46" by (simp add: code_def)
  have "rstrip ''.'' (quad_str a b c d) = quad_str a b c d"
    using last_quad_str [OF assms(4), of a b c] dot by (intro rstrip_id) auto
  moreover have "py_lower (quad_str a b c d) = quad_str a b c d"
    using chars dot by (intro py_lower_digits) (force simp: list_all_iff)
  moreover have "strip ''[]'' (quad_str a b c d) = quad_str a b c d"
    using chars by (intro strip_id) fastforce
  ultimately show ?thesis by (simp add: normalized_def)
qed

lemma quad_not_named:
  assumes "octet d"
  shows "quad_str a b c d \<notin> set BLOCKED_INTERNAL_HOSTS" and "\<not> endswith ''.local'' (quad_str a b c d)"
proof -
  have q: "code (last (quad_str a b c d)) \<le> 57"
    using set_dec_code [of d "last (dec d)"] assms by (simp add: quad_str_def octet_def)
  with named_last show "quad_str a b c d \<notin> set BLOCKED_INTERNAL_HOSTS" by fastforce
  have "57 < code (last (t @ ''.local''))" for t by (simp add: code_def)
  with q show "\<not> endswith ''.local'' (quad_str a b c d)" by (auto simp: endswith_iff)
qed

lemma is_internal_quad:
  assumes "octet a" "octet b" "octet c" "octet d"
  shows "is_internal_host (quad_str a b c d) \<longleftrightarrow> is_private_v4 (v4 a b c d)"
proof -
  have "in_net 32 (v4 a b c d) (v4 127 0 0 0, 8) \<Longrightarrow> is_private_v4 (v4 a b c d)"
    by (simp add: private_quad in_net_quad assms)
  moreover have "in_net 32 (v4 a b c d) (v4 169 254 0 0, 16) \<Longrightarrow> is_private_v4 (v4 a b c d)"
    by (simp add: private_quad in_net_quad assms)
  moreover have "is_private_v4 (v4 a b c d)" if "in_net 32 (v4 a b c d) (v4 240 0 0 0, 4)"
  proof -
    from that have "a div 16 = 15" by (simp add: in_net_quad assms)
    then have "240 \<le> a" by presburger
    then show ?thesis by (simp add: private_quad assms)
  qed
  moreover have "is_private_v4 (v4 a b c d)" if "v4 a b c d = 0"
  proof -
    from that v4_inject [of b c d 0 0 0 a 0] have "a = 0" by (simp add: assms) (simp add: v4_def)
    then show ?thesis by (simp add: private_quad assms)
  qed
  ultimately have "is_internal_ip (V4 (v4 a b c d)) \<longleftrightarrow> is_private_v4 (v4 a b c d)"
    unfolding is_internal_ip_def is_loopback.simps is_link_local.simps is_private.simps
      is_reserved.simps is_unspecified.simps by blast
  with assms show ?thesis
    by (simp add: is_internal_host_def Let_def normalized_quad quad_not_named ip_address_quad)
qed

section \<open>Properties\<close>

text \<open>
  C39.  The URL check knows the internal hosts it was written for, however they are spelled: in any
  letter case and with any number of trailing dots, the listed names and all names under \<open>.local\<close>
  are internal, and a dotted quad is internal exactly when it is in one of the private, loopback,
  link-local, documentation or reserved networks.
\<close>

theorem internal_hosts_recognised:
  shows "(py_lower h \<in> set BLOCKED_INTERNAL_HOSTS \<or> endswith ''.local'' (py_lower h) \<longrightarrow>
      is_internal_host (h @ replicate n CHR ''.'')) \<and>
    (octet a \<and> octet b \<and> octet c \<and> octet d \<longrightarrow>
      is_internal_host (quad_str a b c d @ replicate n CHR ''.'') =
        (a = 0 \<or> a = 10 \<or> a = 127 \<or> a = 169 \<and> b = 254 \<or> a = 172 \<and> 16 \<le> b \<and> b \<le> 31 \<or>
         a = 192 \<and> b = 168 \<or> a = 192 \<and> b = 0 \<and> (c = 0 \<and> d \<noteq> 9 \<and> d \<noteq> 10 \<or> c = 2) \<or>
         a = 198 \<and> (b = 18 \<or> b = 19 \<or> b = 51 \<and> c = 100) \<or> a = 203 \<and> b = 0 \<and> c = 113 \<or> 240 \<le> a))"
  by (auto simp: is_internal_host_dots is_internal_quad private_quad named_host_internal)

theorem internal_hosts_recognised_witness:
  "is_internal_host ''Metadata.Google.INTERNAL.'' \<and> is_internal_host (quad_str 169 254 169 254 @ ''.'') \<and>
    \<not> is_internal_host (quad_str 100 64 0 1)"
proof -
  have "py_lower ''Metadata.Google.INTERNAL'' \<in> set BLOCKED_INTERNAL_HOSTS" by code_simp
  moreover have "octet 169" "octet 254" "octet 100" "octet 64" "octet 0" "octet 1" by (simp_all add: octet_def)
  ultimately show ?thesis
    using internal_hosts_recognised [of "''Metadata.Google.INTERNAL''" 1 169 254 169 254]
      internal_hosts_recognised [of "[]" 0 100 64 0 1] by simp
qed

text \<open>
  The list of internal hosts does not cover the system's own network: the containers of the
  other services, of the gateway and of the observability stack, which docker-compose.yml puts on
  the same internal networks, pass the check under their host names, and so does carrier-grade NAT.
\<close>

theorem unlisted_internal_hosts_accepted:
  "\<not> list_ex is_internal_host
     [''user-service'', ''resource-service'', ''admin-service'', ''payment-service'', ''kong'',
      ''loki'', ''grafana'', ''promtail'', ''100.64.0.1'']"
  by code_simp

end
