(* ===== verification/Resource_Service.thy ===== *)
theory Resource_Service
  imports Tenant_Guard Public_Url
begin

text \<open>
  services/resource-service: the request bodies (models/schemas.py), the persistence operations
  (services/resource_service.py), the routes with their ownership check (api/v1/routes.py), and what a
  response must look like.  The properties of the API are in \<open>Resource_Properties\<close>.
\<close>

section \<open>Request bodies\<close>

record 'u resource_create =
  rc_name :: string
  rc_data :: json
  rc_url :: "'u option"

text \<open>A field that the body does not have is \<open>None\<close>; one that it sets to \<open>null\<close> is \<open>Some None\<close>.\<close>

record 'u resource_update =
  ru_name :: "string option option"
  ru_data :: "json option option"
  ru_url :: "'u option option"

definition name_ok :: "string \<Rightarrow> bool" where
  "name_ok s \<longleftrightarrow> 1 \<le> py_len s \<and> py_len s \<le> 200"

definition resource_create_ok :: "'u url_lib \<Rightarrow> 'u resource_create \<Rightarrow> bool" where
  "resource_create_ok ul d \<longleftrightarrow> name_ok (rc_name d) \<and> is_dict (rc_data d) \<and> url_accepted ul (rc_url d)"

definition resource_update_ok :: "'u url_lib \<Rightarrow> 'u resource_update \<Rightarrow> bool" where
  "resource_update_ok ul d \<longleftrightarrow> given name_ok (ru_name d) \<and> given is_dict (ru_data d) \<and>
     given (\<lambda>u. url_accepted ul (Some u)) (ru_url d)"

text \<open>\<open>ResourceResponse\<close> declares \<open>data: dict\<close>; the columns make its other fields fit.\<close>

definition resource_response_ok :: "resource_row \<Rightarrow> bool" where
  "resource_response_ok r \<longleftrightarrow> is_dict (r_data r)"

section \<open>ResourceService\<close>

definition list_resources :: "uuid option \<Rightarrow> bool \<Rightarrow> (world, resource_row list) prog" where
  "list_resources tenant_id include_all =
     bindM (case tenant_id of None \<Rightarrow> ret () | Some t \<Rightarrow> set_tenant_context (uuid_str t)) (\<lambda>_.
     select (\<lambda>d. order_desc r_created_at
       (case tenant_id of
          None \<Rightarrow> resources d
        | Some t \<Rightarrow> if include_all then resources d else filter (\<lambda>r. r_tenant_id r = t) (resources d))))"

definition get_resource :: "uuid \<Rightarrow> (world, resource_row option) prog" where
  "get_resource k = select (\<lambda>d. find (\<lambda>r. r_id r = k) (resources d))"

definition resource_row_of ::
    "'u url_lib \<Rightarrow> uuid \<Rightarrow> 'u resource_create \<Rightarrow> uuid \<Rightarrow> string \<Rightarrow> resource_row" where
  "resource_row_of ul new_id d tenant_id owner_user_id =
     \<lparr>r_id = new_id, r_tenant_id = tenant_id, r_owner_user_id = owner_user_id, r_name = rc_name d,
      r_data = rc_data d, r_url = map_option (url_text ul) (rc_url d), r_created_at = 0\<rparr>"

definition create_resource ::
    "verdict \<Rightarrow> 'u url_lib \<Rightarrow> uuid \<Rightarrow> 'u resource_create \<Rightarrow> uuid \<Rightarrow> string \<Rightarrow> (world, resource_row) prog" where
  "create_resource chk ul new_id d tenant_id owner_user_id =
     bindM (set_tenant_context (uuid_str tenant_id)) (\<lambda>_.
     bindM (add (InsertResource (resource_row_of ul new_id d tenant_id owner_user_id))) (\<lambda>_.
     bindM (commit_or_conflict chk ''Resource already exists in this tenant'') (\<lambda>_.
     reread (\<lambda>db. find (\<lambda>r. r_id r = new_id) (resources db)))))"

text \<open>\<open>model_dump(exclude_unset=True)\<close>: the fields the body sets, in the order of the class.\<close>

definition resource_updates :: "'u url_lib \<Rightarrow> 'u resource_update \<Rightarrow> resource_field list" where
  "resource_updates ul d =
     (case ru_name d of None \<Rightarrow> [] | Some v \<Rightarrow> [ResourceName v]) @
     (case ru_data d of None \<Rightarrow> [] | Some v \<Rightarrow> [ResourceData v]) @
     (case ru_url d of None \<Rightarrow> [] | Some v \<Rightarrow> [ResourceUrl (map_option (url_text ul) v)])"

text \<open>Without an assignment the session has nothing to send.\<close>

definition update_resource ::
    "verdict \<Rightarrow> 'u url_lib \<Rightarrow> resource_row \<Rightarrow> 'u resource_update \<Rightarrow> (world, resource_row) prog" where
  "update_resource chk ul r d =
     (let fs = resource_updates ul d in
      bindM (if fs = [] then ret () else add (UpdateResource (r_id r) fs)) (\<lambda>_.
      bindM (commit_or_conflict chk ''Resource update conflicts with existing data'') (\<lambda>_.
      reread (\<lambda>db. find (\<lambda>s. r_id s = r_id r) (resources db)))))"

definition delete_resource :: "verdict \<Rightarrow> resource_row \<Rightarrow> (world, unit) prog" where
  "delete_resource chk r = bindM (add (DeleteResource (r_id r))) (\<lambda>_. commit chk)"

section \<open>Routes\<close>

definition authorize_resource_access :: "current_user \<Rightarrow> resource_row \<Rightarrow> (world, unit) prog" where
  "authorize_resource_access u r =
     (if platform_admin u then ret ()
      else bindM (liftE (required_tenant_id u)) (\<lambda>user_tenant_id.
           if r_tenant_id r = user_tenant_id then ret ()
           else bindM (log WARNING ''security.bola_attempt''
                  [(''event'', LStr ''security.bola_attempt''),
                   (''user_id'', LStr (cu_user_id u)),
                   (''attacker_tenant_id'', LStr (uuid_str user_tenant_id)),
                   (''resource_id'', LStr (uuid_str (r_id r))),
                   (''resource_tenant_id'', LStr (uuid_str (r_tenant_id r)))]) (\<lambda>_.
                throw (APIError 403 ACCESS_DENIED ''Access denied''))))"

definition log_resource :: "string \<Rightarrow> resource_row \<Rightarrow> (world, unit) prog" where
  "log_resource ev r = log INFO ev [(''event'', LStr ev), (''resource_id'', LStr (uuid_str (r_id r)))]"

definition resources_metadata :: service_info where
  "resources_metadata =
     \<lparr>info_service = ''resource-service'', info_stage = ''stage-16'',
      info_status = ''tenant-isolated-resource-api''\<rparr>"

definition list_resources_route ::
    "'k env \<Rightarrow> string option \<Rightarrow> uuid option \<Rightarrow> (world, resource_row list) prog" where
  "list_resources_route e cred tenant_id =
     get_db
      (bindM (authorize e [''tenant_user'', ''tenant_admin'', ''platform_admin''] cred) (\<lambda>u.
       bindM (if platform_admin u then ret tenant_id
              else bindM (liftE (required_tenant_id u)) (\<lambda>t. ret (Some t))) (\<lambda>scope.
       bindM (list_resources scope (platform_admin u \<and> tenant_id = None)) (\<lambda>rs.
       bindM (log INFO ''resource.list''
                [(''event'', LStr ''resource.list''),
                 (''target_tenant_id'', log_opt (map_option uuid_str scope))]) (\<lambda>_.
       respond (list_all resource_response_ok rs) rs)))))"

definition get_resource_route ::
    "'k env \<Rightarrow> string option \<Rightarrow> uuid \<Rightarrow> (world, resource_row) prog" where
  "get_resource_route e cred k =
     get_db
      (bindM (authorize e [''tenant_user'', ''tenant_admin'', ''platform_admin''] cred) (\<lambda>u.
       bindM (get_resource k) (\<lambda>row. case row of
         None \<Rightarrow> throw (not_found ''Resource not found'')
       | Some r \<Rightarrow>
           bindM (authorize_resource_access u r) (\<lambda>_.
           bindM (log_resource ''resource.read'' r) (\<lambda>_.
           respond (resource_response_ok r) r)))))"

definition create_resource_route ::
    "'k env \<Rightarrow> 'u url_lib \<Rightarrow> uuid \<Rightarrow> string option \<Rightarrow> 'u resource_create \<Rightarrow> (world, resource_row) prog" where
  "create_resource_route e ul new_id cred d =
     get_db
      (bindM (authorize e [''tenant_user'', ''tenant_admin''] cred) (\<lambda>u.
       bindM (liftE (validate_body (resource_create_ok ul d))) (\<lambda>_.
       bindM (liftE (required_tenant_id u)) (\<lambda>tenant_id.
       bindM (create_resource (env_verdict e) ul new_id d tenant_id (cu_user_id u)) (\<lambda>r.
       bindM (log_resource ''resource.create'' r) (\<lambda>_.
       respond (resource_response_ok r) r))))))"

definition update_resource_route ::
    "'k env \<Rightarrow> 'u url_lib \<Rightarrow> string option \<Rightarrow> uuid \<Rightarrow> 'u resource_update \<Rightarrow> (world, resource_row) prog" where
  "update_resource_route e ul cred k d =
     get_db
      (bindM (authorize e [''tenant_user'', ''tenant_admin''] cred) (\<lambda>u.
       bindM (liftE (validate_body (resource_update_ok ul d))) (\<lambda>_.
       bindM (get_resource k) (\<lambda>row. case row of
         None \<Rightarrow> throw (not_found ''Resource not found'')
       | Some r \<Rightarrow>
           bindM (authorize_resource_access u r) (\<lambda>_.
           bindM (update_resource (env_verdict e) ul r d) (\<lambda>r'.
           bindM (log_resource ''resource.update'' r') (\<lambda>_.
           respond (resource_response_ok r') r')))))))"

definition delete_resource_route ::
    "'k env \<Rightarrow> string option \<Rightarrow> uuid \<Rightarrow> (world, unit) prog" where
  "delete_resource_route e cred k =
     get_db
      (bindM (authorize e [''tenant_admin''] cred) (\<lambda>u.
       bindM (get_resource k) (\<lambda>row. case row of
         None \<Rightarrow> throw (not_found ''Resource not found'')
       | Some r \<Rightarrow>
           bindM (authorize_resource_access u r) (\<lambda>_.
           bindM (delete_resource (env_verdict e) r) (\<lambda>_.
           log_resource ''resource.delete'' r)))))"

text \<open>The API as one function of a call: which route runs, and what it replies.\<close>

datatype 'u resource_call =
    ListResources "uuid option"
  | GetResource uuid
  | CreateResource uuid "'u resource_create"
  | ChangeResource uuid "'u resource_update"
  | RemoveResource uuid

fun resource_api ::
    "'k env \<Rightarrow> 'u url_lib \<Rightarrow> string option \<Rightarrow> 'u resource_call \<Rightarrow> (world, resource_row list) prog" where
  "resource_api e ul cred (ListResources t) = list_resources_route e cred t"
| "resource_api e ul cred (GetResource k) = bindM (get_resource_route e cred k) (\<lambda>r. ret [r])"
| "resource_api e ul cred (CreateResource new_id d) =
     bindM (create_resource_route e ul new_id cred d) (\<lambda>r. ret [r])"
| "resource_api e ul cred (ChangeResource k d) =
     bindM (update_resource_route e ul cred k d) (\<lambda>r. ret [r])"
| "resource_api e ul cred (RemoveResource k) =
     bindM (delete_resource_route e cred k) (\<lambda>_. ret [])"

section \<open>Lemmas\<close>

interpretation resource_guard: audited_guard r_tenant_id authorize_resource_access "''security.bola_attempt''"
proof unfold_locales
  fix u r w x v
  assume "authorize_resource_access u r w = (Inr x, v)"
  then show "may_access u (r_tenant_id r) \<and> v = w"
    by (auto simp: authorize_resource_access_def may_access_def bindM_eq_Inr split: if_splits)
next
  fix u r
  show "keeps db (authorize_resource_access u r)"
    unfolding authorize_resource_access_def by (intro keeps_intros keeps_prim)
next
  fix u t and r :: resource_row and w
  assume "\<not> platform_admin u" "required_tenant_id u = Inr t" "t \<noteq> r_tenant_id r"
  then show "\<exists>ex. authorize_resource_access u r w = (Inl (APIError 403 ACCESS_DENIED ''Access denied''),
      w\<lparr>logs := logs w @ [\<lparr>severity = WARNING, message = ''security.bola_attempt'', extra = ex\<rparr>]\<rparr>) \<and>
      map_of ex ''user_id'' = Some (LStr (cu_user_id u))"
    by (auto simp: authorize_resource_access_def bindM_def)
qed

lemma log_resource_apply [simp]:
  "log_resource ev r w = (Inr (), w\<lparr>logs := logs w @ [\<lparr>severity = INFO, message = ev,
     extra = [(''event'', LStr ev), (''resource_id'', LStr (uuid_str (r_id r)))]\<rparr>]\<rparr>)"
  by (simp add: log_resource_def)

lemma view_resources_subset:
  "pending w = [] \<Longrightarrow> set (resources (view w)) \<subseteq> set (resources (db w))"
  by (auto simp: view_idle)

text \<open>
  A listing scoped to a tenant gives its rows, with or without row-level security: the tenant of
  the filter is the tenant of the transaction.
\<close>

lemma list_resources_scoped:
  assumes "pending w = []"
  shows "list_resources (Some t) False w =
    (Inr (order_desc r_created_at (filter (\<lambda>r. r_tenant_id r = t) (resources (db w)))),
     w\<lparr>rls_tenant := Some (uuid_str t)\<rparr>)"
proof -
  have "filter (\<lambda>r. r_tenant_id r = t) (resources (view (w\<lparr>rls_tenant := Some (uuid_str t)\<rparr>))) =
      filter (\<lambda>r. r_tenant_id r = t) (resources (db w))"
    using assms by (auto simp: view_idle row_visible_def intro: filter_cong)
  then show ?thesis by (simp add: list_resources_def bindM_def)
qed

lemma list_resources_all:
  assumes "pending w = []" and "rls_bypass w"
  shows "list_resources None b w = (Inr (order_desc r_created_at (resources (db w))), w)"
  using assms by (simp add: list_resources_def bindM_def view_bypass)

section \<open>The effect of an operation\<close>

text \<open>\<open>writes_only t w v\<close>: between \<open>w\<close> and \<open>v\<close> at most the resources of tenant \<open>t\<close> changed.\<close>

definition writes_only :: "uuid \<Rightarrow> world \<Rightarrow> world \<Rightarrow> bool" where
  "writes_only t w v \<longleftrightarrow>
     (\<forall>t'. t' \<noteq> t \<longrightarrow> tenant_resources t' (db v) = tenant_resources t' (db w)) \<and>
     tenants (db v) = tenants (db w) \<and> users (db v) = users (db w) \<and>
     payments (db v) = payments (db w) \<and> events (db v) = events (db w)"

lemma writes_only_same [simp]: "db v = db w \<Longrightarrow> writes_only t w v"
  by (simp add: writes_only_def)

fun resource_change :: "change \<Rightarrow> bool" where
  "resource_change (InsertResource r) = True"
| "resource_change (UpdateResource k fs) = True"
| "resource_change (DeleteResource k) = True"
| "resource_change c = False"

lemma writes_only_change:
  assumes "apply_change now c (db w) = Inr (db v)" and "resource_targets c (db w) \<subseteq> {t}"
    and "resource_change c"
  shows "writes_only t w v"
proof -
  have "tenant_resources t' (db v) = tenant_resources t' (db w)" if "t' \<noteq> t" for t'
    by (rule tenant_resources_change [OF assms(1)]) (use assms(2) that in blast)
  moreover have "tenants (db v) = tenants (db w) \<and> users (db v) = users (db w) \<and>
      payments (db v) = payments (db w) \<and> events (db v) = events (db w)"
    using assms(1,3) by (cases c) (auto dest: sym)
  ultimately show ?thesis by (simp add: writes_only_def)
qed

lemma create_resource_effect:
  assumes "create_resource chk ul new_id d tid owner w = (res, v)" and "pending w = []"
  shows "db v = db w \<or>
    apply_change (db_now w) (InsertResource (resource_row_of ul new_id d tid owner)) (db w) = Inr (db v)"
proof -
  let ?c = "InsertResource (resource_row_of ul new_id d tid owner)"
  let ?w = "w\<lparr>rls_tenant := Some (uuid_str tid), pending := [?c]\<rparr>"
  from assms have "bindM (commit_or_conflict chk ''Resource already exists in this tenant'')
      (\<lambda>_. reread (\<lambda>db. find (\<lambda>r. r_id r = new_id) (resources db))) ?w = (res, v)"
    by (simp add: create_resource_def bindM_def)
  from bindM_tail [OF this, of db] keeps_db_prim(5)
  obtain r u where "commit_or_conflict chk ''Resource already exists in this tenant'' ?w = (r, u)"
    and "db v = db u" by blast
  with commit_or_conflict_effect [OF this(1)] flush_single [of chk ?w "db v" ?c] show ?thesis
    by (auto simp del: apply_change.simps)
qed

lemma update_resource_effect:
  assumes "update_resource chk ul r d w = (res, v)" and "pending w = []"
  shows "db v = db w \<or>
    apply_change (db_now w) (UpdateResource (r_id r) (resource_updates ul d)) (db w) = Inr (db v)"
proof -
  let ?c = "UpdateResource (r_id r) (resource_updates ul d)"
  let ?w = "if resource_updates ul d = [] then w else w\<lparr>pending := [?c]\<rparr>"
  from assms have "bindM (commit_or_conflict chk ''Resource update conflicts with existing data'')
      (\<lambda>_. reread (\<lambda>db. find (\<lambda>s. r_id s = r_id r) (resources db))) ?w = (res, v)"
    by (simp add: update_resource_def bindM_def Let_def split: if_splits)
  from bindM_tail [OF this, of db] keeps_db_prim(5)
  obtain r' u where "commit_or_conflict chk ''Resource update conflicts with existing data'' ?w = (r', u)"
    and v: "db v = db u" by blast
  from commit_or_conflict_effect [OF this(1)] v show ?thesis
    using flush_single [of chk ?w "db v" ?c] flush_idle [of chk ?w "db v"] assms(2)
    by (auto simp del: apply_change.simps split: if_splits)
qed

lemma delete_resource_effect:
  assumes "delete_resource chk r w = (res, v)" and "pending w = []"
  shows "db v = db w \<or> apply_change (db_now w) (DeleteResource (r_id r)) (db w) = Inr (db v)"
proof -
  let ?w = "w\<lparr>pending := [DeleteResource (r_id r)]\<rparr>"
  from assms have "commit chk ?w = (res, v)" by (simp add: delete_resource_def bindM_def)
  from commit_effect [OF this] flush_single [of chk ?w "db v" "DeleteResource (r_id r)"]
  show ?thesis by (auto simp del: apply_change.simps)
qed

lemma create_resource_writes:
  assumes "create_resource chk ul new_id d tid owner w = (res, v)" and "pending w = []"
  shows "writes_only tid w v"
  using create_resource_effect [OF assms]
  by (elim disjE) (auto intro: writes_only_change simp: resource_row_of_def simp del: apply_change.simps)

lemma update_resource_writes:
  assumes "update_resource chk ul r d w = (res, v)" and "pending w = []"
    and "schema_ok (db w)" and "r \<in> set (resources (db w))"
  shows "writes_only (r_tenant_id r) w v"
  using update_resource_effect [OF assms(1,2)] resource_targets_key [OF assms(3,4) refl]
  by (elim disjE) (auto intro: writes_only_change simp del: apply_change.simps)

lemma delete_resource_writes:
  assumes "delete_resource chk r w = (res, v)" and "pending w = []"
    and "schema_ok (db w)" and "r \<in> set (resources (db w))"
  shows "writes_only (r_tenant_id r) w v"
  using delete_resource_effect [OF assms(1,2)] resource_targets_key [OF assms(3,4) refl]
  by (elim disjE) (auto intro: writes_only_change simp del: apply_change.simps)

section \<open>The effect of a call\<close>

lemma writes_only_trans:
  "writes_only t w1 v \<Longrightarrow> db w1 = db w \<Longrightarrow> db v' = db v \<Longrightarrow> writes_only t w v'"
  by (simp add: writes_only_def)

lemma get_resource_Some:
  "find (\<lambda>r. r_id r = k) (resources (view w)) = Some r \<Longrightarrow> pending w = [] \<Longrightarrow>
     r \<in> set (resources (db w)) \<and> r_id r = k"
  using view_resources_subset by (blast dest: find_Some_set)

lemma list_resources_route_db: "keeps db (list_resources_route e cred t)"
  unfolding list_resources_route_def list_resources_def respond_def
  by (intro keeps_get_db keeps_intros keeps_db_prim) simp_all

lemma get_resource_route_db: "keeps db (get_resource_route e cred k)"
  unfolding get_resource_route_def get_resource_def respond_def log_resource_def
  by (intro keeps_get_db keeps_intros keeps_db_prim resource_guard.guard_db) simp_all

definition authorized_write :: "'k env \<Rightarrow> string option \<Rightarrow> world \<Rightarrow> world \<Rightarrow> bool" where
  "authorized_write e cred w v \<longleftrightarrow>
     (\<exists>u w1 t. login e cred (end_transaction w) = (Inr u, w1) \<and> may_access u t \<and>
        (has_role ''tenant_user'' u \<or> has_role ''tenant_admin'' u) \<and> writes_only t w v)"

lemma create_route_writes:
  assumes "create_resource_route e ul new_id cred d w = (res, v)"
  shows "db v = db w \<or> authorized_write e cred w v"
proof -
  let ?tail = "\<lambda>r. bindM (log_resource ''resource.create'' r) (\<lambda>_. respond (resource_response_ok r) r)"
  obtain v' where v: "v = end_transaction v'" and
    b: "bindM (authorize e [''tenant_user'', ''tenant_admin''] cred) (\<lambda>u.
       bindM (liftE (validate_body (resource_create_ok ul d))) (\<lambda>_.
       bindM (liftE (required_tenant_id u)) (\<lambda>tenant_id.
       bindM (create_resource (env_verdict e) ul new_id d tenant_id (cu_user_id u)) ?tail)))
      (end_transaction w) = (res, v')"
    using assms by (auto simp: create_resource_route_def get_db_eq)
  from b show ?thesis
  proof (cases rule: route_cases)
    case 1
    with v show ?thesis by simp
  next
    case (2 u w1)
    note s = same_sessionD [OF 2(4)]
    show ?thesis
    proof (cases "resource_create_ok ul d \<and> required_tenant_id u \<in> range Inr")
      case False
      with 2(3) v s show ?thesis
        by (cases "required_tenant_id u") (auto simp: bindM_def validate_body_def split: if_splits)
    next
      case True
      then obtain t where t: "required_tenant_id u = Inr t" by auto
      with 2(3) True have "bindM (create_resource (env_verdict e) ul new_id d t (cu_user_id u)) ?tail w1 = (res, v')"
        by (simp add: bindM_def validate_body_def)
      from bindM_tail [OF this, of db]
      obtain r u' where c: "create_resource (env_verdict e) ul new_id d t (cu_user_id u) w1 = (r, u')"
        and "db v' = db u'"
        by (auto simp: keeps_def bindM_def respond_eq)
      with v s have "writes_only t w v"
        by (intro writes_only_trans [OF create_resource_writes [OF c]]) simp_all
      with 2(1,2) t show ?thesis
        by (auto simp: authorized_write_def may_access_def has_role_def)
    qed
  qed
qed

lemma update_route_step:
  assumes "update_resource_route e ul cred k d w = (res, v)"
  shows "db v = db w \<or>
    (\<exists>u w1 r x v1. login e cred (end_transaction w) = (Inr u, w1) \<and>
      set [''tenant_user'', ''tenant_admin''] \<inter> set (cu_roles u) \<noteq> {} \<and>
      same_session w1 (end_transaction w) \<and> may_access u (r_tenant_id r) \<and>
      r \<in> set (resources (db w)) \<and> r_id r = k \<and>
      update_resource (env_verdict e) ul r d w1 = (x, v1) \<and> db v = db v1 \<and>
      (\<forall>r'. res = Inr r' \<longrightarrow> resource_response_ok r' \<and> x = Inr r'))"
proof -
  let ?tail = "\<lambda>r. bindM (log_resource ''resource.update'' r) (\<lambda>_. respond (resource_response_ok r) r)"
  obtain v' where v: "v = end_transaction v'" and
    b: "bindM (authorize e [''tenant_user'', ''tenant_admin''] cred) (\<lambda>u.
       bindM (liftE (validate_body (resource_update_ok ul d))) (\<lambda>_.
       bindM (get_resource k) (\<lambda>row. case row of
         None \<Rightarrow> throw (not_found ''Resource not found'')
       | Some r \<Rightarrow> bindM (authorize_resource_access u r) (\<lambda>_. bindM (update_resource (env_verdict e) ul r d) ?tail))))
      (end_transaction w) = (res, v')"
    using assms by (auto simp: update_resource_route_def get_db_eq)
  from b show ?thesis
  proof (cases rule: route_cases)
    case 1
    with v show ?thesis by simp
  next
    case (2 u w1)
    note s = same_sessionD [OF 2(4)]
    show ?thesis
    proof (cases "resource_update_ok ul d")
      case False
      with 2(3) v s show ?thesis by (auto simp: bindM_def validate_body_def)
    next
      case True
      with 2(3) have "bindM (get_resource k) (\<lambda>row. case row of
         None \<Rightarrow> throw (not_found ''Resource not found'')
       | Some r \<Rightarrow> bindM (authorize_resource_access u r) (\<lambda>_. bindM (update_resource (env_verdict e) ul r d) ?tail)) w1
        = (res, v')" by (simp add: bindM_def validate_body_def)
      then show ?thesis unfolding get_resource_def
      proof (cases rule: resource_guard.fetch_guard_cases)
        case 1
        with v s show ?thesis by simp
      next
        case (2 r)
        with s have r: "r \<in> set (resources (db w)) \<and> r_id r = k" by (auto dest: get_resource_Some)
        obtain x v1 where c: "update_resource (env_verdict e) ul r d w1 = (x, v1)" by fastforce
        with 2(3) have "db v' = db v1" "res = Inr r' \<Longrightarrow> resource_response_ok r' \<and> x = Inr r'" for r'
          by (cases x; auto simp: bindM_def respond_eq split: if_splits)+
        with c r v \<open>may_access u (r_tenant_id r)\<close> \<open>login e cred (end_transaction w) = (Inr u, w1)\<close>
          \<open>same_session w1 (end_transaction w)\<close>
          \<open>set [''tenant_user'', ''tenant_admin''] \<inter> set (cu_roles u) \<noteq> {}\<close> show ?thesis
          by (intro disjI2 exI [of _ u] exI [of _ w1] exI [of _ r] exI [of _ x] exI [of _ v1]) auto
      qed
    qed
  qed
qed

lemma update_route_writes:
  assumes "update_resource_route e ul cred k d w = (res, v)" and "schema_ok (db w)"
  shows "db v = db w \<or> authorized_write e cred w v"
proof (cases "db v = db w")
  case False
  with update_route_step [OF assms(1)] obtain u w1 r x v1
    where l: "login e cred (end_transaction w) = (Inr u, w1)"
      "set [''tenant_user'', ''tenant_admin''] \<inter> set (cu_roles u) \<noteq> {}" "may_access u (r_tenant_id r)"
    and s: "same_session w1 (end_transaction w)" and r: "r \<in> set (resources (db w))"
    and c: "update_resource (env_verdict e) ul r d w1 = (x, v1)" and v: "db v = db v1" by blast
  note s = same_sessionD [OF s]
  from s r v assms(2) have "writes_only (r_tenant_id r) w v"
    by (intro writes_only_trans [OF update_resource_writes [OF c]]) simp_all
  with l show ?thesis by (auto simp: authorized_write_def has_role_def)
qed simp

lemma delete_route_writes:
  assumes "delete_resource_route e cred k w = (res, v)" and "schema_ok (db w)"
  shows "db v = db w \<or> authorized_write e cred w v"
proof -
  let ?tail = "\<lambda>r. (\<lambda>_. log_resource ''resource.delete'' r)"
  obtain v' where v: "v = end_transaction v'" and
    b: "bindM (authorize e [''tenant_admin''] cred) (\<lambda>u.
       bindM (get_resource k) (\<lambda>row. case row of
         None \<Rightarrow> throw (not_found ''Resource not found'')
       | Some r \<Rightarrow> bindM (authorize_resource_access u r) (\<lambda>_. bindM (delete_resource (env_verdict e) r) (?tail r))))
      (end_transaction w) = (res, v')"
    using assms by (auto simp: delete_resource_route_def get_db_eq)
  from b show ?thesis
  proof (cases rule: route_cases)
    case 1
    with v show ?thesis by simp
  next
    case (2 u w1)
    note s = same_sessionD [OF 2(4)]
    from 2(3) show ?thesis unfolding get_resource_def
    proof (cases rule: resource_guard.fetch_guard_cases)
      case 1
      with v s show ?thesis by simp
    next
      case (2 r)
      with s have r: "r \<in> set (resources (db w1))" by (auto dest: get_resource_Some)
      from bindM_tail [OF 2(3), of db]
      obtain x u' where c: "delete_resource (env_verdict e) r w1 = (x, u')" and "db v' = db u'"
        by (auto simp: keeps_def)
      with v s r assms(2) have "writes_only (r_tenant_id r) w v"
        by (intro writes_only_trans [OF delete_resource_writes [OF c]]) simp_all
      with 2(2) \<open>login e cred (end_transaction w) = (Inr u, w1)\<close>
        \<open>set [''tenant_admin''] \<inter> set (cu_roles u) \<noteq> {}\<close> show ?thesis
        by (auto simp: authorized_write_def has_role_def)
    qed
  qed
qed

section \<open>Successful calls\<close>

definition patched_resource :: "'u url_lib \<Rightarrow> 'u resource_update \<Rightarrow> resource_row \<Rightarrow> resource_row" where
  "patched_resource ul d r =
     r\<lparr>r_name := patched (ru_name d) (r_name r), r_data := patched (ru_data d) (r_data r),
       r_url := (case ru_url d of None \<Rightarrow> r_url r | Some u \<Rightarrow> map_option (url_text ul) u)\<rparr>"

lemma resource_updates_patch:
  assumes "set_fields set_resource_field (resource_updates ul d) r = Some r'" and "is_dict (r_data r')"
  shows "r' = patched_resource ul d r"
  using assms
  by (auto simp: resource_updates_def patched_resource_def patched_def is_dict_def split: option.splits)

lemma create_resource_Inr:
  assumes "create_resource chk ul new_id d t owner w = (Inr r, v)" and "enforces chk" and "pending w = []"
  shows "r = (resource_row_of ul new_id d t owner)\<lparr>r_created_at := db_now w\<rparr>"
    and "db v = (db w)\<lparr>resources := resources (db w) @ [r]\<rparr>" and "schema_ok (db v)"
proof -
  let ?row = "resource_row_of ul new_id d t owner"
  let ?w = "w\<lparr>rls_tenant := Some (uuid_str t), pending := [InsertResource ?row]\<rparr>"
  from assms(1,3) obtain d' where f: "flush_result chk ?w = Inr d'"
    and v: "v = end_transaction (?w\<lparr>db := d'\<rparr>)"
    and q: "find (\<lambda>r. r_id r = new_id) (resources (view v)) = Some r"
    by (auto simp: create_resource_def bindM_eq_Inr commit_or_conflict_Inr)
  from flush_result_enforced [OF assms(2) f]
  have ok: "schema_ok d'" and d': "d' = (db w)\<lparr>resources := resources (db w) @ [?row\<lparr>r_created_at := db_now w\<rparr>]\<rparr>"
    by auto
  from find_visible [OF q] v have "r \<in> set (resources d')" and "r_id r = new_id" by auto
  then show r: "r = ?row\<lparr>r_created_at := db_now w\<rparr>"
    using resources_tab.unique_row [OF ok, of r "?row\<lparr>r_created_at := db_now w\<rparr>"] d'
    by (simp add: resource_row_of_def)
  from v d' r show "db v = (db w)\<lparr>resources := resources (db w) @ [r]\<rparr>" by simp
  from v ok show "schema_ok (db v)" by simp
qed

lemma update_resource_Inr:
  assumes "update_resource chk ul r d w = (Inr r', v)" and "enforces chk" and "pending w = []"
    and "r \<in> set (resources (db w))" and "is_dict (r_data r')"
  shows "\<exists>us vs. resources (db w) = us @ r # vs \<and> db v = (db w)\<lparr>resources := us @ r' # vs\<rparr> \<and>
    r' = patched_resource ul d r \<and> schema_ok (db v)"
proof -
  let ?fs = "resource_updates ul d"
  let ?w = "if ?fs = [] then w else w\<lparr>pending := [UpdateResource (r_id r) ?fs]\<rparr>"
  from assms(1,3) obtain d' where f: "flush_result chk ?w = Inr d'"
    and v: "v = end_transaction (?w\<lparr>db := d'\<rparr>)"
    and q: "find (\<lambda>s. r_id s = r_id r) (resources (view v)) = Some r'"
    by (auto simp: update_resource_def bindM_eq_Inr commit_or_conflict_Inr Let_def split: if_splits)
  note ok = flush_result_enforced [OF assms(2) f]
  from find_visible [OF q] v have r': "r' \<in> set (resources d')" "r_id r' = r_id r" by auto
  show ?thesis
  proof (cases "?fs = []")
    case True
    with ok assms(3) have d': "d' = db w" by simp
    with r' ok assms(4) have "r' = r" by (metis resources_tab.unique_row)
    moreover obtain us vs where l: "resources (db w) = us @ r # vs"
      using assms(4) by (auto simp: in_set_conv_decomp)
    moreover note resources_unchanged [OF l]
    ultimately show ?thesis
      using True assms(5) d' ok v resource_updates_patch [of ul d r r']
      by (intro exI [of _ us] exI [of _ vs]) auto
  next
    case False
    with ok have "apply_changes (db_now w) [UpdateResource (r_id r) ?fs] (db w) = Inr d'" by simp
    then obtain rs where u: "update_row r_id (r_id r) (set_fields set_resource_field ?fs) (resources (db w)) = Inr rs"
      and d': "d' = (db w)\<lparr>resources := rs\<rparr>" by auto
    from update_row_Inr [OF u] obtain us x x' vs where l: "resources (db w) = us @ x # vs"
      "rs = us @ x' # vs" "r_id x = r_id r" "set_fields set_resource_field ?fs x = Some x'" by blast
    from set_resource_fields_key [OF l(4)] have k: "r_id x' = r_id x" by simp
    from ok d' have "distinct (map r_id rs)" by (auto simp: schema_ok_unfold)
    with l k have "distinct (map r_id (resources (db w)))" by simp
    with l assms(4) have "x = r" by (metis distinct_map in_set_conv_decomp inj_onD)
    moreover from r' d' l k ok have "r' = x'"
      using resources_tab.unique_row [of d' r' x'] by simp
    ultimately show ?thesis
      using l d' v ok assms(5) False resource_updates_patch [of ul d r r']
      by (intro exI [of _ us] exI [of _ vs]) auto
  qed
qed

lemma create_route_Inr:
  assumes "create_resource_route e ul new_id cred d w = (Inr r, v)" and "enforces (env_verdict e)"
  shows "\<exists>u w1 t. login e cred (end_transaction w) = (Inr u, w1) \<and>
    (has_role ''tenant_user'' u \<or> has_role ''tenant_admin'' u) \<and>
    required_tenant_id u = Inr t \<and> resource_create_ok ul d \<and>
    r = \<lparr>r_id = new_id, r_tenant_id = t, r_owner_user_id = cu_user_id u, r_name = rc_name d,
         r_data = rc_data d, r_url = map_option (url_text ul) (rc_url d), r_created_at = db_now w\<rparr> \<and>
    db v = (db w)\<lparr>resources := resources (db w) @ [r]\<rparr> \<and> schema_ok (db v)"
proof -
  obtain v' where v: "v = end_transaction v'" and
    b: "bindM (authorize e [''tenant_user'', ''tenant_admin''] cred) (\<lambda>u.
       bindM (liftE (validate_body (resource_create_ok ul d))) (\<lambda>_.
       bindM (liftE (required_tenant_id u)) (\<lambda>tenant_id.
       bindM (create_resource (env_verdict e) ul new_id d tenant_id (cu_user_id u)) (\<lambda>r.
       bindM (log_resource ''resource.create'' r) (\<lambda>_. respond (resource_response_ok r) r)))))
      (end_transaction w) = (Inr r, v')"
    using assms(1) by (auto simp: create_resource_route_def get_db_eq)
  from b show ?thesis
  proof (cases rule: route_Inr)
    case (1 u w1)
    note s = same_sessionD [OF 1(4)]
    from 1(3) obtain t w2 where "required_tenant_id u = Inr t" "resource_create_ok ul d"
      "create_resource (env_verdict e) ul new_id d t (cu_user_id u) w1 = (Inr r, w2)" "db v' = db w2"
      by (auto simp: bindM_eq_Inr)
    with create_resource_Inr [OF this(3) assms(2)] s v 1(1,2) show ?thesis
      by (auto simp: resource_row_of_def has_role_def)
  qed
qed

lemma update_route_Inr:
  assumes "update_resource_route e ul cred k d w = (Inr r', v)" and "enforces (env_verdict e)"
  shows "\<exists>u w1 r us vs. login e cred (end_transaction w) = (Inr u, w1) \<and>
    (has_role ''tenant_user'' u \<or> has_role ''tenant_admin'' u) \<and> resource_update_ok ul d \<and>
    may_access u (r_tenant_id r) \<and> r_id r = k \<and> resources (db w) = us @ r # vs \<and>
    r' = patched_resource ul d r \<and> db v = (db w)\<lparr>resources := us @ r' # vs\<rparr> \<and> schema_ok (db v)"
proof -
  obtain v' where v: "v = end_transaction v'" and
    b: "bindM (authorize e [''tenant_user'', ''tenant_admin''] cred) (\<lambda>u.
       bindM (liftE (validate_body (resource_update_ok ul d))) (\<lambda>_.
       bindM (get_resource k) (\<lambda>row. case row of
         None \<Rightarrow> throw (not_found ''Resource not found'')
       | Some r \<Rightarrow> bindM (authorize_resource_access u r) (\<lambda>_.
           bindM (update_resource (env_verdict e) ul r d) (\<lambda>r'.
           bindM (log_resource ''resource.update'' r') (\<lambda>_. respond (resource_response_ok r') r'))))))
      (end_transaction w) = (Inr r', v')"
    using assms(1) by (auto simp: update_resource_route_def get_db_eq)
  from b show ?thesis
  proof (cases rule: route_Inr)
    case (1 u w1)
    note login = 1(1,2) and s = same_sessionD [OF 1(4)]
    from 1(3) have ok: "resource_update_ok ul d" and
      g: "bindM (select (\<lambda>d. find (\<lambda>r. r_id r = k) (resources d))) (\<lambda>row. case row of
         None \<Rightarrow> throw (not_found ''Resource not found'')
       | Some r \<Rightarrow> bindM (authorize_resource_access u r) (\<lambda>_.
           bindM (update_resource (env_verdict e) ul r d) (\<lambda>r'.
           bindM (log_resource ''resource.update'' r') (\<lambda>_. respond (resource_response_ok r') r')))) w1
       = (Inr r', v')"
      unfolding get_resource_def by (auto simp: bindM_eq_Inr)
    from g show ?thesis
    proof (cases rule: resource_guard.fetch_guard)
      case (1 r)
      from 1(3) obtain w2 where c: "update_resource (env_verdict e) ul r d w1 = (Inr r', w2)"
        and dict: "is_dict (r_data r')" and v': "db v' = db w2"
        by (auto simp: bindM_eq_Inr resource_response_ok_def)
      from s have idle: "pending w1 = []" by simp
      note r = get_resource_Some [OF 1(1) idle]
      from update_resource_Inr [OF c assms(2) idle _ dict] r obtain us vs
        where "resources (db w1) = us @ r # vs" "db w2 = (db w1)\<lparr>resources := us @ r' # vs\<rparr>"
          "r' = patched_resource ul d r" "schema_ok (db w2)" by blast
      with login s ok 1(2) r v v' show ?thesis
        by (intro exI [of _ u] exI [of _ w1] exI [of _ r] exI [of _ us] exI [of _ vs])
          (auto simp: has_role_def)
    qed
  qed
qed

lemma delete_route_Inr:
  assumes "delete_resource_route e cred k w = (Inr x, v)"
  shows "\<exists>u w1 r. login e cred (end_transaction w) = (Inr u, w1) \<and> has_role ''tenant_admin'' u \<and>
    may_access u (r_tenant_id r) \<and> r_id r = k \<and> r \<in> set (resources (db w)) \<and>
    db v = (db w)\<lparr>resources := filter (\<lambda>r. r_id r \<noteq> k) (resources (db w))\<rparr>"
proof -
  obtain v' where v: "v = end_transaction v'" and
    b: "bindM (authorize e [''tenant_admin''] cred) (\<lambda>u.
       bindM (get_resource k) (\<lambda>row. case row of
         None \<Rightarrow> throw (not_found ''Resource not found'')
       | Some r \<Rightarrow> bindM (authorize_resource_access u r) (\<lambda>_.
           bindM (delete_resource (env_verdict e) r) (\<lambda>_. log_resource ''resource.delete'' r))))
      (end_transaction w) = (Inr x, v')"
    using assms(1) by (auto simp: delete_resource_route_def get_db_eq)
  from b show ?thesis
  proof (cases rule: route_Inr)
    case (1 u w1)
    note login = 1(1,2) and s = same_sessionD [OF 1(4)]
    from 1(3) show ?thesis unfolding get_resource_def
    proof (cases rule: resource_guard.fetch_guard)
      case (1 r)
      from s have idle: "pending w1 = []" by simp
      from 1(3) idle obtain d where
        f: "flush_result (env_verdict e) (w1\<lparr>pending := [DeleteResource (r_id r)]\<rparr>) = Inr d"
        and "db v' = d"
        by (auto simp: bindM_eq_Inr delete_resource_def commit_Inr)
      with flush_single [OF f] v s login 1(2) get_resource_Some [OF 1(1) idle] show ?thesis
        by (intro exI [of _ u] exI [of _ w1] exI [of _ r]) (auto simp: has_role_def)
    qed
  qed
qed

lemma get_route_reads:
  assumes "get_resource_route e cred k w = (Inr r, v)"
  shows "\<exists>u w1. login e cred (end_transaction w) = (Inr u, w1) \<and> may_access u (r_tenant_id r) \<and>
    r \<in> set (resources (db w)) \<and> r_id r = k"
proof -
  obtain v' where
    b: "bindM (authorize e [''tenant_user'', ''tenant_admin'', ''platform_admin''] cred) (\<lambda>u.
       bindM (get_resource k) (\<lambda>row. case row of
         None \<Rightarrow> throw (not_found ''Resource not found'')
       | Some r \<Rightarrow> bindM (authorize_resource_access u r) (\<lambda>_.
           bindM (log_resource ''resource.read'' r) (\<lambda>_. respond (resource_response_ok r) r))))
      (end_transaction w) = (Inr r, v')"
    using assms by (auto simp: get_resource_route_def get_db_eq)
  from b show ?thesis
  proof (cases rule: route_Inr)
    case (1 u w1)
    note s = same_sessionD [OF 1(4)]
    from 1(3) show ?thesis unfolding get_resource_def
    proof (cases rule: resource_guard.fetch_guard)
      case (1 r')
      with s get_resource_Some [OF 1(1)] \<open>login e cred (end_transaction w) = (Inr u, w1)\<close>
      show ?thesis by (auto simp: bindM_eq_Inr)
    qed
  qed
qed

lemma list_route_Inr:
  assumes "list_resources_route e cred tid w = (Inr rows, v)"
  shows "\<exists>u w1. login e cred (end_transaction w) = (Inr u, w1) \<and>
    (\<not> platform_admin u \<longrightarrow> (\<exists>t. required_tenant_id u = Inr t \<and>
       rows = order_desc r_created_at (tenant_resources t (db w))))"
proof -
  obtain v' where
    b: "bindM (authorize e [''tenant_user'', ''tenant_admin'', ''platform_admin''] cred) (\<lambda>u.
       bindM (if platform_admin u then ret tid else bindM (liftE (required_tenant_id u)) (\<lambda>t. ret (Some t))) (\<lambda>scope.
       bindM (list_resources scope (platform_admin u \<and> tid = None)) (\<lambda>rs.
       bindM (log INFO ''resource.list''
                [(''event'', LStr ''resource.list''),
                 (''target_tenant_id'', log_opt (map_option uuid_str scope))]) (\<lambda>_.
       respond (list_all resource_response_ok rs) rs)))) (end_transaction w) = (Inr rows, v')"
    using assms by (auto simp: list_resources_route_def get_db_eq)
  from b show ?thesis
  proof (cases rule: route_Inr)
    case (1 u w1)
    note s = same_sessionD [OF 1(4)]
    show ?thesis
    proof (cases "platform_admin u")
      case False
      with 1(3) obtain t where "required_tenant_id u = Inr t"
        and "\<exists>w2. list_resources (Some t) False w1 = (Inr rows, w2)"
        by (auto simp: bindM_eq_Inr)
      with s 1(1) show ?thesis by (auto simp: list_resources_scoped tenant_resources_def)
    qed (use 1(1) in blast)
  qed
qed

lemma rls_lookup_404:
  assumes "authorize e roles cred (end_transaction w) = (Inr u, w1)" and "\<not> rls_bypass w"
  shows "fst (get_db (bindM (authorize e roles cred) (\<lambda>u. bindM (get_resource k)
      (\<lambda>row. case row of None \<Rightarrow> throw x | Some r \<Rightarrow> g u r))) w) = Inl x"
proof -
  from authorize_Inr [OF assms(1)] have "same_session w1 (end_transaction w)" by blast
  note s = same_sessionD [OF this]
  have "resources (view w1) = []" using s assms(2) by (simp add: view_idle row_visible_def)
  then show ?thesis
    using assms(1) by (simp add: get_db_def get_resource_def bindM_def split: prod.splits)
qed

lemma update_resource_reads_back:
  assumes "update_resource chk ul r d w = (Inr r', v)" and "pending w = []"
  shows "r' \<in> set (resources (db v)) \<and> r_id r' = r_id r"
proof -
  from assms obtain v' d' where "find (\<lambda>s. r_id s = r_id r) (resources (view v)) = Some r'"
    and "v = end_transaction (v'\<lparr>db := d'\<rparr>)"
    by (auto simp: update_resource_def bindM_eq_Inr commit_or_conflict_Inr Let_def split: if_splits)
  with find_visible show ?thesis by fastforce
qed

lemma list_route_rows_ok:
  assumes "list_resources_route e cred tid w = (Inr rows, v)"
  shows "list_all resource_response_ok rows"
  using assms by (auto simp: list_resources_route_def get_db_eq bindM_eq_Inr)

lemma preserves_resource_api [preserves_intros]:
  assumes "maintains (env_verdict e) J"
  shows "preserves (db_inv J) (resource_api e ul cred call)"
proof -
  note ops = list_resources_def get_resource_def create_resource_def update_resource_def delete_resource_def
  note rules = preserves_intros assms resource_guard.guard_preserves
  show ?thesis
    by (cases call)
      (simp_all only: resource_api.simps list_resources_route_def get_resource_route_def
        create_resource_route_def update_resource_route_def delete_resource_route_def ops respond_def
        log_resource_def Let_def, (intro rules)+)
qed

text \<open>A call of the API writes for its user, or not at all.\<close>

lemma resource_api_authorized:
  assumes "resource_api e ul cred call w = (res, v)" and "schema_ok (db w)"
  shows "db v = db w \<or> authorized_write e cred w v"
proof (cases call)
  case (ListResources t)
  with assms(1) have "list_resources_route e cred t w = (res, v)" by simp
  from keepsD [OF list_resources_route_db this] show ?thesis ..
next
  case (GetResource k)
  with assms(1) have "bindM (get_resource_route e cred k) (\<lambda>r. ret [r]) w = (res, v)" by simp
  from bindM_ret_state [OF this] keepsD [OF get_resource_route_db] show ?thesis by blast
next
  case (CreateResource new_id d)
  with assms(1) have "bindM (create_resource_route e ul new_id cred d) (\<lambda>r. ret [r]) w = (res, v)" by simp
  from bindM_ret_state [OF this] show ?thesis by (blast dest: create_route_writes)
next
  case (ChangeResource k d)
  with assms(1) have "bindM (update_resource_route e ul cred k d) (\<lambda>r. ret [r]) w = (res, v)" by simp
  from bindM_ret_state [OF this] show ?thesis by (blast dest: update_route_writes [OF _ assms(2)])
next
  case (RemoveResource k)
  with assms(1) have "bindM (delete_resource_route e cred k) (\<lambda>_. ret []) w = (res, v)" by simp
  from bindM_ret_state [OF this] show ?thesis by (blast dest: delete_route_writes [OF _ assms(2)])
qed

section \<open>A concrete instance\<close>

definition demo_urls :: "string url_lib" where
  "demo_urls = \<lparr>host = Some, url_text = (\<lambda>h. ''https://'' @ h @ ''/'')\<rparr>"

definition demo_resource :: "uuid \<Rightarrow> uuid \<Rightarrow> string \<Rightarrow> int \<Rightarrow> resource_row" where
  "demo_resource k t name at =
     \<lparr>r_id = k, r_tenant_id = t, r_owner_user_id = ''u1'', r_name = name, r_data = JObj [],
      r_url = None, r_created_at = at\<rparr>"

definition demo_resources :: database where
  "demo_resources = demo_db\<lparr>resources :=
     [demo_resource 11 1 ''plan'' 1, demo_resource 12 2 ''plan'' 2, demo_resource 13 1 ''budget'' 3]\<rparr>"

definition demo_body :: "string \<Rightarrow> string resource_create" where
  "demo_body name = \<lparr>rc_name = name, rc_data = JObj [], rc_url = Some ''example.com''\<rparr>"

definition demo_patch :: "string resource_update" where
  "demo_patch = \<lparr>ru_name = Some (Some ''plan B''), ru_data = None, ru_url = Some None\<rparr>"

lemma demo_resources_ok: "schema_ok demo_resources"
  by code_simp

end
