(* ===== verification/Resource_Store.thy ===== *)
theory Resource_Store
  imports Resource_Service
begin

text \<open>
  What the resource service is for, without tokens, sessions, routes and tables: a finite map from
  ids to resources, which calls change in the obvious way.  \<open>store\<close> abstracts the tables to that map;
  every successful call of the API is a step of the abstract machine.
\<close>

section \<open>The abstract machine\<close>

type_synonym store = "uuid \<Rightarrow> resource_row option"

definition store :: "database \<Rightarrow> store" where
  "store d k = find (\<lambda>r. r_id r = k) (resources d)"

definition accessible :: "current_user \<Rightarrow> store \<Rightarrow> uuid \<Rightarrow> bool" where
  "accessible u m k = (case m k of None \<Rightarrow> False | Some r \<Rightarrow> may_access u (r_tenant_id r))"

fun spec_allows :: "current_user \<Rightarrow> 'u resource_call \<Rightarrow> store \<Rightarrow> bool" where
  "spec_allows u (ListResources t) m = True"
| "spec_allows u (GetResource k) m = accessible u m k"
| "spec_allows u (CreateResource new_id d) m =
     (m new_id = None \<and> (case required_tenant_id u of Inl _ \<Rightarrow> False | Inr _ \<Rightarrow> True))"
| "spec_allows u (ChangeResource k d) m = accessible u m k"
| "spec_allows u (RemoveResource k) m = (accessible u m k \<and> has_role ''tenant_admin'' u)"

fun spec_effect :: "'u url_lib \<Rightarrow> current_user \<Rightarrow> int \<Rightarrow> 'u resource_call \<Rightarrow> store \<Rightarrow> store" where
  "spec_effect ul u now (CreateResource new_id d) m =
     (case required_tenant_id u of
        Inl _ \<Rightarrow> m
      | Inr t \<Rightarrow> m(new_id \<mapsto> \<lparr>r_id = new_id, r_tenant_id = t, r_owner_user_id = cu_user_id u, r_name = rc_name d,
                    r_data = rc_data d, r_url = map_option (url_text ul) (rc_url d), r_created_at = now\<rparr>))"
| "spec_effect ul u now (ChangeResource k d) m =
     (case m k of None \<Rightarrow> m | Some r \<Rightarrow> m(k \<mapsto> patched_resource ul d r))"
| "spec_effect ul u now (RemoveResource k) m = m(k := None)"
| "spec_effect ul u now _ m = m"

text \<open>The reply, given the map after the call; the listing of a platform administrator is left open.\<close>

fun spec_reply :: "current_user \<Rightarrow> 'u resource_call \<Rightarrow> store \<Rightarrow> resource_row list \<Rightarrow> bool" where
  "spec_reply u (ListResources t) m rows \<longleftrightarrow>
     platform_admin u \<or> set rows = {r \<in> ran m. required_tenant_id u = Inr (r_tenant_id r)}"
| "spec_reply u (GetResource k) m rows \<longleftrightarrow> map Some rows = [m k]"
| "spec_reply u (CreateResource k d) m rows \<longleftrightarrow> map Some rows = [m k]"
| "spec_reply u (ChangeResource k d) m rows \<longleftrightarrow> map Some rows = [m k]"
| "spec_reply u (RemoveResource k) m rows \<longleftrightarrow> rows = []"

section \<open>Lemmas\<close>

lemma find_key_append:
  "find (\<lambda>r. key r = k) (us @ vs) = (case find (\<lambda>r. key r = k) us of None \<Rightarrow> find (\<lambda>r. key r = k) vs | Some r \<Rightarrow> Some r)"
  by (induction us) auto

lemma find_key_None: "k \<notin> key ` set rs \<Longrightarrow> find (\<lambda>r. key r = k) rs = None"
  by (auto simp: find_None_iff)

lemma store_insert:
  assumes "schema_ok d'" and "d' = d\<lparr>resources := resources d @ [r]\<rparr>"
  shows "store d (r_id r) = None" and "store d' = (store d)(r_id r \<mapsto> r)"
proof -
  from assms have new: "r_id r \<notin> r_id ` set (resources d)" by (auto simp: schema_ok_unfold)
  then show "store d (r_id r) = None" unfolding store_def by (rule find_key_None)
  with assms(2) new show "store d' = (store d)(r_id r \<mapsto> r)"
    by (auto simp: store_def fun_eq_iff find_key_append find_key_None split: option.splits)
qed

lemma store_replace:
  assumes "schema_ok d'" and "resources d = us @ r # vs" and "d' = d\<lparr>resources := us @ r' # vs\<rparr>"
    and "r_id r' = r_id r"
  shows "store d (r_id r) = Some r" and "store d' = (store d)(r_id r \<mapsto> r')"
proof -
  from assms have new: "r_id r \<notin> r_id ` set us" by (auto simp: schema_ok_unfold)
  then show "store d (r_id r) = Some r" using assms(2) by (simp add: store_def find_key_append find_key_None)
  show "store d' = (store d)(r_id r \<mapsto> r')"
    using assms(2-4) new by (auto simp: store_def fun_eq_iff find_key_append find_key_None split: option.splits)
qed

lemma store_delete: "store (d\<lparr>resources := filter (\<lambda>r. r_id r \<noteq> k) (resources d)\<rparr>) = (store d)(k := None)"
proof -
  have "find (\<lambda>r. r_id r = j) (filter (\<lambda>r. r_id r \<noteq> k) rs) = (if j = k then None else find (\<lambda>r. r_id r = j) rs)"
    for j and rs :: "resource_row list" by (induction rs) auto
  then show ?thesis by (auto simp: store_def fun_eq_iff)
qed

lemma store_member: "schema_ok d \<Longrightarrow> r \<in> set (resources d) \<Longrightarrow> store d (r_id r) = Some r"
  unfolding store_def by (rule resources_tab.find_row)

lemma ran_store: "schema_ok d \<Longrightarrow> ran (store d) = set (resources d)"
  by (auto simp: ran_def dest: store_member) (auto simp: store_def dest: find_Some_set)

section \<open>Properties\<close>

text \<open>
  C19.  The resource API implements the map: a call that succeeds was allowed to its user on the map
  before, takes the map to what the abstract call makes of it, and replies what is then in the map.
\<close>

theorem resource_api_refines_store:
  assumes "resource_api e ul cred call w = (Inr rows, v)" and "enforces (env_verdict e)" and "schema_ok (db w)"
  shows "\<exists>u w1. login e cred (end_transaction w) = (Inr u, w1) \<and> spec_allows u call (store (db w)) \<and>
    store (db v) = spec_effect ul u (db_now w) call (store (db w)) \<and> spec_reply u call (store (db v)) rows"
proof (cases call)
  case (ListResources t)
  with assms(1) have r: "list_resources_route e cred t w = (Inr rows, v)" by simp
  from keepsD [OF list_resources_route_db r] list_route_Inr [OF r] ListResources show ?thesis
    by (auto simp: ran_store [OF assms(3)] order_desc_def tenant_resources_def)
next
  case (GetResource k)
  with assms(1) obtain r where r: "get_resource_route e cred k w = (Inr r, v)" and rows: "rows = [r]"
    by (auto simp: bindM_eq_Inr)
  from get_route_reads [OF r] keepsD [OF get_resource_route_db r] rows GetResource store_member [OF assms(3)]
  show ?thesis by (fastforce simp: accessible_def)
next
  case (CreateResource new_id d)
  with assms(1) obtain r where r: "create_resource_route e ul new_id cred d w = (Inr r, v)" and rows: "rows = [r]"
    by (auto simp: bindM_eq_Inr)
  from create_route_Inr [OF r assms(2)] obtain u w1 t where l: "login e cred (end_transaction w) = (Inr u, w1)"
    and t: "required_tenant_id u = Inr t"
    and row: "r = \<lparr>r_id = new_id, r_tenant_id = t, r_owner_user_id = cu_user_id u, r_name = rc_name d,
         r_data = rc_data d, r_url = map_option (url_text ul) (rc_url d), r_created_at = db_now w\<rparr>"
    and ok: "schema_ok (db v)" and db: "db v = (db w)\<lparr>resources := resources (db w) @ [r]\<rparr>" by blast
  from row have "r_id r = new_id" by simp
  with store_insert [OF ok db] l t row rows CreateResource show ?thesis
    by (intro exI [of _ u] exI [of _ w1]) simp
next
  case (ChangeResource k d)
  with assms(1) obtain r' where r: "update_resource_route e ul cred k d w = (Inr r', v)" and rows: "rows = [r']"
    by (auto simp: bindM_eq_Inr)
  from update_route_Inr [OF r assms(2)] obtain u w1 r us vs where l: "login e cred (end_transaction w) = (Inr u, w1)"
    and acc: "may_access u (r_tenant_id r)" "r_id r = k" and l1: "resources (db w) = us @ r # vs"
    and r': "r' = patched_resource ul d r" and db: "db v = (db w)\<lparr>resources := us @ r' # vs\<rparr>" and ok: "schema_ok (db v)"
    by blast
  from r' have "r_id r' = r_id r" by (simp add: patched_resource_def)
  from store_replace [OF ok l1 db this] l acc r' rows ChangeResource show ?thesis
    by (intro exI [of _ u] exI [of _ w1]) (simp add: accessible_def)
next
  case (RemoveResource k)
  with assms(1) obtain x where r: "delete_resource_route e cred k w = (Inr x, v)" and rows: "rows = []"
    by (auto simp: bindM_eq_Inr)
  from delete_route_Inr [OF r] store_member [OF assms(3)] store_delete [of k "db w"] rows RemoveResource
  show ?thesis by (fastforce simp: accessible_def)
qed

theorem resource_api_refines_store_witness:
  "\<exists>rows v. resource_api (demo_env (demo_user 1 [''tenant_admin''])) demo_urls (Some ''good'') (RemoveResource 13)
      (demo_world demo_resources) = (Inr rows, v) \<and> store (db v) = (store demo_resources)(13 := None)"
    (is "\<exists>rows v. ?run = _ \<and> _")
proof -
  have "case ?run of (res, v) \<Rightarrow> (case res of Inl _ \<Rightarrow> False | Inr rows \<Rightarrow> True)" by code_simp
  then obtain rows v where run: "?run = (Inr rows, v)" by (elim runE) (auto split: sum.splits)
  have ok: "schema_ok (db (demo_world demo_resources))" using demo_resources_ok by (simp add: demo_world_def)
  from resource_api_refines_store [OF run demo_enforces ok]
  have "store (db v) = (store demo_resources)(13 := None)" by (auto simp: demo_world_def)
  with run show ?thesis by (intro exI conjI)
qed

end
