(* ===== verification/Resource_Properties.thy ===== *)
theory Resource_Properties
  imports Resource_Service
begin

text \<open>
  What is shown of the resource service's API: who reads and writes what, the effect of each operation
  and its errors, and where row-level security and the response model get in its way.
\<close>

section \<open>Properties\<close>

text \<open>
  C2.  Tenants cannot write into one another: whatever call a client makes of the resource API,
  with whatever credentials and in whatever way it ends, either the database is as it was, or the
  client is a verified user with the role of a tenant's user or administrator who may access some
  tenant \<open>t\<close>, and nothing but the resources of \<open>t\<close> differs afterwards: the resources of every other
  tenant and all other tables are the same.
\<close>

theorem resource_api_writes_only_own_tenant:
  assumes "resource_api e ul cred call w = (res, v)" and "schema_ok (db w)" and "db v \<noteq> db w"
  shows "\<exists>u w1 t. login e cred (end_transaction w) = (Inr u, w1) \<and> may_access u t \<and>
    (has_role ''tenant_user'' u \<or> has_role ''tenant_admin'' u) \<and>
    (\<forall>t'. t' \<noteq> t \<longrightarrow> tenant_resources t' (db v) = tenant_resources t' (db w)) \<and>
    tenants (db v) = tenants (db w) \<and> users (db v) = users (db w) \<and>
    payments (db v) = payments (db w) \<and> events (db v) = events (db w)"
  using resource_api_authorized [OF assms(1,2)] assms(3) by (auto simp: authorized_write_def writes_only_def)

theorem resource_api_writes_only_own_tenant_witness:
  "\<exists>v. resource_api (demo_env (demo_user 1 [''tenant_user''])) demo_urls (Some ''good'')
        (CreateResource 14 (demo_body ''notes'')) (demo_world demo_resources) =
      (Inr [\<lparr>r_id = 14, r_tenant_id = 1, r_owner_user_id = ''u1'', r_name = ''notes'', r_data = JObj [],
             r_url = Some ''https://example.com/'', r_created_at = 7\<rparr>], v) \<and>
    db v \<noteq> demo_resources \<and> tenant_resources 2 (db v) = tenant_resources 2 demo_resources"
    (is "\<exists>v. ?run = (Inr [?r], v) \<and> _")
proof -
  have "case ?run of (r, v) \<Rightarrow> r = Inr [?r] \<and> length (resources (db v)) = 4" by code_simp
  then obtain v where run: "?run = (Inr [?r], v)" and len: "length (resources (db v)) = 4"
    by (elim runE) blast
  have "length (resources (db (demo_world demo_resources))) = 3" by code_simp
  with len have ne: "db v \<noteq> db (demo_world demo_resources)" by auto
  have ok: "schema_ok (db (demo_world demo_resources))" by code_simp
  from resource_api_writes_only_own_tenant [OF run ok ne] obtain t
    where t: "may_access (user_of_claims (demo_user 1 [''tenant_user''])) t"
      and "\<forall>t'. t' \<noteq> t \<longrightarrow> tenant_resources t' (db v) = tenant_resources t' (db (demo_world demo_resources))"
    by (auto dest: demo_login_inject)
  moreover have "t = 1"
    using t by (simp add: may_access_def platform_admin_def has_role_def demo_user_roles demo_user_tenant)
  ultimately have "tenant_resources 2 (db v) = tenant_resources 2 demo_resources" by (simp add: demo_world_def)
  moreover have "db v \<noteq> demo_resources" using ne by (simp add: demo_world_def)
  ultimately show ?thesis using run by (intro exI conjI)
qed

text \<open>
  C10.  Tenants cannot read one another: every row that any call of the resource API returns belongs
  to a tenant that the verified user of the request may access, so for a user without the role
  \<open>platform_admin\<close> to the tenant of the token.
\<close>

theorem resource_api_reads_only_own_tenant:
  assumes "resource_api e ul cred call w = (Inr rows, v)" and "enforces (env_verdict e)"
  shows "\<exists>u w1. login e cred (end_transaction w) = (Inr u, w1) \<and>
    (\<forall>r\<in>set rows. platform_admin u \<or> required_tenant_id u = Inr (r_tenant_id r))"
proof (cases call)
  case (ListResources t)
  with assms(1) have "list_resources_route e cred t w = (Inr rows, v)" by simp
  from list_route_Inr [OF this] show ?thesis by (auto simp: tenant_resources_def)
next
  case (GetResource k)
  with assms(1) show ?thesis by (auto simp: bindM_eq_Inr may_access_def dest!: get_route_reads)
next
  case (CreateResource new_id d)
  with assms(1) show ?thesis by (auto simp: bindM_eq_Inr dest!: create_route_Inr [OF _ assms(2)])
next
  case (ChangeResource k d)
  with assms(1) show ?thesis
    by (auto simp: bindM_eq_Inr may_access_def patched_resource_def
        dest!: update_route_Inr [OF _ assms(2)])
next
  case (RemoveResource k)
  with assms(1) show ?thesis by (auto simp: bindM_eq_Inr dest!: delete_route_Inr)
qed

theorem resource_api_reads_only_own_tenant_witness:
  "\<exists>rows v. resource_api (demo_env (demo_user 1 [''tenant_admin''])) demo_urls (Some ''good'')
        (ListResources (Some 2)) (demo_world demo_resources) = (Inr rows, v) \<and>
    map r_id rows = [13, 11] \<and> (\<forall>r\<in>set rows. r_tenant_id r = 1)"
    (is "\<exists>rows v. ?run = _ \<and> _")
proof -
  let ?u = "user_of_claims (demo_user 1 [''tenant_admin''])"
  have "case ?run of (res, v) \<Rightarrow> (case res of Inl _ \<Rightarrow> False | Inr rows \<Rightarrow> map r_id rows = [13, 11])"
    by code_simp
  then obtain rows v where run: "?run = (Inr rows, v)" and ids: "map r_id rows = [13, 11]"
    by (elim runE) (auto split: sum.splits simp del: resource_api.simps)
  from resource_api_reads_only_own_tenant [OF run demo_enforces]
  have "\<forall>r\<in>set rows. platform_admin ?u \<or> required_tenant_id ?u = Inr (r_tenant_id r)"
    by (auto dest: demo_login_inject)
  then have "\<forall>r\<in>set rows. r_tenant_id r = 1"
    by (simp add: platform_admin_def has_role_def demo_user_roles demo_user_tenant)
  with run ids show ?thesis by (intro exI conjI)
qed

text \<open>
  The listing of a tenant's user is exactly the tenant's resources, newest first, whatever
  tenant the query parameter names, and with or without row-level security.
\<close>

theorem list_resources_functional:
  assumes "list_resources_route e cred tid w = (Inr rows, v)"
    and "login e cred (end_transaction w) = (Inr u, w1)" and "\<not> platform_admin u"
  shows "\<exists>t. required_tenant_id u = Inr t \<and> set rows = {r \<in> set (resources (db w)). r_tenant_id r = t} \<and>
    length rows = length (tenant_resources t (db w)) \<and>
    sorted (map (\<lambda>r. - r_created_at r) rows) \<and> db v = db w"
proof -
  from list_route_Inr [OF assms(1)] assms(2,3) obtain t where "required_tenant_id u = Inr t"
    and rows: "rows = order_desc r_created_at (tenant_resources t (db w))" by auto
  moreover have "length (order_desc f xs) = length xs" for f :: "resource_row \<Rightarrow> int" and xs
    by (simp add: order_desc_def)
  ultimately show ?thesis
    using keepsD [OF list_resources_route_db assms(1)] sorted_order_desc [of r_created_at]
    by (auto simp: tenant_resources_def)
qed

theorem list_resources_functional_witness:
  "\<exists>rows v. list_resources_route (demo_env (demo_user 1 [''tenant_user''])) (Some ''good'') (Some 2)
        (demo_world demo_resources) = (Inr rows, v) \<and>
    sorted (map (\<lambda>r. - r_created_at r) rows) \<and>
    set rows = {r \<in> set (resources demo_resources). r_tenant_id r = 1}"
    (is "\<exists>rows v. ?run = _ \<and> _")
proof -
  have "case ?run of (res, v) \<Rightarrow> (case res of Inl _ \<Rightarrow> False | Inr rows \<Rightarrow> True)" by code_simp
  then obtain rows v where run: "?run = (Inr rows, v)" by (elim runE) (auto split: sum.splits)
  obtain w1 where l: "login (demo_env (demo_user 1 [''tenant_user''])) (Some ''good'')
      (end_transaction (demo_world demo_resources)) = (Inr (user_of_claims (demo_user 1 [''tenant_user''])), w1)"
    using demo_login_user by blast
  have "\<not> platform_admin (user_of_claims (demo_user 1 [''tenant_user'']))"
    by (simp add: platform_admin_def has_role_def demo_user_roles)
  from list_resources_functional [OF run l this]
  have "sorted (map (\<lambda>r. - r_created_at r) rows)"
    and "set rows = {r \<in> set (resources demo_resources). r_tenant_id r = 1}"
    by (auto simp: demo_user_tenant demo_world_def)
  with run show ?thesis by (intro exI conjI)
qed

text \<open>
  A created resource is what the body says, in the tenant of the token and owned by its
  subject: the row is appended, with the server's time stamp, nothing else changes, the tenant
  exists and had no resource of that name, and every later listing of the tenant shows the row.
\<close>

theorem create_resource_functional:
  assumes "create_resource_route e ul new_id cred d w = (Inr r, v)" and "enforces (env_verdict e)"
  shows "\<exists>u w1 t. login e cred (end_transaction w) = (Inr u, w1) \<and> required_tenant_id u = Inr t \<and>
    r = \<lparr>r_id = new_id, r_tenant_id = t, r_owner_user_id = cu_user_id u, r_name = rc_name d,
         r_data = rc_data d, r_url = map_option (url_text ul) (rc_url d), r_created_at = db_now w\<rparr> \<and>
    1 \<le> py_len (r_name r) \<and> py_len (r_name r) \<le> 200 \<and> is_dict (r_data r) \<and>
    db v = (db w)\<lparr>resources := resources (db w) @ [r]\<rparr> \<and> has_tenant (db w) t \<and>
    rc_name d \<notin> r_name ` set (tenant_resources t (db w)) \<and>
    tenant_resources t (db v) = tenant_resources t (db w) @ [r]"
proof -
  from create_route_Inr [OF assms] obtain u w1 t
    where 1: "login e cred (end_transaction w) = (Inr u, w1)" "required_tenant_id u = Inr t"
      "resource_create_ok ul d" "schema_ok (db v)" "db v = (db w)\<lparr>resources := resources (db w) @ [r]\<rparr>"
    and r: "r = \<lparr>r_id = new_id, r_tenant_id = t, r_owner_user_id = cu_user_id u, r_name = rc_name d,
         r_data = rc_data d, r_url = map_option (url_text ul) (rc_url d), r_created_at = db_now w\<rparr>"
    by blast
  from 1(4,5) r have "has_tenant (db w) t" and "rc_name d \<notin> r_name ` set (tenant_resources t (db w))"
    by (auto simp: schema_ok_unfold has_tenant_def tenant_resources_def image_iff)
  with 1 r show ?thesis
    by (intro exI [of _ u] exI [of _ w1] exI [of _ t])
      (auto simp: resource_create_ok_def name_ok_def tenant_resources_def)
qed

theorem create_resource_functional_witness:
  "\<exists>v. create_resource_route (demo_env (demo_user 1 [''tenant_user''])) demo_urls 14 (Some ''good'')
        (demo_body ''notes'') (demo_world demo_resources) =
      (Inr \<lparr>r_id = 14, r_tenant_id = 1, r_owner_user_id = ''u1'', r_name = ''notes'', r_data = JObj [],
             r_url = Some ''https://example.com/'', r_created_at = 7\<rparr>, v) \<and>
    length (tenant_resources 1 (db v)) = 3"
    (is "\<exists>v. ?run = (Inr ?r, v) \<and> _")
proof -
  have "case ?run of (r, v) \<Rightarrow> r = Inr ?r" by code_simp
  then obtain v where run: "?run = (Inr ?r, v)" by (elim runE) blast
  from create_resource_functional [OF run demo_enforces]
  have "tenant_resources 1 (db v) = tenant_resources 1 demo_resources @ [?r]"
    by (auto simp: demo_world_def)
  moreover have "length (tenant_resources 1 demo_resources) = 2" by code_simp
  ultimately have "length (tenant_resources 1 (db v)) = 3" by simp
  with run show ?thesis by (intro exI conjI)
qed

text \<open>
  An update changes one row, in place, and only what the body sets: name and data when given,
  the URL also to \<open>null\<close>; the row's id, tenant, owner and creation time stay, it belonged to a
  tenant that the user may access, and all other rows and tables stay as they are.
\<close>

theorem update_resource_functional:
  assumes "update_resource_route e ul cred k d w = (Inr r', v)" and "enforces (env_verdict e)"
  shows "\<exists>u w1 r us vs. login e cred (end_transaction w) = (Inr u, w1) \<and>
    may_access u (r_tenant_id r) \<and> r_id r = k \<and> resources (db w) = us @ r # vs \<and>
    db v = (db w)\<lparr>resources := us @ r' # vs\<rparr> \<and>
    r' = r\<lparr>r_name := patched (ru_name d) (r_name r), r_data := patched (ru_data d) (r_data r),
           r_url := (case ru_url d of None \<Rightarrow> r_url r | Some u \<Rightarrow> map_option (url_text ul) u)\<rparr>"
proof -
  from update_route_Inr [OF assms] obtain u w1 r us vs
    where "login e cred (end_transaction w) = (Inr u, w1)" "may_access u (r_tenant_id r)" "r_id r = k"
      "resources (db w) = us @ r # vs" "r' = patched_resource ul d r"
      "db v = (db w)\<lparr>resources := us @ r' # vs\<rparr>" by blast
  then show ?thesis unfolding patched_resource_def
    by (intro exI [of _ u] exI [of _ w1] exI [of _ r] exI [of _ us] exI [of _ vs]) simp
qed

theorem update_resource_functional_witness:
  "\<exists>r' v. update_resource_route (demo_env (demo_user 1 [''tenant_user''])) demo_urls (Some ''good'') 13
        demo_patch (demo_world demo_resources) = (Inr r', v) \<and> r_name r' = ''plan B''"
    (is "\<exists>r' v. ?run = _ \<and> _")
proof -
  have "case ?run of (res, v) \<Rightarrow> (case res of Inl _ \<Rightarrow> False | Inr rows \<Rightarrow> True)" by code_simp
  then obtain r' v where run: "?run = (Inr r', v)" by (elim runE) (auto split: sum.splits)
  from update_resource_functional [OF run demo_enforces]
  have "r_name r' = ''plan B''" by (auto simp: demo_patch_def patched_def)
  with run show ?thesis by (intro exI conjI)
qed

text \<open>
  A deletion needs the role \<open>tenant_admin\<close> and removes exactly the row that was asked for, which
  existed and belonged to a tenant that the user may access.
\<close>

theorem delete_resource_functional:
  assumes "delete_resource_route e cred k w = (Inr x, v)"
  shows "\<exists>u w1 r. login e cred (end_transaction w) = (Inr u, w1) \<and> has_role ''tenant_admin'' u \<and>
    may_access u (r_tenant_id r) \<and> r_id r = k \<and> r \<in> set (resources (db w)) \<and>
    db v = (db w)\<lparr>resources := filter (\<lambda>r. r_id r \<noteq> k) (resources (db w))\<rparr>"
  using assms by (rule delete_route_Inr)

theorem delete_resource_functional_witness:
  "\<exists>v. delete_resource_route (demo_env (demo_user 1 [''tenant_admin''])) (Some ''good'') 13
        (demo_world demo_resources) = (Inr (), v) \<and>
    map r_id (resources (db v)) = [11, 12]"
    (is "\<exists>v. ?run = _ \<and> _")
proof -
  have "case ?run of (r, v) \<Rightarrow> r = Inr ()" by code_simp
  then obtain v where run: "?run = (Inr (), v)" by (elim runE) blast
  from delete_resource_functional [OF run]
  have "resources (db v) = filter (\<lambda>r. r_id r \<noteq> 13) (resources demo_resources)"
    by (auto simp: demo_world_def)
  moreover have "map r_id (filter (\<lambda>r. r_id r \<noteq> 13) (resources demo_resources)) = [11, 12]" by code_simp
  ultimately have "map r_id (resources (db v)) = [11, 12]" by simp
  with run show ?thesis by (intro exI conjI)
qed

definition bola_refused :: "current_user \<Rightarrow> (world, 'a) prog \<Rightarrow> world \<Rightarrow> bool" where
  "bola_refused u m w \<longleftrightarrow>
     (\<exists>v ex. m w = (Inl (APIError 403 ACCESS_DENIED ''Access denied''), v) \<and> db v = db w \<and>
        logs v = logs w @ [\<lparr>severity = WARNING, message = ''security.bola_attempt'', extra = ex\<rparr>] \<and>
        map_of ex ''user_id'' = Some (LStr (cu_user_id u)))"

lemma bola_refused_route:
  assumes "authorize e roles cred (end_transaction w) = (Inr u, w1)"
    and "\<not> platform_admin u" and "required_tenant_id u = Inr t" and "t \<noteq> r_tenant_id r"
    and "find (\<lambda>r. r_id r = k) (resources (view (end_transaction w))) = Some r"
  shows "bola_refused u (get_db (bindM (authorize e roles cred) (\<lambda>u. bindM (get_resource k)
      (\<lambda>row. case row of None \<Rightarrow> throw x | Some r \<Rightarrow> bindM (authorize_resource_access u r) (\<lambda>_. g u r))))) w"
proof -
  from authorize_Inr [OF assms(1)] have same: "same_session w1 (end_transaction w)" by blast
  note s = same_sessionD [OF same]
  from assms(5) have "find (\<lambda>r. r_id r = k) (resources (view w1)) = Some r"
    by (simp add: same_session_view [OF same])
  from resource_guard.foreign_row_denied [where q = "\<lambda>d. find (\<lambda>r. r_id r = k) (resources d)",
      OF assms(2,3) this assms(4), where e = x and k = "g u"]
  obtain ex v where "bindM (get_resource k)
      (\<lambda>row. case row of None \<Rightarrow> throw x | Some r \<Rightarrow> bindM (authorize_resource_access u r) (\<lambda>_. g u r)) w1 =
      (Inl (APIError 403 ACCESS_DENIED ''Access denied''), v)"
    and "logs v = logs w1 @ [\<lparr>severity = WARNING, message = ''security.bola_attempt'', extra = ex\<rparr>]"
    and "db v = db w1" and "map_of ex ''user_id'' = Some (LStr (cu_user_id u))"
    unfolding get_resource_def by blast
  with s assms(1) show ?thesis
    by (auto simp: bola_refused_def get_db_def)
qed

text \<open>
  C37.  Access to another tenant's resource is refused and recorded, whatever the role: for a logged in
  user of tenant \<open>t\<close> who is no platform administrator, and a row of another tenant that the session
  can see, reading it, changing it with a valid body (both as user or administrator of the tenant) and
  deleting it (as administrator) ends in 403, leaves the tables as they are, and appends one warning
  \<open>security.bola_attempt\<close> that names the user.  Who lacks the role of the route, as a tenant's user
  does for a deletion, gets the 403 without a warning, and an invalid body is answered as such, before
  the row is looked at; neither changes a table.
\<close>

theorem foreign_access_denied:
  assumes "login e cred (end_transaction w) = (Inr u, w1)"
    and "\<not> platform_admin u" and "required_tenant_id u = Inr t" and "t \<noteq> r_tenant_id r"
    and "find (\<lambda>r. r_id r = k) (resources (view (end_transaction w))) = Some r"
  shows "(if has_role ''tenant_user'' u \<or> has_role ''tenant_admin'' u
      then bola_refused u (get_resource_route e cred k) w \<and>
        (if resource_update_ok ul d then bola_refused u (update_resource_route e ul cred k d) w
         else turned_away validation_error (update_resource_route e ul cred k d) w)
      else turned_away (APIError 403 ACCESS_DENIED ''Access denied'') (get_resource_route e cred k) w \<and>
        turned_away (APIError 403 ACCESS_DENIED ''Access denied'') (update_resource_route e ul cred k d) w) \<and>
    (if has_role ''tenant_admin'' u then bola_refused u (delete_resource_route e cred k) w
     else turned_away (APIError 403 ACCESS_DENIED ''Access denied'') (delete_resource_route e cred k) w)"
proof -
  have a: "authorize e roles cred (end_transaction w) = (Inr u, w1)" if "has_role r u" "r \<in> set roles" for r roles
    using assms(1) that by (rule authorize_role)
  have no: "set roles \<inter> set (cu_roles u) = {}" if "\<And>r. r \<in> set roles \<Longrightarrow> \<not> has_role r u" for roles
    using that by (auto simp: has_role_def)
  note bola = bola_refused_route [OF _ assms(2-5)]
  note role = role_refused [OF assms(1) no]
  have delete: "if has_role ''tenant_admin'' u then bola_refused u (delete_resource_route e cred k) w
     else turned_away (APIError 403 ACCESS_DENIED ''Access denied'') (delete_resource_route e cred k) w"
  proof (cases "has_role ''tenant_admin'' u")
    case True
    have "bola_refused u (delete_resource_route e cred k) w"
      unfolding delete_resource_route_def by (rule bola [OF a [OF True]]) simp
    with True show ?thesis by simp
  next
    case False
    then show ?thesis unfolding delete_resource_route_def by (auto intro: role)
  qed
  have admin: "\<not> has_role ''platform_admin'' u" using assms(2) by (simp add: platform_admin_def)
  show ?thesis
  proof (cases "has_role ''tenant_user'' u \<or> has_role ''tenant_admin'' u")
    case True
    then obtain r where r: "has_role r u" "r \<in> set [''tenant_user'', ''tenant_admin'']" by auto
    from r(2) have "r \<in> set [''tenant_user'', ''tenant_admin'', ''platform_admin'']" by auto
    then have get: "bola_refused u (get_resource_route e cred k) w"
      unfolding get_resource_route_def by (rule bola [OF a [OF r(1)]])
    have "turned_away validation_error (update_resource_route e ul cred k d) w" if "\<not> resource_update_ok ul d"
      unfolding update_resource_route_def by (rule body_refused [OF a [OF r] that])
    moreover have "bola_refused u (update_resource_route e ul cred k d) w" if "resource_update_ok ul d"
      unfolding update_resource_route_def using that by (simp add: valid_body_skip) (rule bola [OF a [OF r]])
    ultimately show ?thesis using True get delete by simp
  next
    case False
    then have "turned_away (APIError 403 ACCESS_DENIED ''Access denied'') (get_resource_route e cred k) w"
      "turned_away (APIError 403 ACCESS_DENIED ''Access denied'') (update_resource_route e ul cred k d) w"
      unfolding get_resource_route_def update_resource_route_def using admin by (auto intro: role)
    with False delete show ?thesis by simp
  qed
qed

text \<open>A tenant's user: reading is recorded, deleting is not even tried.\<close>

theorem foreign_access_denied_witness:
  "bola_refused (user_of_claims (demo_user 1 [''tenant_user'']))
     (get_resource_route (demo_env (demo_user 1 [''tenant_user''])) (Some ''good'') 12)
     (demo_world demo_resources) \<and>
   turned_away (APIError 403 ACCESS_DENIED ''Access denied'')
     (delete_resource_route (demo_env (demo_user 1 [''tenant_user''])) (Some ''good'') 12)
     (demo_world demo_resources)"
proof -
  let ?u = "user_of_claims (demo_user 1 [''tenant_user''])"
  obtain w1 where l: "login (demo_env (demo_user 1 [''tenant_user''])) (Some ''good'')
      (end_transaction (demo_world demo_resources)) = (Inr ?u, w1)"
    using demo_login_user by blast
  have 1: "\<not> platform_admin ?u" "has_role ''tenant_user'' ?u" "\<not> has_role ''tenant_admin'' ?u"
    by (simp_all add: platform_admin_def has_role_def demo_user_roles)
  have 2: "1 \<noteq> r_tenant_id (demo_resource 12 2 ''plan'' 2)" by code_simp
  have 3: "find (\<lambda>r. r_id r = 12) (resources (view (end_transaction (demo_world demo_resources)))) =
      Some (demo_resource 12 2 ''plan'' 2)" by code_simp
  from foreign_access_denied [OF l 1(1) demo_user_tenant 2 3, of demo_urls demo_patch] 1(2,3) show ?thesis by simp
qed

text \<open>
  A name is unique in its tenant: creating a second resource of the same name in the same
  tenant is answered with 409, and the database is as before.
\<close>

theorem create_resource_conflict:
  assumes "login e cred (end_transaction w) = (Inr u, w1)" and "has_role ''tenant_user'' u"
    and "required_tenant_id u = Inr t" and "resource_create_ok ul d"
    and "rc_name d \<in> r_name ` set (tenant_resources t (db w))"
    and "env_verdict e = schema_verdict" and "amounts_fit (db w)" and "rls_bypass w"
  shows "fst (create_resource_route e ul new_id cred d w) =
      Inl (APIError 409 CONFLICT ''Resource already exists in this tenant'') \<and>
    db (snd (create_resource_route e ul new_id cred d w)) = db w"
proof -
  have a: "authorize e [''tenant_user'', ''tenant_admin''] cred (end_transaction w) = (Inr u, w1)"
    by (rule authorize_role [OF assms(1,2)]) simp
  from authorize_Inr [OF a] have "same_session w1 (end_transaction w)" by blast
  note s = same_sessionD [OF this]
  let ?row = "resource_row_of ul new_id d t (cu_user_id u)"
  let ?d = "(db w)\<lparr>resources := resources (db w) @ [?row\<lparr>r_created_at := db_now w\<rparr>]\<rparr>"
  from assms(5) have "\<not> schema_ok ?d"
    by (auto simp: schema_ok_unfold tenant_resources_def resource_row_of_def image_iff)
  moreover have "amounts_fit ?d" using assms(7) by (simp add: amounts_fit_def)
  ultimately have verdict: "schema_verdict ?d = Some IntegrityError" by (simp add: schema_verdict_def)
  let ?w = "w1\<lparr>rls_tenant := Some (uuid_str t), pending := [InsertResource ?row]\<rparr>"
  have "flush_result schema_verdict ?w = Inl IntegrityError"
    using s assms(8) verdict by (simp add: flush_result_def)
  then have "create_resource schema_verdict ul new_id d t (cu_user_id u) w1 =
      (Inl (APIError 409 CONFLICT ''Resource already exists in this tenant''), end_transaction ?w)"
    using s by (simp add: create_resource_def bindM_def commit_or_conflict_def catchM_def commit_def)
  then show ?thesis
    using s a assms(3,4,6) by (simp add: create_resource_route_def get_db_def bindM_def validate_body_def)
qed

theorem create_resource_conflict_witness:
  "fst (create_resource_route (demo_env (demo_user 1 [''tenant_user''])) demo_urls 14 (Some ''good'')
      (demo_body ''plan'') (demo_world demo_resources)) =
    Inl (APIError 409 CONFLICT ''Resource already exists in this tenant'')"
proof -
  let ?u = "user_of_claims (demo_user 1 [''tenant_user''])"
  obtain w1 where l: "login (demo_env (demo_user 1 [''tenant_user''])) (Some ''good'')
      (end_transaction (demo_world demo_resources)) = (Inr ?u, w1)"
    using demo_login_user by blast
  have role: "has_role ''tenant_user'' ?u" by (simp add: has_role_def demo_user_roles)
  have body: "resource_create_ok demo_urls (demo_body ''plan'')" by code_simp
  have name: "rc_name (demo_body ''plan'') \<in> r_name ` set (tenant_resources 1 (db (demo_world demo_resources)))"
    by code_simp
  have "env_verdict (demo_env (demo_user 1 [''tenant_user''])) = schema_verdict" by (simp add: demo_env_def)
  moreover have "amounts_fit (db (demo_world demo_resources))" by code_simp
  moreover have "rls_bypass (demo_world demo_resources)" by (simp add: demo_world_def)
  ultimately show ?thesis
    by (rule create_resource_conflict [OF l role demo_user_tenant body name, THEN conjunct1])
qed

definition call_url :: "'u resource_call \<Rightarrow> 'u option" where
  "call_url call =
     (case call of
        CreateResource k d \<Rightarrow> rc_url d
      | ChangeResource k d \<Rightarrow> (case ru_url d of None \<Rightarrow> None | Some x \<Rightarrow> x)
      | _ \<Rightarrow> None)"

text \<open>
  A URL that the check calls internal does not get into the database: a body that creates or
  changes a resource with a URL that has no host or an internal one is refused, and the database
  is as it was.
\<close>

theorem internal_url_refused:
  assumes "resource_api e ul cred call w = (res, v)" and "call_url call = Some x"
    and "host ul x = None \<or> (\<exists>h. host ul x = Some h \<and> is_internal_host h)"
  shows "res \<notin> range Inr \<and> db v = db w"
proof -
  have bad: "\<not> url_accepted ul (Some x)"
    using assms(3) by (auto simp: url_accepted_def validate_public_http_url_def)
  show ?thesis
  proof (cases call)
    case (CreateResource k d)
    with assms(1) obtain r where "create_resource_route e ul k cred d w = (r, v)" "r \<in> range Inl \<Longrightarrow> res \<notin> range Inr"
      by (auto simp: bindM_def split: prod.splits sum.splits)
    moreover have "\<not> resource_create_ok ul d"
      using bad CreateResource assms(2) by (simp add: resource_create_ok_def call_url_def)
    ultimately show ?thesis
      unfolding create_resource_route_def by (cases r) (auto dest!: invalid_body)
  next
    case (ChangeResource k d)
    with assms(1) obtain r where "update_resource_route e ul cred k d w = (r, v)" "r \<in> range Inl \<Longrightarrow> res \<notin> range Inr"
      by (auto simp: bindM_def split: prod.splits sum.splits)
    moreover have "\<not> resource_update_ok ul d"
      using bad ChangeResource assms(2)
      by (auto simp: resource_update_ok_def call_url_def given_def split: option.splits)
    ultimately show ?thesis
      unfolding update_resource_route_def by (cases r) (auto dest!: invalid_body)
  qed (use assms(2) in \<open>simp_all add: call_url_def\<close>)
qed

theorem internal_url_refused_witness:
  "\<exists>res v. resource_api (demo_env (demo_user 1 [''tenant_user''])) demo_urls (Some ''good'')
        (CreateResource 14 ((demo_body ''notes'')\<lparr>rc_url := Some ''Vault.''\<rparr>)) (demo_world demo_resources) =
      (res, v) \<and> res \<notin> range Inr \<and> db v = demo_resources"
    (is "\<exists>res v. ?run = (res, v) \<and> _")
proof -
  obtain res v where run: "?run = (res, v)" by (cases ?run) blast
  have "call_url (CreateResource 14 ((demo_body ''notes'')\<lparr>rc_url := Some ''Vault.''\<rparr>)) = Some ''Vault.''"
    by code_simp
  moreover have "is_internal_host ''Vault.''" by code_simp
  ultimately show ?thesis
    using internal_url_refused [OF run] run by (simp add: demo_urls_def demo_world_def)
qed

text \<open>
  Row-level security and the service do not fit together: only \<open>list_resources\<close> and
  \<open>create_resource\<close> set the tenant of the transaction.  On a connection that the policies of
  apply-rls.sql apply to, every read, change and deletion of a single resource by its tenant's own
  administrator ends in 404, although the same user's listing shows the resource.
\<close>

theorem rls_hides_single_resources:
  assumes "login e cred (end_transaction w) = (Inr u, w1)" and "has_role ''tenant_admin'' u"
    and "required_tenant_id u = Inr t" and "resource_update_ok ul d" and "\<not> rls_bypass w"
    and "\<not> platform_admin u" and "list_all resource_response_ok (tenant_resources t (db w))"
  shows "fst (get_resource_route e cred k w) = Inl (APIError 404 NOT_FOUND ''Resource not found'') \<and>
    fst (update_resource_route e ul cred k d w) = Inl (APIError 404 NOT_FOUND ''Resource not found'') \<and>
    fst (delete_resource_route e cred k w) = Inl (APIError 404 NOT_FOUND ''Resource not found'') \<and>
    fst (list_resources_route e cred None w) = Inr (order_desc r_created_at (tenant_resources t (db w)))"
proof -
  have a: "authorize e roles cred (end_transaction w) = (Inr u, w1)" if "''tenant_admin'' \<in> set roles" for roles
    using assms(1,2) that by (rule authorize_role)
  have admin: "authorize e [''tenant_user'', ''tenant_admin'', ''platform_admin''] cred (end_transaction w) = (Inr u, w1)"
    by (rule a) simp
  from authorize_Inr [OF admin] have "same_session w1 (end_transaction w)" by blast
  note s = same_sessionD [OF this]
  note hidden = rls_lookup_404 [OF a assms(5)]
  have "fst (get_resource_route e cred k w) = Inl (not_found ''Resource not found'')"
    unfolding get_resource_route_def by (rule hidden) simp
  moreover have "fst (delete_resource_route e cred k w) = Inl (not_found ''Resource not found'')"
    unfolding delete_resource_route_def by (rule hidden) simp
  moreover have "fst (update_resource_route e ul cred k d w) = Inl (not_found ''Resource not found'')"
    unfolding update_resource_route_def using assms(4)
    by (simp add: valid_body_skip) (rule hidden, simp)
  moreover have "fst (list_resources_route e cred None w) = Inr (order_desc r_created_at (tenant_resources t (db w)))"
    using s assms(3,6,7) admin
    by (simp add: list_resources_route_def get_db_def bindM_def list_resources_scoped
        tenant_resources_def respond_def list_all_iff)
  ultimately show ?thesis by (simp add: not_found_def)
qed

theorem rls_hides_single_resources_witness:
  "fst (get_resource_route (demo_env (demo_user 1 [''tenant_admin''])) (Some ''good'') 11
      ((demo_world demo_resources)\<lparr>rls_bypass := False\<rparr>)) =
    Inl (APIError 404 NOT_FOUND ''Resource not found'')"
proof -
  let ?u = "user_of_claims (demo_user 1 [''tenant_admin''])"
  let ?w = "(demo_world demo_resources)\<lparr>rls_bypass := False\<rparr>"
  obtain w1 where l: "login (demo_env (demo_user 1 [''tenant_admin''])) (Some ''good'') (end_transaction ?w) = (Inr ?u, w1)"
    by (simp add: login_def demo_env_def demo_login demo_world_def end_transaction_def)
  have role: "has_role ''tenant_admin'' ?u" and no: "\<not> platform_admin ?u"
    by (simp_all add: platform_admin_def has_role_def demo_user_roles)
  have body: "resource_update_ok demo_urls demo_patch" by code_simp
  have rls: "\<not> rls_bypass ?w" by simp
  have "list_all resource_response_ok (tenant_resources 1 (db ?w))" by code_simp
  from rls_hides_single_resources [OF l role demo_user_tenant body rls no this, where k = 11]
  show ?thesis by (rule conjunct1)
qed

text \<open>
  A body can disable its tenant's listing: \<open>ResourceUpdate\<close> allows \<open>"data": null\<close>, which is stored
  as a JSON null that \<open>ResourceResponse\<close> does not allow.  The update that stored it does not return
  a response, and from then on no listing of the tenant that owns the row succeeds for its users.
\<close>

theorem null_data_disables_listing:
  assumes "update_resource_route e ul cred k \<lparr>ru_name = None, ru_data = Some None, ru_url = None\<rparr> w = (res, v)"
    and "db v \<noteq> db w" and "schema_ok (db w)"
  shows "res \<notin> range Inr \<and>
    (\<exists>r\<in>set (resources (db v)). r_id r = k \<and> r_data r = JNull \<and>
      (\<forall>e' cred' tid u w1. login e' cred' (end_transaction v) = (Inr u, w1) \<and> \<not> platform_admin u \<and>
         required_tenant_id u = Inr (r_tenant_id r) \<longrightarrow>
         fst (list_resources_route (e' :: 'k env) cred' tid v) \<notin> range Inr))"
proof -
  let ?d = "\<lparr>ru_name = None, ru_data = Some None, ru_url = None\<rparr> :: _ resource_update"
  have fs: "resource_updates ul ?d = [ResourceData None]" by (simp add: resource_updates_def)
  from update_route_step [OF assms(1)] assms(2) obtain u w1 r x v1
    where s: "same_session w1 (end_transaction w)" and c: "update_resource (env_verdict e) ul r ?d w1 = (x, v1)"
      and k: "r_id r = k" and v: "db v = db v1"
      and ok: "\<And>r'. res = Inr r' \<Longrightarrow> resource_response_ok r' \<and> x = Inr r'" by blast
  note s = same_sessionD [OF s]
  from s have idle: "pending w1 = []" by simp
  from update_resource_effect [OF c idle] s v assms(2) fs k
  have "apply_change (db_now w) (UpdateResource k [ResourceData None]) (db w) = Inr (db v)" by auto
  then obtain rs where u: "update_row r_id k (set_fields set_resource_field [ResourceData None]) (resources (db w)) = Inr rs"
    and dv: "db v = (db w)\<lparr>resources := rs\<rparr>" by auto
  from update_row_Inr [OF u] obtain us y y' vs where l: "resources (db w) = us @ y # vs" "rs = us @ y' # vs"
    "r_id y = k" "y' = y\<lparr>r_data := JNull\<rparr>" by auto
  have row: "y' \<in> set (resources (db v))" "r_id y' = k" "r_data y' = JNull" using l dv by auto
  have list: "fst (list_resources_route e' cred' tid v) \<notin> range Inr"
    if l': "login e' cred' (end_transaction v) = (Inr u', w1')" "\<not> platform_admin u'"
      "required_tenant_id u' = Inr (r_tenant_id y')" for e' :: "'k env" and cred' tid u' w1'
  proof
    assume "fst (list_resources_route e' cred' tid v) \<in> range Inr"
    then obtain rows v' where run: "list_resources_route e' cred' tid v = (Inr rows, v')"
      by (metis outcome rangeE)
    from list_route_rows_ok [OF run] list_route_Inr [OF run] l' row show False
      by (auto simp: tenant_resources_def list_all_iff resource_response_ok_def is_dict_def)
  qed
  have "res \<noteq> Inr r'" for r'
  proof
    assume "res = Inr r'"
    with ok have r': "is_dict (r_data r')" and x: "x = Inr r'" by (auto simp: resource_response_ok_def)
    from update_resource_reads_back [OF c [unfolded x] idle] v k l dv
    have "r' \<in> set (resources (db v))" "r_id r' = k" by simp_all
    then have again: "r' \<in> set (us @ y' # vs)" "r_id r' = k" using l(2) dv by simp_all
    have "distinct (map r_id (us @ y # vs))" using assms(3) l by (simp add: schema_ok_unfold)
    with l have "distinct (map r_id (us @ y' # vs))" by simp
    with again l have "r' = y'" by (metis distinct_map in_set_conv_decomp inj_onD row(2))
    with l r' show False by (simp add: is_dict_def)
  qed
  with list row show ?thesis by blast
qed

theorem null_data_disables_listing_witness:
  "\<exists>res v. update_resource_route (demo_env (demo_user 1 [''tenant_user''])) demo_urls (Some ''good'') 13
        \<lparr>ru_name = None, ru_data = Some None, ru_url = None\<rparr> (demo_world demo_resources) = (res, v) \<and>
      res \<notin> range Inr \<and> (\<exists>r\<in>set (resources (db v)). r_id r = 13 \<and> r_data r = JNull)"
    (is "\<exists>res v. ?run = (res, v) \<and> _")
proof -
  have "case ?run of (res, v) \<Rightarrow> list_ex (\<lambda>r. r_data r = JNull) (resources (db v))" by code_simp
  then obtain res v where run: "?run = (res, v)" and 1: "list_ex (\<lambda>r. r_data r = JNull) (resources (db v))"
    by (elim runE) blast
  have "\<not> list_ex (\<lambda>r. r_data r = JNull) (resources (db (demo_world demo_resources)))" by code_simp
  with 1 have ne: "db v \<noteq> db (demo_world demo_resources)" by auto
  have "schema_ok (db (demo_world demo_resources))" by code_simp
  from null_data_disables_listing [OF run ne this] run show ?thesis by blast
qed

end
