(* ===== verification/User_Service.thy ===== *)
theory User_Service
  imports Tenant_Guard
begin

text \<open>
  services/user-service: the request bodies (models/schemas.py), the persistence operations
  (services/user_service.py) and the routes with their two authorization checks (api/v1/routes.py).

  Whether a string is an e-mail address is decided by Pydantic's \<open>EmailStr\<close>, the parameter
  \<open>valid_email\<close>.  \<open>EmailStr\<close> also normalises what it accepts (the domain in lower case, the local part
  in Unicode's composed form), and the services see the result only: a body here is the validated
  model, whose e-mail is the address that \<open>EmailStr\<close> returned, or the text of the request where it
  returned none.  \<open>ORDER BY email\<close> follows the collation of the database, given by the parameter
  \<open>rank\<close>, which orders strings by numbers.  The properties of the API are in
  \<open>User_Properties\<close>.
\<close>

section \<open>Request bodies\<close>

text \<open>\<open>uc_email\<close> and \<open>uu_email\<close> hold the address after \<open>EmailStr\<close> has normalised it.\<close>

record user_create =
  uc_tenant_id :: "uuid option"
  uc_keycloak_user_id :: string
  uc_email :: string
  uc_role :: string

record user_update =
  uu_email :: "string option option"
  uu_role :: "string option option"
  uu_status :: "string option option"

record user_lib =
  valid_email :: "string \<Rightarrow> bool"
  rank :: "string \<Rightarrow> int"

definition USER_ROLES :: "string list" where
  "USER_ROLES = [''tenant_admin'', ''tenant_user'', ''platform_admin'']"

definition USER_STATUSES :: "string list" where
  "USER_STATUSES = [''active'', ''disabled'', ''deleted'']"

definition user_create_ok :: "user_lib \<Rightarrow> user_create \<Rightarrow> bool" where
  "user_create_ok ul d \<longleftrightarrow> valid_email ul (uc_email d) \<and> uc_role d \<in> set USER_ROLES"

definition user_update_ok :: "user_lib \<Rightarrow> user_update \<Rightarrow> bool" where
  "user_update_ok ul d \<longleftrightarrow> given (valid_email ul) (uu_email d) \<and>
     given (\<lambda>r. r \<in> set USER_ROLES) (uu_role d) \<and> given (\<lambda>s. s \<in> set USER_STATUSES) (uu_status d)"

definition user_response_ok :: "user_lib \<Rightarrow> user_row \<Rightarrow> bool" where
  "user_response_ok ul u \<longleftrightarrow> valid_email ul (u_email u)"

section \<open>UserService\<close>

text \<open>\<open>UUID(str(current_user.tenant_id))\<close>: a missing tenant becomes the text \<open>None\<close>.\<close>

definition list_users :: "user_lib \<Rightarrow> current_user \<Rightarrow> uuid option \<Rightarrow> (world, user_row list) prog" where
  "list_users ul u tenant_id =
     bindM (if platform_admin u then ret tenant_id
            else bindM (liftE (of_option ValueError
                   (uuid_of_str (case cu_tenant_id u of None \<Rightarrow> ''None'' | Some s \<Rightarrow> s)))) (\<lambda>t. ret (Some t)))
       (\<lambda>scope. select (\<lambda>d. sort_key (\<lambda>p. rank ul (u_email p))
         (case scope of None \<Rightarrow> users d | Some t \<Rightarrow> filter (\<lambda>p. u_tenant_id p = t) (users d))))"

definition user_query :: "string \<Rightarrow> database \<Rightarrow> user_row option" where
  "user_query s d =
     (case uuid_of_str s of
        Some k \<Rightarrow> find (\<lambda>p. u_id p = k) (users d)
      | None \<Rightarrow> find (\<lambda>p. u_keycloak_user_id p = s) (users d))"

definition get_user :: "string \<Rightarrow> (world, user_row option) prog" where
  "get_user s = select (user_query s)"

definition get_user_by_email :: "string \<Rightarrow> uuid \<Rightarrow> (world, user_row option) prog" where
  "get_user_by_email email t =
     select (\<lambda>d. find (\<lambda>p. u_email p = email \<and> u_tenant_id p = t) (users d))"

definition create_user :: "verdict \<Rightarrow> uuid \<Rightarrow> user_create \<Rightarrow> uuid \<Rightarrow> (world, user_row) prog" where
  "create_user chk new_id d t =
     bindM (add (InsertUser
       \<lparr>u_id = new_id, u_keycloak_user_id = uc_keycloak_user_id d, u_tenant_id = t, u_email = uc_email d,
        u_role = uc_role d, u_status = ''active'', u_created_at = 0\<rparr>)) (\<lambda>_.
     bindM (commit_or_conflict chk ''User profile already exists'') (\<lambda>_.
     reread (\<lambda>db. find (\<lambda>p. u_id p = new_id) (users db))))"

definition user_updates :: "user_update \<Rightarrow> user_field list" where
  "user_updates d =
     (case uu_email d of None \<Rightarrow> [] | Some v \<Rightarrow> [UserEmail v]) @
     (case uu_role d of None \<Rightarrow> [] | Some v \<Rightarrow> [UserRole v]) @
     (case uu_status d of None \<Rightarrow> [] | Some v \<Rightarrow> [UserStatus v])"

definition update_user :: "verdict \<Rightarrow> user_row \<Rightarrow> user_update \<Rightarrow> (world, user_row) prog" where
  "update_user chk p d =
     (let fs = user_updates d in
      bindM (if fs = [] then ret () else add (UpdateUser (u_id p) fs)) (\<lambda>_.
      bindM (commit_or_conflict chk ''User profile update conflicts with existing data'') (\<lambda>_.
      reread (\<lambda>db. find (\<lambda>q. u_id q = u_id p) (users db)))))"

definition deactivate_user :: "verdict \<Rightarrow> user_row \<Rightarrow> (world, unit) prog" where
  "deactivate_user chk p =
     bindM (add (UpdateUser (u_id p) [UserStatus (Some ''disabled'')])) (\<lambda>_. commit chk)"

section \<open>Routes\<close>

definition authorize_user_read :: "current_user \<Rightarrow> user_row \<Rightarrow> (world, unit) prog" where
  "authorize_user_read u p =
     (let same_tenant = (cu_tenant_id u = Some (uuid_str (u_tenant_id p))) in
      if platform_admin u then ret ()
      else if u_keycloak_user_id p = cu_user_id u \<and> same_tenant then ret ()
      else if truthy (cu_email u) \<and> Some (u_email p) = cu_email u \<and> same_tenant then ret ()
      else if has_role ''tenant_admin'' u \<and> same_tenant then ret ()
      else throw (APIError 403 ACCESS_DENIED ''Cannot access user outside your tenant''))"

definition authorize_same_tenant_admin :: "current_user \<Rightarrow> user_row \<Rightarrow> (world, unit) prog" where
  "authorize_same_tenant_admin u p =
     bindM (liftE (required_tenant_id u)) (\<lambda>t.
     if u_tenant_id p \<noteq> t
     then throw (APIError 403 ACCESS_DENIED ''Cannot manage users outside your tenant'') else ret ())"

definition is_self_lookup :: "string \<Rightarrow> current_user \<Rightarrow> bool" where
  "is_self_lookup s u \<longleftrightarrow> (s = cu_user_id u \<or> s = ''me'') \<and> cu_email u \<noteq> None"

definition log_user :: "string \<Rightarrow> user_row \<Rightarrow> (world, unit) prog" where
  "log_user ev p = log INFO ev [(''event'', LStr ev), (''target_user_id'', LStr (uuid_str (u_id p)))]"

definition users_metadata :: service_info where
  "users_metadata =
     \<lparr>info_service = ''user-service'', info_stage = ''stage-8'', info_status = ''tenant-aware-user-api''\<rparr>"

definition list_users_route ::
    "'k env \<Rightarrow> user_lib \<Rightarrow> string option \<Rightarrow> uuid option \<Rightarrow> (world, user_row list) prog" where
  "list_users_route e ul cred tenant_id =
     get_db
      (bindM (authorize e [''tenant_admin'', ''platform_admin''] cred) (\<lambda>u.
       bindM (list_users ul u tenant_id) (\<lambda>ps.
       bindM (case tenant_id of
                Some t \<Rightarrow>
                  if platform_admin u
                  then log INFO ''user.list.cross_tenant''
                         [(''event'', LStr ''user.list''), (''target_tenant_id'', LStr (uuid_str t))]
                  else log INFO ''user.list'' [(''event'', LStr ''user.list'')]
              | None \<Rightarrow> log INFO ''user.list'' [(''event'', LStr ''user.list'')]) (\<lambda>_.
       respond (list_all (user_response_ok ul) ps) ps))))"

definition get_user_route ::
    "'k env \<Rightarrow> user_lib \<Rightarrow> string option \<Rightarrow> string \<Rightarrow> (world, user_row) prog" where
  "get_user_route e ul cred s =
     get_db
      (bindM (authorize e [''tenant_user'', ''tenant_admin'', ''platform_admin''] cred) (\<lambda>u.
       bindM (get_user s) (\<lambda>found.
       bindM (if found = None \<and> is_self_lookup s u
              then bindM (liftE (required_tenant_id u)) (get_user_by_email (str_or (cu_email u) []))
              else ret found) (\<lambda>profile. case profile of
         None \<Rightarrow> throw (not_found ''User profile not found'')
       | Some p \<Rightarrow>
           bindM (authorize_user_read u p) (\<lambda>_.
           respond (user_response_ok ul p) p)))))"

definition create_user_route ::
    "'k env \<Rightarrow> user_lib \<Rightarrow> uuid \<Rightarrow> string option \<Rightarrow> user_create \<Rightarrow> (world, user_row) prog" where
  "create_user_route e ul new_id cred d =
     get_db
      (bindM (authorize e [''tenant_admin''] cred) (\<lambda>u.
       bindM (liftE (validate_body (user_create_ok ul d))) (\<lambda>_.
       bindM (liftE (required_tenant_id u)) (\<lambda>t.
       if uc_tenant_id d \<noteq> None \<and> uc_tenant_id d \<noteq> Some t
       then throw (APIError 403 ACCESS_DENIED ''Cannot create users outside your tenant'')
       else
       bindM (create_user (env_verdict e) new_id d t) (\<lambda>p.
       bindM (log_user ''user.create'' p) (\<lambda>_.
       respond (user_response_ok ul p) p))))))"

definition update_user_route ::
    "'k env \<Rightarrow> user_lib \<Rightarrow> string option \<Rightarrow> string \<Rightarrow> user_update \<Rightarrow> (world, user_row) prog" where
  "update_user_route e ul cred s d =
     get_db
      (bindM (authorize e [''tenant_admin''] cred) (\<lambda>u.
       bindM (liftE (validate_body (user_update_ok ul d))) (\<lambda>_.
       bindM (get_user s) (\<lambda>profile. case profile of
         None \<Rightarrow> throw (not_found ''User profile not found'')
       | Some p \<Rightarrow>
           bindM (authorize_same_tenant_admin u p) (\<lambda>_.
           bindM (update_user (env_verdict e) p d) (\<lambda>p'.
           bindM (log_user ''user.update'' p') (\<lambda>_.
           respond (user_response_ok ul p') p')))))))"

definition deactivate_user_route ::
    "'k env \<Rightarrow> string option \<Rightarrow> string \<Rightarrow> (world, unit) prog" where
  "deactivate_user_route e cred s =
     get_db
      (bindM (authorize e [''tenant_admin''] cred) (\<lambda>u.
       bindM (get_user s) (\<lambda>profile. case profile of
         None \<Rightarrow> throw (not_found ''User profile not found'')
       | Some p \<Rightarrow>
           bindM (authorize_same_tenant_admin u p) (\<lambda>_.
           bindM (deactivate_user (env_verdict e) p) (\<lambda>_.
           log_user ''user.deactivate'' p)))))"

datatype user_call =
    ListUsers "uuid option"
  | GetUser string
  | CreateUser uuid user_create
  | ChangeUser string user_update
  | DeactivateUser string

fun user_api ::
    "'k env \<Rightarrow> user_lib \<Rightarrow> string option \<Rightarrow> user_call \<Rightarrow> (world, user_row list) prog" where
  "user_api e ul cred (ListUsers t) = list_users_route e ul cred t"
| "user_api e ul cred (GetUser s) = bindM (get_user_route e ul cred s) (\<lambda>p. ret [p])"
| "user_api e ul cred (CreateUser new_id d) = bindM (create_user_route e ul new_id cred d) (\<lambda>p. ret [p])"
| "user_api e ul cred (ChangeUser s d) = bindM (update_user_route e ul cred s d) (\<lambda>p. ret [p])"
| "user_api e ul cred (DeactivateUser s) = bindM (deactivate_user_route e cred s) (\<lambda>_. ret [])"

section \<open>The guards\<close>

lemma required_tenant_of_str: "cu_tenant_id u = Some (uuid_str t) \<Longrightarrow> required_tenant_id u = Inr t"
  by (simp add: required_tenant_id_def)

interpretation user_read_guard: tenant_guard u_tenant_id authorize_user_read
proof unfold_locales
  fix u and p :: user_row and w x v
  assume "authorize_user_read u p w = (Inr x, v)"
  then show "may_access u (u_tenant_id p) \<and> v = w"
    by (auto simp: authorize_user_read_def may_access_def Let_def required_tenant_of_str split: if_splits)
next
  fix u p
  show "keeps db (authorize_user_read u p)"
    unfolding authorize_user_read_def Let_def by (intro keeps_intros keeps_prim)
qed

interpretation user_admin_guard: tenant_guard u_tenant_id authorize_same_tenant_admin
proof unfold_locales
  fix u and p :: user_row and w x v
  assume "authorize_same_tenant_admin u p w = (Inr x, v)"
  then show "may_access u (u_tenant_id p) \<and> v = w"
    by (auto simp: authorize_same_tenant_admin_def may_access_def bindM_eq_Inr split: if_splits)
next
  fix u p
  show "keeps db (authorize_same_tenant_admin u p)"
    unfolding authorize_same_tenant_admin_def by (intro keeps_intros keeps_prim)
qed

lemma user_read_guard_self:
  assumes "authorize_user_read u p w = (Inr x, v)"
    and "\<not> platform_admin u" and "\<not> has_role ''tenant_admin'' u"
  shows "u_keycloak_user_id p = cu_user_id u \<or> cu_email u = Some (u_email p)"
  using assms by (auto simp: authorize_user_read_def Let_def split: if_splits)

lemma log_user_apply [simp]:
  "log_user ev p w = (Inr (), w\<lparr>logs := logs w @ [\<lparr>severity = INFO, message = ev,
     extra = [(''event'', LStr ev), (''target_user_id'', LStr (uuid_str (u_id p)))]\<rparr>]\<rparr>)"
  by (simp add: log_user_def)

lemma user_query_Some:
  "user_query s d = Some p \<Longrightarrow> p \<in> set (users d) \<and>
     (uuid_of_str s = Some (u_id p) \<or> uuid_of_str s = None \<and> u_keycloak_user_id p = s)"
  by (auto simp: user_query_def dest!: find_Some_set split: option.splits)

lemma user_query_view: "pending w = [] \<Longrightarrow> user_query s (view w) = user_query s (db w)"
  by (simp add: user_query_def split: option.split)

lemma none_no_uuid [simp]: "uuid_of_str ''None'' = None"
  by code_simp

section \<open>The effect of an operation\<close>

definition writes_users_of :: "uuid \<Rightarrow> world \<Rightarrow> world \<Rightarrow> bool" where
  "writes_users_of t w v \<longleftrightarrow>
     (\<forall>t'. t' \<noteq> t \<longrightarrow> tenant_users t' (db v) = tenant_users t' (db w)) \<and>
     tenants (db v) = tenants (db w) \<and> resources (db v) = resources (db w) \<and>
     payments (db v) = payments (db w) \<and> events (db v) = events (db w)"

lemma writes_users_of_same [simp]: "db v = db w \<Longrightarrow> writes_users_of t w v"
  by (simp add: writes_users_of_def)

lemma create_user_effect:
  assumes "create_user chk new_id d t w = (res, v)" and "pending w = []"
  shows "writes_users_of t w v"
proof -
  let ?p = "\<lparr>u_id = new_id, u_keycloak_user_id = uc_keycloak_user_id d, u_tenant_id = t,
    u_email = uc_email d, u_role = uc_role d, u_status = ''active'', u_created_at = 0\<rparr>"
  let ?w = "w\<lparr>pending := [InsertUser ?p]\<rparr>"
  from assms have "bindM (commit_or_conflict chk ''User profile already exists'')
      (\<lambda>_. reread (\<lambda>db. find (\<lambda>p. u_id p = new_id) (users db))) ?w = (res, v)"
    by (simp add: create_user_def bindM_def)
  from bindM_tail [OF this, of db] keeps_db_prim(5)
  obtain r u where "commit_or_conflict chk ''User profile already exists'' ?w = (r, u)"
    and "db v = db u" by blast
  with commit_or_conflict_effect [OF this(1)] flush_single [of chk ?w "db v" "InsertUser ?p"]
  have "db v = db w \<or> apply_change (db_now w) (InsertUser ?p) (db w) = Inr (db v)"
    by (auto simp del: apply_change.simps)
  then show ?thesis
  proof
    assume "apply_change (db_now w) (InsertUser ?p) (db w) = Inr (db v)"
    then have "db v = (db w)\<lparr>users := users (db w) @ [?p\<lparr>u_created_at := db_now w\<rparr>]\<rparr>" by simp
    then show ?thesis by (simp add: writes_users_of_def tenant_users_def)
  qed simp
qed

lemma user_update_change:
  assumes "apply_change now (UpdateUser (u_id p) fs) (db w) = Inr (db v)"
    and "schema_ok (db w)" and "p \<in> set (users (db w))"
  shows "writes_users_of (u_tenant_id p) w v \<and>
    (\<exists>us p' vs. users (db w) = us @ p # vs \<and> users (db v) = us @ p' # vs \<and>
       set_fields set_user_field fs p = Some p')"
proof -
  from assms(1) obtain rs where u: "update_row u_id (u_id p) (set_fields set_user_field fs) (users (db w)) = Inr rs"
    and v: "db v = (db w)\<lparr>users := rs\<rparr>" by auto
  have "filter (\<lambda>s. u_tenant_id s = t) rs = filter (\<lambda>s. u_tenant_id s = t) (users (db w))"
    if "t \<noteq> u_tenant_id p" for t
    by (rule users_tab.updated_listing [OF u _ assms(2,3) refl that]) (auto dest: set_user_fields_key)
  moreover from update_row_Inr [OF u] obtain us x x' vs where l: "users (db w) = us @ x # vs"
    "rs = us @ x' # vs" "u_id x = u_id p" "set_fields set_user_field fs x = Some x'" by blast
  moreover from l assms(2,3) have "x = p" by (metis in_set_conv_decomp users_tab.unique_row)
  ultimately show ?thesis using v
    by (auto simp: writes_users_of_def tenant_users_def)
qed

lemma update_user_effect:
  assumes "update_user chk p d w = (res, v)" and "pending w = []"
  shows "db v = db w \<or> apply_change (db_now w) (UpdateUser (u_id p) (user_updates d)) (db w) = Inr (db v)"
proof -
  let ?c = "UpdateUser (u_id p) (user_updates d)"
  let ?w = "if user_updates d = [] then w else w\<lparr>pending := [?c]\<rparr>"
  from assms have "bindM (commit_or_conflict chk ''User profile update conflicts with existing data'')
      (\<lambda>_. reread (\<lambda>db. find (\<lambda>q. u_id q = u_id p) (users db))) ?w = (res, v)"
    by (simp add: update_user_def bindM_def Let_def split: if_splits)
  from bindM_tail [OF this, of db] keeps_db_prim(5)
  obtain r u where "commit_or_conflict chk ''User profile update conflicts with existing data'' ?w = (r, u)"
    and v: "db v = db u" by blast
  from commit_or_conflict_effect [OF this(1)] v show ?thesis
    using flush_single [of chk ?w "db v" ?c] flush_idle [of chk ?w "db v"] assms(2)
    by (auto simp del: apply_change.simps split: if_splits)
qed

lemma deactivate_user_effect:
  assumes "deactivate_user chk p w = (res, v)" and "pending w = []"
  shows "db v = db w \<or>
    apply_change (db_now w) (UpdateUser (u_id p) [UserStatus (Some ''disabled'')]) (db w) = Inr (db v)"
proof -
  let ?c = "UpdateUser (u_id p) [UserStatus (Some ''disabled'')]"
  let ?w = "w\<lparr>pending := [?c]\<rparr>"
  from assms have "commit chk ?w = (res, v)" by (simp add: deactivate_user_def bindM_def)
  from commit_effect [OF this] flush_single [of chk ?w "db v" ?c] show ?thesis
    by (auto simp del: apply_change.simps)
qed

lemma update_user_writes:
  assumes "update_user chk p d w = (res, v) \<or> deactivate_user chk p w = (res', v)" and "pending w = []"
    and "schema_ok (db w)" and "p \<in> set (users (db w))"
  shows "writes_users_of (u_tenant_id p) w v"
proof -
  have "db v = db w \<or> (\<exists>fs. apply_change (db_now w) (UpdateUser (u_id p) fs) (db w) = Inr (db v))"
    using assms(1) update_user_effect [OF _ assms(2)] deactivate_user_effect [OF _ assms(2)] by blast
  with user_update_change [OF _ assms(3,4)] show ?thesis by auto
qed

section \<open>The effect of a call\<close>

definition authorized_user_write :: "'k env \<Rightarrow> string option \<Rightarrow> world \<Rightarrow> world \<Rightarrow> bool" where
  "authorized_user_write e cred w v \<longleftrightarrow>
     (\<exists>u w1 t. login e cred (end_transaction w) = (Inr u, w1) \<and> has_role ''tenant_admin'' u \<and>
        may_access u t \<and> writes_users_of t w v)"

lemma writes_users_trans:
  "writes_users_of t w1 v \<Longrightarrow> db w1 = db w \<Longrightarrow> db v' = db v \<Longrightarrow> writes_users_of t w v'"
  by (simp add: writes_users_of_def)

lemma list_users_route_db: "keeps db (list_users_route e ul cred t)"
  unfolding list_users_route_def list_users_def respond_def
  by (intro keeps_get_db keeps_intros keeps_db_prim) simp_all

lemma get_user_route_db: "keeps db (get_user_route e ul cred s)"
  unfolding get_user_route_def get_user_def get_user_by_email_def respond_def
  by (intro keeps_get_db keeps_intros keeps_db_prim user_read_guard.guard_db) simp_all

lemma create_user_route_writes:
  assumes "create_user_route e ul new_id cred d w = (res, v)"
  shows "db v = db w \<or> authorized_user_write e cred w v"
proof -
  let ?tail = "\<lambda>p. bindM (log_user ''user.create'' p) (\<lambda>_. respond (user_response_ok ul p) p)"
  obtain v' where v: "v = end_transaction v'" and
    b: "bindM (authorize e [''tenant_admin''] cred) (\<lambda>u.
       bindM (liftE (validate_body (user_create_ok ul d))) (\<lambda>_.
       bindM (liftE (required_tenant_id u)) (\<lambda>t.
       if uc_tenant_id d \<noteq> None \<and> uc_tenant_id d \<noteq> Some t
       then throw (APIError 403 ACCESS_DENIED ''Cannot create users outside your tenant'')
       else bindM (create_user (env_verdict e) new_id d t) ?tail)))
      (end_transaction w) = (res, v')"
    using assms by (auto simp: create_user_route_def get_db_eq)
  from b show ?thesis
  proof (cases rule: route_cases)
    case 1
    with v show ?thesis by simp
  next
    case (2 u w1)
    note s = same_sessionD [OF 2(4)]
    show ?thesis
    proof (cases "\<exists>t. user_create_ok ul d \<and> required_tenant_id u = Inr t \<and>
        (uc_tenant_id d = None \<or> uc_tenant_id d = Some t)")
      case False
      with 2(3) v s show ?thesis
        by (cases "required_tenant_id u") (auto simp: bindM_def validate_body_def split: if_splits)
    next
      case True
      then obtain t where t: "required_tenant_id u = Inr t" "user_create_ok ul d"
        "uc_tenant_id d = None \<or> uc_tenant_id d = Some t" by blast
      with 2(3) have "bindM (create_user (env_verdict e) new_id d t) ?tail w1 = (res, v')"
        by (auto simp: bindM_def validate_body_def)
      from bindM_tail [OF this, of db]
      obtain r u' where c: "create_user (env_verdict e) new_id d t w1 = (r, u')" and "db v' = db u'"
        by (auto simp: keeps_def bindM_def respond_eq)
      with v s have "writes_users_of t w v"
        by (intro writes_users_trans [OF create_user_effect [OF c]]) simp_all
      with 2(1,2) t show ?thesis
        by (auto simp: authorized_user_write_def may_access_def has_role_def)
    qed
  qed
qed

text \<open>The two routes that load a profile, check it and change it, in one lemma.\<close>

lemma managed_profile_writes:
  assumes "bindM (authorize e [''tenant_admin''] cred) (\<lambda>u. bindM (get_user s) (\<lambda>profile. case profile of
         None \<Rightarrow> throw x
       | Some p \<Rightarrow> bindM (authorize_same_tenant_admin u p) (\<lambda>_. bindM (m p) (tail p))))
      (end_transaction w) = (res, v)"
    and "\<And>p y. keeps db (tail p y)" and "schema_ok (db w)"
    and "\<And>p w1 r v1. m p w1 = (r, v1) \<Longrightarrow> pending w1 = [] \<Longrightarrow> schema_ok (db w1) \<Longrightarrow>
      p \<in> set (users (db w1)) \<Longrightarrow> writes_users_of (u_tenant_id p) w1 v1"
  shows "db v = db w \<or> authorized_user_write e cred w v"
  using assms(1)
proof (cases rule: route_cases)
  case (2 u w1)
  note s = same_sessionD [OF 2(4)]
  from 2(3) show ?thesis unfolding get_user_def
  proof (cases rule: user_admin_guard.fetch_guard_cases)
    case 1
    with s show ?thesis by simp
  next
    case (2 p)
    from s have idle: "pending w1 = []" by simp
    with 2(1) have p: "p \<in> set (users (db w1))" by (auto dest: user_query_Some)
    from bindM_tail [OF 2(3), of db] assms(2)
    obtain y u' where c: "m p w1 = (y, u')" and "db v = db u'" by blast
    from assms(3) s have "schema_ok (db w1)" by simp
    from assms(4) [OF c idle this p] have "writes_users_of (u_tenant_id p) w1 u'" .
    from writes_users_trans [OF this] s \<open>db v = db u'\<close> have "writes_users_of (u_tenant_id p) w v" by simp
    with 2(2) \<open>login e cred (end_transaction w) = (Inr u, w1)\<close>
      \<open>set [''tenant_admin''] \<inter> set (cu_roles u) \<noteq> {}\<close> show ?thesis
      by (auto simp: authorized_user_write_def has_role_def)
  qed
qed simp

lemma update_user_route_writes:
  assumes "update_user_route e ul cred s d w = (res, v)" and "schema_ok (db w)"
  shows "db v = db w \<or> authorized_user_write e cred w v"
proof (cases "user_update_ok ul d")
  case False
  with assms(1) show ?thesis unfolding update_user_route_def by (auto dest: invalid_body)
next
  case True
  from assms(1) obtain v' where v: "v = end_transaction v'" and
    b: "bindM (authorize e [''tenant_admin''] cred) (\<lambda>u. bindM (get_user s) (\<lambda>profile. case profile of
         None \<Rightarrow> throw (not_found ''User profile not found'')
       | Some p \<Rightarrow> bindM (authorize_same_tenant_admin u p) (\<lambda>_.
           bindM (update_user (env_verdict e) p d) (\<lambda>p'.
           bindM (log_user ''user.update'' p') (\<lambda>_. respond (user_response_ok ul p') p')))))
      (end_transaction w) = (res, v')"
    using True by (auto simp: update_user_route_def valid_body_skip get_db_eq)
  have "db v' = db w \<or> authorized_user_write e cred w v'"
    by (rule managed_profile_writes [OF b _ assms(2)])
      (auto simp: keeps_def bindM_def respond_eq intro: update_user_writes)
  with v show ?thesis by (auto simp: authorized_user_write_def writes_users_of_def)
qed

lemma deactivate_user_route_writes:
  assumes "deactivate_user_route e cred s w = (res, v)" and "schema_ok (db w)"
  shows "db v = db w \<or> authorized_user_write e cred w v"
proof -
  from assms(1) obtain v' where v: "v = end_transaction v'" and
    b: "bindM (authorize e [''tenant_admin''] cred) (\<lambda>u. bindM (get_user s) (\<lambda>profile. case profile of
         None \<Rightarrow> throw (not_found ''User profile not found'')
       | Some p \<Rightarrow> bindM (authorize_same_tenant_admin u p) (\<lambda>_.
           bindM (deactivate_user (env_verdict e) p) (\<lambda>_. log_user ''user.deactivate'' p))))
      (end_transaction w) = (res, v')"
    by (auto simp: deactivate_user_route_def get_db_eq)
  have "db v' = db w \<or> authorized_user_write e cred w v'"
    by (rule managed_profile_writes [OF b _ assms(2)])
      (auto simp: keeps_def intro: update_user_writes)
  with v show ?thesis by (auto simp: authorized_user_write_def writes_users_of_def)
qed

lemma preserves_by_email: "preserves (db_inv J) (get_user_by_email email t)"
  unfolding get_user_by_email_def by (intro preserves_intros)

lemma preserves_user_api [preserves_intros]:
  assumes "maintains (env_verdict e) J"
  shows "preserves (db_inv J) (user_api e ul cred call)"
proof -
  note ops = list_users_def get_user_def create_user_def update_user_def deactivate_user_def
  note rules = preserves_intros assms user_read_guard.guard_preserves user_admin_guard.guard_preserves
    preserves_by_email
  show ?thesis
    by (cases call)
      (simp_all only: user_api.simps list_users_route_def get_user_route_def
        create_user_route_def update_user_route_def deactivate_user_route_def ops respond_def
        log_user_def Let_def, (intro rules)+)
qed

section \<open>Successful calls\<close>

lemma list_users_route_Inr:
  assumes "list_users_route e ul cred tid w = (Inr ps, v)"
  shows "\<exists>u w1. login e cred (end_transaction w) = (Inr u, w1) \<and>
    (\<not> platform_admin u \<longrightarrow> has_role ''tenant_admin'' u \<and>
       (\<exists>t. required_tenant_id u = Inr t \<and> (\<forall>p\<in>set ps. u_tenant_id p = t)))"
proof -
  obtain v' where
    b: "bindM (authorize e [''tenant_admin'', ''platform_admin''] cred) (\<lambda>u. bindM (list_users ul u tid) (\<lambda>ps.
       bindM (case tid of
                Some t \<Rightarrow>
                  if platform_admin u
                  then log INFO ''user.list.cross_tenant''
                         [(''event'', LStr ''user.list''), (''target_tenant_id'', LStr (uuid_str t))]
                  else log INFO ''user.list'' [(''event'', LStr ''user.list'')]
              | None \<Rightarrow> log INFO ''user.list'' [(''event'', LStr ''user.list'')]) (\<lambda>_.
       respond (list_all (user_response_ok ul) ps) ps))) (end_transaction w) = (Inr ps, v')"
    using assms by (auto simp: list_users_route_def get_db_eq)
  from b show ?thesis
  proof (cases rule: route_Inr)
    case (1 u w1)
    from 1(3) obtain w2 where "list_users ul u tid w1 = (Inr ps, w2)" by (auto simp: bindM_eq_Inr)
    then have "\<exists>t. required_tenant_id u = Inr t \<and> (\<forall>p\<in>set ps. u_tenant_id p = t)" if "\<not> platform_admin u"
    proof -
      from that \<open>list_users ul u tid w1 = (Inr ps, w2)\<close> obtain t s where "cu_tenant_id u = Some s" "uuid_of_str s = Some t"
        and ps: "ps = sort_key (\<lambda>p. rank ul (u_email p)) (filter (\<lambda>p. u_tenant_id p = t) (users (view w1)))"
        by (auto simp: list_users_def bindM_eq_Inr split: option.splits)
      then show ?thesis by (auto simp: required_tenant_id_Inr ps)
    qed
    with 1(1,2) show ?thesis by (auto simp: has_role_def platform_admin_def)
  qed
qed

lemma get_user_route_Inr:
  assumes "get_user_route e ul cred s w = (Inr p, v)"
  shows "\<exists>u w1. login e cred (end_transaction w) = (Inr u, w1) \<and> may_access u (u_tenant_id p) \<and>
    (\<not> platform_admin u \<and> \<not> has_role ''tenant_admin'' u \<longrightarrow>
       u_keycloak_user_id p = cu_user_id u \<or> cu_email u = Some (u_email p))"
proof -
  obtain v' where
    b: "bindM (authorize e [''tenant_user'', ''tenant_admin'', ''platform_admin''] cred) (\<lambda>u.
       bindM (get_user s) (\<lambda>found.
       bindM (if found = None \<and> is_self_lookup s u
              then bindM (liftE (required_tenant_id u)) (get_user_by_email (str_or (cu_email u) []))
              else ret found) (\<lambda>profile. case profile of
         None \<Rightarrow> throw (not_found ''User profile not found'')
       | Some p \<Rightarrow> bindM (authorize_user_read u p) (\<lambda>_. respond (user_response_ok ul p) p))))
      (end_transaction w) = (Inr p, v')"
    using assms by (auto simp: get_user_route_def get_db_eq)
  from b show ?thesis
  proof (cases rule: route_Inr)
    case (1 u w1)
    from 1(3) obtain w2 x where g: "authorize_user_read u p w2 = (Inr x, w2)"
      by (auto simp: bindM_eq_Inr dest: user_read_guard.guard_Inr split: option.splits)
    from user_read_guard.guard_Inr [OF g] user_read_guard_self [OF g] 1(1) show ?thesis by blast
  qed
qed

lemma create_user_Inr:
  assumes "create_user chk new_id d t w = (Inr p, v)" and "enforces chk" and "pending w = []"
  shows "p = \<lparr>u_id = new_id, u_keycloak_user_id = uc_keycloak_user_id d, u_tenant_id = t,
      u_email = uc_email d, u_role = uc_role d, u_status = ''active'', u_created_at = db_now w\<rparr>"
    and "db v = (db w)\<lparr>users := users (db w) @ [p]\<rparr>" and "schema_ok (db v)"
proof -
  let ?row = "\<lparr>u_id = new_id, u_keycloak_user_id = uc_keycloak_user_id d, u_tenant_id = t,
      u_email = uc_email d, u_role = uc_role d, u_status = ''active'', u_created_at = 0\<rparr>"
  let ?w = "w\<lparr>pending := [InsertUser ?row]\<rparr>"
  from assms(1,3) obtain d' where f: "flush_result chk ?w = Inr d'"
    and v: "v = end_transaction (?w\<lparr>db := d'\<rparr>)"
    and q: "find (\<lambda>p. u_id p = new_id) (users (view v)) = Some p"
    by (auto simp: create_user_def bindM_eq_Inr commit_or_conflict_Inr)
  from flush_result_enforced [OF assms(2) f]
  have ok: "schema_ok d'" and d': "d' = (db w)\<lparr>users := users (db w) @ [?row\<lparr>u_created_at := db_now w\<rparr>]\<rparr>"
    by auto
  from q v have "p \<in> set (users d')" and "u_id p = new_id" by (auto dest!: find_Some_set)
  with users_tab.unique_row [OF ok, of p "?row\<lparr>u_created_at := db_now w\<rparr>"] d'
  show p: "p = \<lparr>u_id = new_id, u_keycloak_user_id = uc_keycloak_user_id d, u_tenant_id = t,
      u_email = uc_email d, u_role = uc_role d, u_status = ''active'', u_created_at = db_now w\<rparr>"
    by simp
  from v d' p show "db v = (db w)\<lparr>users := users (db w) @ [p]\<rparr>" by simp
  from v ok show "schema_ok (db v)" by simp
qed

lemma create_user_route_Inr:
  assumes "create_user_route e ul new_id cred d w = (Inr p, v)" and "enforces (env_verdict e)"
  shows "\<exists>u w1 t. login e cred (end_transaction w) = (Inr u, w1) \<and> has_role ''tenant_admin'' u \<and>
    required_tenant_id u = Inr t \<and> uc_tenant_id d \<in> {None, Some t} \<and> user_create_ok ul d \<and>
    p = \<lparr>u_id = new_id, u_keycloak_user_id = uc_keycloak_user_id d, u_tenant_id = t,
      u_email = uc_email d, u_role = uc_role d, u_status = ''active'', u_created_at = db_now w\<rparr> \<and>
    db v = (db w)\<lparr>users := users (db w) @ [p]\<rparr> \<and> schema_ok (db v)"
proof -
  obtain v' where v: "v = end_transaction v'" and
    b: "bindM (authorize e [''tenant_admin''] cred) (\<lambda>u.
       bindM (liftE (validate_body (user_create_ok ul d))) (\<lambda>_.
       bindM (liftE (required_tenant_id u)) (\<lambda>t.
       if uc_tenant_id d \<noteq> None \<and> uc_tenant_id d \<noteq> Some t
       then throw (APIError 403 ACCESS_DENIED ''Cannot create users outside your tenant'')
       else bindM (create_user (env_verdict e) new_id d t) (\<lambda>p.
         bindM (log_user ''user.create'' p) (\<lambda>_. respond (user_response_ok ul p) p)))))
      (end_transaction w) = (Inr p, v')"
    using assms(1) by (auto simp: create_user_route_def get_db_eq)
  from b show ?thesis
  proof (cases rule: route_Inr)
    case (1 u w1)
    note s = same_sessionD [OF 1(4)]
    from 1(3) obtain t w2 where "required_tenant_id u = Inr t" "user_create_ok ul d"
      "uc_tenant_id d \<in> {None, Some t}"
      "create_user (env_verdict e) new_id d t w1 = (Inr p, w2)" "db v' = db w2"
      by (auto simp: bindM_eq_Inr split: if_splits)
    with create_user_Inr [OF this(4) assms(2)] s v 1(1,2) show ?thesis
      by (intro exI [of _ u] exI [of _ w1] exI [of _ t]) (auto simp: has_role_def)
  qed
qed

lemma update_user_Inr:
  assumes "update_user chk p d w = (Inr p', v)" and "enforces chk" and "pending w = []"
    and "p \<in> set (users (db w))"
  shows "\<exists>us vs. users (db w) = us @ p # vs \<and> db v = (db w)\<lparr>users := us @ p' # vs\<rparr> \<and>
    set_fields set_user_field (user_updates d) p = Some p' \<and> schema_ok (db v)"
proof -
  let ?fs = "user_updates d"
  let ?w = "if ?fs = [] then w else w\<lparr>pending := [UpdateUser (u_id p) ?fs]\<rparr>"
  from assms(1,3) obtain d' where f: "flush_result chk ?w = Inr d'"
    and v: "v = end_transaction (?w\<lparr>db := d'\<rparr>)"
    and q: "find (\<lambda>q. u_id q = u_id p) (users (view v)) = Some p'"
    by (auto simp: update_user_def bindM_eq_Inr commit_or_conflict_Inr Let_def split: if_splits)
  note ok = flush_result_enforced [OF assms(2) f]
  from q v have p': "p' \<in> set (users d')" "u_id p' = u_id p" by (auto dest!: find_Some_set)
  show ?thesis
  proof (cases "?fs = []")
    case True
    with ok assms(3) have d': "d' = db w" by simp
    with p' ok assms(4) have "p' = p" by (metis users_tab.unique_row)
    moreover obtain us vs where l: "users (db w) = us @ p # vs"
      using assms(4) by (auto simp: in_set_conv_decomp)
    moreover note tables_unchanged [OF l]
    ultimately show ?thesis
      using True d' ok v by (intro exI [of _ us] exI [of _ vs]) auto
  next
    case False
    with ok have "apply_changes (db_now w) [UpdateUser (u_id p) ?fs] (db w) = Inr d'" by simp
    then obtain rs where u: "update_row u_id (u_id p) (set_fields set_user_field ?fs) (users (db w)) = Inr rs"
      and d': "d' = (db w)\<lparr>users := rs\<rparr>" by auto
    from update_row_Inr [OF u] obtain us x x' vs where l: "users (db w) = us @ x # vs"
      "rs = us @ x' # vs" "u_id x = u_id p" "set_fields set_user_field ?fs x = Some x'" by blast
    from set_user_fields_key [OF l(4)] have k: "u_id x' = u_id x" by simp
    from ok d' have "distinct (map u_id rs)" by (auto simp: schema_ok_unfold)
    with l k have "distinct (map u_id (users (db w)))" by simp
    with l assms(4) have "x = p" by (metis distinct_map in_set_conv_decomp inj_onD)
    moreover from p' d' l k ok have "p' = x'"
      using users_tab.unique_row [of d' p' x'] by simp
    ultimately show ?thesis
      using l d' v ok False by (intro exI [of _ us] exI [of _ vs]) auto
  qed
qed

lemma update_user_route_Inr:
  assumes "update_user_route e ul cred s d w = (Inr p', v)" and "enforces (env_verdict e)"
  shows "\<exists>u w1 p us vs. login e cred (end_transaction w) = (Inr u, w1) \<and> has_role ''tenant_admin'' u \<and>
    user_update_ok ul d \<and> may_access u (u_tenant_id p) \<and> user_query s (db w) = Some p \<and>
    users (db w) = us @ p # vs \<and> db v = (db w)\<lparr>users := us @ p' # vs\<rparr> \<and>
    set_fields set_user_field (user_updates d) p = Some p' \<and> schema_ok (db v)"
proof -
  obtain v' where v: "v = end_transaction v'" and
    b: "bindM (authorize e [''tenant_admin''] cred) (\<lambda>u.
       bindM (liftE (validate_body (user_update_ok ul d))) (\<lambda>_.
       bindM (get_user s) (\<lambda>profile. case profile of
         None \<Rightarrow> throw (not_found ''User profile not found'')
       | Some p \<Rightarrow> bindM (authorize_same_tenant_admin u p) (\<lambda>_.
           bindM (update_user (env_verdict e) p d) (\<lambda>p'.
           bindM (log_user ''user.update'' p') (\<lambda>_. respond (user_response_ok ul p') p'))))))
      (end_transaction w) = (Inr p', v')"
    using assms(1) by (auto simp: update_user_route_def get_db_eq)
  from b show ?thesis
  proof (cases rule: route_Inr)
    case (1 u w1)
    note login = 1(1,2) and s = same_sessionD [OF 1(4)]
    from 1(3) have ok: "user_update_ok ul d" by (auto simp: bindM_eq_Inr)
    from s have idle: "pending w1 = []" by simp
    from 1(3) show ?thesis unfolding valid_body_skip [OF ok] get_user_def
    proof (cases rule: user_admin_guard.fetch_guard)
      case (1 p)
      from 1(3) obtain w2 where c: "update_user (env_verdict e) p d w1 = (Inr p', w2)" and v': "db v' = db w2"
        by (auto simp: bindM_eq_Inr)
      from 1(1) idle s have q: "user_query s (db w) = Some p" by (simp add: user_query_view)
      with s have "p \<in> set (users (db w1))" by (auto dest: user_query_Some)
      from update_user_Inr [OF c assms(2) idle this] obtain us vs
        where "users (db w1) = us @ p # vs" "db w2 = (db w1)\<lparr>users := us @ p' # vs\<rparr>"
          "set_fields set_user_field (user_updates d) p = Some p'" "schema_ok (db w2)" by blast
      with login s ok 1(2) q v v' show ?thesis
        by (intro exI [of _ u] exI [of _ w1] exI [of _ p] exI [of _ us] exI [of _ vs])
          (auto simp: has_role_def)
    qed
  qed
qed

section \<open>A concrete instance\<close>

definition demo_user_lib :: user_lib where
  "demo_user_lib = \<lparr>valid_email = (\<lambda>s. CHR ''@'' \<in> set s), rank = (\<lambda>s. int (length s))\<rparr>"

definition demo_profile :: "uuid \<Rightarrow> string \<Rightarrow> uuid \<Rightarrow> string \<Rightarrow> user_row" where
  "demo_profile k sub' t mail =
     \<lparr>u_id = k, u_keycloak_user_id = sub', u_tenant_id = t, u_email = mail, u_role = ''tenant_user'',
      u_status = ''active'', u_created_at = 1\<rparr>"

definition demo_users :: database where
  "demo_users = demo_db\<lparr>users := [demo_profile 21 ''u1'' 1 ''ann@acme'', demo_profile 22 ''u2'' 2 ''bob@beta'',
     demo_profile 23 (uuid_str 5) 1 ''eve@acme'']\<rparr>"

definition demo_user_patch :: user_update where
  "demo_user_patch = \<lparr>uu_email = None, uu_role = Some (Some ''tenant_admin''), uu_status = None\<rparr>"

end
