(* ===== verification/User_Properties.thy ===== *)
theory User_Properties
  imports User_Service
begin

text \<open>
  What is shown of the user service's API: who reads and writes what, the effect of each operation and
  its errors.
\<close>

section \<open>Properties\<close>

text \<open>
  C3.  Only a tenant's administrator changes user profiles, and only those of the own tenant:
  whatever call a client makes of the user API, either the database is as it was, or the client is a
  verified user with the role \<open>tenant_admin\<close> who may access some tenant \<open>t\<close>, and nothing but the
  profiles of \<open>t\<close> differs afterwards.
\<close>

theorem user_api_writes_only_own_tenant:
  assumes "user_api e ul cred call w = (res, v)" and "schema_ok (db w)" and "db v \<noteq> db w"
  shows "\<exists>u w1 t. login e cred (end_transaction w) = (Inr u, w1) \<and> has_role ''tenant_admin'' u \<and>
    may_access u t \<and> (\<forall>t'. t' \<noteq> t \<longrightarrow> tenant_users t' (db v) = tenant_users t' (db w)) \<and>
    tenants (db v) = tenants (db w) \<and> resources (db v) = resources (db w) \<and>
    payments (db v) = payments (db w) \<and> events (db v) = events (db w)"
proof -
  have "db v = db w \<or> authorized_user_write e cred w v"
  proof (cases call)
    case (ListUsers t)
    with assms(1) have "list_users_route e ul cred t w = (res, v)" by simp
    from keepsD [OF list_users_route_db this] show ?thesis ..
  next
    case (GetUser s)
    with assms(1) have "bindM (get_user_route e ul cred s) (\<lambda>r. ret [r]) w = (res, v)" by simp
    from bindM_ret_state [OF this] keepsD [OF get_user_route_db] show ?thesis by blast
  next
    case (CreateUser new_id d)
    with assms(1) have "bindM (create_user_route e ul new_id cred d) (\<lambda>r. ret [r]) w = (res, v)" by simp
    from bindM_ret_state [OF this] show ?thesis by (blast dest: create_user_route_writes)
  next
    case (ChangeUser s d)
    with assms(1) have "bindM (update_user_route e ul cred s d) (\<lambda>r. ret [r]) w = (res, v)" by simp
    from bindM_ret_state [OF this] show ?thesis by (blast dest: update_user_route_writes [OF _ assms(2)])
  next
    case (DeactivateUser s)
    with assms(1) have "bindM (deactivate_user_route e cred s) (\<lambda>_. ret []) w = (res, v)" by simp
    from bindM_ret_state [OF this] show ?thesis by (blast dest: deactivate_user_route_writes [OF _ assms(2)])
  qed
  with assms(3) show ?thesis by (auto simp: authorized_user_write_def writes_users_of_def)
qed

theorem user_api_writes_only_own_tenant_witness:
  "\<exists>v. user_api (demo_env (demo_user 1 [''tenant_admin''])) demo_user_lib (Some ''good'')
      (DeactivateUser (uuid_str 21)) (demo_world demo_users) = (Inr [], v) \<and>
    db v \<noteq> db (demo_world demo_users) \<and> tenant_users 2 (db v) = tenant_users 2 (db (demo_world demo_users))"
    (is "\<exists>v. ?run = (Inr [], v) \<and> _")
proof -
  let ?u = "user_of_claims (demo_user 1 [''tenant_admin''])"
  have "case ?run of (r, v) \<Rightarrow> r = Inr [] \<and> map u_status (users (db v)) = [''disabled'', ''active'', ''active'']"
    by code_simp
  then obtain v where run: "?run = (Inr [], v)"
    and 1: "map u_status (users (db v)) = [''disabled'', ''active'', ''active'']" by (rule run_to)
  have "map u_status (users (db (demo_world demo_users))) \<noteq> [''disabled'', ''active'', ''active'']" by code_simp
  with 1 have ne: "db v \<noteq> db (demo_world demo_users)" by metis
  have ok: "schema_ok (db (demo_world demo_users))" by code_simp
  from user_api_writes_only_own_tenant [OF run ok ne] obtain t where t: "may_access ?u t"
    and "\<forall>t'. t' \<noteq> t \<longrightarrow> tenant_users t' (db v) = tenant_users t' (db (demo_world demo_users))"
    by (auto dest: demo_login_inject)
  moreover have "t = 1"
    using t by (simp add: may_access_def platform_admin_def has_role_def demo_user_roles demo_user_tenant)
  ultimately have "tenant_users 2 (db v) = tenant_users 2 (db (demo_world demo_users))" by simp
  with run ne show ?thesis by (intro exI conjI)
qed

text \<open>
  C11.  The user API shows profiles only to whom they may be shown: every profile that a call returns
  belongs to a tenant that the verified user may access, and a user with neither of the roles
  \<open>tenant_admin\<close> and \<open>platform_admin\<close> gets the own profile only, known by its Keycloak id or e-mail.
\<close>

theorem user_api_reads_only_permitted:
  assumes "user_api e ul cred call w = (Inr ps, v)" and "enforces (env_verdict e)"
  shows "\<exists>u w1. login e cred (end_transaction w) = (Inr u, w1) \<and>
    (\<forall>p\<in>set ps. (platform_admin u \<or> required_tenant_id u = Inr (u_tenant_id p)) \<and>
       (platform_admin u \<or> has_role ''tenant_admin'' u \<or> u_keycloak_user_id p = cu_user_id u \<or>
        cu_email u = Some (u_email p)))"
proof (cases call)
  case (ListUsers t)
  with assms(1) have "list_users_route e ul cred t w = (Inr ps, v)" by simp
  from list_users_route_Inr [OF this] show ?thesis by auto
next
  case (GetUser s)
  with assms(1) obtain p where "ps = [p]" and "get_user_route e ul cred s w = (Inr p, v)"
    by (auto simp: bindM_eq_Inr)
  with get_user_route_Inr [OF this(2)] show ?thesis by (auto simp: may_access_def)
next
  case (CreateUser new_id d)
  with assms(1) obtain p where "ps = [p]" and "create_user_route e ul new_id cred d w = (Inr p, v)"
    by (auto simp: bindM_eq_Inr)
  with create_user_route_Inr [OF this(2) assms(2)] show ?thesis by auto
next
  case (ChangeUser s d)
  with assms(1) obtain p' where "ps = [p']" and "update_user_route e ul cred s d w = (Inr p', v)"
    by (auto simp: bindM_eq_Inr)
  with update_user_route_Inr [OF this(2) assms(2)] show ?thesis
    by (auto simp: may_access_def dest: set_user_fields_key)
next
  case (DeactivateUser s)
  with assms(1) obtain x where "ps = []" and "deactivate_user_route e cred s w = (Inr x, v)"
    by (auto simp: bindM_eq_Inr)
  moreover from this(2) obtain u w1 where "login e cred (end_transaction w) = (Inr u, w1)"
    unfolding deactivate_user_route_def get_db_eq by (blast elim: route_Inr)
  ultimately show ?thesis by auto
qed

theorem user_api_reads_only_permitted_witness:
  "\<exists>p v. user_api (demo_env (demo_user 1 [''tenant_user''])) demo_user_lib (Some ''good'')
      (GetUser ''u1'') (demo_world demo_users) = (Inr [p], v) \<and> u_tenant_id p = 1 \<and>
    u_keycloak_user_id p = ''u1''"
    (is "\<exists>p v. ?run = _ \<and> _")
proof -
  let ?u = "user_of_claims (demo_user 1 [''tenant_user''])"
  have "case ?run of (r, v) \<Rightarrow> r = Inr [demo_profile 21 ''u1'' 1 ''ann@acme''] \<and> True" by code_simp
  then obtain v where run: "?run = (Inr [demo_profile 21 ''u1'' 1 ''ann@acme''], v)" by (rule run_to)
  let ?p = "demo_profile 21 ''u1'' 1 ''ann@acme''"
  have no: "\<not> platform_admin ?u" "\<not> has_role ''tenant_admin'' ?u"
    by (simp_all add: platform_admin_def has_role_def demo_user_roles)
  from user_api_reads_only_permitted [OF run demo_enforces] no
  have "required_tenant_id ?u = Inr (u_tenant_id ?p)" by (auto dest: demo_login_inject)
  then have "u_tenant_id ?p = 1" by (simp add: demo_user_tenant)
  moreover have "u_keycloak_user_id ?p = ''u1''" by (simp add: demo_profile_def)
  ultimately show ?thesis using run by (intro exI conjI)
qed

text \<open>
  C38.  A created profile is active, has the fields of the body, and is in the tenant of the
  administrator's token whatever the body says about the tenant; the Keycloak id is new in the whole
  table and the e-mail is new in the tenant.  The role is the body's: it may be \<open>platform_admin\<close>,
  which the administrator of a tenant is not.
\<close>

theorem create_user_functional:
  assumes "create_user_route e ul new_id cred d w = (Inr p, v)" and "enforces (env_verdict e)"
  shows "\<exists>u w1 t. login e cred (end_transaction w) = (Inr u, w1) \<and> has_role ''tenant_admin'' u \<and>
    required_tenant_id u = Inr t \<and>
    p = \<lparr>u_id = new_id, u_keycloak_user_id = uc_keycloak_user_id d, u_tenant_id = t,
      u_email = uc_email d, u_role = uc_role d, u_status = ''active'', u_created_at = db_now w\<rparr> \<and>
    db v = (db w)\<lparr>users := users (db w) @ [p]\<rparr> \<and>
    uc_keycloak_user_id d \<notin> u_keycloak_user_id ` set (users (db w)) \<and>
    uc_email d \<notin> u_email ` set (tenant_users t (db w))"
proof -
  from create_user_route_Inr [OF assms] obtain u w1 t
    where 1: "login e cred (end_transaction w) = (Inr u, w1)" "has_role ''tenant_admin'' u"
      "required_tenant_id u = Inr t" "db v = (db w)\<lparr>users := users (db w) @ [p]\<rparr>" "schema_ok (db v)"
    and p: "p = \<lparr>u_id = new_id, u_keycloak_user_id = uc_keycloak_user_id d, u_tenant_id = t,
      u_email = uc_email d, u_role = uc_role d, u_status = ''active'', u_created_at = db_now w\<rparr>" by blast
  from 1(4,5) p have "uc_keycloak_user_id d \<notin> u_keycloak_user_id ` set (users (db w))"
    and "uc_email d \<notin> u_email ` set (tenant_users t (db w))"
    by (auto simp: schema_ok_unfold tenant_users_def image_iff)
  with 1 p show ?thesis by blast
qed

theorem create_user_functional_witness:
  "\<exists>p v. create_user_route (demo_env (demo_user 1 [''tenant_admin''])) demo_user_lib 24 (Some ''good'')
      \<lparr>uc_tenant_id = None, uc_keycloak_user_id = ''u9'', uc_email = ''mallory@acme'', uc_role = ''platform_admin''\<rparr>
      (demo_world demo_users) = (Inr p, v) \<and> u_role p = ''platform_admin'' \<and> p \<in> set (users (db v))"
    (is "\<exists>p v. ?run = _ \<and> _")
proof -
  let ?p = "\<lparr>u_id = 24, u_keycloak_user_id = ''u9'', u_tenant_id = 1, u_email = ''mallory@acme'',
    u_role = ''platform_admin'', u_status = ''active'', u_created_at = 7\<rparr>"
  have "case ?run of (r, v) \<Rightarrow> r = Inr ?p \<and> True" by code_simp
  then obtain v where run: "?run = (Inr ?p, v)" by (rule run_to)
  from create_user_functional [OF run demo_enforces] have "?p \<in> set (users (db v))" by auto
  moreover have "u_role ?p = ''platform_admin''" by simp
  ultimately show ?thesis using run by (intro exI conjI)
qed

text \<open>
  C17.  A successful update of a profile changes the row that the path names, by its own id where that
  is a UUID and by the Keycloak id otherwise, in place, and no other row or table: the caller is a
  tenant administrator who may access the row's tenant, the body is valid, a field that it does not
  set stays, one that it sets takes its value and is not null, and the id, the Keycloak id, the tenant
  and the creation time stay.  The response is the changed row.
\<close>

theorem update_user_functional:
  assumes "update_user_route e ul cred s d w = (Inr p', v)" and "enforces (env_verdict e)"
  shows "\<exists>u w1 p us vs. login e cred (end_transaction w) = (Inr u, w1) \<and>
    has_role ''tenant_admin'' u \<and> may_access u (u_tenant_id p) \<and>
    user_update_ok ul d \<and> user_query s (db w) = Some p \<and>
    users (db w) = us @ p # vs \<and> db v = (db w)\<lparr>users := us @ p' # vs\<rparr> \<and>
    p' = p\<lparr>u_email := patched (uu_email d) (u_email p), u_role := patched (uu_role d) (u_role p),
           u_status := patched (uu_status d) (u_status p)\<rparr> \<and>
    uu_email d \<noteq> Some None \<and> uu_role d \<noteq> Some None \<and> uu_status d \<noteq> Some None"
proof -
  from update_user_route_Inr [OF assms] obtain u w1 p us vs
    where "login e cred (end_transaction w) = (Inr u, w1)" "has_role ''tenant_admin'' u"
      "may_access u (u_tenant_id p)" "user_update_ok ul d" "user_query s (db w) = Some p"
      "users (db w) = us @ p # vs" "db v = (db w)\<lparr>users := us @ p' # vs\<rparr>"
    and f: "set_fields set_user_field (user_updates d) p = Some p'" by blast
  moreover from f have "p' = p\<lparr>u_email := patched (uu_email d) (u_email p),
      u_role := patched (uu_role d) (u_role p), u_status := patched (uu_status d) (u_status p)\<rparr> \<and>
    uu_email d \<noteq> Some None \<and> uu_role d \<noteq> Some None \<and> uu_status d \<noteq> Some None"
    by (auto simp: user_updates_def patched_def split: option.splits)
  ultimately show ?thesis
    by (intro exI [of _ u] exI [of _ w1] exI [of _ p] exI [of _ us] exI [of _ vs]) simp
qed

theorem update_user_functional_witness:
  "\<exists>p' v. update_user_route (demo_env (demo_user 1 [''tenant_admin''])) demo_user_lib (Some ''good'') ''u1''
      demo_user_patch (demo_world demo_users) = (Inr p', v) \<and> u_role p' = ''tenant_admin'' \<and>
    u_status p' \<in> {p. \<exists>q\<in>set (users demo_users). p = u_status q}"
    (is "\<exists>p' v. ?run = _ \<and> _")
proof -
  let ?p = "(demo_profile 21 ''u1'' 1 ''ann@acme'')\<lparr>u_role := ''tenant_admin''\<rparr>"
  have "case ?run of (r, v) \<Rightarrow> r = Inr ?p \<and> True" by code_simp
  then obtain v where run: "?run = (Inr ?p, v)" by (rule run_to)
  from update_user_functional [OF run demo_enforces]
  have "u_status ?p \<in> {p. \<exists>q\<in>set (users demo_users). p = u_status q}"
    by (fastforce simp: demo_user_patch_def patched_def demo_world_def)
  moreover have "u_role ?p = ''tenant_admin''" by simp
  ultimately show ?thesis using run by (intro exI conjI)
qed

text \<open>
  A profile cannot be looked up by a Keycloak id that is a UUID, as all ids that Keycloak issues
  are: such a string is taken for the row's own id.  For a user who is not found under that id, and
  with a token without an e-mail, the lookup by the own \<open>sub\<close> ends in 404 although the table has a
  profile with that Keycloak id.
\<close>

theorem uuid_keycloak_id_not_found:
  assumes "login e cred (end_transaction w) = (Inr u, w1)" and "has_role ''tenant_user'' u"
    and "cu_user_id u = uuid_str k" and "cu_email u = None"
    and "k \<notin> u_id ` set (users (db w))"
  shows "fst (get_user_route e ul cred (cu_user_id u) w) = Inl (APIError 404 NOT_FOUND ''User profile not found'')"
proof -
  have a: "authorize e [''tenant_user'', ''tenant_admin'', ''platform_admin''] cred (end_transaction w) = (Inr u, w1)"
    by (rule authorize_role [OF assms(1,2)]) simp
  from authorize_Inr [OF a] have "same_session w1 (end_transaction w)" by blast
  note s = same_sessionD [OF this]
  have "find (\<lambda>p. u_id p = k) (users (db w)) = None"
    using assms(5) by (auto simp: find_None_iff)
  then have "user_query (uuid_str k) (db w1) = None" using s by (simp add: user_query_def)
  then show ?thesis
    using a s assms(3,4)
    by (simp add: get_user_route_def get_db_def get_user_def bindM_def user_query_view is_self_lookup_def
        not_found_def)
qed

theorem uuid_keycloak_id_not_found_witness:
  "fst (get_user_route (demo_env (demo_claims (uuid_str 5) (Some (uuid_str 1)) [''tenant_user''])) demo_user_lib
      (Some ''good'') (uuid_str 5) (demo_world demo_users)) =
    Inl (APIError 404 NOT_FOUND ''User profile not found'') \<and>
   uuid_str 5 \<in> u_keycloak_user_id ` set (users demo_users)"
proof -
  let ?c = "demo_claims (uuid_str 5) (Some (uuid_str 1)) [''tenant_user'']"
  let ?u = "user_of_claims ?c"
  obtain w1 where l: "login (demo_env ?c) (Some ''good'') (end_transaction (demo_world demo_users)) = (Inr ?u, w1)"
    using demo_login_user by blast
  have 1: "has_role ''tenant_user'' ?u" "cu_user_id ?u = uuid_str 5" "cu_email ?u = None"
    by (simp_all add: has_role_def user_of_claims_def demo_claims_def roles_of_def)
  have "5 \<notin> u_id ` set (users (db (demo_world demo_users)))" by code_simp
  from uuid_keycloak_id_not_found [OF l 1 this] 1(2)
  have "fst (get_user_route (demo_env ?c) demo_user_lib (Some ''good'') (uuid_str 5) (demo_world demo_users)) =
    Inl (APIError 404 NOT_FOUND ''User profile not found'')" by simp
  moreover have "uuid_str 5 \<in> u_keycloak_user_id ` set (users demo_users)"
    by (simp add: demo_users_def demo_profile_def)
  ultimately show ?thesis by (rule conjI)
qed

text \<open>
  C29.  A tenant administrator whose token has no tenant is refused everywhere with 403, except in the
  listing: there the missing tenant becomes the text \<open>None\<close>, which is not a UUID, and the
  \<open>ValueError\<close> leaves the route (a status 500), because only \<open>APIError\<close> has a handler.
\<close>

theorem list_users_without_tenant:
  assumes "login e cred (end_transaction w) = (Inr u, w1)" and "has_role ''tenant_admin'' u"
    and "\<not> platform_admin u" and "cu_tenant_id u = None" and "user_create_ok ul d"
  shows "fst (list_users_route e ul cred tid w) = Inl ValueError \<and>
    fst (create_user_route e ul new_id cred d w) = Inl (APIError 403 ACCESS_DENIED ''Tenant context is required'')"
proof -
  have 1: "authorize e [''tenant_admin'', ''platform_admin''] cred (end_transaction w) = (Inr u, w1)"
    by (rule authorize_role [OF assms(1,2)]) simp
  have 2: "authorize e [''tenant_admin''] cred (end_transaction w) = (Inr u, w1)"
    by (rule authorize_role [OF assms(1,2)]) simp
  have "fst (list_users_route e ul cred tid w) = Inl ValueError"
    using 1 assms(3,4) by (simp add: list_users_route_def get_db_def list_users_def bindM_def)
  moreover have "fst (create_user_route e ul new_id cred d w) =
      Inl (APIError 403 ACCESS_DENIED ''Tenant context is required'')"
    using 2 assms(4,5)
    by (simp add: create_user_route_def get_db_def bindM_def validate_body_def required_tenant_id_def)
  ultimately show ?thesis ..
qed

theorem list_users_without_tenant_witness:
  "fst (list_users_route (demo_env (demo_claims ''u1'' None [''tenant_admin''])) demo_user_lib
      (Some ''good'') None (demo_world demo_users)) = Inl ValueError"
proof -
  let ?c = "demo_claims ''u1'' None [''tenant_admin'']"
  let ?u = "user_of_claims ?c"
  let ?d = "\<lparr>uc_tenant_id = None, uc_keycloak_user_id = ''u9'', uc_email = ''m@acme'', uc_role = ''tenant_user''\<rparr>"
  obtain w1 where l: "login (demo_env ?c) (Some ''good'') (end_transaction (demo_world demo_users)) = (Inr ?u, w1)"
    using demo_login_user by blast
  have 1: "has_role ''tenant_admin'' ?u" "\<not> platform_admin ?u" "cu_tenant_id ?u = None"
    by (simp_all add: has_role_def platform_admin_def user_of_claims_def demo_claims_def roles_of_def)
  have "user_create_ok demo_user_lib ?d" by code_simp
  from list_users_without_tenant [OF l 1 this] show ?thesis by (rule conjunct1)
qed

end
