(* ===== verification/Py_Base64.thy ===== *)
theory Py_Base64
  imports Py_Str
begin

text \<open>
  Python's \<open>base64\<close> (3.11) as the signing code uses it: \<open>b64encode\<close>, \<open>urlsafe_b64encode\<close>, and the
  decoder behind \<open>b64decode\<close> and \<open>urlsafe_b64decode\<close>, which without \<open>validate\<close> skips every character
  outside the alphabet and stops at the first complete padding.
\<close>

section \<open>Encoding\<close>

definition b64_char :: "int \<Rightarrow> char" where
  "b64_char n =
     (if n < 26 then char_of (65 + n) else if n < 52 then char_of (71 + n)
      else if n < 62 then char_of (n - 4) else if n = 62 then CHR ''+'' else CHR ''/'')"

definition b64_val :: "char \<Rightarrow> int option" where
  "b64_val c =
     (let k = code c in
      if 65 \<le> k \<and> k \<le> 90 then Some (k - 65) else if 97 \<le> k \<and> k \<le> 122 then Some (k - 71)
      else if 48 \<le> k \<and> k \<le> 57 then Some (k + 4) else if k = 43 then Some 62
      else if k = 47 then Some 63 else None)"

fun b64encode :: "string \<Rightarrow> string" where
  "b64encode [] = []"
| "b64encode [a] = [b64_char (code a div 4), b64_char (code a mod 4 * 16), CHR ''='', CHR ''='']"
| "b64encode [a, b] =
     [b64_char (code a div 4), b64_char (code a mod 4 * 16 + code b div 16),
      b64_char (code b mod 16 * 4), CHR ''='']"
| "b64encode (a # b # c # s) =
     b64_char (code a div 4) # b64_char (code a mod 4 * 16 + code b div 16) #
     b64_char (code b mod 16 * 4 + code c div 64) # b64_char (code c mod 64) # b64encode s"

definition to_urlsafe :: "char \<Rightarrow> char" where
  "to_urlsafe c = (if c = CHR ''+'' then CHR ''-'' else if c = CHR ''/'' then CHR ''_'' else c)"

definition of_urlsafe :: "char \<Rightarrow> char" where
  "of_urlsafe c = (if c = CHR ''-'' then CHR ''+'' else if c = CHR ''_'' then CHR ''/'' else c)"

definition urlsafe_b64encode :: "string \<Rightarrow> string" where
  "urlsafe_b64encode s = map to_urlsafe (b64encode s)"

section \<open>Decoding\<close>

text \<open>
  \<open>binascii.a2b_base64\<close>: \<open>q\<close> is the position in the group of four, \<open>left\<close> the bits not yet put out,
  \<open>pads\<close> the padding seen since the last data character, \<open>padded\<close> whether any was seen at all.
\<close>

fun a2b :: "bool \<Rightarrow> int \<Rightarrow> int \<Rightarrow> int \<Rightarrow> bool \<Rightarrow> string \<Rightarrow> string option" where
  "a2b strict q left pads padded [] = (if q = 0 then Some [] else None)"
| "a2b strict q left pads padded (c # s) =
     (if c = CHR ''='' then
        if q \<ge> 2 \<and> q + pads + 1 \<ge> 4 then if strict \<and> s \<noteq> [] then None else Some []
        else a2b strict q left (if q \<ge> 2 then pads + 1 else pads) True s
      else case b64_val c of
        None \<Rightarrow> if strict then None else a2b strict q left pads padded s
      | Some v \<Rightarrow>
          if strict \<and> padded then None
          else if q = 0 then a2b strict 1 v 0 padded s
          else if q = 1 then
            map_option (Cons (char_of (left * 4 + v div 16))) (a2b strict 2 (v mod 16) 0 padded s)
          else if q = 2 then
            map_option (Cons (char_of (left * 16 + v div 4))) (a2b strict 3 (v mod 4) 0 padded s)
          else map_option (Cons (char_of (left * 64 + v))) (a2b strict 0 0 0 padded s))"

text \<open>The argument is a \<open>str\<close>, which must be ASCII.\<close>

definition b64decode :: "bool \<Rightarrow> string \<Rightarrow> string option" where
  "b64decode validate s =
     (if \<not> is_ascii s \<or> validate \<and> startswith ''='' s then None else a2b validate 0 0 0 False s)"

definition urlsafe_b64decode :: "string \<Rightarrow> string option" where
  "urlsafe_b64decode s = b64decode False (map of_urlsafe s)"

section \<open>Lemmas\<close>

lemma b64_val_char [simp]:
  assumes "0 \<le> n" and "n < 64"
  shows "b64_val (b64_char n) = Some n"
proof -
  have "code CHR ''+'' = 43" "code CHR ''/'' = 47" by (simp_all add: code_def)
  then show ?thesis using assms by (auto simp: b64_val_def b64_char_def Let_def)
qed

lemma b64_char_no_pad:
  assumes "0 \<le> n" and "n < 64"
  shows "b64_char n \<noteq> CHR ''=''"
proof
  assume "b64_char n = CHR ''=''"
  moreover have "b64_val CHR ''='' = None" by code_simp
  ultimately show False using b64_val_char [OF assms] by simp
qed

lemma bytes_split:
  "0 \<le> code a div 4" "code a div 4 < 64" "0 \<le> code a mod 4 * 16 + code b div 16"
  "code a mod 4 * 16 + code b div 16 < 64" "0 \<le> code b mod 16 * 4 + code c div 64"
  "code b mod 16 * 4 + code c div 64 < 64" "0 \<le> code c mod 64" "code c mod 64 < 64"
  using code_bounds [of a] code_bounds [of b] code_bounds [of c] by presburger+

lemma bytes_join:
  "code a div 4 * 4 + (code a mod 4 * 16 + code b div 16) div 16 = code a"
  "(code a mod 4 * 16 + code b div 16) mod 16 * 16 + (code b mod 16 * 4 + code c div 64) div 4 = code b"
  "(code b mod 16 * 4 + code c div 64) mod 4 * 64 + code c mod 64 = code c"
proof -
  have b: "code b div 16 < 16" "0 \<le> code b div 16" using code_bounds [of b] by presburger+
  then have "(code a mod 4 * 16 + code b div 16) div 16 = code a mod 4"
    "(code a mod 4 * 16 + code b div 16) mod 16 = code b div 16" by simp_all
  moreover have c: "code c div 64 < 4" "0 \<le> code c div 64" using code_bounds [of c] by presburger+
  then have "(code b mod 16 * 4 + code c div 64) div 4 = code b mod 16"
    "(code b mod 16 * 4 + code c div 64) mod 4 = code c div 64" by simp_all
  ultimately show
    "code a div 4 * 4 + (code a mod 4 * 16 + code b div 16) div 16 = code a"
    "(code a mod 4 * 16 + code b div 16) mod 16 * 16 + (code b mod 16 * 4 + code c div 64) div 4 = code b"
    "(code b mod 16 * 4 + code c div 64) mod 4 * 64 + code c mod 64 = code c"
    by (simp_all only: div_mult_mod_eq)
qed

lemma bytes_split_end: "0 \<le> code a mod 4 * 16" "code a mod 4 * 16 < 64"
  "0 \<le> code b mod 16 * 4" "code b mod 16 * 4 < 64"
proof -
  show "0 \<le> code a mod 4 * 16" "code a mod 4 * 16 < 64" using code_bounds [of a] by presburger+
  show "0 \<le> code b mod 16 * 4" "code b mod 16 * 4 < 64" using code_bounds [of b] by presburger+
qed

lemma bytes_join_end: "code a div 4 * 4 + code a mod 4 * 16 div 16 = code a"
  "(code a mod 4 * 16 + code b div 16) mod 16 * 16 + code b mod 16 * 4 div 4 = code b"
proof -
  have "code b div 16 < 16" "0 \<le> code b div 16" using code_bounds [of b] by presburger+
  then have "(code a mod 4 * 16 + code b div 16) mod 16 = code b div 16" by simp
  then show "(code a mod 4 * 16 + code b div 16) mod 16 * 16 + code b mod 16 * 4 div 4 = code b" by simp
qed simp

lemma a2b_char [simp]:
  assumes "0 \<le> n" and "n < 64"
  shows "a2b strict q left pads False (b64_char n # s) =
     (if q = 0 then a2b strict 1 n 0 False s
      else if q = 1 then map_option (Cons (char_of (left * 4 + n div 16))) (a2b strict 2 (n mod 16) 0 False s)
      else if q = 2 then map_option (Cons (char_of (left * 16 + n div 4))) (a2b strict 3 (n mod 4) 0 False s)
      else map_option (Cons (char_of (left * 64 + n))) (a2b strict 0 0 0 False s))"
  using assms by (simp add: b64_char_no_pad)

lemma a2b_pad: "a2b strict 2 l 0 False ''=='' = Some []" "a2b strict 3 l 0 False ''='' = Some []"
  by simp_all

lemma a2b_encode: "a2b strict 0 left pads False (b64encode s) = Some s"
  by (induction s arbitrary: left pads rule: b64encode.induct)
    (simp_all only: b64encode.simps a2b_char bytes_split bytes_split_end bytes_join bytes_join_end a2b_pad,
      simp_all add: bytes_join bytes_join_end)

lemma b64encode_Nil [simp]: "b64encode s = [] \<longleftrightarrow> s = []"
  by (cases s rule: b64encode.cases) simp_all

lemma b64encode_hd: "b64encode s = [] \<or> hd (b64encode s) \<noteq> CHR ''=''"
  using b64_char_no_pad bytes_split(1,2) by (cases s rule: b64encode.cases) auto

lemma b64encode_chars: "c \<in> set (b64encode s) \<Longrightarrow> b64_val c \<noteq> None \<or> c = CHR ''=''"
  using bytes_split bytes_split_end by (induction s rule: b64encode.induct) auto

lemma b64_val_ascii: "b64_val c \<noteq> None \<Longrightarrow> code c < 128"
  by (auto simp: b64_val_def Let_def split: if_splits)

lemma b64encode_ascii: "is_ascii (b64encode s)"
proof -
  have "code CHR ''='' = 61" by (simp add: code_def)
  then show ?thesis using b64encode_chars b64_val_ascii by (fastforce simp: is_ascii_def list_all_iff)
qed

lemma b64decode_encode [simp]: "b64decode validate (b64encode s) = Some s"
proof -
  have "\<not> startswith ''='' (b64encode s)"
    using b64encode_hd [of s] by (cases "b64encode s") (auto simp: startswith_def)
  then show ?thesis by (simp add: b64decode_def a2b_encode b64encode_ascii)
qed

section \<open>The unpadded URL-safe form\<close>

text \<open>\<open>_b64url_encode\<close> and \<open>_pad_b64\<close> of shared/s2s_token.py.\<close>

definition b64url_encode :: "string \<Rightarrow> string" where
  "b64url_encode s = rstrip ''='' (urlsafe_b64encode s)"

definition pad_b64 :: "string \<Rightarrow> string" where
  "pad_b64 v = v @ replicate (nat (- int (py_len v) mod 4)) CHR ''=''"

lemma b64encode_shape:
  "\<exists>t k. b64encode s = t @ replicate k CHR ''='' \<and> k \<le> 2 \<and> CHR ''='' \<notin> set t \<and> 4 dvd length (b64encode s)"
proof (induction s rule: b64encode.induct)
  case 1
  show ?case by (rule exI [of _ "[]"]) simp
next
  case (2 a)
  show ?case
    using b64_char_no_pad bytes_split(1,2) bytes_split_end
    by (intro exI [of _ "[b64_char (code a div 4), b64_char (code a mod 4 * 16)]"] exI [of _ 2])
      (auto simp: numeral_2_eq_2 dest!: sym [of "CHR ''=''"], presburger)
next
  case (3 a b)
  show ?case
    using b64_char_no_pad bytes_split(1-4) bytes_split_end
    by (intro exI [of _ "[b64_char (code a div 4), b64_char (code a mod 4 * 16 + code b div 16),
        b64_char (code b mod 16 * 4)]"] exI [of _ 1]) (auto dest!: sym [of "CHR ''=''"], presburger)
next
  case (4 a b c s)
  then obtain t k where t: "b64encode s = t @ replicate k CHR ''=''" "k \<le> 2" "CHR ''='' \<notin> set t"
    "4 dvd length (b64encode s)" by blast
  from t(4) have "4 dvd Suc (Suc (Suc (Suc (length (b64encode s)))))" by presburger
  then show ?case
    using t(1-3) b64_char_no_pad bytes_split
    by (intro exI [of _ "b64_char (code a div 4) # b64_char (code a mod 4 * 16 + code b div 16) #
        b64_char (code b mod 16 * 4 + code c div 64) # b64_char (code c mod 64) # t"] exI [of _ k])
      (auto dest!: sym [of "CHR ''=''"])
qed

lemma to_urlsafe_pad [simp]: "to_urlsafe c = CHR ''='' \<longleftrightarrow> c = CHR ''=''"
  by (simp add: to_urlsafe_def)

lemma of_to_urlsafe:
  assumes "c \<in> set (b64encode s)"
  shows "of_urlsafe (to_urlsafe c) = c"
proof -
  have "b64_val CHR ''-'' = None" "b64_val CHR ''_'' = None" by code_simp+
  with b64encode_chars [OF assms] show ?thesis by (auto simp: of_urlsafe_def to_urlsafe_def)
qed

lemma to_urlsafe_ascii: "code c < 128 \<Longrightarrow> code (to_urlsafe c) < 128"
proof -
  have "code CHR ''-'' = 45" "code CHR ''_'' = 95" by (simp_all add: code_def)
  then show "code c < 128 \<Longrightarrow> code (to_urlsafe c) < 128" by (simp add: to_urlsafe_def)
qed

lemma urlsafe_ascii: "is_ascii (map to_urlsafe (b64encode s))"
  using b64encode_ascii [of s] to_urlsafe_ascii by (simp add: is_ascii_def list_all_iff)

lemma rstrip_pad:
  assumes "CHR ''='' \<notin> set t"
  shows "rstrip ''='' (map to_urlsafe t @ replicate k CHR ''='') = map to_urlsafe t"
proof -
  have "rstrip ''='' (map to_urlsafe t @ replicate k CHR ''='') = rstrip ''='' (map to_urlsafe t)"
    by (rule rstrip_append_in) (auto simp: set_replicate_conv_if)
  also have "\<dots> = map to_urlsafe t"
  proof (rule rstrip_id)
    have "t \<noteq> [] \<Longrightarrow> last t \<noteq> CHR ''=''" using assms last_in_set [of t] by metis
    then show "map to_urlsafe t = [] \<or> last (map to_urlsafe t) \<notin> set ''=''"
      by (auto simp: last_map)
  qed
  finally show ?thesis .
qed

lemma pad_b64url: "pad_b64 (b64url_encode s) = urlsafe_b64encode s"
proof -
  obtain t k where t: "b64encode s = t @ replicate k CHR ''=''" "k \<le> 2" "CHR ''='' \<notin> set t"
    "4 dvd length (b64encode s)" using b64encode_shape by blast
  have e: "urlsafe_b64encode s = map to_urlsafe t @ replicate k CHR ''=''"
    by (simp add: urlsafe_b64encode_def t(1) to_urlsafe_def map_replicate_const)
  then have b: "b64url_encode s = map to_urlsafe t" by (simp add: b64url_encode_def rstrip_pad [OF t(3)])
  from urlsafe_ascii [of s] e have "is_ascii (map to_urlsafe t)"
    by (simp add: urlsafe_b64encode_def is_ascii_def)
  then have len: "py_len (b64url_encode s) = length t" by (simp add: b py_len_ascii)
  from t(1,4) have "4 dvd length t + k" by simp
  then have "4 dvd int (length t) + int k" by presburger
  moreover have "int k \<le> 2" "0 \<le> int k" using t(2) by simp_all
  ultimately have "- int (length t) mod 4 = int k" by presburger
  then have "nat (- int (length t) mod 4) = k" by simp
  with len b e show ?thesis by (simp add: pad_b64_def)
qed

theorem b64url_round_trip: "urlsafe_b64decode (pad_b64 (b64url_encode s)) = Some s"
proof -
  have "map of_urlsafe (map to_urlsafe (b64encode s)) = b64encode s"
    by (simp add: map_idI of_to_urlsafe)
  then show ?thesis by (simp add: pad_b64url urlsafe_b64decode_def urlsafe_b64encode_def)
qed

text \<open>The encoding has none of the characters that a token's parts are joined with.\<close>

lemma b64url_chars: "CHR ''.'' \<notin> set (b64url_encode s)"
proof
  assume "CHR ''.'' \<in> set (b64url_encode s)"
  moreover obtain t where "urlsafe_b64encode s = b64url_encode s @ t"
    unfolding b64url_encode_def using rstrip_suffix by blast
  ultimately have "CHR ''.'' \<in> set (urlsafe_b64encode s)" by simp
  then obtain c where "c \<in> set (b64encode s)" and "to_urlsafe c = CHR ''.''"
    by (auto simp: urlsafe_b64encode_def)
  moreover have "b64_val CHR ''.'' = None" by code_simp
  ultimately show False using b64encode_chars [of c s] by (auto simp: to_urlsafe_def split: if_splits)
qed

lemma b64url_empty [simp]: "b64url_encode s = [] \<longleftrightarrow> s = []"
proof
  assume "b64url_encode s = []"
  then have "urlsafe_b64encode s = []" using pad_b64url [of s] by (simp add: pad_b64_def py_len_def)
  then show "s = []" by (simp add: urlsafe_b64encode_def)
qed (simp add: b64url_encode_def urlsafe_b64encode_def rstrip_def)

end
