(* ===== verification/Vault_Client.thy ===== *)
theory Vault_Client
  imports Json_Value Settings Py_Base64
begin

text \<open>
  shared/vault_client.py: the wrapper around hvac for the KV store, the transit keys of the tenants
  and the certificate authority.

  hvac and the Vault server are not part of the repository.  The record \<open>hvac\<close> holds the calls the
  wrapper makes; each takes the state \<open>'v\<close> of the server and the client (its URL and token) and
  gives the response, a JSON value, or the exception.
\<close>

record vault_client =
  vault_url :: string
  vault_token :: "string option"

record 'v hvac =
  approle_login :: "'v \<Rightarrow> string \<Rightarrow> string \<Rightarrow> string \<Rightarrow> json result"
  kv_read :: "'v \<Rightarrow> vault_client \<Rightarrow> string \<Rightarrow> string \<Rightarrow> json result"
  kv_write :: "vault_client \<Rightarrow> string \<Rightarrow> string \<Rightarrow> json \<Rightarrow> ('v, unit) prog"
  transit_encrypt :: "'v \<Rightarrow> vault_client \<Rightarrow> string \<Rightarrow> string \<Rightarrow> string \<Rightarrow> json result"
  transit_decrypt :: "'v \<Rightarrow> vault_client \<Rightarrow> string \<Rightarrow> string \<Rightarrow> string \<Rightarrow> json result"
  pki_generate :: "'v \<Rightarrow> vault_client \<Rightarrow> string \<Rightarrow> string \<Rightarrow> string \<Rightarrow> string \<Rightarrow> json result"

record vault_certificate =
  certificate :: json
  private_key_pem :: json
  issuing_ca :: json
  serial_number :: json

text \<open>\<open>value[key]\<close>: a dict raises \<open>KeyError\<close> without the key, any other value \<open>TypeError\<close>.\<close>

definition item :: "json \<Rightarrow> string \<Rightarrow> json result" where
  "item j k = (if is_dict j then of_option KeyError (dict_get j k) else Inl TypeError)"

definition get_or_null :: "json \<Rightarrow> string \<Rightarrow> json result" where
  "get_or_null j k =
     (if is_dict j then Inr (case dict_get j k of None \<Rightarrow> JNull | Some v \<Rightarrow> v) else Inl AttributeError)"

definition text_of :: "json \<Rightarrow> string result" where
  "text_of j = (case j of JStr s \<Rightarrow> Inr s | _ \<Rightarrow> Inl TypeError)"

section \<open>Construction\<close>

text \<open>\<open>hvac.Client(url=addr or settings.vault_addr, token=token)\<close>.\<close>

definition new_vault_client :: "settings \<Rightarrow> string option \<Rightarrow> string option \<Rightarrow> vault_client" where
  "new_vault_client s addr token = \<lparr>vault_url = str_or addr (vault_addr s), vault_token = token\<rparr>"

definition authenticate_approle ::
    "'v hvac \<Rightarrow> 'v \<Rightarrow> vault_client \<Rightarrow> string \<Rightarrow> string \<Rightarrow> vault_client result" where
  "authenticate_approle hv st c role_id secret_id =
     bindE (approle_login hv st (vault_url c) role_id secret_id) (\<lambda>response.
     bindE (item response ''auth'') (\<lambda>auth.
     bindE (item auth ''client_token'') (\<lambda>token.
     bindE (text_of token) (\<lambda>t. Inr (c\<lparr>vault_token := Some t\<rparr>)))))"

definition from_approle ::
    "'v hvac \<Rightarrow> 'v \<Rightarrow> settings \<Rightarrow> string \<Rightarrow> string \<Rightarrow> string option \<Rightarrow> vault_client result" where
  "from_approle hv st s role_id secret_id addr =
     authenticate_approle hv st (new_vault_client s addr None) role_id secret_id"

definition from_env :: "'v hvac \<Rightarrow> 'v \<Rightarrow> settings \<Rightarrow> vault_client result" where
  "from_env hv st s =
     (if \<not> truthy (vault_role_id s) \<or> \<not> truthy (vault_secret_id s)
      then Inl (RuntimeError
        ''VAULT_ROLE_ID and VAULT_SECRET_ID are required for AppRole authentication'')
      else from_approle hv st s (str_or (vault_role_id s) []) (str_or (vault_secret_id s) [])
             (Some (vault_addr s)))"

section \<open>The key-value store\<close>

definition clean_kv_path :: "string \<Rightarrow> string" where
  "clean_kv_path path = strip ''/'' (removeprefix ''data/'' (removeprefix ''secret/'' path))"

definition get_secret_dict :: "'v hvac \<Rightarrow> 'v \<Rightarrow> vault_client \<Rightarrow> string \<Rightarrow> string \<Rightarrow> json result" where
  "get_secret_dict hv st c path mount =
     bindE (kv_read hv st c mount (clean_kv_path path)) (\<lambda>response.
     bindE (item response ''data'') (\<lambda>d. item d ''data''))"

definition get_secret ::
    "'v hvac \<Rightarrow> 'v \<Rightarrow> vault_client \<Rightarrow> string \<Rightarrow> string \<Rightarrow> string \<Rightarrow> json result" where
  "get_secret hv st c path key mount = bindE (get_secret_dict hv st c path mount) (\<lambda>s. item s key)"

definition put_secret ::
    "'v hvac \<Rightarrow> vault_client \<Rightarrow> string \<Rightarrow> json \<Rightarrow> string \<Rightarrow> ('v, unit) prog" where
  "put_secret hv c path data mount = kv_write hv c mount (clean_kv_path path) data"

section \<open>Transit encryption and certificates\<close>

definition tenant_key_name :: "string \<Rightarrow> string" where
  "tenant_key_name tenant_id = ''tenant-'' @ tenant_id"

definition vault_encrypt ::
    "'v hvac \<Rightarrow> 'v \<Rightarrow> vault_client \<Rightarrow> string \<Rightarrow> string \<Rightarrow> string \<Rightarrow> json result" where
  "vault_encrypt hv st c tenant_id raw mount =
     bindE (transit_encrypt hv st c mount (tenant_key_name tenant_id) (b64encode raw)) (\<lambda>response.
     bindE (item response ''data'') (\<lambda>d. item d ''ciphertext''))"

definition vault_decrypt ::
    "'v hvac \<Rightarrow> 'v \<Rightarrow> vault_client \<Rightarrow> string \<Rightarrow> string \<Rightarrow> string \<Rightarrow> string result" where
  "vault_decrypt hv st c tenant_id ciphertext mount =
     bindE (transit_decrypt hv st c mount (tenant_key_name tenant_id) ciphertext) (\<lambda>response.
     bindE (item response ''data'') (\<lambda>d.
     bindE (item d ''plaintext'') (\<lambda>p.
     bindE (text_of p) (\<lambda>t. of_option ValueError (b64decode False t)))))"

definition issue_certificate ::
    "'v hvac \<Rightarrow> 'v \<Rightarrow> vault_client \<Rightarrow> string \<Rightarrow> string \<Rightarrow> string \<Rightarrow> string \<Rightarrow> vault_certificate result" where
  "issue_certificate hv st c common_name role ttl mount =
     bindE (pki_generate hv st c mount role common_name ttl) (\<lambda>response.
     bindE (item response ''data'') (\<lambda>d.
     bindE (item d ''certificate'') (\<lambda>cert.
     bindE (item d ''private_key'') (\<lambda>key.
     bindE (get_or_null d ''issuing_ca'') (\<lambda>ca.
     bindE (get_or_null d ''serial_number'') (\<lambda>serial.
     Inr \<lparr>certificate = cert, private_key_pem = key, issuing_ca = ca, serial_number = serial\<rparr>))))))"

section \<open>Lemmas\<close>

lemma item_simps [simp]:
  "item (JObj items) k = of_option KeyError (map_of items k)"
  by (simp add: item_def is_dict_def)

lemma tenant_key_name_inject [simp]: "tenant_key_name s = tenant_key_name t \<longleftrightarrow> s = t"
  by (simp add: tenant_key_name_def)

section \<open>Tenant data through the transit engine\<close>

text \<open>\<open>r\<close> is a response that carries \<open>x\<close> under \<open>field\<close> of its data.\<close>

definition carries :: "json result \<Rightarrow> string \<Rightarrow> json \<Rightarrow> bool" where
  "carries r field x \<longleftrightarrow> (\<exists>resp d. r = Inr resp \<and> item resp ''data'' = Inr d \<and> item d field = Inr x)"

text \<open>
  What the transit engine promises of the keys in \<open>K\<close>: whatever base64 text is encrypted under one
  of them is decrypted by it again, and no other of them decrypts it (the ciphertexts are
  authenticated).
\<close>

definition transit_engine :: "'v hvac \<Rightarrow> 'v \<Rightarrow> vault_client \<Rightarrow> string \<Rightarrow> string set \<Rightarrow> bool" where
  "transit_engine hv st c mount K \<longleftrightarrow>
     (\<forall>k\<in>K. \<forall>p. \<exists>ct. carries (transit_encrypt hv st c mount k p) ''ciphertext'' (JStr ct) \<and>
        carries (transit_decrypt hv st c mount k ct) ''plaintext'' (JStr p) \<and>
        (\<forall>k'\<in>K - {k}. \<exists>e. transit_decrypt hv st c mount k' ct = Inl e))"

text \<open>
  C32.  Tenant data survives the transit engine and stays with its tenant: for tenants that have a
  key, what \<open>encrypt\<close> makes of any bytes for a tenant, \<open>decrypt\<close> turns back into exactly those bytes
  for that tenant, and for every other tenant it raises.
\<close>

theorem transit_round_trip:
  assumes "transit_engine hv st c mount (tenant_key_name ` T)" and "t \<in> T"
  shows "\<exists>ct. vault_encrypt hv st c t raw mount = Inr (JStr ct) \<and> vault_decrypt hv st c t ct mount = Inr raw \<and>
    (\<forall>t'\<in>T - {t}. \<exists>e. vault_decrypt hv st c t' ct mount = Inl e)"
proof -
  from assms obtain ct where e: "carries (transit_encrypt hv st c mount (tenant_key_name t) (b64encode raw)) ''ciphertext'' (JStr ct)"
    and d: "carries (transit_decrypt hv st c mount (tenant_key_name t) ct) ''plaintext'' (JStr (b64encode raw))"
    and o: "\<forall>k'\<in>tenant_key_name ` T - {tenant_key_name t}. \<exists>e. transit_decrypt hv st c mount k' ct = Inl e"
    unfolding transit_engine_def by blast
  from e have "vault_encrypt hv st c t raw mount = Inr (JStr ct)" by (auto simp: carries_def vault_encrypt_def)
  moreover from d have "vault_decrypt hv st c t ct mount = Inr raw"
    by (auto simp: carries_def vault_decrypt_def text_of_def)
  moreover from o have "\<exists>e. vault_decrypt hv st c t' ct mount = Inl e" if "t' \<in> T - {t}" for t'
  proof -
    from that have "tenant_key_name t' \<in> tenant_key_name ` T - {tenant_key_name t}" by auto
    with o obtain e where "transit_decrypt hv st c mount (tenant_key_name t') ct = Inl e" by blast
    then show ?thesis by (simp add: vault_decrypt_def)
  qed
  ultimately show ?thesis by blast
qed

text \<open>An engine that puts the name of the key before the text.\<close>

definition demo_transit :: "unit hvac" where
  "demo_transit = \<lparr>approle_login = (\<lambda>_ _ _ _. Inl HTTPError), kv_read = (\<lambda>_ _ _ _. Inl HTTPError),
     kv_write = (\<lambda>_ _ _ _. throw HTTPError),
     transit_encrypt = (\<lambda>_ _ _ k p. Inr (JObj [(''data'', JObj [(''ciphertext'', JStr (k @ CHR '':'' # p))])])),
     transit_decrypt = (\<lambda>_ _ _ k ct. if startswith (k @ '':'') ct
        then Inr (JObj [(''data'', JObj [(''plaintext'', JStr (drop (Suc (length k)) ct))])]) else Inl HTTPError),
     pki_generate = (\<lambda>_ _ _ _ _ _. Inl HTTPError)\<rparr>"

theorem transit_round_trip_witness:
  "\<exists>ct. vault_encrypt demo_transit () \<lparr>vault_url = [], vault_token = None\<rparr> ''a'' ''card 42'' ''transit'' = Inr (JStr ct) \<and>
     vault_decrypt demo_transit () \<lparr>vault_url = [], vault_token = None\<rparr> ''a'' ct ''transit'' = Inr ''card 42'' \<and>
     (\<exists>e. vault_decrypt demo_transit () \<lparr>vault_url = [], vault_token = None\<rparr> ''b'' ct ''transit'' = Inl e)"
proof -
  have "transit_engine demo_transit () \<lparr>vault_url = [], vault_token = None\<rparr> ''transit'' (tenant_key_name ` {''a'', ''b''})"
    by (auto simp: transit_engine_def carries_def demo_transit_def tenant_key_name_def startswith_def)
  from transit_round_trip [OF this, of "''a''" "''card 42''"] show ?thesis by simp
qed

end
