(* ===== verification/Pqc_Signing.thy ===== *)
theory Pqc_Signing
  imports Vault_Client
begin

text \<open>
  shared/pqc_signing.py: ML-DSA-65 key pairs, the signer that holds them, and its construction from
  Vault.  The signature scheme itself (the package pqcrypto) is the record \<open>ml_dsa\<close>: its sizes, its
  key generator and its two functions, which may raise.  Bytes are strings.
\<close>

record ml_dsa =
  PUBLIC_KEY_SIZE :: nat
  SECRET_KEY_SIZE :: nat
  SIGNATURE_SIZE :: nat
  dsa_keypair :: "nat \<Rightarrow> string \<times> string"
  dsa_sign :: "string \<Rightarrow> string \<Rightarrow> string result"
  dsa_verify :: "string \<Rightarrow> string \<Rightarrow> string \<Rightarrow> bool result"

definition ML_DSA_ALGORITHM :: string where "ML_DSA_ALGORITHM = ''ML-DSA-65''"
definition DEFAULT_KV_MOUNT :: string where "DEFAULT_KV_MOUNT = ''secret''"
definition S2S_SIGNING_KEY_PATH :: string where "S2S_SIGNING_KEY_PATH = ''pqc/s2s-signing''"
definition WEBHOOK_SIGNING_KEY_PATH :: string where "WEBHOOK_SIGNING_KEY_PATH = ''pqc/webhook-signing''"

section \<open>Key pairs\<close>

record keypair =
  kp_public_key :: string
  kp_private_key :: string
  kp_algorithm :: string

text \<open>\<open>MLDSAKeyPair.generate\<close>; \<open>seed\<close> stands for the randomness of the generator.\<close>

definition generate_keypair :: "ml_dsa \<Rightarrow> nat \<Rightarrow> keypair" where
  "generate_keypair lib seed =
     (let (pk, sk) = dsa_keypair lib seed in
      \<lparr>kp_public_key = b64encode pk, kp_private_key = b64encode sk, kp_algorithm = ML_DSA_ALGORITHM\<rparr>)"

definition as_secret :: "keypair \<Rightarrow> json" where
  "as_secret kp =
     JObj [(''algorithm'', JStr (kp_algorithm kp)), (''public_key'', JStr (kp_public_key kp)),
           (''private_key'', JStr (kp_private_key kp))]"

text \<open>\<open>generate_mldsa_keypair_secret\<close>: what is stored in Vault.\<close>

definition generate_mldsa_keypair_secret :: "ml_dsa \<Rightarrow> nat \<Rightarrow> json" where
  "generate_mldsa_keypair_secret lib seed = as_secret (generate_keypair lib seed)"

definition decode_key_b64 :: "json \<Rightarrow> string \<Rightarrow> string result" where
  "decode_key_b64 value field =
     (case value of
        JStr s \<Rightarrow>
          if s = [] then Inl (PQCKeyError (''Missing ML-DSA '' @ field))
          else of_option (PQCKeyError (''Invalid base64 for ML-DSA '' @ field)) (b64decode True s)
      | _ \<Rightarrow> Inl (PQCKeyError (''Missing ML-DSA '' @ field)))"

section \<open>The signer\<close>

record signer =
  key_path :: string
  mount_point :: string
  public_key :: "string option"
  private_key :: "string option"

text \<open>
  The messages of the size and algorithm errors also quote the offending value; the model keeps
  the fixed part of the message.
\<close>

definition validate_key_sizes :: "ml_dsa \<Rightarrow> string \<Rightarrow> string \<Rightarrow> string \<Rightarrow> unit result" where
  "validate_key_sizes lib pk sk path =
     (if length pk \<noteq> PUBLIC_KEY_SIZE lib then Inl (PQCKeyError (''Invalid public key size at '' @ path))
      else if length sk \<noteq> SECRET_KEY_SIZE lib then Inl (PQCKeyError (''Invalid private key size at '' @ path))
      else Inr ())"

definition signer_from_vault ::
    "ml_dsa \<Rightarrow> 'v hvac \<Rightarrow> 'v \<Rightarrow> vault_client \<Rightarrow> string \<Rightarrow> string \<Rightarrow> signer result" where
  "signer_from_vault lib hv st c path mount =
     bindE (get_secret_dict hv st c path mount) (\<lambda>secret.
     bindE (get_or_null secret ''algorithm'') (\<lambda>alg.
     if alg \<noteq> JStr ML_DSA_ALGORITHM
     then Inl (PQCKeyError (''Unsupported PQC key algorithm at '' @ path))
     else
     bindE (bindE (get_or_null secret ''public_key'') (\<lambda>v. decode_key_b64 v ''public_key'')) (\<lambda>pk.
     bindE (bindE (get_or_null secret ''private_key'') (\<lambda>v. decode_key_b64 v ''private_key'')) (\<lambda>sk.
     bindE (validate_key_sizes lib pk sk path) (\<lambda>_.
     Inr \<lparr>key_path = path, mount_point = mount, public_key = Some pk, private_key = Some sk\<rparr>)))))"

definition signer_from_keypair :: "keypair \<Rightarrow> signer result" where
  "signer_from_keypair kp =
     bindE (decode_key_b64 (JStr (kp_public_key kp)) ''public_key'') (\<lambda>pk.
     bindE (decode_key_b64 (JStr (kp_private_key kp)) ''private_key'') (\<lambda>sk.
     Inr \<lparr>key_path = S2S_SIGNING_KEY_PATH, mount_point = DEFAULT_KV_MOUNT,
          public_key = Some pk, private_key = Some sk\<rparr>))"

definition require_public_key :: "ml_dsa \<Rightarrow> signer \<Rightarrow> string result" where
  "require_public_key lib s =
     (case public_key s of
        None \<Rightarrow> Inl (PQCKeyError ''ML-DSA public key is not loaded'')
      | Some k \<Rightarrow>
          if length k \<noteq> PUBLIC_KEY_SIZE lib then Inl (PQCKeyError ''ML-DSA public key has an invalid size'')
          else Inr k)"

definition require_private_key :: "ml_dsa \<Rightarrow> signer \<Rightarrow> string result" where
  "require_private_key lib s =
     (case private_key s of
        None \<Rightarrow> Inl (PQCKeyError ''ML-DSA private key is not loaded'')
      | Some k \<Rightarrow>
          if length k \<noteq> SECRET_KEY_SIZE lib then Inl (PQCKeyError ''ML-DSA private key has an invalid size'')
          else Inr k)"

definition public_key_size :: "ml_dsa \<Rightarrow> signer \<Rightarrow> nat result" where
  "public_key_size lib s = bindE (require_public_key lib s) (\<lambda>_. Inr (length (case public_key s of Some k \<Rightarrow> k | None \<Rightarrow> [])))"

definition private_key_size :: "ml_dsa \<Rightarrow> signer \<Rightarrow> nat result" where
  "private_key_size lib s = bindE (require_private_key lib s) (\<lambda>_. Inr (length (case private_key s of Some k \<Rightarrow> k | None \<Rightarrow> [])))"

definition sign :: "ml_dsa \<Rightarrow> signer \<Rightarrow> string \<Rightarrow> string result" where
  "sign lib s payload =
     bindE (require_private_key lib s) (\<lambda>k.
     bindE (dsa_sign lib k payload) (\<lambda>signature. Inr (b64encode signature)))"

definition verify :: "ml_dsa \<Rightarrow> signer \<Rightarrow> string \<Rightarrow> string \<Rightarrow> bool result" where
  "verify lib s payload signature_b64 =
     bindE (require_public_key lib s) (\<lambda>k.
     case b64decode True signature_b64 of
       None \<Rightarrow> Inr False
     | Some signature \<Rightarrow>
         (case dsa_verify lib k payload signature of Inl _ \<Rightarrow> Inr False | Inr b \<Rightarrow> Inr b))"

definition key_sizes :: "ml_dsa \<Rightarrow> (string \<times> nat) list" where
  "key_sizes lib =
     [(''public_key_bytes'', PUBLIC_KEY_SIZE lib), (''private_key_bytes'', SECRET_KEY_SIZE lib),
      (''signature_bytes'', SIGNATURE_SIZE lib)]"

section \<open>Lemmas\<close>

text \<open>
  What a signature scheme promises of a key pair: keys of its sizes, and every signature made with
  the private key is not empty and verifies under the public key.
\<close>

definition keys_match :: "ml_dsa \<Rightarrow> string \<Rightarrow> string \<Rightarrow> bool" where
  "keys_match lib pk sk \<longleftrightarrow> length pk = PUBLIC_KEY_SIZE lib \<and> length sk = SECRET_KEY_SIZE lib \<and>
     (\<forall>m. \<exists>s. dsa_sign lib sk m = Inr s \<and> s \<noteq> [] \<and> dsa_verify lib pk m s = Inr True)"

definition signer_ready :: "ml_dsa \<Rightarrow> signer \<Rightarrow> bool" where
  "signer_ready lib s \<longleftrightarrow> (\<exists>pk sk. public_key s = Some pk \<and> private_key s = Some sk \<and> keys_match lib pk sk)"

lemma sign_verify:
  assumes "signer_ready lib s"
  obtains signature where "sign lib s m = Inr (b64encode signature)"
    and "verify lib s m (b64encode signature) = Inr True" and "signature \<noteq> []"
  using assms by (fastforce simp: signer_ready_def keys_match_def sign_def verify_def
      require_public_key_def require_private_key_def)

lemma require_public_key_Inr [simp]:
  "require_public_key lib s = Inr k \<longleftrightarrow> public_key s = Some k \<and> length k = PUBLIC_KEY_SIZE lib"
  by (auto simp: require_public_key_def split: option.splits)

lemma require_private_key_Inr [simp]:
  "require_private_key lib s = Inr k \<longleftrightarrow> private_key s = Some k \<and> length k = SECRET_KEY_SIZE lib"
  by (auto simp: require_private_key_def split: option.splits)

text \<open>A loaded signer has keys of the sizes of the scheme.\<close>

lemma signer_ready_sizes:
  "signer_ready lib s \<Longrightarrow>
     public_key_size lib s = Inr (PUBLIC_KEY_SIZE lib) \<and> private_key_size lib s = Inr (SECRET_KEY_SIZE lib)"
  by (auto simp: signer_ready_def keys_match_def public_key_size_def private_key_size_def)

lemma verify_Inr_True:
  assumes "verify lib s m sig = Inr True"
  obtains pk raw where "public_key s = Some pk" and "b64decode True sig = Some raw"
    and "dsa_verify lib pk m raw = Inr True"
proof -
  from assms obtain pk where pk: "public_key s = Some pk" and
    v: "(case b64decode True sig of None \<Rightarrow> Inr False
      | Some raw \<Rightarrow> (case dsa_verify lib pk m raw of Inl _ \<Rightarrow> Inr False | Inr b \<Rightarrow> Inr b)) = (Inr True :: bool result)"
    unfolding verify_def by auto
  from v obtain raw where "b64decode True sig = Some raw" "dsa_verify lib pk m raw = Inr True"
    by (auto split: option.splits sum.splits)
  with pk that show thesis by blast
qed

text \<open>Verification with a loaded key never raises.\<close>

lemma verify_total:
  assumes "public_key s = Some pk" and "length pk = PUBLIC_KEY_SIZE lib"
  shows "verify lib s m sig \<in> range Inr"
  using assms by (auto simp: verify_def require_public_key_def split: option.splits sum.splits)

lemma signer_from_keypair_ready:
  assumes "dsa_keypair lib seed = (pk, sk)" and "keys_match lib pk sk" and "pk \<noteq> []" and "sk \<noteq> []"
  shows "\<exists>s. signer_from_keypair (generate_keypair lib seed) = Inr s \<and> signer_ready lib s"
  using assms
  by (auto simp: signer_from_keypair_def generate_keypair_def decode_key_b64_def signer_ready_def)

text \<open>What the generator stores is what the signer loads.\<close>

definition generates :: "ml_dsa \<Rightarrow> bool" where
  "generates lib \<longleftrightarrow> (\<forall>seed. case dsa_keypair lib seed of (pk, sk) \<Rightarrow> keys_match lib pk sk \<and> pk \<noteq> [] \<and> sk \<noteq> [])"

lemma signer_from_secret:
  assumes "get_secret_dict hv st c path mount = Inr (generate_mldsa_keypair_secret lib seed)" and "generates lib"
  shows "\<exists>s. signer_from_vault lib hv st c path mount = Inr s \<and> signer_ready lib s \<and>
    key_path s = path \<and> mount_point s = mount"
proof -
  obtain pk sk where k: "dsa_keypair lib seed = (pk, sk)" by fastforce
  with assms(2) have "keys_match lib pk sk" "pk \<noteq> []" "sk \<noteq> []" by (auto simp: generates_def split: prod.splits)
  with assms(1) k show ?thesis
    by (simp add: signer_from_vault_def generate_mldsa_keypair_secret_def generate_keypair_def as_secret_def
        get_or_null_def is_dict_def decode_key_b64_def validate_key_sizes_def keys_match_def signer_ready_def
        ML_DSA_ALGORITHM_def)
qed

section \<open>A concrete instance\<close>

text \<open>A scheme with one key pair, whose signature of a message is the private key before it.\<close>

definition demo_dsa :: ml_dsa where
  "demo_dsa = \<lparr>PUBLIC_KEY_SIZE = 1, SECRET_KEY_SIZE = 2, SIGNATURE_SIZE = 2,
     dsa_keypair = (\<lambda>_. (''P'', ''SK'')), dsa_sign = (\<lambda>sk m. Inr (sk @ m)),
     dsa_verify = (\<lambda>pk m s. Inr (s = ''SK'' @ m))\<rparr>"

definition demo_signer :: signer where
  "demo_signer = \<lparr>key_path = WEBHOOK_SIGNING_KEY_PATH, mount_point = DEFAULT_KV_MOUNT,
     public_key = Some ''P'', private_key = Some ''SK''\<rparr>"

lemma demo_signer_ready: "signer_ready demo_dsa demo_signer"
  by (simp add: signer_ready_def keys_match_def demo_dsa_def demo_signer_def)

end
