(* ===== verification/Py_Json.thy ===== *)
theory Py_Json
  imports Json_Value "HOL-Library.List_Lexorder" "HOL-Library.Char_ord"
begin

text \<open>
  \<open>json.dumps(value, sort_keys=True, separators=(",", ":"))\<close> with \<open>ensure_ascii\<close> on or off: the
  canonical bytes that tokens and webhooks are signed over.  Strings are UTF-8; with
  \<open>ensure_ascii\<close> every character outside the printable ASCII range becomes \<open>\uXXXX\<close> escapes, by
  surrogate pairs above U+FFFF.
\<close>

section \<open>Characters of a UTF-8 string\<close>

text \<open>The code points of a string; a byte that starts no character counts for itself.\<close>

fun code_points :: "int list \<Rightarrow> int list" where
  "code_points [] = []"
| "code_points (a # s) =
     (if a < 192 then a # code_points s
      else if a < 224 then
        (case s of b # s' \<Rightarrow> ((a - 192) * 64 + (b - 128)) # code_points s' | _ \<Rightarrow> a # code_points s)
      else if a < 240 then
        (case s of b # c # s' \<Rightarrow> (((a - 224) * 64 + (b - 128)) * 64 + (c - 128)) # code_points s'
         | _ \<Rightarrow> a # code_points s)
      else
        (case s of b # c # d # s' \<Rightarrow>
            ((((a - 240) * 64 + (b - 128)) * 64 + (c - 128)) * 64 + (d - 128)) # code_points s'
         | _ \<Rightarrow> a # code_points s))"

section \<open>Strings\<close>

definition backslash :: char where
  "backslash = char_of (92 :: int)"

definition quote :: char where
  "quote = char_of (34 :: int)"

definition u_escape :: "int \<Rightarrow> string" where
  "u_escape n = backslash # CHR ''u'' # hex_fixed 4 n"

text \<open>The escapes both modes share; \<open>None\<close> where a mode decides.\<close>

definition short_escape :: "int \<Rightarrow> string option" where
  "short_escape n =
     (if n = 92 then Some [backslash, backslash] else if n = 34 then Some [backslash, quote]
      else if n = 10 then Some [backslash, CHR ''n''] else if n = 13 then Some [backslash, CHR ''r'']
      else if n = 9 then Some [backslash, CHR ''t''] else if n = 12 then Some [backslash, CHR ''f'']
      else if n = 8 then Some [backslash, CHR ''b''] else None)"

definition escape_ascii :: "int \<Rightarrow> string" where
  "escape_ascii n =
     (case short_escape n of
        Some e \<Rightarrow> e
      | None \<Rightarrow>
          if 32 \<le> n \<and> n \<le> 126 then [char_of n]
          else if n < 65536 then u_escape n
          else u_escape (55296 + (n - 65536) div 1024) @ u_escape (56320 + (n - 65536) mod 1024))"

definition escape_utf8 :: "char \<Rightarrow> string" where
  "escape_utf8 c =
     (case short_escape (code c) of
        Some e \<Rightarrow> e
      | None \<Rightarrow> if code c < 32 then u_escape (code c) else [c])"

definition dump_string :: "bool \<Rightarrow> string \<Rightarrow> string" where
  "dump_string ensure_ascii s =
     quote # (if ensure_ascii then concat (map escape_ascii (code_points (map code s)))
              else concat (map escape_utf8 s)) @ [quote]"

section \<open>Values\<close>

definition comma_join :: "string list \<Rightarrow> string" where
  "comma_join ws = join_with CHR '','' ws"

fun dumps :: "bool \<Rightarrow> json \<Rightarrow> string" where
  "dumps ea JNull = ''null''"
| "dumps ea (JBool b) = (if b then ''true'' else ''false'')"
| "dumps ea (JInt i) = py_str_int i"
| "dumps ea (JFloat s) = s"
| "dumps ea (JStr s) = dump_string ea s"
| "dumps ea (JArr xs) = CHR ''['' # comma_join (map (dumps ea) xs) @ '']''"
| "dumps ea (JObj items) =
     CHR ''{'' # comma_join (map snd (sort_key fst
       (map (\<lambda>(k, v). (k, dump_string ea k @ CHR '':'' # dumps ea v)) items))) @ ''}''"

text \<open>
  \<open>json.dumps(value, ensure_ascii=ea, indent=ind)\<close>: members in their order; with an indent every item
  stands on a line of its own, \<open>ind\<close> spaces for each level, and without one \<open>", "\<close> separates them.
\<close>

fun str_join :: "string \<Rightarrow> string list \<Rightarrow> string" where
  "str_join sep [] = []"
| "str_join sep [w] = w"
| "str_join sep (w # ws) = w @ sep @ str_join sep ws"

definition line_break :: "nat option \<Rightarrow> nat \<Rightarrow> string" where
  "line_break ind level =
     (case ind of None \<Rightarrow> [] | Some k \<Rightarrow> char_of (10 :: int) # replicate (k * level) (CHR '' ''))"

definition item_separator :: "nat option \<Rightarrow> nat \<Rightarrow> string" where
  "item_separator ind level = CHR '','' # (case ind of None \<Rightarrow> '' '' | Some k \<Rightarrow> line_break ind level)"

fun dumps_fmt :: "bool \<Rightarrow> nat option \<Rightarrow> nat \<Rightarrow> json \<Rightarrow> string" where
  "dumps_fmt ea ind level (JArr xs) =
     (if xs = [] then ''[]''
      else CHR ''['' # line_break ind (Suc level) @
        str_join (item_separator ind (Suc level)) (map (dumps_fmt ea ind (Suc level)) xs) @ line_break ind level @ '']'')"
| "dumps_fmt ea ind level (JObj items) =
     (if items = [] then ''{}''
      else CHR ''{'' # line_break ind (Suc level) @
        str_join (item_separator ind (Suc level))
          (map (\<lambda>(k, v). dump_string ea k @ '': '' @ dumps_fmt ea ind (Suc level) v) items) @ line_break ind level @ ''}'')"
| "dumps_fmt ea ind level j = dumps ea j"

end
