(* ===== verification/Webhook_Signer.thy ===== *)
theory Webhook_Signer
  imports Pqc_Signing Py_Json
begin

text \<open>
  shared/webhook_signer.py: the headers that sign an outbound webhook, and their verification with
  the algorithm check and the replay window.  \<open>now\<close> is the given or measured time.
\<close>

definition TIMESTAMP_HEADER :: string where "TIMESTAMP_HEADER = ''X-Webhook-Timestamp''"
definition SIGNATURE_HEADER :: string where "SIGNATURE_HEADER = ''X-Webhook-Signature''"
definition ALGORITHM_HEADER :: string where "ALGORITHM_HEADER = ''X-Webhook-Algorithm''"
definition SIGNATURE_PREFIX :: string where "SIGNATURE_PREFIX = ''mldsa65=''"
definition DEFAULT_REPLAY_TOLERANCE_SECONDS :: int where "DEFAULT_REPLAY_TOLERANCE_SECONDS = 300"

definition canonical_json_bytes :: "json \<Rightarrow> string" where
  "canonical_json_bytes payload = dumps False payload"

definition signed_webhook_bytes :: "json \<Rightarrow> int \<Rightarrow> string" where
  "signed_webhook_bytes payload timestamp = py_str_int timestamp @ ''.'' @ canonical_json_bytes payload"

definition create_webhook_signature_headers ::
    "ml_dsa \<Rightarrow> signer \<Rightarrow> json \<Rightarrow> int \<Rightarrow> (string \<times> string) list result" where
  "create_webhook_signature_headers lib s payload now =
     bindE (sign lib s (signed_webhook_bytes payload now)) (\<lambda>signature.
     Inr [(TIMESTAMP_HEADER, py_str_int now), (SIGNATURE_HEADER, SIGNATURE_PREFIX @ signature),
          (ALGORITHM_HEADER, ML_DSA_ALGORITHM)])"

definition verify_webhook_signature ::
    "ml_dsa \<Rightarrow> signer \<Rightarrow> json \<Rightarrow> (string \<Rightarrow> string option) \<Rightarrow> int \<Rightarrow> int \<Rightarrow> bool result" where
  "verify_webhook_signature lib s payload headers now tolerance_seconds =
     (case Option.bind (headers TIMESTAMP_HEADER) py_int of
        None \<Rightarrow> Inr False
      | Some timestamp \<Rightarrow>
     (case headers SIGNATURE_HEADER of
        None \<Rightarrow> Inr False
      | Some signature_header \<Rightarrow>
          if headers ALGORITHM_HEADER \<noteq> Some ML_DSA_ALGORITHM then Inr False
          else if abs (now - timestamp) > tolerance_seconds then Inr False
          else if \<not> startswith SIGNATURE_PREFIX signature_header then Inr False
          else verify lib s (signed_webhook_bytes payload timestamp)
                 (removeprefix SIGNATURE_PREFIX signature_header)))"

section \<open>Lemmas\<close>

text \<open>The signed bytes determine the time and the canonical text: no digit is a full stop.\<close>

lemma py_str_int_no_dot: "CHR ''.'' \<notin> set (py_str_int i)"
proof -
  have "code CHR ''.'' = 46" "CHR ''.'' \<noteq> CHR ''-''" by (simp_all add: code_def)
  then show ?thesis using set_dec_code [of "\<bar>i\<bar>" "CHR ''.''"] by (auto simp: py_str_int_def)
qed

lemma split_at_dot:
  "u @ ''.'' @ x = v @ ''.'' @ y \<Longrightarrow> CHR ''.'' \<notin> set u \<Longrightarrow> CHR ''.'' \<notin> set v \<Longrightarrow> u = v \<and> x = y"
proof (induction u arbitrary: v)
  case Nil
  then show ?case by (cases v) auto
next
  case (Cons a u)
  then show ?case by (cases v) auto
qed

lemma signed_webhook_bytes_inject:
  assumes "signed_webhook_bytes p t = signed_webhook_bytes q u"
  shows "t = u \<and> canonical_json_bytes p = canonical_json_bytes q"
proof -
  from split_at_dot [OF assms [unfolded signed_webhook_bytes_def] py_str_int_no_dot py_str_int_no_dot]
  have "py_str_int t = py_str_int u" and c: "canonical_json_bytes p = canonical_json_bytes q" by auto
  then have "Some t = Some u" by (metis py_int_str)
  with c show ?thesis by simp
qed

lemma header_names_distinct:
  "TIMESTAMP_HEADER \<noteq> SIGNATURE_HEADER" "TIMESTAMP_HEADER \<noteq> ALGORITHM_HEADER"
  "SIGNATURE_HEADER \<noteq> ALGORITHM_HEADER"
  by code_simp+

section \<open>Properties\<close>

text \<open>
  C28.  Signing and verifying agree: the headers that the signer makes for a payload at time \<open>t\<close> are
  accepted for that payload exactly as long as the clock of the receiver is within the tolerance
  of \<open>t\<close>, earlier or later.
\<close>

theorem webhook_round_trip:
  assumes "signer_ready lib s" and "create_webhook_signature_headers lib s payload t = Inr headers"
  shows "verify_webhook_signature lib s payload (map_of headers) now tolerance =
    Inr (\<bar>now - t\<bar> \<le> tolerance)"
proof -
  from sign_verify [OF assms(1), of "signed_webhook_bytes payload t"] obtain signature
    where sg: "sign lib s (signed_webhook_bytes payload t) = Inr (b64encode signature)"
      and ok: "verify lib s (signed_webhook_bytes payload t) (b64encode signature) = Inr True" by blast
  from sg assms(2) have h: "headers = [(TIMESTAMP_HEADER, py_str_int t),
      (SIGNATURE_HEADER, SIGNATURE_PREFIX @ b64encode signature), (ALGORITHM_HEADER, ML_DSA_ALGORITHM)]"
    by (simp add: create_webhook_signature_headers_def)
  with ok show ?thesis
    using header_names_distinct
    by (simp add: verify_webhook_signature_def py_int_str)
qed

theorem webhook_round_trip_witness:
  "\<exists>headers. create_webhook_signature_headers demo_dsa demo_signer (JObj [(''amount'', JInt 5)]) 1000 = Inr headers \<and>
    verify_webhook_signature demo_dsa demo_signer (JObj [(''amount'', JInt 5)]) (map_of headers) 1300 300 = Inr True \<and>
    verify_webhook_signature demo_dsa demo_signer (JObj [(''amount'', JInt 5)]) (map_of headers) 1301 300 = Inr False"
proof -
  obtain headers where h: "create_webhook_signature_headers demo_dsa demo_signer (JObj [(''amount'', JInt 5)]) 1000 = Inr headers"
    by (simp add: create_webhook_signature_headers_def sign_def require_private_key_def demo_signer_def demo_dsa_def)
  from webhook_round_trip [OF demo_signer_ready h] h show ?thesis by simp
qed

text \<open>
  C27.  What an accepted webhook proves: its timestamp header is a number within the tolerance of
  the clock, its algorithm header names ML-DSA-65, and its signature verifies, under the signer's
  public key, over bytes that determine the timestamp and the canonical JSON of the payload: no
  other timestamp and no payload with other canonical JSON has the same signed bytes.
\<close>

theorem webhook_accepted:
  assumes "verify_webhook_signature lib s payload headers now tolerance = Inr True"
  shows "\<exists>ts t pk raw sg. headers TIMESTAMP_HEADER = Some ts \<and> py_int ts = Some t \<and>
    \<bar>now - t\<bar> \<le> tolerance \<and> headers ALGORITHM_HEADER = Some ML_DSA_ALGORITHM \<and>
    headers SIGNATURE_HEADER = Some (SIGNATURE_PREFIX @ sg) \<and> b64decode True sg = Some raw \<and>
    public_key s = Some pk \<and> dsa_verify lib pk (signed_webhook_bytes payload t) raw = Inr True \<and>
    (\<forall>p' t'. signed_webhook_bytes p' t' = signed_webhook_bytes payload t \<longleftrightarrow>
       t' = t \<and> canonical_json_bytes p' = canonical_json_bytes payload)"
proof -
  from assms(1) obtain ts t sh where h: "headers TIMESTAMP_HEADER = Some ts" "py_int ts = Some t"
      "headers SIGNATURE_HEADER = Some sh" "headers ALGORITHM_HEADER = Some ML_DSA_ALGORITHM"
      "\<bar>now - t\<bar> \<le> tolerance" "startswith SIGNATURE_PREFIX sh"
    and v: "verify lib s (signed_webhook_bytes payload t) (removeprefix SIGNATURE_PREFIX sh) = Inr True"
    by (auto simp: verify_webhook_signature_def bind_eq_Some_conv split: option.splits if_splits)
  from h(6) obtain sg where sh: "sh = SIGNATURE_PREFIX @ sg" by (auto simp: startswith_iff)
  from v sh obtain pk raw where k: "public_key s = Some pk" "b64decode True sg = Some raw"
    and ok: "dsa_verify lib pk (signed_webhook_bytes payload t) raw = Inr True"
    by (auto elim: verify_Inr_True)
  have "signed_webhook_bytes p' t' = signed_webhook_bytes payload t \<longleftrightarrow>
      t' = t \<and> canonical_json_bytes p' = canonical_json_bytes payload" for p' t'
    using signed_webhook_bytes_inject by (auto simp: signed_webhook_bytes_def)
  with h sh k ok show ?thesis by blast
qed

theorem webhook_accepted_witness:
  "\<exists>headers. create_webhook_signature_headers demo_dsa demo_signer (JObj [(''amount'', JInt 5)]) 1000 = Inr headers \<and>
    map_of headers ALGORITHM_HEADER = Some ML_DSA_ALGORITHM"
proof -
  let ?p = "JObj [(''amount'', JInt 5)]"
  obtain headers where h: "create_webhook_signature_headers demo_dsa demo_signer ?p 1000 = Inr headers"
    and v: "verify_webhook_signature demo_dsa demo_signer ?p (map_of headers) 1000 300 = Inr True"
  proof -
    have "case create_webhook_signature_headers demo_dsa demo_signer ?p 1000 of Inl _ \<Rightarrow> False
      | Inr headers \<Rightarrow> verify_webhook_signature demo_dsa demo_signer ?p (map_of headers) 1000 300 = Inr True"
      by code_simp
    then show thesis by (auto split: sum.splits intro: that)
  qed
  from webhook_accepted [OF v] h show ?thesis by blast
qed

end
