(* ===== verification/Payment_Service.thy ===== *)
theory Payment_Service
  imports Tenant_Guard Webhook_Signer
begin

text \<open>
  services/payment-service: the request body (models/schemas.py), the payment operations and the
  processing of Stripe events (services/payment_service.py), the routes (api/v1/routes.py) and the
  webhook endpoint (api/v1/webhook.py).

  \<open>pay_lib\<close> holds what is outside: the environment variables, Vault, the signature scheme, the two
  functions of the Stripe SDK, the clock, and Python's \<open>str\<close> and \<open>int\<close> of the JSON values (floats,
  lists, dicts) for which the model has no numeral.  Stripe objects are JSON values.
\<close>

section \<open>Libraries and request bodies\<close>

record 'v pay_lib =
  getenv :: "string \<Rightarrow> string option"
  hvac_lib :: "'v hvac"
  vault_state :: 'v
  dsa_lib :: ml_dsa
  stripe_create :: "string \<Rightarrow> int \<Rightarrow> string \<Rightarrow> (string \<times> string) list \<Rightarrow> json result"
  construct_event :: "string \<Rightarrow> string \<Rightarrow> string \<Rightarrow> json result"
  wall_clock :: int
  str_of_other :: "json \<Rightarrow> string"
  int_of_float :: "string \<Rightarrow> int result"

record payment_create =
  pc_amount :: int
  pc_currency :: string

record payment_intent_response =
  pi_payment_id :: uuid
  pi_payment_intent_id :: string
  pi_client_secret :: string
  pi_status :: string

record webhook_ack =
  ack_event_type :: json
  ack_payment_intent_id :: json
  ack_duplicate :: bool
  ack_status :: "string option"

definition ALLOWED_CURRENCIES :: "string list" where
  "ALLOWED_CURRENCIES = [''usd'', ''vnd'']"

definition STRIPE_SECRET_KEY_PATH :: string where "STRIPE_SECRET_KEY_PATH = ''stripe/secret_key''"
definition STRIPE_WEBHOOK_SECRET_PATH :: string where
  "STRIPE_WEBHOOK_SECRET_PATH = ''stripe/webhook_secret''"
definition LAB_STRIPE_SECRET_PLACEHOLDER :: string where
  "LAB_STRIPE_SECRET_PLACEHOLDER = ''sk_test_lab_placeholder''"
definition LAB_STRIPE_WEBHOOK_PLACEHOLDER :: string where
  "LAB_STRIPE_WEBHOOK_PLACEHOLDER = ''whsec_lab_placeholder''"

text \<open>The body after validation has its currency in lower case.\<close>

definition payment_create_ok :: "payment_create \<Rightarrow> bool" where
  "payment_create_ok d \<longleftrightarrow> 0 < pc_amount d \<and> py_len (pc_currency d) = 3 \<and>
     py_lower (pc_currency d) \<in> set ALLOWED_CURRENCIES"

definition normalize_currency :: "payment_create \<Rightarrow> payment_create" where
  "normalize_currency d = d\<lparr>pc_currency := py_lower (pc_currency d)\<rparr>"

section \<open>Values of Stripe objects\<close>

definition stripe_value :: "json \<Rightarrow> string \<Rightarrow> json option \<Rightarrow> json result" where
  "stripe_value obj key dflt =
     (case dict_get obj key of
        Some v \<Rightarrow> Inr v
      | None \<Rightarrow> of_option (APIError 400 BAD_REQUEST (''Stripe object missing field: '' @ key)) dflt)"

definition stripe_nested_object :: "json \<Rightarrow> json result" where
  "stripe_nested_object event =
     bindE (stripe_value event ''data'' None) (\<lambda>d. stripe_value d ''object'' None)"

definition status_from_event_type :: "json \<Rightarrow> string option" where
  "status_from_event_type ty =
     (if ty = JStr ''payment_intent.succeeded'' then Some ''succeeded''
      else if ty = JStr ''payment_intent.payment_failed'' then Some ''failed''
      else None)"

text \<open>\<open>str(v)\<close> and \<open>int(v)\<close>.\<close>

definition py_str :: "'v pay_lib \<Rightarrow> json \<Rightarrow> string" where
  "py_str pl v =
     (case v of
        JNull \<Rightarrow> ''None'' | JBool b \<Rightarrow> (if b then ''True'' else ''False'') | JInt i \<Rightarrow> py_str_int i
      | JStr s \<Rightarrow> s | _ \<Rightarrow> str_of_other pl v)"

definition py_int_of :: "'v pay_lib \<Rightarrow> json \<Rightarrow> int result" where
  "py_int_of pl v = py_int_json (int_of_float pl) v"

text \<open>
  What the driver does with a value for a text column or parameter: a string is sent, \<open>None\<close> is
  \<open>NULL\<close>, anything else is refused before it is sent.
\<close>

definition nullable_text :: "json \<Rightarrow> string option result" where
  "nullable_text v =
     (case v of JStr s \<Rightarrow> Inr (Some s) | JNull \<Rightarrow> Inr None | _ \<Rightarrow> Inl (OtherError ''DBAPIError''))"

definition text_column :: "json \<Rightarrow> string result" where
  "text_column v = bindE (nullable_text v) (of_option IntegrityError)"

definition text_param :: "json \<Rightarrow> string result" where
  "text_param v = bindE (nullable_text v) (of_option (OtherError ''DBAPIError''))"

section \<open>Secrets\<close>

definition env_or :: "(string \<Rightarrow> string option) \<Rightarrow> string \<Rightarrow> string \<Rightarrow> string option" where
  "env_or g a b = (if truthy (g a) then g a else g b)"

definition get_vault_client :: "'v pay_lib \<Rightarrow> settings \<Rightarrow> vault_client result" where
  "get_vault_client pl s =
     (let role_id = env_or (getenv pl) ''VAULT_ROLE_ID'' ''PAYMENT_SVC_VAULT_ROLE_ID'';
          secret_id = env_or (getenv pl) ''VAULT_SECRET_ID'' ''PAYMENT_SVC_VAULT_SECRET_ID'';
          token = env_or (getenv pl) ''VAULT_TOKEN'' ''VAULT_DEV_TOKEN'' in
      if truthy role_id \<and> truthy secret_id
      then from_approle (hvac_lib pl) (vault_state pl) s (str_or role_id []) (str_or secret_id []) None
      else if truthy token then Inr (new_vault_client s None token)
      else Inr (new_vault_client s None None))"

definition read_secret :: "'v pay_lib \<Rightarrow> settings \<Rightarrow> string \<Rightarrow> string \<Rightarrow> string \<Rightarrow> string" where
  "read_secret pl s path env_name dflt =
     (case bindE (get_vault_client pl s) (\<lambda>c.
        get_secret (hvac_lib pl) (vault_state pl) c path ''value'' DEFAULT_KV_MOUNT) of
        Inr v \<Rightarrow> py_str pl v
      | Inl _ \<Rightarrow> str_or (getenv pl env_name) dflt)"

definition get_stripe_secret_key :: "'v pay_lib \<Rightarrow> settings \<Rightarrow> string" where
  "get_stripe_secret_key pl s =
     read_secret pl s STRIPE_SECRET_KEY_PATH ''STRIPE_SECRET_KEY'' LAB_STRIPE_SECRET_PLACEHOLDER"

definition get_stripe_webhook_secret :: "'v pay_lib \<Rightarrow> settings \<Rightarrow> string" where
  "get_stripe_webhook_secret pl s =
     read_secret pl s STRIPE_WEBHOOK_SECRET_PATH ''STRIPE_WEBHOOK_SECRET'' LAB_STRIPE_WEBHOOK_PLACEHOLDER"

definition get_webhook_signer :: "'v pay_lib \<Rightarrow> settings \<Rightarrow> signer result" where
  "get_webhook_signer pl s =
     bindE (get_vault_client pl s) (\<lambda>c.
       signer_from_vault (dsa_lib pl) (hvac_lib pl) (vault_state pl) c WEBHOOK_SIGNING_KEY_PATH DEFAULT_KV_MOUNT)"

section \<open>Payments\<close>

text \<open>The three ids that a request draws with \<open>uuid4()\<close>: of the row and of the two lab values.\<close>

record fresh_ids =
  id_payment :: uuid
  id_lab :: uuid
  id_lab_secret :: uuid

definition hex_of_uuid :: "uuid \<Rightarrow> string" where
  "hex_of_uuid u = hex_fixed 32 (uint u)"

definition create_stripe_payment_intent ::
    "'v pay_lib \<Rightarrow> settings \<Rightarrow> fresh_ids \<Rightarrow> int \<Rightarrow> string \<Rightarrow> (string \<times> string) list \<Rightarrow> json result" where
  "create_stripe_payment_intent pl s ids amount currency metadata =
     (let secret_key = get_stripe_secret_key pl s in
      if secret_key = LAB_STRIPE_SECRET_PLACEHOLDER
      then Inr (JObj
        [(''id'', JStr (''pi_lab_'' @ hex_of_uuid (id_lab ids))),
         (''client_secret'', JStr (''pi_lab_secret_'' @ hex_of_uuid (id_lab_secret ids))),
         (''status'', JStr ''requires_payment_method'')])
      else stripe_create pl secret_key amount currency metadata)"

definition create_payment_intent ::
    "'v pay_lib \<Rightarrow> settings \<Rightarrow> verdict \<Rightarrow> fresh_ids \<Rightarrow> payment_create \<Rightarrow> uuid \<Rightarrow> string \<Rightarrow>
     (world, payment_row \<times> json) prog" where
  "create_payment_intent pl s chk ids d tenant_id user_id =
     bindM (set_tenant_context (uuid_str tenant_id)) (\<lambda>_.
     let currency = py_lower (pc_currency d) in
     if currency \<notin> set ALLOWED_CURRENCIES
     then throw (APIError 422 BAD_REQUEST (''Unsupported currency: '' @ currency))
     else
     bindM (liftE (create_stripe_payment_intent pl s ids (pc_amount d) currency
              [(''tenant_id'', uuid_str tenant_id), (''user_id'', user_id)])) (\<lambda>intent.
     bindM (liftE (stripe_value intent ''id'' None)) (\<lambda>intent_id.
     bindM (liftE (stripe_value intent ''status'' (Some (JStr ''requires_payment_method'')))) (\<lambda>st.
     bindM (catchM
              (bindM (liftE (text_column intent_id)) (\<lambda>pid.
               bindM (liftE (text_column st)) (\<lambda>status.
               bindM (add (InsertPayment
                 \<lparr>p_id = id_payment ids, p_tenant_id = tenant_id, p_user_id = user_id,
                  p_stripe_payment_intent_id = pid, p_amount = pc_amount d, p_currency = currency,
                  p_status = status, p_created_at = 0\<rparr>)) (\<lambda>_.
               commit chk))))
              (\<lambda>e. if e = IntegrityError
                   then bindM rollback (\<lambda>_. throw (APIError 409 CONFLICT ''Payment intent already exists''))
                   else throw e)) (\<lambda>_.
     bindM (reread (\<lambda>db. find (\<lambda>p. p_id p = id_payment ids) (payments db))) (\<lambda>payment.
     bindM (liftE (stripe_value intent ''client_secret'' None)) (\<lambda>client_secret.
     ret (payment, client_secret))))))))"

definition list_payments :: "uuid option \<Rightarrow> bool \<Rightarrow> (world, payment_row list) prog" where
  "list_payments tenant_id include_all =
     bindM (case tenant_id of None \<Rightarrow> ret () | Some t \<Rightarrow> set_tenant_context (uuid_str t)) (\<lambda>_.
     select (\<lambda>d. order_desc p_created_at
       (case tenant_id of
          None \<Rightarrow> payments d
        | Some t \<Rightarrow> if include_all then payments d else filter (\<lambda>p. p_tenant_id p = t) (payments d))))"

definition get_payment :: "uuid \<Rightarrow> (world, payment_row option) prog" where
  "get_payment k = select (\<lambda>d. find (\<lambda>p. p_id p = k) (payments d))"

section \<open>Routes\<close>

definition authorize_payment_access :: "current_user \<Rightarrow> payment_row \<Rightarrow> (world, unit) prog" where
  "authorize_payment_access u p =
     (if platform_admin u then ret ()
      else bindM (liftE (required_tenant_id u)) (\<lambda>t.
           if p_tenant_id p = t then ret ()
           else bindM (log WARNING ''security.payment_bola_attempt''
                  [(''event'', LStr ''security.payment_bola_attempt''),
                   (''user_id'', LStr (cu_user_id u)),
                   (''attacker_tenant_id'', log_opt (cu_tenant_id u)),
                   (''payment_id'', LStr (uuid_str (p_id p))),
                   (''payment_tenant_id'', LStr (uuid_str (p_tenant_id p)))]) (\<lambda>_.
                throw (APIError 403 ACCESS_DENIED ''Access denied''))))"

definition payments_metadata :: service_info where
  "payments_metadata =
     \<lparr>info_service = ''payment-service'', info_stage = ''stage-13'', info_status = ''stripe-ready''\<rparr>"

definition create_payment_intent_route ::
    "'k env \<Rightarrow> 'v pay_lib \<Rightarrow> fresh_ids \<Rightarrow> string option \<Rightarrow> payment_create \<Rightarrow>
     (world, payment_intent_response) prog" where
  "create_payment_intent_route e pl ids cred d =
     get_db
      (bindM (authorize e [''tenant_user'', ''tenant_admin''] cred) (\<lambda>u.
       bindM (liftE (validate_body (payment_create_ok d))) (\<lambda>_.
       bindM (liftE (required_tenant_id u)) (\<lambda>tenant_id.
       bindM (create_payment_intent pl (env_settings e) (env_verdict e) ids (normalize_currency d)
                tenant_id (cu_user_id u)) (\<lambda>(p, client_secret).
       bindM (log INFO ''payment.intent_created''
                [(''event'', LStr ''payment.intent_created''),
                 (''payment_intent_id'', LStr (p_stripe_payment_intent_id p))]) (\<lambda>_.
       bindM (liftE (text_of client_secret)) (\<lambda>secret.
       ret \<lparr>pi_payment_id = p_id p, pi_payment_intent_id = p_stripe_payment_intent_id p,
            pi_client_secret = secret, pi_status = p_status p\<rparr>)))))))"

definition list_payments_route ::
    "'k env \<Rightarrow> string option \<Rightarrow> uuid option \<Rightarrow> (world, payment_row list) prog" where
  "list_payments_route e cred tenant_id =
     get_db
      (bindM (authorize e [''tenant_admin'', ''platform_admin''] cred) (\<lambda>u.
       if platform_admin u then list_payments tenant_id (tenant_id = None)
       else bindM (liftE (required_tenant_id u)) (\<lambda>t. list_payments (Some t) False)))"

definition get_payment_route :: "'k env \<Rightarrow> string option \<Rightarrow> uuid \<Rightarrow> (world, payment_row) prog" where
  "get_payment_route e cred k =
     get_db
      (bindM (authorize e [''tenant_user'', ''tenant_admin'', ''platform_admin''] cred) (\<lambda>u.
       bindM (get_payment k) (\<lambda>row. case row of
         None \<Rightarrow> throw (not_found ''Payment not found'')
       | Some p \<Rightarrow> bindM (authorize_payment_access u p) (\<lambda>_. ret p))))"

text \<open>The authenticated part of the API as one function of a call.\<close>

datatype payment_call =
    CreateIntent fresh_ids payment_create
  | ListPayments "uuid option"
  | GetPayment uuid

datatype payment_reply = IntentCreated payment_intent_response | PaymentRows "payment_row list"

fun payment_api ::
    "'k env \<Rightarrow> 'v pay_lib \<Rightarrow> string option \<Rightarrow> payment_call \<Rightarrow> (world, payment_reply) prog" where
  "payment_api e pl cred (CreateIntent ids d) =
     bindM (create_payment_intent_route e pl ids cred d) (\<lambda>r. ret (IntentCreated r))"
| "payment_api e pl cred (ListPayments t) =
     bindM (list_payments_route e cred t) (\<lambda>ps. ret (PaymentRows ps))"
| "payment_api e pl cred (GetPayment k) =
     bindM (get_payment_route e cred k) (\<lambda>p. ret (PaymentRows [p]))"

section \<open>Lemmas: payments\<close>

interpretation payment_guard: audited_guard p_tenant_id authorize_payment_access "''security.payment_bola_attempt''"
proof unfold_locales
  fix u and p :: payment_row and w x v
  assume "authorize_payment_access u p w = (Inr x, v)"
  then show "may_access u (p_tenant_id p) \<and> v = w"
    by (auto simp: authorize_payment_access_def may_access_def bindM_eq_Inr split: if_splits)
next
  fix u p
  show "keeps db (authorize_payment_access u p)"
    unfolding authorize_payment_access_def by (intro keeps_intros keeps_prim)
next
  fix u t and p :: payment_row and w
  assume "\<not> platform_admin u" "required_tenant_id u = Inr t" "t \<noteq> p_tenant_id p"
  then show "\<exists>ex. authorize_payment_access u p w = (Inl (APIError 403 ACCESS_DENIED ''Access denied''),
      w\<lparr>logs := logs w @ [\<lparr>severity = WARNING, message = ''security.payment_bola_attempt'', extra = ex\<rparr>]\<rparr>) \<and>
      map_of ex ''user_id'' = Some (LStr (cu_user_id u))"
    by (auto simp: authorize_payment_access_def bindM_def)
qed

lemma stripe_value_simps [simp]:
  "stripe_value (JObj items) k (Some d) = Inr (case map_of items k of None \<Rightarrow> d | Some v \<Rightarrow> v)"
  "stripe_value (JObj items) k None =
     of_option (APIError 400 BAD_REQUEST (''Stripe object missing field: '' @ k)) (map_of items k)"
  by (simp_all add: stripe_value_def split: option.split)

lemma stripe_value_Inr:
  "stripe_value obj k None = Inr v \<longleftrightarrow> dict_get obj k = Some v"
  "stripe_value obj k (Some d) = Inr v \<longleftrightarrow> (case dict_get obj k of None \<Rightarrow> v = d | Some x \<Rightarrow> v = x)"
  by (auto simp: stripe_value_def split: option.split)

lemma text_of_Inr: "text_of v = Inr s \<longleftrightarrow> v = JStr s"
  by (cases v) (auto simp: text_of_def)

lemma nullable_text_Inr:
  "nullable_text v = Inr x \<longleftrightarrow> (case x of None \<Rightarrow> v = JNull | Some s \<Rightarrow> v = JStr s)"
  by (cases v) (auto simp: nullable_text_def split: option.splits)

lemma text_column_Inr [simp]: "text_column v = Inr s \<longleftrightarrow> v = JStr s"
  by (auto simp: text_column_def nullable_text_Inr)

lemma text_param_Inr [simp]: "text_param v = Inr s \<longleftrightarrow> v = JStr s"
  by (auto simp: text_param_def nullable_text_Inr)

lemma text_JStr [simp]: "text_param (JStr s) = Inr s" "text_column (JStr s) = Inr s"
  "nullable_text (JStr s) = Inr (Some s)"
  by (simp_all add: nullable_text_def)

section \<open>Lemmas: the routes\<close>

definition intent_row :: "fresh_ids \<Rightarrow> payment_create \<Rightarrow> uuid \<Rightarrow> string \<Rightarrow> string \<Rightarrow> string \<Rightarrow> int \<Rightarrow> payment_row" where
  "intent_row ids d t user pid st at =
     \<lparr>p_id = id_payment ids, p_tenant_id = t, p_user_id = user, p_stripe_payment_intent_id = pid,
      p_amount = pc_amount d, p_currency = py_lower (pc_currency d), p_status = st, p_created_at = at\<rparr>"

lemma normalize_currency_fields [simp]:
  "pc_amount (normalize_currency d) = pc_amount d"
  "pc_currency (normalize_currency d) = py_lower (pc_currency d)"
  by (simp_all add: normalize_currency_def)

text \<open>
  The intent that Stripe (or the lab fallback) creates for a body, a tenant and a user, with its id and
  status.
\<close>

definition intent_of ::
    "'v pay_lib \<Rightarrow> settings \<Rightarrow> fresh_ids \<Rightarrow> payment_create \<Rightarrow> uuid \<Rightarrow> string \<Rightarrow> string \<Rightarrow> string \<Rightarrow> json \<Rightarrow> bool" where
  "intent_of pl s ids d t user pid st intent \<longleftrightarrow>
     create_stripe_payment_intent pl s ids (pc_amount d) (py_lower (pc_currency d))
       [(''tenant_id'', uuid_str t), (''user_id'', user)] = Inr intent \<and>
     dict_get intent ''id'' = Some (JStr pid) \<and>
     (case dict_get intent ''status'' of None \<Rightarrow> st = ''requires_payment_method'' | Some x \<Rightarrow> x = JStr st)"

lemma create_payment_intent_Inr:
  assumes run: "create_payment_intent pl s chk ids (normalize_currency d) t user w = (Inr (p, cs), v)"
    and "enforces chk" and "pending w = []"
  shows "\<exists>pid st intent. p = intent_row ids d t user pid st (db_now w) \<and>
    db v = (db w)\<lparr>payments := payments (db w) @ [p]\<rparr> \<and> schema_ok (db v) \<and>
    intent_of pl s ids d t user pid st intent \<and> dict_get intent ''client_secret'' = Some cs"
proof -
  let ?row = "\<lambda>pid st. intent_row ids d t user pid st 0"
  let ?w = "\<lambda>pid st. w\<lparr>rls_tenant := Some (uuid_str t), pending := [InsertPayment (?row pid st)]\<rparr>"
  from run assms(3) obtain pid st d' intent where f: "flush_result chk (?w pid st) = Inr d'"
    and v: "v = end_transaction ((?w pid st)\<lparr>db := d'\<rparr>)"
    and q: "find (\<lambda>r. p_id r = id_payment ids) (payments (db v)) = Some p"
    and i: "intent_of pl s ids d t user pid st intent" "dict_get intent ''client_secret'' = Some cs"
    by (auto simp: create_payment_intent_def bindM_eq_Inr commit_Inr catchM_rethrow_Inr Let_def
        intent_row_def intent_of_def stripe_value_Inr split: if_splits option.splits)
  from flush_result_enforced [OF assms(2) f]
  have ok: "schema_ok d'" and d': "d' = (db w)\<lparr>payments := payments (db w) @ [intent_row ids d t user pid st (db_now w)]\<rparr>"
    by (auto simp: intent_row_def)
  from find_Some_set [OF q] v have "p \<in> set (payments d')" and "p_id p = id_payment ids" by auto
  then have "p = intent_row ids d t user pid st (db_now w)"
    using payments_tab.unique_row [OF ok, of p "intent_row ids d t user pid st (db_now w)"] d'
    by (simp add: intent_row_def)
  with v d' ok i show ?thesis by auto
qed

lemma create_payment_intent_effect:
  assumes "create_payment_intent pl s chk ids (normalize_currency d) t user w = (res, v)" and "pending w = []"
  shows "db v = db w \<or>
    (\<exists>pid st intent. db v = (db w)\<lparr>payments := payments (db w) @ [intent_row ids d t user pid st (db_now w)]\<rparr> \<and>
       intent_of pl s ids d t user pid st intent)"
proof -
  let ?w = "w\<lparr>rls_tenant := Some (uuid_str t)\<rparr>"
  consider "v = ?w"
    | intent pid st where
      "create_stripe_payment_intent pl s ids (pc_amount d) (py_lower (pc_currency d))
         [(''tenant_id'', uuid_str t), (''user_id'', user)] = Inr intent"
      "stripe_value intent ''id'' None = Inr pid"
      "stripe_value intent ''status'' (Some (JStr ''requires_payment_method'')) = Inr st"
      "bindM (catchM
        (bindM (liftE (text_column pid)) (\<lambda>pid.
         bindM (liftE (text_column st)) (\<lambda>status.
         bindM (add (InsertPayment (intent_row ids d t user pid status 0))) (\<lambda>_. commit chk))))
        (\<lambda>e. if e = IntegrityError
             then bindM rollback (\<lambda>_. throw (APIError 409 CONFLICT ''Payment intent already exists''))
             else throw e)) (\<lambda>_.
       bindM (reread (\<lambda>db. find (\<lambda>p. p_id p = id_payment ids) (payments db))) (\<lambda>payment.
       bindM (liftE (stripe_value intent ''client_secret'' None)) (\<lambda>client_secret.
       ret (payment, client_secret)))) ?w = (res, v)"
    using assms(1)
    by (auto simp: create_payment_intent_def bindM_liftE intent_row_def Let_def simp del: bindM_prim
        split: sum.splits if_splits)
  then show ?thesis
  proof cases
    case (2 intent pid st)
    have k: "keeps db (bindM (reread (\<lambda>db. find (\<lambda>p. p_id p = id_payment ids) (payments db))) (\<lambda>payment.
       bindM (liftE (stripe_value intent ''client_secret'' None)) (\<lambda>client_secret. ret (payment, client_secret))))"
      by (intro keeps_intros keeps_prim keeps_db_prim)
    from bindM_tail [OF 2(4), of db, OF k] assms(2)
    have "db v = db w \<or> (\<exists>p q. pid = JStr p \<and> st = JStr q \<and>
        db v = (db w)\<lparr>payments := payments (db w) @ [intent_row ids d t user p q (db_now w)]\<rparr>)"
      by (auto simp: catchM_def bindM_liftE commit_def bindM_def intent_row_def
          dest!: flush_single split: sum.splits if_splits prod.splits)
    with 2(1-3) show ?thesis unfolding intent_of_def stripe_value_Inr by (auto split: option.splits)
  qed simp
qed

lemma create_payment_route_effect:
  assumes "create_payment_intent_route e pl ids cred d w = (res, v)"
  shows "db v = db w \<or>
    (\<exists>u w1 t pid st intent. login e cred (end_transaction w) = (Inr u, w1) \<and>
       (has_role ''tenant_user'' u \<or> has_role ''tenant_admin'' u) \<and> required_tenant_id u = Inr t \<and>
       intent_of pl (env_settings e) ids d t (cu_user_id u) pid st intent \<and>
       db v = (db w)\<lparr>payments := payments (db w) @ [intent_row ids d t (cu_user_id u) pid st (db_now w)]\<rparr>)"
proof -
  let ?K = "\<lambda>(p, client_secret). bindM (log INFO ''payment.intent_created''
      [(''event'', LStr ''payment.intent_created''),
       (''payment_intent_id'', LStr (p_stripe_payment_intent_id p))]) (\<lambda>_.
    bindM (liftE (text_of client_secret)) (\<lambda>secret.
    ret \<lparr>pi_payment_id = p_id p, pi_payment_intent_id = p_stripe_payment_intent_id p,
         pi_client_secret = secret, pi_status = p_status p\<rparr>))"
  from assms obtain v' where v: "v = end_transaction v'" and
    b: "bindM (authorize e [''tenant_user'', ''tenant_admin''] cred) (\<lambda>u.
       bindM (liftE (validate_body (payment_create_ok d))) (\<lambda>_.
       bindM (liftE (required_tenant_id u)) (\<lambda>tenant_id.
       bindM (create_payment_intent pl (env_settings e) (env_verdict e) ids (normalize_currency d)
                tenant_id (cu_user_id u)) ?K))) (end_transaction w) = (res, v')"
    by (auto simp: create_payment_intent_route_def get_db_eq)
  from b show ?thesis
  proof (cases rule: route_cases)
    case 1
    with v show ?thesis by simp
  next
    case (2 u w1)
    note s = same_sessionD [OF 2(4)]
    from 2(3) consider "v' = w1"
      | t where "required_tenant_id u = Inr t"
        "bindM (create_payment_intent pl (env_settings e) (env_verdict e) ids (normalize_currency d)
           t (cu_user_id u)) ?K w1 = (res, v')"
      by (auto simp: bindM_liftE split: sum.splits)
    then show ?thesis
    proof cases
      case 1
      with s v show ?thesis by simp
    next
      case (2 t)
      have "keeps db (?K x)" for x
        by (cases x) (simp add: keeps_bindM keeps_db_prim keeps_prim)
      from bindM_tail [OF 2(2), of db, OF this] obtain r' x
        where c: "create_payment_intent pl (env_settings e) (env_verdict e) ids (normalize_currency d)
           t (cu_user_id u) w1 = (r', x)" and "db v' = db x" by blast
      with create_payment_intent_effect [OF c] s v 2(1) \<open>login e cred (end_transaction w) = (Inr u, w1)\<close>
        \<open>set _ \<inter> set (cu_roles u) \<noteq> {}\<close>
      show ?thesis by (auto simp: has_role_def)
    qed
  qed
qed

lemma create_payment_route_Inr:
  assumes "create_payment_intent_route e pl ids cred d w = (Inr r, v)" and "enforces (env_verdict e)"
  shows "\<exists>u w1 t pid st p. login e cred (end_transaction w) = (Inr u, w1) \<and>
    (has_role ''tenant_user'' u \<or> has_role ''tenant_admin'' u) \<and> required_tenant_id u = Inr t \<and>
    payment_create_ok d \<and> p = intent_row ids d t (cu_user_id u) pid st (db_now w) \<and>
    db v = (db w)\<lparr>payments := payments (db w) @ [p]\<rparr> \<and> schema_ok (db v) \<and>
    pi_payment_id r = id_payment ids \<and> pi_payment_intent_id r = pid \<and> pi_status r = st \<and>
    (\<exists>intent. intent_of pl (env_settings e) ids d t (cu_user_id u) pid st intent \<and>
       dict_get intent ''client_secret'' = Some (JStr (pi_client_secret r)))"
proof -
  from assms(1) obtain v' where v: "v = end_transaction v'" and
    b: "bindM (authorize e [''tenant_user'', ''tenant_admin''] cred) (\<lambda>u.
       bindM (liftE (validate_body (payment_create_ok d))) (\<lambda>_.
       bindM (liftE (required_tenant_id u)) (\<lambda>tenant_id.
       bindM (create_payment_intent pl (env_settings e) (env_verdict e) ids (normalize_currency d)
                tenant_id (cu_user_id u)) (\<lambda>(p, client_secret).
       bindM (log INFO ''payment.intent_created''
                [(''event'', LStr ''payment.intent_created''),
                 (''payment_intent_id'', LStr (p_stripe_payment_intent_id p))]) (\<lambda>_.
       bindM (liftE (text_of client_secret)) (\<lambda>secret.
       ret \<lparr>pi_payment_id = p_id p, pi_payment_intent_id = p_stripe_payment_intent_id p,
            pi_client_secret = secret, pi_status = p_status p\<rparr>)))))) (end_transaction w) = (Inr r, v')"
    by (auto simp: create_payment_intent_route_def get_db_eq)
  from b obtain u w1 where log: "login e cred (end_transaction w) = (Inr u, w1)"
    and role: "set [''tenant_user'', ''tenant_admin''] \<inter> set (cu_roles u) \<noteq> {}"
    and sess: "same_session w1 (end_transaction w)"
    and rest: "bindM (liftE (validate_body (payment_create_ok d))) (\<lambda>_.
       bindM (liftE (required_tenant_id u)) (\<lambda>tenant_id.
       bindM (create_payment_intent pl (env_settings e) (env_verdict e) ids (normalize_currency d)
                tenant_id (cu_user_id u)) (\<lambda>(p, client_secret).
       bindM (log INFO ''payment.intent_created''
                [(''event'', LStr ''payment.intent_created''),
                 (''payment_intent_id'', LStr (p_stripe_payment_intent_id p))]) (\<lambda>_.
       bindM (liftE (text_of client_secret)) (\<lambda>secret.
       ret \<lparr>pi_payment_id = p_id p, pi_payment_intent_id = p_stripe_payment_intent_id p,
            pi_client_secret = secret, pi_status = p_status p\<rparr>))))) w1 = (Inr r, v')"
    by (cases rule: route_Inr)
  from rest obtain t p cs w2 where "payment_create_ok d" and t: "required_tenant_id u = Inr t"
    and c: "create_payment_intent pl (env_settings e) (env_verdict e) ids (normalize_currency d) t
              (cu_user_id u) w1 = (Inr (p, cs), w2)"
    and fin: "db v' = db w2" "pi_payment_id r = p_id p" "pi_payment_intent_id r = p_stripe_payment_intent_id p"
      "pi_status r = p_status p" "cs = JStr (pi_client_secret r)"
    by (auto simp: bindM_eq_Inr text_of_Inr split: prod.splits)
  from create_payment_intent_Inr [OF c assms(2)] same_sessionD [OF sess]
  obtain pid st intent where "p = intent_row ids d t (cu_user_id u) pid st (db_now w)"
    and "db w2 = (db w)\<lparr>payments := payments (db w) @ [p]\<rparr>" and "schema_ok (db w2)"
    and "intent_of pl (env_settings e) ids d t (cu_user_id u) pid st intent"
      "dict_get intent ''client_secret'' = Some cs" by auto
  with log role t fin v \<open>payment_create_ok d\<close> show ?thesis
    by (intro exI [of _ u] exI [of _ w1] exI [of _ t] exI [of _ pid] exI [of _ st] exI [of _ p])
      (auto simp: has_role_def intent_row_def)
qed

lemma list_payments_Inr:
  "list_payments t all w = (Inr ps, v) \<Longrightarrow> pending w = [] \<Longrightarrow>
     ps = order_desc p_created_at
       (case t of None \<Rightarrow> payments (db w)
        | Some k \<Rightarrow> if all then payments (db w) else filter (\<lambda>p. p_tenant_id p = k) (payments (db w)))"
  by (auto simp: list_payments_def split: option.splits)

lemma list_payments_route_Inr:
  assumes "list_payments_route e cred t w = (Inr ps, v)"
  shows "\<exists>u w1. login e cred (end_transaction w) = (Inr u, w1) \<and>
    (if platform_admin u
     then ps = order_desc p_created_at
            (case t of None \<Rightarrow> payments (db w) | Some k \<Rightarrow> filter (\<lambda>p. p_tenant_id p = k) (payments (db w)))
     else has_role ''tenant_admin'' u \<and>
          (\<exists>k. required_tenant_id u = Inr k \<and>
             ps = order_desc p_created_at (filter (\<lambda>p. p_tenant_id p = k) (payments (db w)))))"
proof -
  from assms obtain w2 where "bindM (authorize e [''tenant_admin'', ''platform_admin''] cred) (\<lambda>u.
       if platform_admin u then list_payments t (t = None)
       else bindM (liftE (required_tenant_id u)) (\<lambda>t. list_payments (Some t) False))
      (end_transaction w) = (Inr ps, w2)"
    by (auto simp: list_payments_route_def get_db_eq)
  then obtain u w1 where log: "login e cred (end_transaction w) = (Inr u, w1)"
    and role: "set [''tenant_admin'', ''platform_admin''] \<inter> set (cu_roles u) \<noteq> {}"
    and k: "(if platform_admin u then list_payments t (t = None)
       else bindM (liftE (required_tenant_id u)) (\<lambda>t. list_payments (Some t) False)) w1 = (Inr ps, w2)"
    and sess: "same_session w1 (end_transaction w)"
    by (cases rule: route_Inr)
  note s = same_sessionD [OF sess]
  show ?thesis
  proof (cases "platform_admin u")
    case True
    with k s log show ?thesis
      by (intro exI [of _ u] exI [of _ w1]) (auto dest!: list_payments_Inr split: option.splits)
  next
    case False
    with k s log role show ?thesis
      by (intro exI [of _ u] exI [of _ w1])
        (auto simp: bindM_eq_Inr has_role_def platform_admin_def dest!: list_payments_Inr)
  qed
qed

lemma list_payments_route_db: "keeps db (list_payments_route e cred t)"
  unfolding list_payments_route_def list_payments_def
  by (intro keeps_get_db keeps_intros keeps_prim keeps_db_prim end_transaction_fields auth_blind_db)

lemma get_payment_route_db: "keeps db (get_payment_route e cred k)"
  unfolding get_payment_route_def get_payment_def
  by (intro keeps_get_db keeps_intros keeps_prim keeps_db_prim end_transaction_fields auth_blind_db
      payment_guard.guard_db)

lemma get_payment_route_Inr:
  assumes "get_payment_route e cred k w = (Inr p, v)"
  shows "\<exists>u w1. login e cred (end_transaction w) = (Inr u, w1) \<and> may_access u (p_tenant_id p) \<and>
    p \<in> set (payments (db w)) \<and> p_id p = k"
proof -
  from assms obtain v' where
    b: "bindM (authorize e [''tenant_user'', ''tenant_admin'', ''platform_admin''] cred) (\<lambda>u.
       bindM (get_payment k) (\<lambda>row. case row of
         None \<Rightarrow> throw (not_found ''Payment not found'')
       | Some p \<Rightarrow> bindM (authorize_payment_access u p) (\<lambda>_. ret p))) (end_transaction w) = (Inr p, v')"
    by (auto simp: get_payment_route_def get_db_eq)
  from b show ?thesis
  proof (cases rule: route_Inr)
    case (1 u w1)
    note s = same_sessionD [OF 1(4)]
    from 1(3) show ?thesis unfolding get_payment_def
    proof (cases rule: payment_guard.fetch_guard)
      case (1 r)
      with s \<open>login e cred (end_transaction w) = (Inr u, w1)\<close> show ?thesis
        by (auto dest!: find_Some_set)
    qed
  qed
qed

lemma preserves_payment_api [preserves_intros]:
  assumes "maintains (env_verdict e) J"
  shows "preserves (db_inv J) (payment_api e pl cred call)"
proof -
  note ops = create_payment_intent_def list_payments_def get_payment_def
  note rules = preserves_intros assms payment_guard.guard_preserves
  show ?thesis
    by (cases call)
      (simp_all only: payment_api.simps create_payment_intent_route_def list_payments_route_def
        get_payment_route_def ops Let_def, (intro rules)+)
qed

section \<open>A concrete instance\<close>

text \<open>
  A Vault that nobody can reach, a Stripe library that accepts the payload \<open>paid\<close> or \<open>failed\<close> under
  the signature \<open>sig\<close> whatever the secret is, and a database with one payment.
\<close>

definition intent_event ::
    "string \<Rightarrow> string \<Rightarrow> string \<Rightarrow> int \<Rightarrow> string \<Rightarrow> (string \<times> json) list \<Rightarrow> json" where
  "intent_event k ty pid amount currency metadata =
     JObj [(''id'', JStr k), (''type'', JStr ty),
           (''data'', JObj [(''object'', JObj [(''id'', JStr pid), (''amount'', JInt amount),
              (''currency'', JStr currency), (''metadata'', JObj metadata)])])]"

definition demo_construct :: "string \<Rightarrow> string \<Rightarrow> string \<Rightarrow> json result" where
  "demo_construct payload sg secret =
     (if sg \<noteq> ''sig'' then Inl SignatureVerificationError
      else if payload = ''paid'' then Inr (intent_event ''evt_1'' ''payment_intent.succeeded'' ''pi_new'' 500 ''USD''
        [(''tenant_id'', JStr (uuid_str 1)), (''user_id'', JStr ''u1'')])
      else if payload = ''failed''
      then Inr (intent_event ''evt_2'' ''payment_intent.payment_failed'' ''pi_old'' 500 ''USD'' [])
      else if payload = ''stray'' then Inr (intent_event ''evt_3'' ''payment_intent.succeeded'' ''pi_stray'' 500 ''USD''
        [(''tenant_id'', JStr (uuid_str 9)), (''user_id'', JStr ''u1'')])
      else Inl ValueError)"

definition demo_hvac :: "unit hvac" where
  "demo_hvac =
     \<lparr>approle_login = (\<lambda>_ _ _ _. Inl OSError), kv_read = (\<lambda>_ _ _ _. Inl OSError),
      kv_write = (\<lambda>_ _ _ _. throw OSError), transit_encrypt = (\<lambda>_ _ _ _ _. Inl OSError),
      transit_decrypt = (\<lambda>_ _ _ _ _. Inl OSError), pki_generate = (\<lambda>_ _ _ _ _ _. Inl OSError)\<rparr>"

definition demo_pay :: "unit pay_lib" where
  "demo_pay =
     \<lparr>getenv = (\<lambda>_. None), hvac_lib = demo_hvac, vault_state = (), dsa_lib = demo_dsa,
      stripe_create = (\<lambda>_ _ _ _. Inl (OtherError ''APIConnectionError'')), construct_event = demo_construct,
      wall_clock = 1000, str_of_other = (\<lambda>_. []), int_of_float = (\<lambda>_. Inl ValueError)\<rparr>"

definition demo_payment :: payment_row where
  "demo_payment =
     \<lparr>p_id = 31, p_tenant_id = 1, p_user_id = ''u1'', p_stripe_payment_intent_id = ''pi_old'',
      p_amount = 100, p_currency = ''usd'', p_status = ''succeeded'', p_created_at = 1\<rparr>"

definition demo_foreign_payment :: payment_row where
  "demo_foreign_payment =
     \<lparr>p_id = 32, p_tenant_id = 2, p_user_id = ''u2'', p_stripe_payment_intent_id = ''pi_two'',
      p_amount = 200, p_currency = ''usd'', p_status = ''failed'', p_created_at = 2\<rparr>"

definition demo_payments :: database where
  "demo_payments = demo_db\<lparr>payments := [demo_payment, demo_foreign_payment]\<rparr>"

definition demo_ids :: fresh_ids where
  "demo_ids = \<lparr>id_payment = 33, id_lab = 5, id_lab_secret = 6\<rparr>"

section \<open>Properties: payments\<close>

text \<open>
  C12.  Tenants cannot charge one another: whatever authenticated call of the payment API runs and
  however it ends, the tables are as they were, or the client is a verified user or administrator
  of a tenant \<open>t\<close> and exactly one payment of that tenant, made out to that user, was appended.
\<close>

theorem payment_api_writes_only_own_tenant:
  assumes "payment_api e pl cred call w = (res, v)" and "db v \<noteq> db w"
  shows "\<exists>u w1 t p. login e cred (end_transaction w) = (Inr u, w1) \<and>
    (has_role ''tenant_user'' u \<or> has_role ''tenant_admin'' u) \<and> required_tenant_id u = Inr t \<and>
    db v = (db w)\<lparr>payments := payments (db w) @ [p]\<rparr> \<and> p_tenant_id p = t \<and> p_user_id p = cu_user_id u"
proof (cases call)
  case (CreateIntent ids d)
  with assms(1) have "bindM (create_payment_intent_route e pl ids cred d) (\<lambda>r. ret (IntentCreated r)) w = (res, v)"
    by simp
  from bindM_ret_state [OF this] obtain r where "create_payment_intent_route e pl ids cred d w = (r, v)" by blast
  from create_payment_route_effect [OF this] assms(2) obtain u w1 t pid st
    where "login e cred (end_transaction w) = (Inr u, w1)"
      "has_role ''tenant_user'' u \<or> has_role ''tenant_admin'' u" "required_tenant_id u = Inr t"
      "db v = (db w)\<lparr>payments := payments (db w) @ [intent_row ids d t (cu_user_id u) pid st (db_now w)]\<rparr>"
    by blast
  then show ?thesis
    by (intro exI [of _ u] exI [of _ w1] exI [of _ t]
        exI [of _ "intent_row ids d t (cu_user_id u) pid st (db_now w)"]) (simp add: intent_row_def)
next
  case (ListPayments t)
  with assms(1) have "bindM (list_payments_route e cred t) (\<lambda>ps. ret (PaymentRows ps)) w = (res, v)" by simp
  from bindM_ret_state [OF this] keepsD [OF list_payments_route_db] assms(2) show ?thesis by metis
next
  case (GetPayment k)
  with assms(1) have "bindM (get_payment_route e cred k) (\<lambda>p. ret (PaymentRows [p])) w = (res, v)" by simp
  from bindM_ret_state [OF this] keepsD [OF get_payment_route_db] assms(2) show ?thesis by metis
qed

theorem payment_api_writes_only_own_tenant_witness:
  "\<exists>r v p. payment_api (demo_env (demo_user 1 [''tenant_user''])) demo_pay (Some ''good'')
        (CreateIntent demo_ids \<lparr>pc_amount = 700, pc_currency = ''USD''\<rparr>) (demo_world demo_payments) =
      (Inr (IntentCreated r), v) \<and> payments (db v) = payments demo_payments @ [p] \<and> p_tenant_id p = 1"
    (is "\<exists>r v p. ?run = _ \<and> _")
proof -
  let ?r = "\<lparr>pi_payment_id = 33, pi_payment_intent_id = ''pi_lab_00000000000000000000000000000005'',
    pi_client_secret = ''pi_lab_secret_00000000000000000000000000000006'', pi_status = ''requires_payment_method''\<rparr>"
  have "case ?run of (r, v) \<Rightarrow> r = Inr (IntentCreated ?r) \<and> length (payments (db v)) = 3" by code_simp
  then obtain v where run: "?run = (Inr (IntentCreated ?r), v)" and len: "length (payments (db v)) = 3"
    by (rule run_to)
  have "length (payments (db (demo_world demo_payments))) = 2" by code_simp
  with len have "db v \<noteq> db (demo_world demo_payments)" by auto
  from payment_api_writes_only_own_tenant [OF run this] obtain t p
    where "required_tenant_id (user_of_claims (demo_user 1 [''tenant_user''])) = Inr t"
      and "db v = (db (demo_world demo_payments))\<lparr>payments := payments (db (demo_world demo_payments)) @ [p]\<rparr>"
      and "p_tenant_id p = t" by (auto dest: demo_login_inject)
  then have "payments (db v) = payments demo_payments @ [p]" and "p_tenant_id p = 1"
    by (simp_all add: demo_world_def demo_user_tenant)
  with run show ?thesis by (intro exI conjI)
qed

text \<open>
  C13.  Tenants cannot read one another's payments: every payment that the API returns is a row of
  the table and belongs to a tenant that the verified user of the request may access.
\<close>

theorem payment_api_reads_only_own_tenant:
  assumes "payment_api e pl cred call w = (Inr (PaymentRows ps), v)"
  shows "\<exists>u w1. login e cred (end_transaction w) = (Inr u, w1) \<and>
    (\<forall>p\<in>set ps. p \<in> set (payments (db w)) \<and>
       (platform_admin u \<or> required_tenant_id u = Inr (p_tenant_id p)))"
proof (cases call)
  case (CreateIntent ids d)
  with assms show ?thesis by (auto simp: bindM_eq_Inr)
next
  case (ListPayments t)
  with assms have "list_payments_route e cred t w = (Inr ps, v)" by (auto simp: bindM_eq_Inr)
  from list_payments_route_Inr [OF this] obtain u w1 where log: "login e cred (end_transaction w) = (Inr u, w1)"
    and rows: "if platform_admin u
     then ps = order_desc p_created_at
            (case t of None \<Rightarrow> payments (db w) | Some k \<Rightarrow> filter (\<lambda>p. p_tenant_id p = k) (payments (db w)))
     else has_role ''tenant_admin'' u \<and>
          (\<exists>k. required_tenant_id u = Inr k \<and>
             ps = order_desc p_created_at (filter (\<lambda>p. p_tenant_id p = k) (payments (db w))))"
    by blast
  have "\<forall>p\<in>set ps. p \<in> set (payments (db w)) \<and>
      (platform_admin u \<or> required_tenant_id u = Inr (p_tenant_id p))"
  proof (cases "platform_admin u")
    case True
    with rows show ?thesis by (auto split: option.splits)
  next
    case False
    with rows show ?thesis by auto
  qed
  with log show ?thesis by blast
next
  case (GetPayment k)
  with assms obtain p where "get_payment_route e cred k w = (Inr p, v)" and "ps = [p]"
    by (auto simp: bindM_eq_Inr)
  with get_payment_route_Inr [OF this(1)] show ?thesis by (auto simp: may_access_def)
qed

theorem payment_api_reads_only_own_tenant_witness:
  "\<exists>v. payment_api (demo_env (demo_user 1 [''tenant_admin''])) demo_pay (Some ''good'')
        (ListPayments (Some 2)) (demo_world demo_payments) = (Inr (PaymentRows [demo_payment]), v) \<and>
    p_tenant_id demo_payment = 1"
    (is "\<exists>v. ?run = _ \<and> _")
proof -
  let ?u = "user_of_claims (demo_user 1 [''tenant_admin''])"
  have "case ?run of (r, v) \<Rightarrow> r = Inr (PaymentRows [demo_payment]) \<and> True" by code_simp
  then obtain v where run: "?run = (Inr (PaymentRows [demo_payment]), v)" by (rule run_to)
  from payment_api_reads_only_own_tenant [OF run]
  have "platform_admin ?u \<or> required_tenant_id ?u = Inr (p_tenant_id demo_payment)"
    by (auto dest: demo_login_inject)
  then have "p_tenant_id demo_payment = 1"
    by (simp add: platform_admin_def has_role_def demo_user_roles demo_user_tenant)
  with run show ?thesis by (intro exI conjI)
qed

text \<open>
  C36.  A successful creation of a payment intent needs a valid body and a tenant, and makes one intent
  and one row: the intent is created for the body's amount, its currency in lower case and the
  tenant and id of the verified user; the row has that amount, which is positive, that currency,
  which is supported, that tenant and user, the server's time, and the intent's own \<open>id\<close> and \<open>status\<close>
  (\<open>requires_payment_method\<close> if it has none).  The response gives these two, the id of the row and
  the intent's \<open>client_secret\<close>.  The tenant exists, the intent was not stored before and the status
  is one that the schema knows.
\<close>

theorem create_payment_functional:
  assumes "create_payment_intent_route e pl ids cred d w = (Inr r, v)" and "enforces (env_verdict e)"
  shows "\<exists>u w1 t p intent. login e cred (end_transaction w) = (Inr u, w1) \<and> required_tenant_id u = Inr t \<and>
    create_stripe_payment_intent pl (env_settings e) ids (pc_amount d) (py_lower (pc_currency d))
      [(''tenant_id'', uuid_str t), (''user_id'', cu_user_id u)] = Inr intent \<and>
    dict_get intent ''id'' = Some (JStr (pi_payment_intent_id r)) \<and>
    (case dict_get intent ''status'' of
       None \<Rightarrow> pi_status r = ''requires_payment_method'' | Some x \<Rightarrow> x = JStr (pi_status r)) \<and>
    dict_get intent ''client_secret'' = Some (JStr (pi_client_secret r)) \<and>
    p = \<lparr>p_id = id_payment ids, p_tenant_id = t, p_user_id = cu_user_id u,
         p_stripe_payment_intent_id = pi_payment_intent_id r, p_amount = pc_amount d,
         p_currency = py_lower (pc_currency d), p_status = pi_status r, p_created_at = db_now w\<rparr> \<and>
    0 < p_amount p \<and> p_currency p \<in> set ALLOWED_CURRENCIES \<and> p_status p \<in> set PAYMENT_STATUSES \<and>
    pi_payment_id r = p_id p \<and> db v = (db w)\<lparr>payments := payments (db w) @ [p]\<rparr> \<and>
    has_tenant (db w) t \<and> pi_payment_intent_id r \<notin> p_stripe_payment_intent_id ` set (payments (db w))"
proof -
  from create_payment_route_Inr [OF assms] obtain u w1 t pid st p
    where 1: "login e cred (end_transaction w) = (Inr u, w1)" "required_tenant_id u = Inr t"
      "payment_create_ok d" "p = intent_row ids d t (cu_user_id u) pid st (db_now w)"
      "db v = (db w)\<lparr>payments := payments (db w) @ [p]\<rparr>" "schema_ok (db v)"
      "pi_payment_id r = id_payment ids" "pi_payment_intent_id r = pid" "pi_status r = st"
      and i: "\<exists>intent. intent_of pl (env_settings e) ids d t (cu_user_id u) pid st intent \<and>
        dict_get intent ''client_secret'' = Some (JStr (pi_client_secret r))" by blast
  from 1(4-6) have "has_tenant (db w) t" "st \<in> set PAYMENT_STATUSES"
    "pid \<notin> p_stripe_payment_intent_id ` set (payments (db w))"
    by (auto simp: schema_ok_unfold has_tenant_def intent_row_def)
  moreover from i 1(8,9) obtain intent where
    "create_stripe_payment_intent pl (env_settings e) ids (pc_amount d) (py_lower (pc_currency d))
      [(''tenant_id'', uuid_str t), (''user_id'', cu_user_id u)] = Inr intent"
    "dict_get intent ''id'' = Some (JStr (pi_payment_intent_id r))"
    "case dict_get intent ''status'' of
       None \<Rightarrow> pi_status r = ''requires_payment_method'' | Some x \<Rightarrow> x = JStr (pi_status r)"
    "dict_get intent ''client_secret'' = Some (JStr (pi_client_secret r))" unfolding intent_of_def by blast
  ultimately show ?thesis using 1
    by (intro exI [of _ u] exI [of _ w1] exI [of _ t] exI [of _ p] exI [of _ intent])
      (simp add: intent_row_def payment_create_ok_def)
qed

theorem create_payment_functional_witness:
  "\<exists>r v p. create_payment_intent_route (demo_env (demo_user 1 [''tenant_user''])) demo_pay demo_ids (Some ''good'')
        \<lparr>pc_amount = 700, pc_currency = ''USD''\<rparr> (demo_world demo_payments) = (Inr r, v) \<and>
      p \<in> set (payments (db v)) \<and> p_amount p = 700 \<and> p_currency p = ''usd'' \<and> p_created_at p = 7"
    (is "\<exists>r v p. ?run = _ \<and> _")
proof -
  let ?d = "\<lparr>pc_amount = 700, pc_currency = ''USD''\<rparr>"
  have "case ?run of (res, v) \<Rightarrow> (case res of Inl _ \<Rightarrow> False | Inr r \<Rightarrow> True)" by code_simp
  then obtain r v where run: "?run = (Inr r, v)" by (elim runE) (auto split: sum.splits)
  have low: "py_lower ''USD'' = ''usd''" by code_simp
  from create_payment_functional [OF run demo_enforces] obtain u :: current_user and t p
    where p: "p = \<lparr>p_id = id_payment demo_ids, p_tenant_id = t, p_user_id = cu_user_id u,
         p_stripe_payment_intent_id = pi_payment_intent_id r, p_amount = pc_amount ?d,
         p_currency = py_lower (pc_currency ?d), p_status = pi_status r,
         p_created_at = db_now (demo_world demo_payments)\<rparr>"
      and v: "db v = (db (demo_world demo_payments))\<lparr>payments := payments (db (demo_world demo_payments)) @ [p]\<rparr>"
    by (elim exE conjE) (rule that)
  from v have "p \<in> set (payments (db v))" by simp
  moreover from p low have "p_amount p = 700" "p_currency p = ''usd''" "p_created_at p = 7"
    by (simp_all add: demo_world_def)
  ultimately show ?thesis using run by (intro exI conjI)
qed

end
