(* ===== verification/Stripe_Webhook.thy ===== *)
theory Stripe_Webhook
  imports Payment_Service
begin

text \<open>
  The Stripe webhook of the payment service: the verification and processing of events
  (services/payment_service.py) and the unauthenticated endpoint (api/v1/webhook.py).

  An event is recorded in \<open>stripe_webhook_events\<close> in the same transaction as the payment it
  changes; the primary key of that table makes a delivery count once.
\<close>

section \<open>Stripe events\<close>

definition verify_stripe_event :: "'v pay_lib \<Rightarrow> settings \<Rightarrow> string \<Rightarrow> string \<Rightarrow> json result" where
  "verify_stripe_event pl s payload signature_header =
     catchE (construct_event pl payload signature_header (get_stripe_webhook_secret pl s)) (\<lambda>e.
       if is_value_error e then Inl (APIError 400 BAD_REQUEST ''Invalid Stripe webhook payload'')
       else if e = SignatureVerificationError
       then Inl (APIError 400 BAD_REQUEST ''Invalid Stripe webhook signature'')
       else Inl e)"

text \<open>\<open>_stripe_value(payment_intent, "metadata", default={}) or {}\<close>.\<close>

definition metadata_of :: "json \<Rightarrow> json result" where
  "metadata_of payment_intent =
     bindE (stripe_value payment_intent ''metadata'' (Some (JObj []))) (\<lambda>m.
     Inr (if py_true m then m else JObj []))"

definition upsert_payment_from_webhook ::
    "'v pay_lib \<Rightarrow> uuid \<Rightarrow> json \<Rightarrow> string \<Rightarrow> (world, unit) prog" where
  "upsert_payment_from_webhook pl new_id payment_intent status =
     bindM (liftE (stripe_value payment_intent ''id'' None)) (\<lambda>id_value.
     bindM (liftE (text_param id_value)) (\<lambda>pid.
     bindM (select (\<lambda>d. find (\<lambda>p. p_stripe_payment_intent_id p = pid) (payments d))) (\<lambda>found.
     bindM (liftE (metadata_of payment_intent)) (\<lambda>metadata.
     case found of
       Some p \<Rightarrow> add (SetPaymentStatus (p_id p) status)
     | None \<Rightarrow>
         bindM (liftE (get_or_null metadata ''tenant_id'')) (\<lambda>tenant_id.
         bindM (liftE (get_or_null metadata ''user_id'')) (\<lambda>user_id.
         if \<not> py_true tenant_id \<or> \<not> py_true user_id
         then log WARNING ''payment.stripe_webhook_unmatched''
                [(''event'', LStr ''payment.stripe_webhook_unmatched''), (''payment_intent_id'', LValue id_value)]
         else
         bindM (liftE (of_option ValueError (uuid_of_str (py_str pl tenant_id)))) (\<lambda>t.
         bindM (liftE (bindE (stripe_value payment_intent ''amount'' (Some (JInt 0))) (py_int_of pl))) (\<lambda>amount.
         bindM (liftE (stripe_value payment_intent ''currency'' (Some (JStr ''usd'')))) (\<lambda>currency.
         add (InsertPayment
           \<lparr>p_id = new_id, p_tenant_id = t, p_user_id = py_str pl user_id,
            p_stripe_payment_intent_id = pid, p_amount = amount,
            p_currency = py_lower (py_str pl currency), p_status = status, p_created_at = 0\<rparr>))))))))))"

definition emit_signed_payment_notification ::
    "'v pay_lib \<Rightarrow> settings \<Rightarrow> json \<Rightarrow> (world, unit) prog" where
  "emit_signed_payment_notification pl s payment_intent =
     bindM (liftE (stripe_value payment_intent ''id'' None)) (\<lambda>pid.
     bindM (liftE (metadata_of payment_intent)) (\<lambda>metadata.
     bindM (liftE (bindE (stripe_value payment_intent ''amount'' (Some (JInt 0))) (py_int_of pl))) (\<lambda>amount.
     bindM (liftE (get_or_null metadata ''tenant_id'')) (\<lambda>tenant_id.
     case bindE (get_webhook_signer pl s) (\<lambda>signer.
            create_webhook_signature_headers (dsa_lib pl) signer
              (JObj [(''event'', JStr ''payment.succeeded''), (''payment_intent_id'', pid),
                     (''amount'', JInt amount), (''tenant_id'', tenant_id)]) (wall_clock pl)) of
       Inl _ \<Rightarrow>
         log WARNING ''payment.outbound_webhook_signing_unavailable''
           [(''event'', LStr ''payment.outbound_webhook_signing_unavailable''),
            (''payment_intent_id'', LValue pid)]
     | Inr headers \<Rightarrow>
         log INFO ''payment.outbound_webhook_signed''
           [(''event'', LStr ''payment.outbound_webhook_signed''),
            (''payment_intent_id'', LValue pid),
            (''tenant_id'', LValue tenant_id),
            (ALGORITHM_HEADER, log_opt (map_of headers ALGORITHM_HEADER)),
            (SIGNATURE_HEADER, log_opt (map_of headers SIGNATURE_HEADER))]))))"

text \<open>
  The insertion of the event and the commit, with \<open>except IntegrityError\<close>: whether it was taken.  An
  id or a type that is \<open>None\<close> violates \<open>NOT NULL\<close>.
\<close>

definition record_event ::
    "verdict \<Rightarrow> string option \<Rightarrow> json \<Rightarrow> json \<Rightarrow> (world, bool) prog" where
  "record_event chk event_id event_type payment_intent_id =
     catchM
       (bindM (liftE (nullable_text event_type)) (\<lambda>type_name.
        bindM (liftE (nullable_text payment_intent_id)) (\<lambda>pid.
        bindM (liftE (of_option IntegrityError event_id)) (\<lambda>k.
        bindM (liftE (of_option IntegrityError type_name)) (\<lambda>ty.
        bindM (add (InsertEvent
          \<lparr>e_event_id = k, e_event_type = ty, e_payment_intent_id = pid, e_processed_at = 0\<rparr>)) (\<lambda>_.
        bindM (commit chk) (\<lambda>_. ret True)))))))
       (\<lambda>e. if e = IntegrityError then bindM rollback (\<lambda>_. ret False) else throw e)"

definition json_opt :: "string option \<Rightarrow> json" where
  "json_opt v = (case v of None \<Rightarrow> JNull | Some s \<Rightarrow> JStr s)"

text \<open>\<open>Session.get\<close> of an id that is \<open>None\<close> finds nothing.\<close>

definition process_stripe_event ::
    "'v pay_lib \<Rightarrow> settings \<Rightarrow> verdict \<Rightarrow> uuid \<Rightarrow> json \<Rightarrow> (world, webhook_ack) prog" where
  "process_stripe_event pl s chk new_id event =
     bindM (liftE (stripe_value event ''id'' None)) (\<lambda>id_value.
     bindM (liftE (stripe_value event ''type'' None)) (\<lambda>event_type.
     bindM (liftE (stripe_nested_object event)) (\<lambda>payment_intent.
     bindM (liftE (stripe_value payment_intent ''id'' (Some JNull))) (\<lambda>payment_intent_id.
     bindM (liftE (nullable_text id_value)) (\<lambda>event_id.
     bindM (select (\<lambda>d. Option.bind event_id (\<lambda>k. find (\<lambda>e. e_event_id e = k) (events d)))) (\<lambda>existing.
     case existing of
       Some e \<Rightarrow>
         ret \<lparr>ack_event_type = event_type, ack_payment_intent_id = json_opt (e_payment_intent_id e),
              ack_duplicate = True, ack_status = None\<rparr>
     | None \<Rightarrow>
         bindM (case status_from_event_type event_type of
                  None \<Rightarrow> ret ()
                | Some st \<Rightarrow>
                    if py_true payment_intent_id
                    then upsert_payment_from_webhook pl new_id payment_intent st else ret ()) (\<lambda>_.
         bindM (record_event chk event_id event_type payment_intent_id) (\<lambda>taken.
         if \<not> taken
         then ret \<lparr>ack_event_type = event_type, ack_payment_intent_id = payment_intent_id,
                   ack_duplicate = True, ack_status = None\<rparr>
         else
         bindM (if event_type = JStr ''payment_intent.succeeded'' \<and> py_true payment_intent_id
                then emit_signed_payment_notification pl s payment_intent else ret ()) (\<lambda>_.
         bindM (log INFO ''payment.stripe_webhook_processed''
                  [(''event'', LStr ''payment.stripe_webhook_processed''),
                   (''stripe_event_id'', log_opt event_id),
                   (''stripe_event_type'', LValue event_type)]) (\<lambda>_.
         ret \<lparr>ack_event_type = event_type, ack_payment_intent_id = payment_intent_id,
              ack_duplicate = False, ack_status = status_from_event_type event_type\<rparr>))))))))))"

section \<open>The webhook endpoint\<close>

definition webhook_warning :: "string \<Rightarrow> (world, unit) prog" where
  "webhook_warning reason =
     log WARNING ''security.invalid_webhook_signature''
       [(''event'', LStr ''security.invalid_webhook_signature''), (''webhook_provider'', LStr ''stripe''),
        (''reason'', LStr reason)]"

text \<open>\<open>WebhookAck\<close> declares its two names as \<open>str | None\<close>.\<close>

definition is_text :: "json \<Rightarrow> bool" where
  "is_text v = (case v of JStr _ \<Rightarrow> True | JNull \<Rightarrow> True | _ \<Rightarrow> False)"

definition stripe_webhook ::
    "'v pay_lib \<Rightarrow> settings \<Rightarrow> verdict \<Rightarrow> uuid \<Rightarrow> string option \<Rightarrow> string \<Rightarrow> (world, webhook_ack) prog" where
  "stripe_webhook pl s chk new_id stripe_signature payload =
     get_db
      (if \<not> truthy stripe_signature
       then bindM (webhook_warning ''missing_signature'') (\<lambda>_.
            throw (APIError 400 BAD_REQUEST ''Missing Stripe signature''))
       else
       bindM (catchM (liftE (verify_stripe_event pl s payload (str_or stripe_signature [])))
                (\<lambda>e. case e of
                   APIError _ _ _ \<Rightarrow> bindM (webhook_warning ''verification_failed'') (\<lambda>_. throw e)
                 | _ \<Rightarrow> bindM (webhook_warning ''unexpected_error'') (\<lambda>_.
                        throw (APIError 400 BAD_REQUEST ''Invalid Stripe webhook signature''))))
         (\<lambda>event.
       bindM (process_stripe_event pl s chk new_id event) (\<lambda>ack.
       respond (is_text (ack_event_type ack) \<and> is_text (ack_payment_intent_id ack)) ack)))"

lemma preserves_api_error:
  "preserves I m \<Longrightarrow> preserves I n \<Longrightarrow> preserves I (case e of APIError _ _ _ \<Rightarrow> m | _ \<Rightarrow> n)"
  by (cases e) simp_all

lemma preserves_stripe_webhook [preserves_intros]:
  assumes "maintains chk J"
  shows "preserves (db_inv J) (stripe_webhook pl s chk new_id sig payload)"
proof -
  note ops = process_stripe_event_def record_event_def upsert_payment_from_webhook_def
    emit_signed_payment_notification_def webhook_warning_def
  show ?thesis
    unfolding stripe_webhook_def ops respond_def Let_def
    by (intro preserves_intros preserves_api_error assms)
qed

section \<open>Lemmas: the processing of an event\<close>

lemma keeps_db_upsert [keeps_intros]: "keeps db (upsert_payment_from_webhook pl new_id pi st)"
  unfolding upsert_payment_from_webhook_def
  by (intro keeps_intros keeps_prim keeps_db_prim)

lemma keeps_sum [keeps_intros]:
  "(\<And>x. keeps f (m x)) \<Longrightarrow> (\<And>y. keeps f (k y)) \<Longrightarrow> keeps f (case r of Inl x \<Rightarrow> m x | Inr y \<Rightarrow> k y)"
  by (cases r) simp_all

lemma keeps_db_emit [keeps_intros]: "keeps db (emit_signed_payment_notification pl s pi)"
  unfolding emit_signed_payment_notification_def
  by (intro keeps_intros keeps_prim keeps_db_prim)

text \<open>What the upsert leaves to be sent: at most one change, of the payment of the intent.\<close>

lemma upsert_pending:
  assumes "upsert_payment_from_webhook pl new_id pi st w = (Inr x, v)" and "pending w = []"
  shows "rls_bypass v = rls_bypass w \<and> db_now v = db_now w \<and> db v = db w \<and>
    (\<exists>pid. stripe_value pi ''id'' None = Inr (JStr pid) \<and>
      (case find (\<lambda>p. p_stripe_payment_intent_id p = pid) (payments (db w)) of
         Some p \<Rightarrow> pending v = [SetPaymentStatus (p_id p) st]
       | None \<Rightarrow> pending v = [] \<or>
           (\<exists>p. pending v = [InsertPayment p] \<and> p_stripe_payment_intent_id p = pid \<and> p_status p = st)))"
proof -
  from assms obtain pid where pid: "stripe_value pi ''id'' None = Inr (JStr pid)"
    by (auto simp: upsert_payment_from_webhook_def bindM_eq_Inr)
  show ?thesis
  proof (cases "find (\<lambda>p. p_stripe_payment_intent_id p = pid) (payments (db w))")
    case None
    with assms pid show ?thesis
      by (auto simp: upsert_payment_from_webhook_def bindM_eq_Inr split: if_splits)
  next
    case (Some p)
    with assms pid show ?thesis
      by (auto simp: upsert_payment_from_webhook_def bindM_eq_Inr)
  qed
qed

definition event_row_of :: "string \<Rightarrow> string \<Rightarrow> string option \<Rightarrow> event_row" where
  "event_row_of k ty pid = \<lparr>e_event_id = k, e_event_type = ty, e_payment_intent_id = pid, e_processed_at = 0\<rparr>"

lemma nullable_text_JNull [simp]: "nullable_text JNull = Inr None"
  by (simp add: nullable_text_def)

lemma record_event_taken:
  "record_event chk ko ty pid w = (Inr True, v) \<longleftrightarrow>
     (\<exists>k t p d. ko = Some k \<and> ty = JStr t \<and> nullable_text pid = Inr p \<and>
        flush_result chk (w\<lparr>pending := pending w @ [InsertEvent (event_row_of k t p)]\<rparr>) = Inr d \<and>
        v = end_transaction (w\<lparr>pending := pending w @ [InsertEvent (event_row_of k t p)], db := d\<rparr>))"
  by (auto simp: record_event_def catchM_def bindM_def commit_def event_row_of_def of_option_def nullable_text_Inr
      split: sum.splits prod.splits if_splits option.splits)

lemma record_event_not_taken:
  assumes "record_event chk ko ty pid w = (res, v)" and "res \<noteq> Inr True"
  shows "db v = db w"
proof -
  have "keeps db (liftE r :: (world, 'a) prog)" for r :: "'a result" by simp
  from assms show ?thesis
    by (auto simp: record_event_def catchM_def bindM_def commit_def
        split: sum.splits prod.splits if_splits)
qed

text \<open>
  The two ways \<open>process_stripe_event\<close> can go: nothing is committed, or the event is committed with
  what the upsert left pending.
\<close>

definition event_changes ::
    "'v pay_lib \<Rightarrow> uuid \<Rightarrow> json \<Rightarrow> string \<Rightarrow> world \<Rightarrow> world \<Rightarrow> bool" where
  "event_changes pl new_id ev t w w1 \<longleftrightarrow>
     w1 = w \<or>
     (\<exists>pi st. stripe_nested_object ev = Inr pi \<and> status_from_event_type (JStr t) = Some st \<and>
        upsert_payment_from_webhook pl new_id pi st w = (Inr (), w1))"

lemma process_cases:
  assumes run: "process_stripe_event pl s chk new_id ev w = (res, v)" and "pending w = []"
  shows "(db v = db w \<and> (\<forall>a. res = Inr a \<longrightarrow> ack_duplicate a)) \<or>
    (\<exists>k t p w1 d. stripe_value ev ''id'' None = Inr (JStr k) \<and>
       stripe_value ev ''type'' None = Inr (JStr t) \<and>
       find (\<lambda>e. e_event_id e = k) (events (db w)) = None \<and>
       event_changes pl new_id ev t w w1 \<and>
       flush_result chk (w1\<lparr>pending := pending w1 @ [InsertEvent (event_row_of k t p)]\<rparr>) = Inr d \<and>
       db v = d \<and> (\<forall>a. res = Inr a \<longrightarrow> \<not> ack_duplicate a))"
proof -
  define K where "K = (\<lambda>ko ty pi pid taken. if \<not> taken
    then ret \<lparr>ack_event_type = ty, ack_payment_intent_id = pid, ack_duplicate = True, ack_status = None\<rparr>
    else
    bindM (if ty = JStr ''payment_intent.succeeded'' \<and> py_true pid
           then emit_signed_payment_notification pl s pi else ret ()) (\<lambda>_.
    bindM (log INFO ''payment.stripe_webhook_processed''
             [(''event'', LStr ''payment.stripe_webhook_processed''),
              (''stripe_event_id'', log_opt ko), (''stripe_event_type'', LValue ty)]) (\<lambda>_.
    ret \<lparr>ack_event_type = ty, ack_payment_intent_id = pid, ack_duplicate = False,
         ack_status = status_from_event_type ty\<rparr>)))"
  have keep: "keeps db (K ko ty pi pid taken)" for ko ty pi pid taken
    unfolding K_def by (intro keeps_intros keeps_prim keeps_db_prim)
  have dup: "K ko ty pi pid taken u = (Inr a, z) \<Longrightarrow> ack_duplicate a \<longleftrightarrow> \<not> taken" for ko ty pi pid taken u a z
    by (auto simp: K_def bindM_eq_Inr split: if_splits)
  consider "v = w" "\<forall>a. res = Inr a \<longrightarrow> ack_duplicate a"
    | idv ko ty pi pid where "stripe_value ev ''id'' None = Inr idv \<and> nullable_text idv = Inr ko"
      "stripe_value ev ''type'' None = Inr ty" "stripe_nested_object ev = Inr pi"
      "Option.bind ko (\<lambda>k. find (\<lambda>e. e_event_id e = k) (events (db w))) = None"
      "bindM (case status_from_event_type ty of None \<Rightarrow> ret ()
              | Some st \<Rightarrow> if py_true pid then upsert_payment_from_webhook pl new_id pi st else ret ())
         (\<lambda>_. bindM (record_event chk ko ty pid) (K ko ty pi pid)) w = (res, v)"
    using run \<open>pending w = []\<close>
    by (auto simp: process_stripe_event_def bindM_liftE K_def simp del: bindM_prim
        split: sum.splits option.splits)
  then show ?thesis
  proof cases
    case 1
    then show ?thesis by simp
  next
    case (2 idv ko ty pi pid)
    from bindM_steps [OF 2(5)] show ?thesis
    proof
      assume "\<exists>e. (case status_from_event_type ty of None \<Rightarrow> ret ()
          | Some st \<Rightarrow> if py_true pid then upsert_payment_from_webhook pl new_id pi st else ret ()) w =
          (Inl e, v) \<and> res = Inl e"
      then show ?thesis
        using keepsD [OF keeps_db_upsert] by (auto split: option.splits if_splits)
    next
      assume "\<exists>x u. (case status_from_event_type ty of None \<Rightarrow> ret ()
          | Some st \<Rightarrow> if py_true pid then upsert_payment_from_webhook pl new_id pi st else ret ()) w =
          (Inr x, u) \<and> bindM (record_event chk ko ty pid) (K ko ty pi pid) u = (res, v)"
      then obtain u where up: "(case status_from_event_type ty of None \<Rightarrow> ret ()
          | Some st \<Rightarrow> if py_true pid then upsert_payment_from_webhook pl new_id pi st else ret ()) w =
          (Inr (), u)" and rec: "bindM (record_event chk ko ty pid) (K ko ty pi pid) u = (res, v)"
        by auto
      have "db u = db w"
        using up keepsD [OF keeps_db_upsert] by (auto split: option.splits if_splits)
      show ?thesis
      proof (cases "\<exists>z. record_event chk ko ty pid u = (Inr True, z)")
        case True
        then obtain z where z: "record_event chk ko ty pid u = (Inr True, z)" by blast
        with rec have fin: "K ko ty pi pid True z = (res, v)" by simp
        from z obtain k t p d where "ko = Some k" and "ty = JStr t"
          and "flush_result chk (u\<lparr>pending := pending u @ [InsertEvent (event_row_of k t p)]\<rparr>) = Inr d"
          and "z = end_transaction (u\<lparr>pending := pending u @ [InsertEvent (event_row_of k t p)], db := d\<rparr>)"
          by (auto simp: record_event_taken)
        moreover from this keepsD [OF keep fin] have "db v = d" by simp
        moreover have "event_changes pl new_id ev t w u"
          using up 2(3) \<open>ty = JStr t\<close>
          by (auto simp: event_changes_def split: option.splits if_splits)
        moreover have "\<forall>a. res = Inr a \<longrightarrow> \<not> ack_duplicate a" using fin dup by blast
        moreover have "stripe_value ev ''id'' None = Inr (JStr k)"
            "find (\<lambda>e. e_event_id e = k) (events (db w)) = None"
          using 2(1,4) \<open>ko = Some k\<close> by (simp_all add: nullable_text_Inr)
        ultimately show ?thesis using 2(2) by blast
      next
        case False
        then show ?thesis
          using rec record_event_not_taken [of chk ko ty pid u] \<open>db u = db w\<close> keepsD [OF keep] dup
          by (auto dest!: bindM_steps)
      qed
    qed
  qed
qed

section \<open>Lemmas: the webhook endpoint\<close>

text \<open>What a delivery stands for: the event that Stripe's library read out of a signed payload.\<close>

definition delivered :: "'v pay_lib \<Rightarrow> settings \<Rightarrow> string option \<Rightarrow> string \<Rightarrow> json option" where
  "delivered pl s signature payload =
     (case signature of
        None \<Rightarrow> None
      | Some sg \<Rightarrow> if sg = [] then None
          else (case construct_event pl payload sg (get_stripe_webhook_secret pl s) of
                  Inl _ \<Rightarrow> None | Inr ev \<Rightarrow> Some ev))"

lemma webhook_delivered:
  assumes "delivered pl s signature payload = Some ev"
  shows "stripe_webhook pl s chk new_id signature payload =
    get_db (bindM (process_stripe_event pl s chk new_id ev) (\<lambda>ack.
      respond (is_text (ack_event_type ack) \<and> is_text (ack_payment_intent_id ack)) ack))"
  using assms
  by (auto simp: delivered_def stripe_webhook_def truthy_def str_or_def verify_stripe_event_def
      fun_eq_iff get_db_def bindM_def catchM_def
      split: option.splits if_splits sum.splits)

text \<open>Stripe's library knows nothing of the exceptions of this code base.\<close>

definition stripe_errors :: "'v pay_lib \<Rightarrow> bool" where
  "stripe_errors pl \<longleftrightarrow> (\<forall>payload sg secret c code msg.
     construct_event pl payload sg secret \<noteq> Inl (APIError c code msg))"

text \<open>Whatever Stripe's library raises, a delivery that it refuses changes no table.\<close>

lemma webhook_undelivered_db:
  assumes "delivered pl s signature payload = None"
    and "stripe_webhook pl s chk new_id signature payload w = (res, v)"
  shows "db v = db w"
proof (cases "truthy signature")
  case False
  with assms(2) show ?thesis
    by (auto simp: stripe_webhook_def get_db_eq bindM_def webhook_warning_def log_def)
next
  case True
  then obtain sg where "signature = Some sg" "sg \<noteq> []" by (auto simp: truthy_def split: option.splits)
  with assms(1) obtain x where "construct_event pl payload sg (get_stripe_webhook_secret pl s) = Inl x"
    by (auto simp: delivered_def split: sum.splits)
  with assms(2) \<open>signature = Some sg\<close> \<open>sg \<noteq> []\<close> show ?thesis
    by (auto simp: stripe_webhook_def truthy_def str_or_def verify_stripe_event_def get_db_eq
        bindM_def catchM_def webhook_warning_def log_def split: py_exn.splits if_splits)
qed

lemma stripe_webhook_cases:
  assumes run: "stripe_webhook pl s chk new_id signature payload w = (res, v)" and "db v \<noteq> db w"
  shows "\<exists>ev k t p w1. delivered pl s signature payload = Some ev \<and>
    stripe_value ev ''id'' None = Inr (JStr k) \<and> stripe_value ev ''type'' None = Inr (JStr t) \<and>
    find (\<lambda>e. e_event_id e = k) (events (db w)) = None \<and>
    event_changes pl new_id ev t (end_transaction w) w1 \<and>
    flush_result chk (w1\<lparr>pending := pending w1 @ [InsertEvent (event_row_of k t p)]\<rparr>) = Inr (db v)"
proof (cases "delivered pl s signature payload")
  case None
  from webhook_undelivered_db [OF this run] assms(2) show ?thesis by simp
next
  case (Some ev)
  from run obtain u where b: "bindM (process_stripe_event pl s chk new_id ev) (\<lambda>ack.
      respond (is_text (ack_event_type ack) \<and> is_text (ack_payment_intent_id ack)) ack)
        (end_transaction w) = (res, u)" and u: "v = end_transaction u"
    by (auto simp: webhook_delivered [OF Some] get_db_eq)
  from bindM_tail [OF b, of db, OF keeps_respond]
  obtain r v' where p: "process_stripe_event pl s chk new_id ev (end_transaction w) = (r, v')"
    and "db u = db v'"
    by (elim exE conjE) (rule that)
  with u have "db v' = db v" by simp
  with assms(2) have "db v' \<noteq> db (end_transaction w)" by simp
  from this process_cases [OF p end_transaction_fields(2)] obtain k t q w1 d
    where ids: "stripe_value ev ''id'' None = Inr (JStr k)" "stripe_value ev ''type'' None = Inr (JStr t)"
      and new: "find (\<lambda>e. e_event_id e = k) (events (db (end_transaction w))) = None"
      and ch: "event_changes pl new_id ev t (end_transaction w) w1"
      and f: "flush_result chk (w1\<lparr>pending := pending w1 @ [InsertEvent (event_row_of k t q)]\<rparr>) = Inr d"
      and d: "db v' = d" by (elim disjE exE conjE) (simp, rule that)
  from f d \<open>db v' = db v\<close>
  have "flush_result chk (w1\<lparr>pending := pending w1 @ [InsertEvent (event_row_of k t q)]\<rparr>) = Inr (db v)"
    by simp
  moreover from new have "find (\<lambda>e. e_event_id e = k) (events (db w)) = None" by simp
  ultimately show ?thesis using Some ids ch by (intro exI conjI)
qed

lemma demo_stripe_errors: "stripe_errors demo_pay"
  by (simp add: stripe_errors_def demo_pay_def demo_construct_def)

section \<open>Lemmas: what a delivery commits\<close>

lemma apply_change_events:
  "apply_change now c d = Inr d' \<Longrightarrow> \<exists>es. events d' = events d @ es"
  by (cases c) auto

text \<open>Events are only ever added.\<close>

lemma apply_changes_events:
  "apply_changes now cs d = Inr d' \<Longrightarrow> \<exists>es. events d' = events d @ es"
proof (induction cs arbitrary: d)
  case Nil
  then show ?case by simp
next
  case (Cons c cs)
  then obtain d1 where 1: "apply_change now c d = Inr d1" "apply_changes now cs d1 = Inr d'" by auto
  from apply_change_events [OF 1(1)] Cons.IH [OF 1(2)] show ?case by auto
qed

lemma apply_changes_append:
  "apply_changes now (cs @ ds) d = bindE (apply_changes now cs d) (apply_changes now ds)"
  by (induction cs arbitrary: d) (auto simp: bindE_def split: sum.splits)

lemma flush_changes:
  assumes "flush_result chk w = Inr d"
  shows "apply_changes (db_now w) (pending w) (db w) = Inr d"
  using assms by (auto simp: flush_result_def split: if_splits option.splits)

text \<open>The change that one event makes to the table of payments.\<close>

definition payment_effect :: "json \<Rightarrow> string \<Rightarrow> payment_row list \<Rightarrow> payment_row list \<Rightarrow> bool" where
  "payment_effect ev t ps qs \<longleftrightarrow>
     qs = ps \<or>
     (\<exists>pi st pid. stripe_nested_object ev = Inr pi \<and> status_from_event_type (JStr t) = Some st \<and>
        stripe_value pi ''id'' None = Inr (JStr pid) \<and>
        ((\<exists>us p vs. ps = us @ p # vs \<and> p_stripe_payment_intent_id p = pid \<and>
            qs = us @ p\<lparr>p_status := st\<rparr> # vs) \<or>
         (\<exists>p. pid \<notin> p_stripe_payment_intent_id ` set ps \<and> qs = ps @ [p] \<and>
            p_stripe_payment_intent_id p = pid \<and> p_status p = st)))"

lemma set_status_effect:
  assumes "apply_change now (SetPaymentStatus (p_id p) st) d = Inr d'" and "p \<in> set (payments d)"
    and "distinct (map p_id (payments d'))"
  shows "\<exists>us vs. payments d = us @ p # vs \<and> d' = d\<lparr>payments := us @ p\<lparr>p_status := st\<rparr> # vs\<rparr>"
proof -
  from assms(1) obtain ps where u: "update_row p_id (p_id p) (\<lambda>p. Some (p\<lparr>p_status := st\<rparr>)) (payments d) = Inr ps"
    and d': "d' = d\<lparr>payments := ps\<rparr>" by auto
  from update_row_Inr [OF u] obtain us x vs where l: "payments d = us @ x # vs"
    "ps = us @ x\<lparr>p_status := st\<rparr> # vs" "p_id x = p_id p" by auto
  with d' assms(3) have "distinct (map p_id (payments d))" by simp
  with l assms(2) have "x = p" by (metis distinct_map in_set_conv_decomp inj_onD)
  with l d' show ?thesis by blast
qed

lemma upsert_effect:
  assumes up: "upsert_payment_from_webhook pl new_id pi st w = (Inr (), w1)" and "pending w = []"
    and ap: "apply_changes (db_now w1) (pending w1 @ [InsertEvent row]) (db w1) = Inr d" and ok: "schema_ok d"
    and pi: "stripe_nested_object ev = Inr pi" "status_from_event_type (JStr t) = Some st"
  shows "payment_effect ev t (payments (db w)) (payments d) \<and> tenants d = tenants (db w) \<and>
    users d = users (db w) \<and> resources d = resources (db w) \<and>
    events d = events (db w) @ [row\<lparr>e_processed_at := db_now w\<rparr>]"
proof -
  from upsert_pending [OF up assms(2)] obtain pid where same: "db_now w1 = db_now w" "db w1 = db w"
    and pid: "stripe_value pi ''id'' None = Inr (JStr pid)"
    and pend: "case find (\<lambda>p. p_stripe_payment_intent_id p = pid) (payments (db w)) of
         Some p \<Rightarrow> pending w1 = [SetPaymentStatus (p_id p) st]
       | None \<Rightarrow> pending w1 = [] \<or>
           (\<exists>p. pending w1 = [InsertPayment p] \<and> p_stripe_payment_intent_id p = pid \<and> p_status p = st)"
    by blast
  show ?thesis
  proof (cases "find (\<lambda>p. p_stripe_payment_intent_id p = pid) (payments (db w))")
    case (Some p)
    with pend ap same obtain d1 where c: "apply_change (db_now w) (SetPaymentStatus (p_id p) st) (db w) = Inr d1"
      and d: "d = d1\<lparr>events := events d1 @ [row\<lparr>e_processed_at := db_now w\<rparr>]\<rparr>" by (auto simp del: apply_change.simps(9))
    from find_Some_set [OF Some] have p: "p \<in> set (payments (db w))" "p_stripe_payment_intent_id p = pid" by blast+
    from ok d have "distinct (map p_id (payments d1))" by (simp add: schema_ok_unfold)
    from set_status_effect [OF c p(1) this] obtain us vs where "payments (db w) = us @ p # vs"
      and "d1 = (db w)\<lparr>payments := us @ p\<lparr>p_status := st\<rparr> # vs\<rparr>" by blast
    with d p(2) pi pid show ?thesis unfolding payment_effect_def by auto
  next
    case None
    then have "pid \<notin> p_stripe_payment_intent_id ` set (payments (db w))" by (auto simp: find_None_iff)
    with pend None ap same pi pid show ?thesis unfolding payment_effect_def by auto
  qed
qed

lemma recorded_effect:
  assumes ch: "event_changes pl new_id ev t w w1" and "pending w = []" and "enforces chk"
    and f: "flush_result chk (w1\<lparr>pending := pending w1 @ [InsertEvent row]\<rparr>) = Inr d"
  shows "schema_ok d \<and> payment_effect ev t (payments (db w)) (payments d) \<and> tenants d = tenants (db w) \<and>
    users d = users (db w) \<and> resources d = resources (db w) \<and>
    events d = events (db w) @ [row\<lparr>e_processed_at := db_now w\<rparr>]"
proof -
  from flush_result_enforced [OF assms(3) f] have ok: "schema_ok d"
    and ap: "apply_changes (db_now w1) (pending w1 @ [InsertEvent row]) (db w1) = Inr d" by simp_all
  from ch show ?thesis unfolding event_changes_def
  proof
    assume "w1 = w"
    with ap ok assms(2) show ?thesis by (auto simp: payment_effect_def)
  next
    assume "\<exists>pi st. stripe_nested_object ev = Inr pi \<and> status_from_event_type (JStr t) = Some st \<and>
      upsert_payment_from_webhook pl new_id pi st w = (Inr (), w1)"
    with upsert_effect [OF _ assms(2) ap ok] ok show ?thesis by blast
  qed
qed

section \<open>Lemmas: a second delivery\<close>

lemma process_again:
  assumes first: "process_stripe_event pl s chk new_id ev w = (Inr a, v)"
    and "\<not> ack_duplicate a" and "pending w = []"
    and later: "set (events (db v)) \<subseteq> set (events (db u))" and "pending u = []"
  shows "\<exists>a'. process_stripe_event pl' s' chk' new_id' ev u = (Inr a', u) \<and> ack_duplicate a' \<and>
    ack_event_type a' = ack_event_type a \<and> is_text (ack_payment_intent_id a')"
proof -
  from process_cases [OF first assms(3)] assms(2) obtain k t p w1
    where id: "stripe_value ev ''id'' None = Inr (JStr k)"
      and fl: "flush_result chk (w1\<lparr>pending := pending w1 @ [InsertEvent (event_row_of k t p)]\<rparr>) = Inr (db v)"
    by auto
  from flush_changes [OF fl] have "\<exists>e\<in>set (events (db v)). e_event_id e = k"
    by (auto simp: apply_changes_append event_row_of_def dest!: sym [of _ "db v"])
  with later have "\<exists>e\<in>set (events (db u)). e_event_id e = k" by blast
  then obtain e where e: "find (\<lambda>e. e_event_id e = k) (events (db u)) = Some e"
    by (cases "find (\<lambda>e. e_event_id e = k) (events (db u))") (auto simp: find_None_iff)
  from first id obtain pi pid where "stripe_nested_object ev = Inr pi"
    and "stripe_value pi ''id'' (Some JNull) = Inr pid"
    and "stripe_value ev ''type'' None = Inr (ack_event_type a)"
    by (auto simp: process_stripe_event_def bindM_eq_Inr split: option.splits if_splits)
  with id e assms(5) show ?thesis
    by (auto simp: process_stripe_event_def bindM_liftE json_opt_def is_text_def split: option.split)
qed

section \<open>Properties: the webhook\<close>

text \<open>
  C25.  A delivery without a signature that Stripe's library accepts is refused: it gets status 400,
  no table changes, and one warning \<open>security.invalid_webhook_signature\<close> with its reason is logged.
\<close>

theorem unsigned_webhook_refused:
  assumes "delivered pl s signature payload = None" and "stripe_errors pl"
  shows "\<exists>msg reason v. stripe_webhook pl s chk new_id signature payload w =
      (Inl (APIError 400 BAD_REQUEST msg), v) \<and> db v = db w \<and>
      logs v = logs w @ [\<lparr>severity = WARNING, message = ''security.invalid_webhook_signature'',
        extra = [(''event'', LStr ''security.invalid_webhook_signature''),
                 (''webhook_provider'', LStr ''stripe''), (''reason'', LStr reason)]\<rparr>]"
proof (cases "truthy signature")
  case False
  then show ?thesis
    by (auto simp: stripe_webhook_def get_db_def bindM_def webhook_warning_def log_def
        intro!: exI [of _ "''Missing Stripe signature''"] exI [of _ "''missing_signature''"])
next
  case True
  then obtain sg where "signature = Some sg" "sg \<noteq> []" by (auto simp: truthy_def split: option.splits)
  with assms obtain x where "construct_event pl payload sg (get_stripe_webhook_secret pl s) = Inl x"
    by (auto simp: delivered_def split: sum.splits)
  moreover from this assms(2) have "\<forall>c code msg. x \<noteq> APIError c code msg"
    by (auto simp: stripe_errors_def)
  ultimately show ?thesis
    using \<open>signature = Some sg\<close> \<open>sg \<noteq> []\<close>
    by (auto simp: stripe_webhook_def truthy_def str_or_def verify_stripe_event_def get_db_def
        bindM_def catchM_def webhook_warning_def log_def split: py_exn.splits)
qed

theorem unsigned_webhook_refused_witness:
  "\<exists>msg v. stripe_webhook demo_pay demo_settings schema_verdict 41 (Some ''forged'') ''paid''
       (demo_world demo_payments) = (Inl (APIError 400 BAD_REQUEST msg), v) \<and> db v = demo_payments"
proof -
  have "delivered demo_pay demo_settings (Some ''forged'') ''paid'' = None" by code_simp
  from unsigned_webhook_refused [OF this demo_stripe_errors, of schema_verdict 41 "demo_world demo_payments"]
  obtain msg v where "stripe_webhook demo_pay demo_settings schema_verdict 41 (Some ''forged'') ''paid''
       (demo_world demo_payments) = (Inl (APIError 400 BAD_REQUEST msg), v)"
    and "db v = db (demo_world demo_payments)" by blast
  moreover from this have "db v = demo_payments" by (simp add: demo_world_def)
  ultimately show ?thesis by (intro exI conjI)
qed

text \<open>
  C5.  What a delivery can do to the tables: if they differ afterwards, the delivery was an event \<open>ev\<close>
  that Stripe's library accepted, its id was not recorded before, and in one transaction exactly
  that event was recorded, with the server's time, and at most one payment was touched: the payment
  of the event's intent got the status the event's type stands for, whatever its status was, or, if
  the intent was unknown, one payment with that status was added.  No other table changed and the
  schema's constraints hold.
\<close>

theorem webhook_effect:
  assumes "stripe_webhook pl s chk new_id signature payload w = (res, v)" and "enforces chk"
    and "db v \<noteq> db w"
  shows "\<exists>ev k t row. delivered pl s signature payload = Some ev \<and>
    stripe_value ev ''id'' None = Inr (JStr k) \<and> stripe_value ev ''type'' None = Inr (JStr t) \<and>
    k \<notin> e_event_id ` set (events (db w)) \<and> events (db v) = events (db w) @ [row] \<and>
    e_event_id row = k \<and> e_event_type row = t \<and> e_processed_at row = db_now w \<and>
    payment_effect ev t (payments (db w)) (payments (db v)) \<and> schema_ok (db v) \<and>
    tenants (db v) = tenants (db w) \<and> users (db v) = users (db w) \<and> resources (db v) = resources (db w)"
proof -
  from stripe_webhook_cases [OF assms(1,3)] obtain ev k t p w1
    where ev: "delivered pl s signature payload = Some ev" "stripe_value ev ''id'' None = Inr (JStr k)"
      "stripe_value ev ''type'' None = Inr (JStr t)"
      and new: "find (\<lambda>e. e_event_id e = k) (events (db w)) = None"
      and ch: "event_changes pl new_id ev t (end_transaction w) w1"
      and f: "flush_result chk (w1\<lparr>pending := pending w1 @ [InsertEvent (event_row_of k t p)]\<rparr>) = Inr (db v)"
    by blast
  from new have "k \<notin> e_event_id ` set (events (db w))" by (auto simp: find_None_iff)
  with recorded_effect [OF ch _ assms(2) f] ev show ?thesis
    by (intro exI [of _ ev] exI [of _ k] exI [of _ t]
        exI [of _ "(event_row_of k t p)\<lparr>e_processed_at := db_now w\<rparr>"]) (simp add: event_row_of_def)
qed

text \<open>The witness is a late failure: the payment had succeeded, and the event makes it failed.\<close>

theorem webhook_effect_witness:
  "\<exists>res v row. stripe_webhook demo_pay demo_settings schema_verdict 41 (Some ''sig'') ''failed''
       (demo_world demo_payments) = (res, v) \<and>
     events (db v) = [row] \<and> e_event_id row = ''evt_2'' \<and>
     map p_status (payments demo_payments) = [''succeeded'', ''failed''] \<and>
     map p_status (payments (db v)) = [''failed'', ''failed'']"
    (is "\<exists>res v row. ?run = _ \<and> _")
proof -
  have "case ?run of (r, v) \<Rightarrow> map p_status (payments (db v)) = [''failed'', ''failed'']" by code_simp
  then obtain res v where run: "?run = (res, v)" and st: "map p_status (payments (db v)) = [''failed'', ''failed'']"
    by (elim runE) (rule that)
  have old: "map p_status (payments demo_payments) = [''succeeded'', ''failed'']" by code_simp
  with st have "db v \<noteq> db (demo_world demo_payments)" by (auto simp: demo_world_def)
  from webhook_effect [OF run schema_verdict_enforces this] obtain ev k row
    where d: "delivered demo_pay demo_settings (Some ''sig'') ''failed'' = Some ev"
      "stripe_value ev ''id'' None = Inr (JStr k)"
      and e: "events (db v) = events (db (demo_world demo_payments)) @ [row]" "e_event_id row = k" by blast
  have "delivered demo_pay demo_settings (Some ''sig'') ''failed'' =
      Some (intent_event ''evt_2'' ''payment_intent.payment_failed'' ''pi_old'' 500 ''USD'' [])" by code_simp
  with d(1) have "ev = intent_event ''evt_2'' ''payment_intent.payment_failed'' ''pi_old'' 500 ''USD'' []" by simp
  with d(2) have "k = ''evt_2''" by (simp add: intent_event_def)
  moreover have "events (db (demo_world demo_payments)) = []" by code_simp
  ultimately have "events (db v) = [row]" "e_event_id row = ''evt_2''" using e by simp_all
  with run st old show ?thesis by (intro exI conjI)
qed

text \<open>
  A delivery that was acknowledged as new makes every later delivery of the same event a duplicate
  without any effect, wherever the recorded events are still there.
\<close>

lemma recorded_event_ignored:
  assumes "delivered pl s signature payload = Some ev"
    and "stripe_webhook pl s chk new_id signature payload w = (Inr a, v)" and "\<not> ack_duplicate a"
    and "set (events (db v)) \<subseteq> set (events (db u))"
    and "delivered pl' s' signature' payload' = Some ev"
  shows "\<exists>a'. stripe_webhook pl' s' chk' new_id' signature' payload' u = (Inr a', end_transaction u) \<and>
    ack_duplicate a'"
proof -
  from assms(2) obtain v' where first: "process_stripe_event pl s chk new_id ev (end_transaction w) = (Inr a, v')"
    and v: "v = end_transaction v'" and ty: "is_text (ack_event_type a)"
    by (auto simp: webhook_delivered [OF assms(1)] get_db_eq bindM_eq_Inr)
  from process_again [OF first assms(3), of "end_transaction u" pl' s' chk' new_id'] assms(4) v
  obtain a' where "process_stripe_event pl' s' chk' new_id' ev (end_transaction u) = (Inr a', end_transaction u)"
    and "ack_duplicate a'" and "ack_event_type a' = ack_event_type a" and "is_text (ack_payment_intent_id a')"
    by auto
  with ty show ?thesis
    by (auto simp: webhook_delivered [OF assms(5)] get_db_eq bindM_def respond_def)
qed

text \<open>
  The race of two deliveries is settled by the primary key: a delivery that finds, when it
  commits, that another one recorded its event in the meantime does not count as taken, and the
  payment change it had pending is not stored either.
\<close>

lemma concurrent_delivery_rolled_back:
  assumes "record_event chk (Some k) ty pid w = (res, v)" and "enforces chk"
    and "k \<in> e_event_id ` set (events (db w))"
  shows "res \<noteq> Inr True \<and> db v = db w"
proof -
  have "res \<noteq> Inr True"
  proof
    assume "res = Inr True"
    with assms(1) obtain t p d
      where f: "flush_result chk (w\<lparr>pending := pending w @ [InsertEvent (event_row_of k t p)]\<rparr>) = Inr d"
      by (auto simp: record_event_taken)
    from flush_result_enforced [OF assms(2) f] obtain d1 where ok: "schema_ok d"
      and d1: "apply_changes (db_now w) (pending w) (db w) = Inr d1"
      and d: "d = d1\<lparr>events := events d1 @ [(event_row_of k t p)\<lparr>e_processed_at := db_now w\<rparr>]\<rparr>"
      by (auto simp: apply_changes_append)
    from apply_changes_events [OF d1] assms(3) have "k \<in> e_event_id ` set (events d1)" by auto
    with ok d show False by (simp add: schema_ok_unfold event_row_of_def)
  qed
  with record_event_not_taken [OF assms(1)] show ?thesis by blast
qed



text \<open>
  The webhook fails open: when Vault cannot give the secret and \<open>STRIPE_WEBHOOK_SECRET\<close> is unset or
  empty, signatures are checked against the placeholder that is written in the source, so whoever
  signs with it delivers events of their choice.
\<close>

theorem placeholder_secret_accepted:
  assumes "bindE (get_vault_client pl s) (\<lambda>c. get_secret (hvac_lib pl) (vault_state pl) c
      STRIPE_WEBHOOK_SECRET_PATH ''value'' DEFAULT_KV_MOUNT) = Inl x"
    and "\<not> truthy (getenv pl ''STRIPE_WEBHOOK_SECRET'')" and "sg \<noteq> []"
    and "construct_event pl payload sg ''whsec_lab_placeholder'' = Inr ev"
  shows "delivered pl s (Some sg) payload = Some ev"
proof -
  have "get_stripe_webhook_secret pl s = ''whsec_lab_placeholder''"
    using assms(1,2)
    by (auto simp: get_stripe_webhook_secret_def read_secret_def LAB_STRIPE_WEBHOOK_PLACEHOLDER_def
        str_or_def truthy_def split: option.splits)
  with assms(3,4) show ?thesis by (simp add: delivered_def)
qed

theorem placeholder_secret_accepted_witness:
  "delivered demo_pay demo_settings (Some ''sig'') ''failed'' =
     Some (intent_event ''evt_2'' ''payment_intent.payment_failed'' ''pi_old'' 500 ''USD'' [])"
proof -
  have "bindE (get_vault_client demo_pay demo_settings) (\<lambda>c. get_secret (hvac_lib demo_pay) (vault_state demo_pay) c
      STRIPE_WEBHOOK_SECRET_PATH ''value'' DEFAULT_KV_MOUNT) = Inl OSError" by code_simp
  moreover have "\<not> truthy (getenv demo_pay ''STRIPE_WEBHOOK_SECRET'')" by code_simp
  moreover have "construct_event demo_pay ''failed'' ''sig'' ''whsec_lab_placeholder'' =
      Inr (intent_event ''evt_2'' ''payment_intent.payment_failed'' ''pi_old'' 500 ''USD'' [])" by code_simp
  ultimately show ?thesis by (intro placeholder_secret_accepted) simp_all
qed

end
