(* ===== verification/Admin_Service.thy ===== *)
theory Admin_Service
  imports Tenant_Guard Vault_Client
begin

text \<open>
  services/admin-service: the onboarding of tenants, their statistics and the key rotation
  (services/admin_service.py) behind the routes of the platform administrators (api/v1/routes.py).

  \<open>ORDER BY name\<close> follows the collation of the database, given by the parameter \<open>name_rank\<close>.
\<close>

record tenant_create =
  tc_name :: string

record tenant_counts =
  count_users :: int
  count_resources :: int
  count_payments :: int

record key_rotation =
  rot_tenant_id :: uuid
  rot_status :: string
  rot_new_key_name :: string

definition tenant_create_ok :: "tenant_create \<Rightarrow> bool" where
  "tenant_create_ok d \<longleftrightarrow> 1 \<le> py_len (tc_name d) \<and> py_len (tc_name d) \<le> 200"

section \<open>AdminService\<close>

definition list_tenants :: "(string \<Rightarrow> int) \<Rightarrow> (world, tenant_row list) prog" where
  "list_tenants name_rank = select (\<lambda>d. sort_key (\<lambda>t. name_rank (t_name t)) (tenants d))"

definition create_tenant :: "verdict \<Rightarrow> uuid \<Rightarrow> tenant_create \<Rightarrow> (world, tenant_row) prog" where
  "create_tenant chk new_id d =
     bindM (add (InsertTenant
       \<lparr>t_id = new_id, t_name = tc_name d, t_status = ''active'', t_created_at = 0\<rparr>)) (\<lambda>_.
     bindM (commit_or_conflict chk ''Tenant already exists'') (\<lambda>_.
     reread (\<lambda>db. find (\<lambda>t. t_id t = new_id) (tenants db))))"

definition find_tenant :: "uuid \<Rightarrow> (world, tenant_row) prog" where
  "find_tenant k =
     bindM (select (\<lambda>d. find (\<lambda>t. t_id t = k) (tenants d))) (\<lambda>found.
     case found of None \<Rightarrow> throw (not_found ''Tenant not found'') | Some t \<Rightarrow> ret t)"

definition count_rows :: "(database \<Rightarrow> 'r list) \<Rightarrow> ('r \<Rightarrow> uuid) \<Rightarrow> uuid \<Rightarrow> (world, int) prog" where
  "count_rows rows owner k = select (\<lambda>d. int (length (filter (\<lambda>r. owner r = k) (rows d))))"

definition tenant_stats :: "uuid \<Rightarrow> (world, tenant_counts) prog" where
  "tenant_stats k =
     bindM (find_tenant k) (\<lambda>_.
     bindM (count_rows users u_tenant_id k) (\<lambda>us.
     bindM (count_rows resources r_tenant_id k) (\<lambda>rs.
     bindM (count_rows payments p_tenant_id k) (\<lambda>ps.
     ret \<lparr>count_users = us, count_resources = rs, count_payments = ps\<rparr>))))"

definition rotate_tenant_key :: "uuid \<Rightarrow> (world, string) prog" where
  "rotate_tenant_key k = bindM (find_tenant k) (\<lambda>_. ret (''tenant-'' @ uuid_str k))"

section \<open>Routes\<close>

definition admin_metadata :: service_info where
  "admin_metadata =
     \<lparr>info_service = ''admin-service'', info_stage = ''stage-17'', info_status = ''platform-admin-api''\<rparr>"

definition list_tenants_route ::
    "'k env \<Rightarrow> (string \<Rightarrow> int) \<Rightarrow> string option \<Rightarrow> (world, tenant_row list) prog" where
  "list_tenants_route e name_rank cred =
     get_db (bindM (authorize e [''platform_admin''] cred) (\<lambda>_. list_tenants name_rank))"

definition create_tenant_route ::
    "'k env \<Rightarrow> uuid \<Rightarrow> string option \<Rightarrow> tenant_create \<Rightarrow> (world, tenant_row) prog" where
  "create_tenant_route e new_id cred d =
     get_db
      (bindM (authorize e [''platform_admin''] cred) (\<lambda>_.
       bindM (liftE (validate_body (tenant_create_ok d))) (\<lambda>_.
       bindM (create_tenant (env_verdict e) new_id d) (\<lambda>t.
       bindM (log INFO ''admin.tenant_onboard''
                [(''event'', LStr ''admin.tenant_onboard''), (''target_tenant_id'', LStr (uuid_str (t_id t)))]) (\<lambda>_.
       ret t)))))"

definition tenant_stats_route ::
    "'k env \<Rightarrow> string option \<Rightarrow> uuid \<Rightarrow> (world, tenant_counts) prog" where
  "tenant_stats_route e cred k =
     get_db (bindM (authorize e [''platform_admin''] cred) (\<lambda>_. tenant_stats k))"

definition rotate_tenant_key_route ::
    "'k env \<Rightarrow> string option \<Rightarrow> uuid \<Rightarrow> (world, key_rotation) prog" where
  "rotate_tenant_key_route e cred k =
     get_db
      (bindM (authorize e [''platform_admin''] cred) (\<lambda>_.
       bindM (rotate_tenant_key k) (\<lambda>key_name.
       bindM (log INFO ''admin.tenant_key_rotate''
                [(''event'', LStr ''admin.tenant_key_rotate''), (''target_tenant_id'', LStr (uuid_str k))]) (\<lambda>_.
       ret \<lparr>rot_tenant_id = k, rot_status = ''rotation-recorded'', rot_new_key_name = key_name\<rparr>))))"

datatype admin_call =
    ListTenants
  | OnboardTenant uuid tenant_create
  | TenantStats uuid
  | RotateKey uuid

datatype admin_reply =
    TenantRows "tenant_row list"
  | TenantCounts tenant_counts
  | KeyRotated key_rotation

fun admin_api ::
    "'k env \<Rightarrow> (string \<Rightarrow> int) \<Rightarrow> string option \<Rightarrow> admin_call \<Rightarrow> (world, admin_reply) prog" where
  "admin_api e name_rank cred ListTenants =
     bindM (list_tenants_route e name_rank cred) (\<lambda>ts. ret (TenantRows ts))"
| "admin_api e name_rank cred (OnboardTenant new_id d) =
     bindM (create_tenant_route e new_id cred d) (\<lambda>t. ret (TenantRows [t]))"
| "admin_api e name_rank cred (TenantStats k) =
     bindM (tenant_stats_route e cred k) (\<lambda>c. ret (TenantCounts c))"
| "admin_api e name_rank cred (RotateKey k) =
     bindM (rotate_tenant_key_route e cred k) (\<lambda>r. ret (KeyRotated r))"

section \<open>Lemmas\<close>

lemma keeps_db_find_tenant [keeps_intros]: "keeps db (find_tenant k)"
  unfolding find_tenant_def by (intro keeps_intros keeps_prim keeps_db_prim)

lemma find_tenant_Inr:
  "find_tenant k w = (Inr t, v) \<Longrightarrow> pending w = [] \<Longrightarrow> v = w \<and> t \<in> set (tenants (db w)) \<and> t_id t = k"
  by (auto simp: find_tenant_def dest!: find_Some_set split: option.splits)

lemma read_routes_db:
  "keeps db (list_tenants_route e name_rank cred)" "keeps db (tenant_stats_route e cred k)"
  "keeps db (rotate_tenant_key_route e cred k)"
  unfolding list_tenants_route_def list_tenants_def tenant_stats_route_def tenant_stats_def count_rows_def
    rotate_tenant_key_route_def rotate_tenant_key_def
  by (intro keeps_get_db keeps_intros keeps_prim keeps_db_prim end_transaction_fields auth_blind_db)+

definition tenant_row_of :: "uuid \<Rightarrow> tenant_create \<Rightarrow> int \<Rightarrow> tenant_row" where
  "tenant_row_of new_id d now = \<lparr>t_id = new_id, t_name = tc_name d, t_status = ''active'', t_created_at = now\<rparr>"

lemma create_tenant_effect:
  assumes "create_tenant chk new_id d w = (res, v)" and "pending w = []"
  shows "db v = db w \<or> db v = (db w)\<lparr>tenants := tenants (db w) @ [tenant_row_of new_id d (db_now w)]\<rparr>"
proof -
  let ?w = "w\<lparr>pending := [InsertTenant (tenant_row_of new_id d 0)]\<rparr>"
  from assms have "bindM (commit_or_conflict chk ''Tenant already exists'')
      (\<lambda>_. reread (\<lambda>db. find (\<lambda>t. t_id t = new_id) (tenants db))) ?w = (res, v)"
    by (simp add: create_tenant_def bindM_def tenant_row_of_def)
  from bindM_tail [OF this, of db] keeps_db_prim(5)
  obtain r u where "commit_or_conflict chk ''Tenant already exists'' ?w = (r, u)" and "db v = db u" by blast
  with commit_or_conflict_effect [OF this(1)] have "db v = db w \<or> flush_result chk ?w = Inr (db v)" by auto
  with flush_single [of chk ?w "db v" "InsertTenant (tenant_row_of new_id d 0)"] show ?thesis
    by (auto simp: tenant_row_of_def)
qed

lemma create_tenant_Inr:
  assumes "create_tenant chk new_id d w = (Inr t, v)" and "enforces chk" and "pending w = []"
  shows "t = tenant_row_of new_id d (db_now w) \<and> schema_ok (db v) \<and>
    db v = (db w)\<lparr>tenants := tenants (db w) @ [t]\<rparr>"
proof -
  let ?w = "w\<lparr>pending := [InsertTenant (tenant_row_of new_id d 0)]\<rparr>"
  from assms(1,3) obtain d' where f: "flush_result chk ?w = Inr d'" and v: "v = end_transaction (?w\<lparr>db := d'\<rparr>)"
    and q: "find (\<lambda>t. t_id t = new_id) (tenants (db v)) = Some t"
    by (auto simp: create_tenant_def bindM_eq_Inr commit_or_conflict_Inr tenant_row_of_def)
  from flush_result_enforced [OF assms(2) f]
  have ok: "schema_ok d'" and d': "d' = (db w)\<lparr>tenants := tenants (db w) @ [tenant_row_of new_id d (db_now w)]\<rparr>"
    by (auto simp: tenant_row_of_def)
  from find_Some_set [OF q] v have "t \<in> set (tenants d')" and "t_id t = new_id" by auto
  then have "t = tenant_row_of new_id d (db_now w)"
    using tenants_tab.unique_row [OF ok, of t "tenant_row_of new_id d (db_now w)"] d' by (simp add: tenant_row_of_def)
  with v d' ok show ?thesis by auto
qed

lemma create_tenant_route_cases:
  assumes "create_tenant_route e new_id cred d w = (res, v)"
  obtains "db v = db w" and "res \<notin> range Inr"
  | u w1 r x where "login e cred (end_transaction w) = (Inr u, w1)" and "platform_admin u"
    and "tenant_create_ok d" and "same_session w1 (end_transaction w)"
    and "create_tenant (env_verdict e) new_id d w1 = (r, x)" and "db v = db x" and "res = r"
proof -
  let ?K = "\<lambda>t. bindM (log INFO ''admin.tenant_onboard''
    [(''event'', LStr ''admin.tenant_onboard''), (''target_tenant_id'', LStr (uuid_str (t_id t)))]) (\<lambda>_. ret t)"
  from assms obtain v' where v: "v = end_transaction v'" and
    b: "bindM (authorize e [''platform_admin''] cred) (\<lambda>_.
       bindM (liftE (validate_body (tenant_create_ok d))) (\<lambda>_.
       bindM (create_tenant (env_verdict e) new_id d) ?K)) (end_transaction w) = (res, v')"
    by (auto simp: create_tenant_route_def get_db_eq)
  show thesis
  proof (cases "authorize e [''platform_admin''] cred (end_transaction w)")
    case (Pair a w1)
    show thesis
    proof (cases a)
      case (Inl x)
      with Pair b v keepsD [OF keeps_authorize [OF auth_blind_db(1)] Pair] that(1) show thesis by auto
    next
      case (Inr u)
      from authorize_Inr [OF Pair [unfolded Inr]]
      have log: "login e cred (end_transaction w) = (Inr u, w1)" and adm: "platform_admin u"
        and s: "same_session w1 (end_transaction w)" by (auto simp: platform_admin_def has_role_def)
      show thesis
      proof (cases "tenant_create_ok d")
        case False
        with Pair Inr b v same_sessionD [OF s] that(1) show thesis
          by (auto simp: validate_body_def bindM_liftE)
      next
        case True
        obtain r x where c: "create_tenant (env_verdict e) new_id d w1 = (r, x)" by fastforce
        with Pair Inr b True have "res = r \<and> db v' = db x"
          by (cases r) (auto simp: valid_body_skip)
        with v that(2) [OF log adm True s c] show thesis by simp
      qed
    qed
  qed
qed

lemma admin_route_Inr:
  assumes "get_db (bindM (authorize e [''platform_admin''] cred) (\<lambda>_. m)) w = (Inr x, v)"
  obtains u w1 w2 where "login e cred (end_transaction w) = (Inr u, w1)" and "platform_admin u"
    and "same_session w1 (end_transaction w)" and "m w1 = (Inr x, w2)"
proof -
  from assms obtain w2 where "bindM (authorize e [''platform_admin''] cred) (\<lambda>_. m) (end_transaction w) = (Inr x, w2)"
    by (auto simp: get_db_eq)
  then show thesis
    by (cases rule: route_Inr) (rule that, auto simp: platform_admin_def has_role_def)
qed

lemma preserves_find_tenant [preserves_intros]: "preserves (db_inv J) (find_tenant k)"
  by (rule keeps_preserves_db [OF keeps_db_find_tenant])

lemma preserves_admin_api [preserves_intros]:
  assumes "maintains (env_verdict e) J"
  shows "preserves (db_inv J) (admin_api e name_rank cred call)"
proof -
  note ops = list_tenants_def create_tenant_def tenant_stats_def count_rows_def rotate_tenant_key_def
  show ?thesis
    by (cases call)
      (simp_all only: admin_api.simps list_tenants_route_def create_tenant_route_def tenant_stats_route_def
        rotate_tenant_key_route_def ops, (intro preserves_intros assms)+)
qed

section \<open>Properties\<close>

text \<open>
  C26.  Only platform administrators get anything from the admin API: a call that answers, or that
  leaves the database different, was made with a token of a user with that role; and the only
  change there is is that one active tenant was appended.
\<close>

theorem admin_api_only_platform_admin:
  assumes "admin_api e name_rank cred call w = (res, v)" and "res \<in> range Inr \<or> db v \<noteq> db w"
  shows "\<exists>u w1. login e cred (end_transaction w) = (Inr u, w1) \<and> has_role ''platform_admin'' u \<and>
    (db v = db w \<or>
     (\<exists>t. db v = (db w)\<lparr>tenants := tenants (db w) @ [t]\<rparr> \<and> t_status t = ''active'' \<and> t_created_at t = db_now w))"
proof (cases call)
  case ListTenants
  with assms(1) have "bindM (list_tenants_route e name_rank cred) (\<lambda>ts. ret (TenantRows ts)) w = (res, v)" by simp
  from bindM_steps [OF this] assms(2) keepsD [OF read_routes_db(1)] obtain ts
    where "list_tenants_route e name_rank cred w = (Inr ts, v)" and "db v = db w" by fastforce
  then show ?thesis unfolding list_tenants_route_def
    by (auto simp: platform_admin_def elim!: admin_route_Inr)
next
  case (OnboardTenant new_id d)
  with assms(1) have "bindM (create_tenant_route e new_id cred d) (\<lambda>t. ret (TenantRows [t])) w = (res, v)" by simp
  from bindM_steps [OF this] assms(2) obtain r where c: "create_tenant_route e new_id cred d w = (r, v)"
    and "r \<in> range Inr \<or> db v \<noteq> db w" by auto
  from c show ?thesis
  proof (cases rule: create_tenant_route_cases)
    case 1
    with \<open>r \<in> range Inr \<or> db v \<noteq> db w\<close> show ?thesis by simp
  next
    case (2 u w1 r' x)
    note s = same_sessionD [OF 2(4)]
    from create_tenant_effect [OF 2(5)] s 2(6)
    have "db v = db w \<or> db v = (db w)\<lparr>tenants := tenants (db w) @ [tenant_row_of new_id d (db_now w)]\<rparr>" by simp
    moreover have "t_status (tenant_row_of new_id d (db_now w)) = ''active''"
      "t_created_at (tenant_row_of new_id d (db_now w)) = db_now w" by (simp_all add: tenant_row_of_def)
    ultimately show ?thesis using 2(1,2) unfolding platform_admin_def by blast
  qed
next
  case (TenantStats k)
  with assms(1) have "bindM (tenant_stats_route e cred k) (\<lambda>c. ret (TenantCounts c)) w = (res, v)" by simp
  from bindM_steps [OF this] assms(2) keepsD [OF read_routes_db(2)] obtain c
    where "tenant_stats_route e cred k w = (Inr c, v)" and "db v = db w" by fastforce
  then show ?thesis unfolding tenant_stats_route_def
    by (auto simp: platform_admin_def elim!: admin_route_Inr)
next
  case (RotateKey k)
  with assms(1) have "bindM (rotate_tenant_key_route e cred k) (\<lambda>r. ret (KeyRotated r)) w = (res, v)" by simp
  from bindM_steps [OF this] assms(2) keepsD [OF read_routes_db(3)] obtain c
    where "rotate_tenant_key_route e cred k w = (Inr c, v)" and "db v = db w" by fastforce
  then show ?thesis unfolding rotate_tenant_key_route_def
    by (auto simp: platform_admin_def elim!: admin_route_Inr)
qed

theorem admin_api_only_platform_admin_witness:
  "\<exists>t v. admin_api (demo_env (demo_user 1 [''platform_admin''])) (\<lambda>_. 0) (Some ''good'')
       (OnboardTenant 3 \<lparr>tc_name = ''gamma''\<rparr>) (demo_world demo_db) = (Inr (TenantRows [t]), v) \<and>
     t_name t = ''gamma'' \<and> has_role ''platform_admin'' (user_of_claims (demo_user 1 [''platform_admin'']))"
    (is "\<exists>t v. ?run = _ \<and> _")
proof -
  let ?t = "\<lparr>t_id = 3, t_name = ''gamma'', t_status = ''active'', t_created_at = 7\<rparr>"
  have "case ?run of (r, v) \<Rightarrow> r = Inr (TenantRows [?t]) \<and> True" by code_simp
  then obtain v where run: "?run = (Inr (TenantRows [?t]), v)" by (rule run_to)
  have "has_role ''platform_admin'' (user_of_claims (demo_user 1 [''platform_admin'']))"
    using admin_api_only_platform_admin [OF run] by (auto dest: demo_login_inject)
  moreover have "t_name ?t = ''gamma''" by simp
  ultimately show ?thesis using run by (intro exI conjI)
qed

text \<open>
  Onboarding stores exactly one tenant, active, with the name of the body, which has 1 to 200
  characters and which no tenant had before; the row returned is the row stored.
\<close>

theorem create_tenant_functional:
  assumes "create_tenant_route e new_id cred d w = (Inr t, v)" and "enforces (env_verdict e)"
  shows "t = \<lparr>t_id = new_id, t_name = tc_name d, t_status = ''active'', t_created_at = db_now w\<rparr> \<and>
    db v = (db w)\<lparr>tenants := tenants (db w) @ [t]\<rparr> \<and>
    1 \<le> py_len (tc_name d) \<and> py_len (tc_name d) \<le> 200 \<and>
    tc_name d \<notin> t_name ` set (tenants (db w)) \<and> new_id \<notin> t_id ` set (tenants (db w))"
  using assms(1)
proof (cases rule: create_tenant_route_cases)
  case 1
  then show ?thesis by simp
next
  case (2 u w1 r x)
  note s = same_sessionD [OF 2(4)]
  from 2(5,7) have "create_tenant (env_verdict e) new_id d w1 = (Inr t, x)" by simp
  from create_tenant_Inr [OF this assms(2)] s 2(6)
  have t: "t = tenant_row_of new_id d (db_now w)" and ok: "schema_ok (db v)"
    and v: "db v = (db w)\<lparr>tenants := tenants (db w) @ [t]\<rparr>" by auto
  from ok v t have "tc_name d \<notin> t_name ` set (tenants (db w))" "new_id \<notin> t_id ` set (tenants (db w))"
    by (simp_all add: schema_ok_unfold tenant_row_of_def)
  with t v 2(3) show ?thesis by (simp add: tenant_row_of_def tenant_create_ok_def)
qed

theorem create_tenant_functional_witness:
  "\<exists>t v. create_tenant_route (demo_env (demo_user 1 [''platform_admin''])) 3 (Some ''good'')
       \<lparr>tc_name = ''gamma''\<rparr> (demo_world demo_db) = (Inr t, v) \<and> t_name t = ''gamma'' \<and>
     tenants (db v) = demo_tenants @ [t]"
    (is "\<exists>t v. ?run = _ \<and> _")
proof -
  have "case ?run of (r, v) \<Rightarrow> (case r of Inl _ \<Rightarrow> False | Inr _ \<Rightarrow> True)" by code_simp
  then obtain t v where run: "?run = (Inr t, v)" by (elim runE) (auto split: sum.splits)
  from create_tenant_functional [OF run demo_enforces] run show ?thesis
    by (auto simp: demo_world_def demo_db_def)
qed

text \<open>
  The statistics of a tenant are the numbers of its rows, but only on a connection that row-level
  security does not apply to: on any other, the resources count as 0 whatever the tenant has,
  because the service never sets the tenant of the transaction.
\<close>

theorem tenant_stats_functional:
  assumes "tenant_stats_route e cred k w = (Inr c, v)"
  shows "has_tenant (db w) k \<and> count_users c = int (length (tenant_users k (db w))) \<and>
    count_payments c = int (length (filter (\<lambda>p. p_tenant_id p = k) (payments (db w)))) \<and>
    count_resources c = (if rls_bypass w then int (length (tenant_resources k (db w))) else 0) \<and> db v = db w"
proof -
  from assms obtain u w1 w2 where s: "same_session w1 (end_transaction w)" and m: "tenant_stats k w1 = (Inr c, w2)"
    unfolding tenant_stats_route_def by (rule admin_route_Inr)
  note s' = same_sessionD [OF s]
  from m obtain t w3 where f: "find_tenant k w1 = (Inr t, w3)"
    and c: "c = \<lparr>count_users = int (length (filter (\<lambda>r. u_tenant_id r = k) (users (view w3)))),
      count_resources = int (length (filter (\<lambda>r. r_tenant_id r = k) (resources (view w3)))),
      count_payments = int (length (filter (\<lambda>r. p_tenant_id r = k) (payments (view w3))))\<rparr>"
    by (auto simp: tenant_stats_def bindM_eq_Inr count_rows_def)
  from find_tenant_Inr [OF f] s' have w3: "w3 = w1" and t: "t \<in> set (tenants (db w))" "t_id t = k" by auto
  from t have "has_tenant (db w) k" by (auto simp: has_tenant_def)
  moreover from s' have "resources (view w3) = (if rls_bypass w then resources (db w) else [])"
    by (simp add: w3 view_idle row_visible_def)
  moreover from keepsD [OF read_routes_db(2) assms] have "db v = db w" .
  ultimately show ?thesis using c w3 s'
    by (simp add: tenant_users_def tenant_resources_def)
qed

theorem tenant_stats_functional_witness:
  "\<exists>c v. tenant_stats_route (demo_env (demo_user 1 [''platform_admin''])) (Some ''good'') 1
       ((demo_world (demo_db\<lparr>resources := [\<lparr>r_id = 11, r_tenant_id = 1, r_owner_user_id = ''u1'',
          r_name = ''plan'', r_data = JObj [], r_url = None, r_created_at = 1\<rparr>]\<rparr>))\<lparr>rls_bypass := False\<rparr>) = (Inr c, v) \<and>
     count_resources c = 0"
    (is "\<exists>c v. ?run = _ \<and> _")
proof -
  have "case ?run of (r, v) \<Rightarrow> (case r of Inl _ \<Rightarrow> False | Inr _ \<Rightarrow> True)" by code_simp
  then obtain c v where run: "?run = (Inr c, v)" by (elim runE) (auto split: sum.splits)
  from tenant_stats_functional [OF run] have "count_resources c = 0" by (simp add: demo_world_def)
  with run show ?thesis by (intro exI conjI)
qed

end
