(* ===== verification/Stored_Data.thy ===== *)
theory Stored_Data
  imports Resource_Service User_Service Stripe_Webhook Admin_Service
begin

text \<open>
  What the four services ever write into the tables: the rows carry values that the request schemas
  let through, whichever service wrote them and whatever the server's constraints are.

  The interface \<open>change_law\<close> is the contract between a property of the tables and the changes that a
  session may collect; \<open>resource_law\<close>, \<open>user_law\<close>, \<open>payment_law\<close> and \<open>tenant_law\<close> extend it by the changes
  that the request bodies of one service make, and \<open>service_law\<close> joins them.  It is interpreted on the
  typing of the stored rows here, and the single laws on who owns which table in \<open>Table_Owners\<close>.
\<close>

section \<open>Sessions that collect permitted changes\<close>

definition session_inv :: "(database \<Rightarrow> bool) \<Rightarrow> (change \<Rightarrow> bool) \<Rightarrow> world \<Rightarrow> bool" where
  "session_inv J C w \<longleftrightarrow> J (db w) \<and> list_all C (pending w)"

named_theorems session_intros "programs that collect permitted changes only"

lemma keeps_session: "keeps db m \<Longrightarrow> keeps pending m \<Longrightarrow> preserves (session_inv J C) m"
  by (simp add: keeps_def preserves_def session_inv_def)

lemma session_prim [session_intros]:
  "preserves (session_inv J C) (select q)" "preserves (session_inv J C) rollback"
  "preserves (session_inv J C) (set_tenant_context tid)" "preserves (session_inv J C) (reread q')"
  "preserves (session_inv J C) (log lv msg ex)"
  by (simp_all add: preserves_def session_inv_def reread_def)

lemma session_authorize [session_intros]: "preserves (session_inv J C) (authorize e allowed cred)"
  by (intro keeps_session keeps_authorize auth_blind_db)

lemma session_respond [session_intros]: "preserves (session_inv J C) (respond ok x)"
  by (intro keeps_session keeps_respond)

lemma session_add: "C c \<Longrightarrow> preserves (session_inv J C) (add c)"
  by (simp add: preserves_def session_inv_def)

lemma session_get_db:
  "preserves (session_inv J C) m \<Longrightarrow> preserves (db_inv J) (get_db m)"
  by (auto simp: preserves_def session_inv_def db_inv_def get_db_def split: prod.splits)
    (metis end_transaction_fields(1,2) list.pred_inject(1) snd_conv)

text \<open>After the validation of the body only a valid body counts.\<close>

lemma session_validated:
  assumes "ok \<Longrightarrow> preserves I (k ())"
  shows "preserves I (bindM (liftE (validate_body ok)) k)"
  using assms by (cases ok) (auto simp: preserves_def validate_body_def bindM_def)

lemmas session_rules = session_intros preserves_bindM preserves_catchM preserves_if preserves_option preserves_prod
  preserves_sum preserves_prim

section \<open>Properties of the tables that permitted changes keep\<close>

locale change_law =
  fixes J :: "database \<Rightarrow> bool"
    and C :: "change \<Rightarrow> bool"
  assumes change_keeps: "apply_change now c d = Inr d' \<Longrightarrow> C c \<Longrightarrow> J d \<Longrightarrow> J d'"
begin

lemma changes_keep: "apply_changes now cs d = Inr d' \<Longrightarrow> list_all C cs \<Longrightarrow> J d \<Longrightarrow> J d'"
  by (induction cs arbitrary: d) (auto intro: change_keeps)

lemma flush_keeps: "flush_result chk w = Inr d \<Longrightarrow> session_inv J C w \<Longrightarrow> J d"
  by (auto simp: flush_result_def session_inv_def split: if_splits option.splits dest: changes_keep)

lemma session_commit [session_intros]: "preserves (session_inv J C) (commit chk)"
  using flush_keeps by (fastforce simp: preserves_def commit_def session_inv_def split: sum.splits)

lemma session_commit_or_conflict [session_intros]: "preserves (session_inv J C) (commit_or_conflict chk msg)"
  unfolding commit_or_conflict_def by (intro session_commit session_rules)

lemma route_keeps: "preserves (session_inv J C) m \<Longrightarrow> preserves (db_inv J) (get_db m)"
  by (rule session_get_db)

lemmas session_ops = session_commit session_commit_or_conflict session_rules

end

text \<open>
  The law for the changes that one service makes: whatever its schemas accept becomes a permitted
  change, and so does everything else that its routes, or the webhook, write.  \<open>service_law\<close> is the law
  for all four.
\<close>

locale resource_law = change_law J C for J and C +
  fixes urls :: "'u url_lib"
  assumes created_resource: "resource_create_ok urls rc \<Longrightarrow> C (InsertResource (resource_row_of urls k rc t owner))"
    and changed_resource: "resource_update_ok urls ru \<Longrightarrow> C (UpdateResource k (resource_updates urls ru))"
    and removed_resource: "C (DeleteResource k)"
begin

lemma resource_api_keeps: "preserves (db_inv J) (resource_api e urls cred call)"
proof (cases call)
  case (CreateResource k rc)
  have "preserves (db_inv J) (create_resource_route e urls k cred rc)"
    unfolding create_resource_route_def create_resource_def log_resource_def
    by (intro route_keeps preserves_bindM [OF session_authorize] session_validated)
      (intro session_ops session_add created_resource)
  with CreateResource show ?thesis by (auto intro: preserves_intros)
next
  case (ChangeResource k ru)
  have "preserves (db_inv J) (update_resource_route e urls cred k ru)"
    unfolding update_resource_route_def get_resource_def authorize_resource_access_def update_resource_def
      log_resource_def Let_def
    by (intro route_keeps preserves_bindM [OF session_authorize] session_validated)
      (intro session_ops session_add changed_resource)
  with ChangeResource show ?thesis by (auto intro: preserves_intros)
next
  case (RemoveResource k)
  have "preserves (db_inv J) (delete_resource_route e cred k)"
    unfolding delete_resource_route_def get_resource_def authorize_resource_access_def delete_resource_def log_resource_def
    by (intro route_keeps session_ops session_add removed_resource)
  with RemoveResource show ?thesis by (auto intro: preserves_intros)
qed (auto intro: preserves_intros keeps_preserves_db list_resources_route_db get_resource_route_db)

end

locale user_law = change_law J C for J and C +
  fixes ul :: user_lib
  assumes created_user: "user_create_ok ul uc \<Longrightarrow> C (InsertUser
       \<lparr>u_id = k, u_keycloak_user_id = uc_keycloak_user_id uc, u_tenant_id = t, u_email = uc_email uc,
        u_role = uc_role uc, u_status = ''active'', u_created_at = 0\<rparr>)"
    and changed_user: "user_update_ok ul uu \<Longrightarrow> C (UpdateUser k (user_updates uu))"
    and disabled_user: "C (UpdateUser k [UserStatus (Some ''disabled'')])"
begin

lemma user_api_keeps: "preserves (db_inv J) (user_api e ul cred call)"
proof (cases call)
  case (ListUsers t)
  have "preserves (db_inv J) (list_users_route e ul cred t)"
    unfolding list_users_route_def list_users_def by (intro route_keeps session_ops)
  with ListUsers show ?thesis by simp
next
  case (GetUser s)
  have "preserves (db_inv J) (get_user_route e ul cred s)"
    unfolding get_user_route_def get_user_def get_user_by_email_def authorize_user_read_def Let_def
    by (intro route_keeps session_ops)
  with GetUser show ?thesis by (auto intro: preserves_intros)
next
  case (CreateUser k uc)
  have "preserves (db_inv J) (create_user_route e ul k cred uc)"
    unfolding create_user_route_def create_user_def log_user_def
    by (intro route_keeps preserves_bindM [OF session_authorize] session_validated)
      (intro session_ops session_add created_user)
  with CreateUser show ?thesis by (auto intro: preserves_intros)
next
  case (ChangeUser s uu)
  have "preserves (db_inv J) (update_user_route e ul cred s uu)"
    unfolding update_user_route_def get_user_def authorize_same_tenant_admin_def update_user_def log_user_def Let_def
    by (intro route_keeps preserves_bindM [OF session_authorize] session_validated)
      (intro session_ops session_add changed_user)
  with ChangeUser show ?thesis by (auto intro: preserves_intros)
next
  case (DeactivateUser s)
  have "preserves (db_inv J) (deactivate_user_route e cred s)"
    unfolding deactivate_user_route_def get_user_def authorize_same_tenant_admin_def deactivate_user_def log_user_def
    by (intro route_keeps session_ops session_add disabled_user)
  with DeactivateUser show ?thesis by (auto intro: preserves_intros)
qed

end

locale payment_law = change_law J C for J and C +
  assumes payment_change: "C (InsertPayment p)" "C (SetPaymentStatus k st)" "C (InsertEvent ev)"
begin

lemma payment_api_keeps: "preserves (db_inv J) (payment_api e pl cred call)"
proof -
  note ops = create_payment_intent_def list_payments_def get_payment_def authorize_payment_access_def
  show ?thesis
    by (cases call)
      (simp_all only: payment_api.simps create_payment_intent_route_def list_payments_route_def
        get_payment_route_def ops Let_def,
        (intro route_keeps session_ops session_add payment_change)+)
qed

lemma stripe_webhook_keeps: "preserves (db_inv J) (stripe_webhook pl s chk k sig payload)"
proof -
  note ops = process_stripe_event_def record_event_def upsert_payment_from_webhook_def
    emit_signed_payment_notification_def webhook_warning_def
  show ?thesis
    unfolding stripe_webhook_def ops Let_def
    by (intro route_keeps session_ops session_add payment_change preserves_api_error)
qed

end

locale tenant_law = change_law J C for J and C +
  assumes created_tenant: "tenant_create_ok tc \<Longrightarrow> C (InsertTenant
       \<lparr>t_id = k, t_name = tc_name tc, t_status = ''active'', t_created_at = 0\<rparr>)"
begin

lemma admin_api_keeps: "preserves (db_inv J) (admin_api e name_rank cred call)"
proof (cases call)
  case (OnboardTenant k tc)
  have "preserves (db_inv J) (create_tenant_route e k cred tc)"
    unfolding create_tenant_route_def create_tenant_def
    by (intro route_keeps preserves_bindM [OF session_authorize] session_validated)
      (intro session_ops session_add created_tenant)
  with OnboardTenant show ?thesis by (auto intro: preserves_intros)
qed (auto intro: preserves_intros keeps_preserves_db read_routes_db)

end

locale service_law = resource_law J C urls + user_law J C ul + payment_law J C + tenant_law J C
  for J C ul urls

section \<open>The types of the stored rows\<close>

text \<open>
  A resource has a name of 1 to 200 characters, a JSON object or null as its data, and as its URL
  nothing or the text of a URL that the check accepts; a profile has an e-mail address and one of
  the roles and statuses; a tenant has a name of 1 to 200 characters.
\<close>

definition stored_url_ok :: "'u url_lib \<Rightarrow> string option \<Rightarrow> bool" where
  "stored_url_ok urls v \<longleftrightarrow>
     (case v of None \<Rightarrow> True | Some s \<Rightarrow> \<exists>u. s = url_text urls u \<and> url_accepted urls (Some u))"

definition resource_typed :: "'u url_lib \<Rightarrow> resource_row \<Rightarrow> bool" where
  "resource_typed urls r \<longleftrightarrow>
     name_ok (r_name r) \<and> (is_dict (r_data r) \<or> r_data r = JNull) \<and> stored_url_ok urls (r_url r)"

definition user_typed :: "user_lib \<Rightarrow> user_row \<Rightarrow> bool" where
  "user_typed ul u \<longleftrightarrow>
     valid_email ul (u_email u) \<and> u_role u \<in> set USER_ROLES \<and> u_status u \<in> set USER_STATUSES"

definition tenant_typed :: "tenant_row \<Rightarrow> bool" where
  "tenant_typed t \<longleftrightarrow> 1 \<le> py_len (t_name t) \<and> py_len (t_name t) \<le> 200"

definition stored_typed :: "user_lib \<Rightarrow> 'u url_lib \<Rightarrow> database \<Rightarrow> bool" where
  "stored_typed ul urls d \<longleftrightarrow> list_all tenant_typed (tenants d) \<and> list_all (user_typed ul) (users d) \<and>
     list_all (resource_typed urls) (resources d)"

fun user_field_typed :: "user_lib \<Rightarrow> user_field \<Rightarrow> bool" where
  "user_field_typed ul (UserEmail v) = pred_option (valid_email ul) v"
| "user_field_typed ul (UserRole v) = pred_option (\<lambda>r. r \<in> set USER_ROLES) v"
| "user_field_typed ul (UserStatus v) = pred_option (\<lambda>s. s \<in> set USER_STATUSES) v"

fun resource_field_typed :: "'u url_lib \<Rightarrow> resource_field \<Rightarrow> bool" where
  "resource_field_typed urls (ResourceName v) = pred_option name_ok v"
| "resource_field_typed urls (ResourceData v) = pred_option is_dict v"
| "resource_field_typed urls (ResourceUrl v) = stored_url_ok urls v"

fun change_typed :: "user_lib \<Rightarrow> 'u url_lib \<Rightarrow> change \<Rightarrow> bool" where
  "change_typed ul urls (InsertTenant t) = tenant_typed t"
| "change_typed ul urls (InsertUser u) = user_typed ul u"
| "change_typed ul urls (InsertResource r) = resource_typed urls r"
| "change_typed ul urls (UpdateUser k fs) = list_all (user_field_typed ul) fs"
| "change_typed ul urls (UpdateResource k fs) = list_all (resource_field_typed urls) fs"
| "change_typed ul urls c = True"

lemma set_user_field_typed:
  "set_user_field f u = Some u' \<Longrightarrow> user_field_typed ul f \<Longrightarrow> user_typed ul u \<Longrightarrow> user_typed ul u'"
  by (cases f) (auto simp: user_typed_def)

lemma set_resource_field_typed:
  "set_resource_field f r = Some r' \<Longrightarrow> resource_field_typed urls f \<Longrightarrow> resource_typed urls r \<Longrightarrow> resource_typed urls r'"
  by (cases f) (auto simp: resource_typed_def split: option.splits)

lemma set_fields_typed:
  assumes "set_fields g fs r = Some r'" and "list_all F fs" and "T r"
    and "\<And>f r r'. g f r = Some r' \<Longrightarrow> F f \<Longrightarrow> T r \<Longrightarrow> T r'"
  shows "T r'"
  using assms(1-3) by (induction fs arbitrary: r) (auto split: option.splits dest: assms(4))

lemma update_row_typed:
  assumes "update_row key k (set_fields g fs) rs = Inr rs'" and "list_all F fs" and "list_all T rs"
    and "\<And>f r r'. g f r = Some r' \<Longrightarrow> F f \<Longrightarrow> T r \<Longrightarrow> T r'"
  shows "list_all T rs'"
  using update_row_Inr [OF assms(1)] assms(2,3) set_fields_typed [OF _ assms(2) _ assms(4)] by auto

lemma change_typed_keeps:
  assumes "apply_change now c d = Inr d'" and "change_typed ul urls c" and "stored_typed ul urls d"
  shows "stored_typed ul urls d'"
proof (cases c)
  case (UpdateUser k fs)
  with assms obtain us where u: "update_row u_id k (set_fields set_user_field fs) (users d) = Inr us"
    and "d' = d\<lparr>users := us\<rparr>" and "list_all (user_field_typed ul) fs" by auto
  with update_row_typed [OF u, of "user_field_typed ul" "user_typed ul"] set_user_field_typed assms(3)
  show ?thesis by (auto simp: stored_typed_def)
next
  case (UpdateResource k fs)
  with assms obtain rs where u: "update_row r_id k (set_fields set_resource_field fs) (resources d) = Inr rs"
    and "d' = d\<lparr>resources := rs\<rparr>" and "list_all (resource_field_typed urls) fs" by auto
  with update_row_typed [OF u, of "resource_field_typed urls" "resource_typed urls"] set_resource_field_typed assms(3)
  show ?thesis by (auto simp: stored_typed_def)
qed (use assms in \<open>auto simp: stored_typed_def tenant_typed_def user_typed_def resource_typed_def list_all_iff\<close>)

lemma accepted_stored: "url_accepted urls v \<Longrightarrow> stored_url_ok urls (map_option (url_text urls) v)"
  by (auto simp: stored_url_ok_def split: option.splits)

lemma resource_updates_typed:
  "resource_update_ok urls d \<Longrightarrow> list_all (resource_field_typed urls) (resource_updates urls d)"
  by (auto simp: resource_update_ok_def resource_updates_def given_def stored_url_ok_def
      split: option.splits)

lemma user_updates_typed: "user_update_ok ul d \<Longrightarrow> list_all (user_field_typed ul) (user_updates d)"
  by (auto simp: user_update_ok_def user_updates_def given_def split: option.splits)

interpretation typed: service_law "stored_typed ul urls" "change_typed ul urls" ul urls
proof unfold_locales
  show "apply_change now c d = Inr d' \<Longrightarrow> change_typed ul urls c \<Longrightarrow> stored_typed ul urls d \<Longrightarrow>
    stored_typed ul urls d'" for now c d d' by (rule change_typed_keeps)
  show "change_typed ul urls (UpdateUser k [UserStatus (Some ''disabled'')])" for k
    by (simp add: USER_STATUSES_def)
qed (auto simp: resource_create_ok_def resource_row_of_def resource_typed_def accepted_stored
    resource_updates_typed user_updates_typed user_create_ok_def user_typed_def USER_STATUSES_def
    tenant_create_ok_def tenant_typed_def)

text \<open>What the types say of the replies: a profile can always be answered, a resource unless its data is null.\<close>

lemma typed_replies:
  assumes "stored_typed ul urls d"
  shows "u \<in> set (users d) \<Longrightarrow> user_response_ok ul u"
    and "r \<in> set (resources d) \<Longrightarrow> resource_response_ok r \<or> r_data r = JNull"
  using assms
  by (auto simp: stored_typed_def list_all_iff user_typed_def user_response_ok_def resource_typed_def resource_response_ok_def)

lemma typed_public:
  assumes "stored_typed ul urls d" and "r \<in> set (resources d)" and "r_url r = Some s"
  shows "\<exists>u h. s = url_text urls u \<and> host urls u = Some h \<and> \<not> is_internal_host h"
proof -
  from assms(1,2) have "stored_url_ok urls (r_url r)"
    by (auto simp: stored_typed_def list_all_iff resource_typed_def)
  with assms(3) obtain u where "s = url_text urls u" and a: "url_accepted urls (Some u)"
    by (auto simp: stored_url_ok_def)
  moreover from a obtain h where "host urls u = Some h" "\<not> is_internal_host h"
    by (auto simp: url_accepted_def validate_public_http_url_def split: option.splits if_splits)
  ultimately show ?thesis by blast
qed

end
