(* ===== verification/Table_Owners.thy ===== *)
theory Table_Owners
  imports Stored_Data
begin

text \<open>
  Which service writes which tables: users, resources and payments with events have one writer each,
  and the administration writes tenants only.  Each service's law is interpreted on the tables that
  are not its own.
\<close>

datatype service = UserService | ResourceService | PaymentService | AdminService

text \<open>The tables that a service does not own: all but its own.\<close>

fun besides :: "service \<Rightarrow> database \<Rightarrow> database" where
  "besides UserService d = d\<lparr>users := []\<rparr>"
| "besides ResourceService d = d\<lparr>resources := []\<rparr>"
| "besides PaymentService d = d\<lparr>payments := [], events := []\<rparr>"
| "besides AdminService d = d\<lparr>tenants := []\<rparr>"

text \<open>What the other tables being the same says, service by service.\<close>

lemma besides_same:
  "besides UserService d' = besides UserService d \<longleftrightarrow> tenants d' = tenants d \<and> resources d' = resources d \<and>
     payments d' = payments d \<and> events d' = events d"
  "besides ResourceService d' = besides ResourceService d \<longleftrightarrow> tenants d' = tenants d \<and> users d' = users d \<and>
     payments d' = payments d \<and> events d' = events d"
  "besides PaymentService d' = besides PaymentService d \<longleftrightarrow> tenants d' = tenants d \<and> users d' = users d \<and>
     resources d' = resources d"
  "besides AdminService d' = besides AdminService d \<longleftrightarrow> users d' = users d \<and> resources d' = resources d \<and>
     payments d' = payments d \<and> events d' = events d"
  by (cases d; cases d'; auto)+

declare besides.simps [simp del]

fun owner :: "change \<Rightarrow> service" where
  "owner (InsertTenant t) = AdminService"
| "owner (InsertUser u) = UserService"
| "owner (UpdateUser k fs) = UserService"
| "owner (InsertResource r) = ResourceService"
| "owner (UpdateResource k fs) = ResourceService"
| "owner (DeleteResource k) = ResourceService"
| "owner c = PaymentService"

lemma owner_change: "apply_change now c d = Inr d' \<Longrightarrow> besides (owner c) d' = besides (owner c) d"
  by (cases c) (auto simp: besides.simps)

lemma besides_change:
  "apply_change now c d = Inr d' \<Longrightarrow> owner c = s \<Longrightarrow> besides s d = x \<Longrightarrow> besides s d' = x"
  using owner_change by metis

interpretation users_only: user_law "\<lambda>d. besides UserService d = x" "\<lambda>c. owner c = UserService" ul for x ul
  by unfold_locales (auto intro: besides_change)

interpretation resources_only:
  resource_law "\<lambda>d. besides ResourceService d = x" "\<lambda>c. owner c = ResourceService" urls for x urls
  by unfold_locales (auto intro: besides_change)

interpretation payments_only: payment_law "\<lambda>d. besides PaymentService d = x" "\<lambda>c. owner c = PaymentService" for x
  by unfold_locales (auto intro: besides_change)

interpretation tenants_only: tenant_law "\<lambda>d. besides AdminService d = x" "\<lambda>c. owner c = AdminService" for x
  by unfold_locales (auto intro: besides_change)

lemma prog_invariant: "preserves (db_inv J) m \<Longrightarrow> m w = (res, v) \<Longrightarrow> J (db w) \<Longrightarrow> J (db v)"
  by (drule (1) preservesD [rotated 2]) (simp_all add: db_inv_def)

text \<open>Whatever a call does and however it ends, only the service's own tables can differ.\<close>

lemma user_api_owns: "user_api e ul cred call w = (r, v) \<Longrightarrow> besides UserService (db v) = besides UserService (db w)"
  by (erule prog_invariant [OF users_only.user_api_keeps]) (rule refl)

lemma resource_api_owns:
  "resource_api e urls cred call w = (r, v) \<Longrightarrow> besides ResourceService (db v) = besides ResourceService (db w)"
  by (erule prog_invariant [OF resources_only.resource_api_keeps]) (rule refl)

lemma payment_api_owns:
  "payment_api e pl cred call w = (r, v) \<Longrightarrow> besides PaymentService (db v) = besides PaymentService (db w)"
  by (erule prog_invariant [OF payments_only.payment_api_keeps]) (rule refl)

lemma stripe_webhook_owns:
  "stripe_webhook pl s chk k sig payload w = (r, v) \<Longrightarrow> besides PaymentService (db v) = besides PaymentService (db w)"
  by (erule prog_invariant [OF payments_only.stripe_webhook_keeps]) (rule refl)

lemma admin_api_owns:
  "admin_api e name_rank cred call w = (r, v) \<Longrightarrow> besides AdminService (db v) = besides AdminService (db w)"
  by (erule prog_invariant [OF tenants_only.admin_api_keeps]) (rule refl)

end
