(* ===== verification/Json_Parse.thy ===== *)
theory Json_Parse
  imports Py_Json "HOL-Library.AList"
begin

text \<open>
  Python's \<open>json.loads\<close> (3.11), which reads the parts of a token, and the UTF-8 check of
  \<open>bytes.decode\<close> in front of it.

  The parser is recursive descent over the bytes of the text.  Its recursion is bounded by a fuel
  argument, which every nested call uses up by one; as every second call consumes a character, twice
  the length of the text is enough (\<open>parse_value_enough\<close>).  Python's own limit on the nesting depth is not
  modelled.  A lone surrogate that an escape spells out becomes its three-byte form.  A number
  with a fraction or an exponent is kept as the numeral it is written with.
\<close>

section \<open>UTF-8\<close>

definition is_cont :: "int \<Rightarrow> bool" where
  "is_cont b \<longleftrightarrow> 128 \<le> b \<and> b < 192"

fun utf8_ok :: "int list \<Rightarrow> bool" where
  "utf8_ok [] = True"
| "utf8_ok (a # s) =
     (if a < 128 then utf8_ok s
      else if 194 \<le> a \<and> a < 224 then (case s of b # s' \<Rightarrow> is_cont b \<and> utf8_ok s' | _ \<Rightarrow> False)
      else if 224 \<le> a \<and> a < 240 then
        (case s of b # c # s' \<Rightarrow>
            is_cont b \<and> is_cont c \<and> (a = 224 \<longrightarrow> 160 \<le> b) \<and> (a = 237 \<longrightarrow> b < 160) \<and> utf8_ok s'
         | _ \<Rightarrow> False)
      else if 240 \<le> a \<and> a < 245 then
        (case s of b # c # d # s' \<Rightarrow>
            is_cont b \<and> is_cont c \<and> is_cont d \<and> (a = 240 \<longrightarrow> 144 \<le> b) \<and> (a = 244 \<longrightarrow> b < 144) \<and> utf8_ok s'
         | _ \<Rightarrow> False)
      else False)"

definition utf8_decode :: "string \<Rightarrow> string option" where
  "utf8_decode s = (if utf8_ok (map code s) then Some s else None)"

definition utf8_char :: "int \<Rightarrow> string" where
  "utf8_char n =
     map char_of
      (if n < 128 then [n]
       else if n < 2048 then [192 + n div 64, 128 + n mod 64]
       else if n < 65536 then [224 + n div 4096, 128 + n div 64 mod 64, 128 + n mod 64]
       else [240 + n div 262144, 128 + n div 4096 mod 64, 128 + n div 64 mod 64, 128 + n mod 64])"

section \<open>Strings\<close>

definition hex4 :: "char \<Rightarrow> char \<Rightarrow> char \<Rightarrow> char \<Rightarrow> int option" where
  "hex4 a b c d =
     (case (hex_val a, hex_val b, hex_val c, hex_val d) of
        (Some w, Some x, Some y, Some z) \<Rightarrow> Some (((w * 16 + x) * 16 + y) * 16 + z)
      | _ \<Rightarrow> None)"

definition unescape :: "char \<Rightarrow> string option" where
  "unescape e =
     (if e = quote \<or> e = backslash \<or> e = CHR ''/'' then Some [e]
      else if e = CHR ''b'' then Some [char_of (8 :: int)] else if e = CHR ''f'' then Some [char_of (12 :: int)]
      else if e = CHR ''n'' then Some [char_of (10 :: int)] else if e = CHR ''r'' then Some [char_of (13 :: int)]
      else if e = CHR ''t'' then Some [char_of (9 :: int)] else None)"

text \<open>\<open>XXXX\<close> after \<open>\u\<close>, and the low surrogate \<open>\uXXXX\<close> that may follow a high one.\<close>

definition read_hex4 :: "string \<Rightarrow> (int \<times> string) option" where
  "read_hex4 s =
     (case s of a # b # c # d # r \<Rightarrow> map_option (\<lambda>n. (n, r)) (hex4 a b c d) | _ \<Rightarrow> None)"

definition read_low :: "string \<Rightarrow> (int \<times> string) option" where
  "read_low s =
     (if startswith [backslash, CHR ''u''] s
      then case read_hex4 (drop 2 s) of
             Some (m, r) \<Rightarrow> if 56320 \<le> m \<and> m < 57344 then Some (m, r) else None
           | None \<Rightarrow> None
      else None)"

text \<open>The text after a backslash: the bytes the escape stands for and what follows it.\<close>

definition read_escape :: "string \<Rightarrow> (string \<times> string) option" where
  "read_escape s =
     (case s of
        [] \<Rightarrow> None
      | e # r \<Rightarrow>
          if e = CHR ''u'' then
            (case read_hex4 r of
               None \<Rightarrow> None
             | Some (n, r1) \<Rightarrow>
                 (case (if 55296 \<le> n \<and> n < 56320 then read_low r1 else None) of
                    Some (m, r2) \<Rightarrow> Some (utf8_char (65536 + (n - 55296) * 1024 + (m - 56320)), r2)
                  | None \<Rightarrow> Some (utf8_char n, r1)))
          else map_option (\<lambda>t. (t, r)) (unescape e))"

lemma read_hex4_length: "read_hex4 s = Some (n, r) \<Longrightarrow> length r < length s"
  by (auto simp: read_hex4_def split: list.splits)

lemma read_low_length: "read_low s = Some (n, r) \<Longrightarrow> length r < length s"
  by (auto simp: read_low_def split: if_splits option.splits dest!: read_hex4_length)

lemma read_escape_length: "read_escape s = Some (t, r) \<Longrightarrow> length r < length s"
  by (auto simp: read_escape_def split: list.splits if_splits option.splits
      dest!: read_hex4_length read_low_length)

text \<open>The text after the opening quote: the string and what follows its closing quote.\<close>

function (sequential) parse_string :: "string \<Rightarrow> (string \<times> string) option" where
  "parse_string [] = None"
| "parse_string (c # r) =
     (if c = quote then Some ([], r)
      else if c = backslash then
        (case read_escape r of
           None \<Rightarrow> None
         | Some (t, r1) \<Rightarrow> map_option (apfst ((@) t)) (parse_string r1))
      else if code c < 32 then None
      else map_option (apfst (Cons c)) (parse_string r))"
  by pat_completeness auto
termination
  by (relation "measure length") (auto dest: read_escape_length)

section \<open>Numbers\<close>

definition is_digit :: "char \<Rightarrow> bool" where
  "is_digit c \<longleftrightarrow> 48 \<le> code c \<and> code c \<le> 57"

definition digits :: "string \<Rightarrow> string \<times> string" where
  "digits s = (takeWhile is_digit s, dropWhile is_digit s)"

text \<open>The integer part: \<open>0\<close>, or digits that do not start with it.\<close>

definition int_part :: "string \<Rightarrow> (string \<times> string) option" where
  "int_part s =
     (case s of
        [] \<Rightarrow> None
      | c # r \<Rightarrow> if c = CHR ''0'' then Some ([c], r) else if is_digit c then Some (digits s) else None)"

definition frac_part :: "string \<Rightarrow> string \<times> string" where
  "frac_part s =
     (case s of
        c # d # r \<Rightarrow>
          if c = CHR ''.'' \<and> is_digit d then (case digits (d # r) of (ds, r') \<Rightarrow> (c # ds, r')) else ([], s)
      | _ \<Rightarrow> ([], s))"

definition exp_part :: "string \<Rightarrow> string \<times> string" where
  "exp_part s =
     (case s of
        e # r \<Rightarrow>
          if e = CHR ''e'' \<or> e = CHR ''E'' then
            (let (sg, r1) = (case r of c # r' \<Rightarrow> if c = CHR ''+'' \<or> c = CHR ''-'' then ([c], r') else ([], r) | [] \<Rightarrow> ([], r));
                 (ds, r2) = digits r1 in
             if ds = [] then ([], s) else (e # sg @ ds, r2))
          else ([], s)
      | [] \<Rightarrow> ([], s))"

text \<open>An integer literal of more than 4300 digits is refused by \<open>int\<close>.\<close>

definition parse_number :: "string \<Rightarrow> (json \<times> string) option" where
  "parse_number s =
     (let (sg, r0) = (if startswith ''-'' s then (''-'', tl s) else ([], s)) in
      case int_part r0 of
        None \<Rightarrow> None
      | Some (ip, r1) \<Rightarrow>
          (let (fp, r2) = frac_part r1; (ep, r3) = exp_part r2 in
           if fp = [] \<and> ep = []
           then if length ip > 4300 then None
                else map_option (\<lambda>i. (JInt i, r1)) (py_int (sg @ ip))
           else Some (JFloat (sg @ ip @ fp @ ep), r3)))"

section \<open>Values\<close>

definition skip_ws :: "string \<Rightarrow> string" where
  "skip_ws s = dropWhile (\<lambda>c. code c \<in> {32, 9, 10, 13}) s"

definition literals :: "(string \<times> json) list" where
  "literals = [(''null'', JNull), (''true'', JBool True), (''false'', JBool False),
     (''NaN'', JFloat ''NaN''), (''Infinity'', JFloat ''Infinity''), (''-Infinity'', JFloat ''-Infinity'')]"

definition parse_literal :: "string \<Rightarrow> (json \<times> string) option" where
  "parse_literal s =
     map_option (\<lambda>(w, j). (j, drop (length w) s)) (find (\<lambda>(w, j). startswith w s) literals)"

text \<open>\<open>parse_items\<close> reads the rest of an array, \<open>parse_members\<close> the rest of an object.\<close>

fun parse_value :: "nat \<Rightarrow> string \<Rightarrow> (json \<times> string) option"
  and parse_items :: "nat \<Rightarrow> string \<Rightarrow> (json list \<times> string) option"
  and parse_members :: "nat \<Rightarrow> (string \<times> json) list \<Rightarrow> string \<Rightarrow> ((string \<times> json) list \<times> string) option"
where
  "parse_value 0 s = None"
| "parse_value (Suc n) s =
     (case s of
        [] \<Rightarrow> None
      | c # r \<Rightarrow>
          if c = quote then map_option (apfst JStr) (parse_string r)
          else if c = CHR ''{'' then
            (let r1 = skip_ws r in
             if startswith ''}'' r1 then Some (JObj [], tl r1)
             else map_option (apfst JObj) (parse_members n [] r1))
          else if c = CHR ''['' then
            (let r1 = skip_ws r in
             if startswith '']'' r1 then Some (JArr [], tl r1)
             else map_option (apfst JArr) (parse_items n r1))
          else case parse_literal s of Some x \<Rightarrow> Some x | None \<Rightarrow> parse_number s)"
| "parse_items 0 s = None"
| "parse_items (Suc n) s =
     (case parse_value n s of
        None \<Rightarrow> None
      | Some (v, r) \<Rightarrow>
          (let r1 = skip_ws r in
           if startswith '','' r1 then map_option (apfst (Cons v)) (parse_items n (skip_ws (tl r1)))
           else if startswith '']'' r1 then Some ([v], tl r1) else None))"
| "parse_members 0 acc s = None"
| "parse_members (Suc n) acc s =
     (case s of
        [] \<Rightarrow> None
      | c # r \<Rightarrow>
          if c \<noteq> quote then None
          else case parse_string r of
            None \<Rightarrow> None
          | Some (k, r1) \<Rightarrow>
              (let r2 = skip_ws r1 in
               if \<not> startswith '':'' r2 then None
               else case parse_value n (skip_ws (tl r2)) of
                 None \<Rightarrow> None
               | Some (v, r3) \<Rightarrow>
                   (let acc' = AList.update k v acc; r4 = skip_ws r3 in
                    if startswith '','' r4 then parse_members n acc' (skip_ws (tl r4))
                    else if startswith ''}'' r4 then Some (acc', tl r4) else None)))"

definition loads :: "string \<Rightarrow> json option" where
  "loads s =
     (case parse_value (Suc (2 * length s)) (skip_ws s) of
        Some (v, r) \<Rightarrow> if skip_ws r = [] then Some v else None
      | None \<Rightarrow> None)"

section \<open>Lemmas: the fuel\<close>

text \<open>A parser consumes what it reads.\<close>

definition consumes :: "(string \<Rightarrow> ('a \<times> string) option) \<Rightarrow> bool" where
  "consumes f \<longleftrightarrow> (\<forall>s x r. f s = Some (x, r) \<longrightarrow> length r < length s)"

lemma consumesD: "consumes f \<Longrightarrow> f s = Some (x, r) \<Longrightarrow> length r < length s"
  by (auto simp: consumes_def)

lemma map_apfst_Some [simp]:
  "map_option (apfst f) p = Some (x, r) \<longleftrightarrow> (\<exists>y. p = Some (y, r) \<and> x = f y)"
  by (cases p) auto

lemma consumes_string: "consumes parse_string"
proof -
  have "parse_string s = Some (x, r) \<Longrightarrow> length r < length s" for s x r
  proof (induction s arbitrary: x r rule: parse_string.induct)
    case (2 c s)
    show ?case
    proof (cases "c = backslash \<and> c \<noteq> quote")
      case True
      with "2.prems" obtain t r1 y where e: "read_escape s = Some (t, r1)" and "parse_string r1 = Some (y, r)"
        by (auto split: option.splits)
      with "2.IH"(1) [OF _ _ e refl] True have "length r < length r1" by blast
      with read_escape_length [OF e] show ?thesis by simp
    next
      case False
      with "2.prems" "2.IH"(2) show ?thesis by (fastforce split: if_splits)
    qed
  qed simp
  then show ?thesis by (simp add: consumes_def)
qed

lemma length_digits: "digits s = (ds, r) \<Longrightarrow> length ds + length r = length s"
  unfolding digits_def by (metis length_append prod.inject takeWhile_dropWhile_id)

lemma int_part_length: "int_part s = Some (ip, r) \<Longrightarrow> length r < length s"
  by (auto simp: int_part_def digits_def le_imp_less_Suc [OF length_dropWhile_le] split: list.splits if_splits)

lemma frac_part_length: "frac_part s = (fp, r) \<Longrightarrow> length r \<le> length s"
  by (auto simp: frac_part_def split: list.splits if_splits prod.splits dest!: length_digits)

lemma exp_part_length: "exp_part s = (ep, r) \<Longrightarrow> length r \<le> length s"
  by (auto simp: exp_part_def Let_def split: list.splits if_splits prod.splits dest!: length_digits)

lemma consumes_number: "consumes parse_number"
proof -
  have "length r < length s" if n: "parse_number s = Some (j, r)" for s j r
  proof -
    obtain sg r0 where s0: "(if startswith ''-'' s then (''-'', tl s) else ([], s)) = (sg, r0)" by fastforce
    then have "length r0 \<le> length s" by (auto split: if_splits)
    moreover from n s0 obtain ip r1 where i: "int_part r0 = Some (ip, r1)"
      by (auto simp: parse_number_def split: option.splits)
    moreover obtain fp r2 ep r3 where f: "frac_part r1 = (fp, r2)" "exp_part r2 = (ep, r3)" by fastforce
    with n s0 i have "r = r1 \<or> r = r3" by (auto simp: parse_number_def Let_def split: if_splits)
    ultimately show ?thesis
      using int_part_length [OF i] frac_part_length [OF f(1)] exp_part_length [OF f(2)] by auto
  qed
  then show ?thesis by (simp add: consumes_def)
qed

lemma consumes_literal: "consumes parse_literal"
proof -
  have "list_all (\<lambda>(w, j). w \<noteq> []) literals" by code_simp
  then show ?thesis
    by (fastforce simp: consumes_def parse_literal_def list_all_iff startswith_iff dest!: find_Some_set)
qed

lemma length_skip_ws: "length (skip_ws s) \<le> length s"
  by (simp add: skip_ws_def length_dropWhile_le)

lemma length_tl_skip: "startswith [c] (skip_ws s) \<Longrightarrow> length (tl (skip_ws s)) < length s"
  using length_skip_ws [of s] by (cases "skip_ws s") (auto simp: startswith_def)

lemma consumes_all:
  "parse_value n s = Some (v, r) \<longrightarrow> length r < length s"
  "parse_items n s = Some (vs, r) \<longrightarrow> length r < length s"
  "parse_members n acc s = Some (ms, r) \<longrightarrow> length r < length s"
proof (induction n s and n s and n acc s arbitrary: v r and vs r and ms r
    rule: parse_value_parse_items_parse_members.induct)
  case (2 n s)
  show ?case
  proof (cases s)
    case (Cons c t)
    show ?thesis
    proof
      assume p: "parse_value (Suc n) s = Some (v, r)"
      consider "c = quote" | "c \<noteq> quote" "c = CHR ''{''" | "c \<noteq> quote" "c = CHR ''[''"
        | "c \<noteq> quote" "c \<noteq> CHR ''{''" "c \<noteq> CHR ''[''" by blast
      then show "length r < length s"
      proof cases
        case 1
        with p Cons show ?thesis by (auto dest!: consumesD [OF consumes_string])
      next
        case 2
        with p Cons length_skip_ws [of t] length_tl_skip [of "CHR ''}''" t] "2.IH"(1) [OF Cons 2 refl]
        show ?thesis by (fastforce simp: Let_def split: if_splits)
      next
        case 3
        with p Cons length_skip_ws [of t] length_tl_skip [of "CHR '']''" t] "2.IH"(2) [OF Cons _ _ _ refl]
        show ?thesis by (fastforce simp: Let_def split: if_splits)
      next
        case 4
        with p Cons show ?thesis
          by (auto split: option.splits dest: consumesD [OF consumes_literal] consumesD [OF consumes_number])
      qed
    qed
  qed simp
next
  case (4 n s)
  show ?case
  proof
    assume p: "parse_items (Suc n) s = Some (vs, r)"
    then obtain v q where v: "parse_value n s = Some (v, q)" by (auto split: option.splits)
    with "4.IH"(1) have "length q < length s" by blast
    with p v length_skip_ws [of q] length_tl_skip [of "CHR '',''" q] length_tl_skip [of "CHR '']''" q]
      length_skip_ws [of "tl (skip_ws q)"] "4.IH"(2) [OF v refl refl]
    show "length r < length s" by (fastforce simp: Let_def split: if_splits)
  qed
next
  case (6 n acc s)
  show ?case
  proof
    assume p: "parse_members (Suc n) acc s = Some (ms, r)"
    then obtain t k r1 v r3 where s: "s = quote # t" and k: "parse_string t = Some (k, r1)"
      and c: "startswith '':'' (skip_ws r1)" and v: "parse_value n (skip_ws (tl (skip_ws r1))) = Some (v, r3)"
      by (auto simp: Let_def split: list.splits if_splits option.splits)
    have "length r3 < length (skip_ws (tl (skip_ws r1)))"
      using "6.IH"(1) [OF s _ k refl refl] c v by auto
    with consumesD [OF consumes_string k] s length_tl_skip [OF c] length_skip_ws [of "tl (skip_ws r1)"]
    have r3: "length r3 < length s" by simp
    show "length r < length s"
    proof (cases "startswith '','' (skip_ws r3)")
      case True
      with p s k c v have "parse_members n (AList.update k v acc) (skip_ws (tl (skip_ws r3))) = Some (ms, r)"
        by (simp add: Let_def)
      then have "length r < length (skip_ws (tl (skip_ws r3)))"
        using "6.IH"(2) [OF s _ k refl refl _ v refl refl refl] c True by auto
      with length_skip_ws [of "tl (skip_ws r3)"] length_tl_skip [OF True] r3 show ?thesis by simp
    next
      case False
      with p s k c v have "startswith ''}'' (skip_ws r3)" and "r = tl (skip_ws r3)"
        by (auto simp: Let_def split: if_splits)
      with length_tl_skip [of "CHR ''}''" r3] r3 show ?thesis by simp
    qed
  qed
qed simp_all

lemma consumes_value: "consumes (parse_value n)"
  using consumes_all(1) by (simp add: consumes_def)

text \<open>More fuel changes nothing once there is enough.\<close>

lemma fuel_irrelevant:
  "(\<forall>s. 2 * length s < n \<longrightarrow> 2 * length s < m \<longrightarrow> parse_value n s = parse_value m s) \<and>
   (\<forall>s. Suc (2 * length s) < n \<longrightarrow> Suc (2 * length s) < m \<longrightarrow> parse_items n s = parse_items m s) \<and>
   (\<forall>acc s. Suc (2 * length s) < n \<longrightarrow> Suc (2 * length s) < m \<longrightarrow> parse_members n acc s = parse_members m acc s)"
proof (induction n arbitrary: m)
  case 0
  show ?case by simp
next
  case (Suc n)
  have val: "parse_value n s = parse_value k s" if "2 * length s < n" "2 * length s < k" for s k
    using Suc.IH that by blast
  have its: "parse_items n s = parse_items k s" if "Suc (2 * length s) < n" "Suc (2 * length s) < k" for s k
    using Suc.IH that by blast
  have mem: "parse_members n acc s = parse_members k acc s"
    if "Suc (2 * length s) < n" "Suc (2 * length s) < k" for acc s k
    using Suc.IH that by blast
  have 1: "parse_value (Suc n) s = parse_value m s" if l: "2 * length s < Suc n" "2 * length s < m" for s
  proof (cases s)
    case Nil
    from l(2) obtain k where "m = Suc k" by (cases m) auto
    with Nil show ?thesis by simp
  next
    case (Cons c t)
    from l(2) obtain k where m: "m = Suc k" by (cases m) auto
    have "Suc (2 * length (skip_ws t)) < n \<and> Suc (2 * length (skip_ws t)) < k"
      using l m Cons length_skip_ws [of t] by simp
    with its mem have "parse_items n (skip_ws t) = parse_items k (skip_ws t)"
      "parse_members n [] (skip_ws t) = parse_members k [] (skip_ws t)" by blast+
    with m Cons show ?thesis by (simp add: Let_def)
  qed
  have 2: "parse_items (Suc n) s = parse_items m s" if l: "Suc (2 * length s) < Suc n" "Suc (2 * length s) < m" for s
  proof -
    from l(2) obtain k where m: "m = Suc k" by (cases m) auto
    with l have v: "parse_value n s = parse_value k s" by (intro val) simp_all
    have "parse_items n (skip_ws (tl (skip_ws q))) = parse_items k (skip_ws (tl (skip_ws q)))"
      if q: "parse_value k s = Some (v, q)" "startswith '','' (skip_ws q)" for v q
      using consumesD [OF consumes_value q(1)] length_tl_skip [OF q(2)] length_skip_ws [of "tl (skip_ws q)"] l m
      by (intro its) simp_all
    with m v show ?thesis by (auto simp: Let_def split: option.split)
  qed
  have 3: "parse_members (Suc n) acc s = parse_members m acc s"
    if l: "Suc (2 * length s) < Suc n" "Suc (2 * length s) < m" for acc s
  proof -
    from l(2) obtain k where m: "m = Suc k" by (cases m) auto
    show ?thesis
    proof (cases s)
      case Nil
      with m show ?thesis by simp
    next
      case (Cons c t)
      have v: "parse_value n (skip_ws (tl (skip_ws r1))) = parse_value k (skip_ws (tl (skip_ws r1)))"
        if "parse_string t = Some (w, r1)" and "startswith '':'' (skip_ws r1)" for w r1
        using consumesD [OF consumes_string that(1)] length_tl_skip [OF that(2)]
          length_skip_ws [of "tl (skip_ws r1)"] l m Cons by (intro val) simp_all
      have "parse_members n acc' (skip_ws (tl (skip_ws r3))) = parse_members k acc' (skip_ws (tl (skip_ws r3)))"
        if "parse_string t = Some (w, r1)" and "startswith '':'' (skip_ws r1)"
          and q: "parse_value k (skip_ws (tl (skip_ws r1))) = Some (v, r3)" and r: "startswith '','' (skip_ws r3)"
        for w r1 v r3 acc'
        using consumesD [OF consumes_string that(1)] length_tl_skip [OF that(2)]
          length_skip_ws [of "tl (skip_ws r1)"] consumesD [OF consumes_value q] length_tl_skip [OF r]
          length_skip_ws [of "tl (skip_ws r3)"] l m Cons by (intro mem) simp_all
      with m Cons v show ?thesis by (auto simp: Let_def split: option.split)
    qed
  qed
  show ?case
    by (intro conjI allI impI) (erule (1) 1, erule (1) 2, erule (1) 3)
qed

lemma parse_value_enough:
  "2 * length s < n \<Longrightarrow> parse_value n s = parse_value (Suc (2 * length s)) s"
  by (rule fuel_irrelevant [THEN conjunct1, rule_format]) simp_all

end
