(* ===== verification/Json_Text.thy ===== *)
theory Json_Text
  imports Json_Parse
begin

text \<open>
  The texts that \<open>json.loads\<close> reads as a given value (\<open>renders\<close>), with whitespace wherever JSON allows
  it, and the round trip of the three ways the code writes JSON: \<open>dumps\<close> (sorted keys, no spaces) for
  tokens and webhooks, and \<open>dumps_fmt\<close> (insertion order; on one line for log records, indented for
  files).
\<close>

section \<open>Strings and numbers in a text\<close>

lemma quote_code [simp]: "code quote = 34" and backslash_code [simp]: "code backslash = 92"
  by (simp_all add: quote_def backslash_def)

lemma char_eq_code: "c = d \<longleftrightarrow> code c = code d"
  by (simp add: code_inject)

lemma lit_codes [simp]:
  "code CHR ''u'' = 117" "code CHR ''/'' = 47" "code CHR ''b'' = 98" "code CHR ''f'' = 102"
  "code CHR ''n'' = 110" "code CHR ''r'' = 114" "code CHR ''t'' = 116" "code CHR '','' = 44"
  "code CHR '']'' = 93" "code CHR ''['' = 91" "code CHR ''{'' = 123" "code CHR ''}'' = 125"
  "code CHR '':'' = 58" "code CHR ''.'' = 46" "code CHR ''e'' = 101" "code CHR ''E'' = 69"
  "code CHR ''N'' = 78" "code CHR ''I'' = 73" "code CHR ''0'' = 48"
  by (simp_all add: code_def)

lemma code_points_ascii: "list_all (\<lambda>a. a < 128) as \<Longrightarrow> code_points as = as"
  by (induction as) simp_all

lemma hex4_fixed:
  assumes "0 \<le> n" and "n < 65536"
  shows "\<exists>a b c d. hex_fixed 4 n = [a, b, c, d] \<and> hex4 a b c d = Some n"
proof -
  have "n div (16 * 16 * 16) = n div 16 div 16 div 16" by (simp only: zdiv_zmult2_eq)
  then have "n div 16 div 16 div 16 = n div 4096" by simp
  moreover have "0 \<le> n div 4096" "n div 4096 < 16"
    using assms zdiv_mono1 [of n 65535 4096] by simp_all
  ultimately have "n div 16 div 16 div 16 mod 16 = n div 16 div 16 div 16" by simp
  moreover have "((n div 16 div 16 div 16 * 16 + n div 16 div 16 mod 16) * 16 + n div 16 mod 16) * 16 + n mod 16 = n"
    by (simp only: div_mult_mod_eq)
  moreover have "hex_fixed 4 n = [hex_digit (n div 16 div 16 div 16 mod 16), hex_digit (n div 16 div 16 mod 16),
      hex_digit (n div 16 mod 16), hex_digit (n mod 16)]"
    by (simp add: eval_nat_numeral)
  moreover have hv: "hex_val (hex_digit (k mod 16)) = Some (k mod 16)" for k :: int by simp
  have "hex4 (hex_digit (w mod 16)) (hex_digit (x mod 16)) (hex_digit (y mod 16)) (hex_digit (z mod 16)) =
      Some (((w mod 16 * 16 + x mod 16) * 16 + y mod 16) * 16 + z mod 16)" for w x y z :: int
    by (simp only: hex4_def hv option.case prod.case)
  ultimately show ?thesis by metis
qed

lemma parse_escaped:
  assumes "code c < 128"
  shows "parse_string (escape_ascii (code c) @ r) = map_option (apfst (Cons c)) (parse_string r)"
proof -
  let ?n = "code c"
  have two: "parse_string (backslash # e # r) = map_option (apfst (Cons c)) (parse_string r)"
    if "unescape e = Some [c]" and "e \<noteq> CHR ''u''" for e
  proof -
    have "((@) [c]) = Cons c" by auto
    with that show ?thesis by (simp add: read_escape_def char_eq_code)
  qed
  have ch: "char_of k = c" if "code c = k" for k :: int using that char_of_code [of c] by simp
  have bq: "c = backslash \<or> c = quote \<Longrightarrow> unescape c = Some [c]" by (auto simp: unescape_def)
  have un: "unescape CHR ''n'' = Some [char_of (10 :: int)]" "unescape CHR ''r'' = Some [char_of (13 :: int)]"
    "unescape CHR ''t'' = Some [char_of (9 :: int)]" "unescape CHR ''f'' = Some [char_of (12 :: int)]"
    "unescape CHR ''b'' = Some [char_of (8 :: int)]" by code_simp+
  have eq: "code c = 92 \<Longrightarrow> c = backslash" "code c = 34 \<Longrightarrow> c = quote"
    using code_inject [of c backslash] code_inject [of c quote] by simp_all
  have nu: "backslash \<noteq> CHR ''u''" "quote \<noteq> CHR ''u''" by code_simp+
  consider (short) e where "short_escape ?n = Some [backslash, e]" "unescape e = Some [c]" "e \<noteq> CHR ''u''"
    | (plain) "short_escape ?n = None" "32 \<le> ?n" "?n \<le> 126" "?n \<noteq> 34" "?n \<noteq> 92"
    | (hex) "short_escape ?n = None" "\<not> (32 \<le> ?n \<and> ?n \<le> 126)"
  proof (cases "?n \<in> {92, 34, 10, 13, 9, 12, 8}")
    case True
    then obtain e where "short_escape ?n = Some [backslash, e]" "unescape e = Some [c]" "e \<noteq> CHR ''u''"
    proof (elim insertE emptyE)
      assume "?n = 92" with eq bq nu that [of backslash] show thesis by (simp add: short_escape_def)
    next
      assume "?n = 34" with eq bq nu that [of quote] show thesis by (simp add: short_escape_def)
    next
      assume "?n = 10" with ch un that [of "CHR ''n''"] show thesis by (simp add: short_escape_def)
    next
      assume "?n = 13" with ch un that [of "CHR ''r''"] show thesis by (simp add: short_escape_def)
    next
      assume "?n = 9" with ch un that [of "CHR ''t''"] show thesis by (simp add: short_escape_def)
    next
      assume "?n = 12" with ch un that [of "CHR ''f''"] show thesis by (simp add: short_escape_def)
    next
      assume "?n = 8" with ch un that [of "CHR ''b''"] show thesis by (simp add: short_escape_def)
    qed
    with short show thesis .
  next
    case False
    then have "short_escape ?n = None" "?n \<noteq> 34" "?n \<noteq> 92" by (simp_all add: short_escape_def)
    with plain hex show thesis by blast
  qed
  then show ?thesis
  proof cases
    case short
    with two show ?thesis by (simp add: escape_ascii_def)
  next
    case plain
    then show ?thesis by (simp add: escape_ascii_def char_eq_code)
  next
    case hex
    obtain a b d e where h: "hex_fixed 4 ?n = [a, b, d, e]" "hex4 a b d e = Some ?n"
      using hex4_fixed [of ?n] assms by auto
    from hex assms have "escape_ascii ?n = backslash # CHR ''u'' # [a, b, d, e]"
      using h(1) by (auto simp: escape_ascii_def u_escape_def)
    moreover from assms have "utf8_char ?n = [c]" by (simp add: utf8_char_def)
    then have "read_escape (CHR ''u'' # [a, b, d, e] @ r) = Some ([c], r)"
      using h(2) assms by (simp add: read_escape_def read_hex4_def)
    moreover have "((@) [c]) = Cons c" "backslash \<noteq> quote" by (auto simp: char_eq_code)
    ultimately show ?thesis by simp
  qed
qed

lemma parse_dump_string:
  assumes "is_ascii s"
  shows "parse_string (concat (map escape_ascii (code_points (map code s))) @ quote # rest) = Some (s, rest)"
proof -
  have "code_points (map code s) = map code s"
    using assms by (intro code_points_ascii) (simp add: is_ascii_def list_all_iff)
  moreover have "parse_string (concat (map escape_ascii (map code s)) @ quote # rest) = Some (s, rest)"
    using assms by (induction s) (simp_all add: parse_escaped is_ascii_def)
  ultimately show ?thesis by simp
qed

text \<open>What may follow a value in a text.\<close>

definition value_end :: "string \<Rightarrow> bool" where
  "value_end s \<longleftrightarrow> (case s of [] \<Rightarrow> True | c # _ \<Rightarrow> c \<in> set '',]}'' \<or> code c \<in> {32, 9, 10, 13})"

lemma value_end_simps [simp]:
  "value_end []" "value_end (CHR '','' # r)" "value_end (CHR '']'' # r)" "value_end (CHR ''}'' # r)"
  by (simp_all add: value_end_def)

lemma value_end_no_number:
  assumes "value_end r"
  shows "dropWhile is_digit r = r" "takeWhile is_digit r = []" "frac_part r = ([], r)" "exp_part r = ([], r)"
  using assms
  by (auto simp: value_end_def frac_part_def exp_part_def is_digit_def split: list.splits)

lemma dec_no_zero: "0 < n \<Longrightarrow> hd (dec n) \<noteq> CHR ''0''"
proof (induction n rule: dec.induct)
  case (1 n)
  show ?case
  proof (cases "n < 10")
    case True
    with 1(2) have "code (dec_digit n) = 48 + n" by (simp add: code_dec_digit)
    with 1(2) True show ?thesis by (auto simp: dec.simps [of n])
  next
    case False
    then have "hd (dec n) = hd (dec (n div 10))" by (simp add: dec.simps [of n])
    with 1(1) False show ?thesis by simp
  qed
qed

lemma int_part_dec:
  assumes "0 \<le> n" and "value_end r"
  shows "int_part (dec n @ r) = Some (dec n, r)"
proof (cases "n = 0")
  case True
  have "dec 0 = ''0''" by (simp add: dec.simps [of 0] dec_digit_def char_eq_code)
  with True show ?thesis by (simp add: int_part_def)
next
  case False
  obtain c t where d: "dec n = c # t" by (cases "dec n") auto
  have ds: "\<forall>c\<in>set (dec n). is_digit c" using set_dec_code [OF assms(1)] by (simp add: is_digit_def)
  with value_end_no_number [OF assms(2)] have "digits (dec n @ r) = (dec n, r)"
    by (simp add: digits_def)
  moreover from dec_no_zero [of n] False assms(1) d have "c \<noteq> CHR ''0''" by simp
  ultimately show ?thesis using d ds by (simp add: int_part_def)
qed

lemma parse_number_int:
  assumes "length (dec \<bar>i\<bar>) \<le> 4300" and "value_end r"
  shows "parse_number (py_str_int i @ r) = Some (JInt i, r)"
proof (cases "i < 0")
  case True
  have "py_int (CHR ''-'' # dec (- i)) = Some i" using py_int_str [of i] True by (simp add: py_str_int_def)
  with True assms int_part_dec [of "- i" r] value_end_no_number [OF assms(2)] show ?thesis
    by (simp add: parse_number_def py_str_int_def startswith_def)
next
  case False
  have "py_int (dec i) = Some i" using py_int_str [of i] False by (simp add: py_str_int_def)
  moreover have "\<not> startswith ''-'' (dec i @ r)"
  proof -
    obtain c t where d: "dec i = c # t" by (cases "dec i") auto
    with set_dec_code [of i c] False have "48 \<le> code c" by simp
    then have "c \<noteq> CHR ''-''" by (auto simp: char_eq_code)
    with d show ?thesis by (simp add: startswith_def)
  qed
  ultimately show ?thesis
    using False assms int_part_dec [of i r] value_end_no_number [OF assms(2)]
    by (simp add: parse_number_def py_str_int_def)
qed

text \<open>The first character of a numeral tells it from every other value.\<close>

lemma py_str_int_hd:
  "\<exists>c t. py_str_int i = c # t \<and> (48 \<le> code c \<and> code c \<le> 57 \<or> c = CHR ''-'' \<and> t \<noteq> [] \<and> is_digit (hd t))"
proof (cases "i < 0")
  case True
  obtain c t where d: "dec (- i) = c # t" by (cases "dec (- i)") auto
  with set_dec_code [of "- i" c] True show ?thesis by (auto simp: py_str_int_def is_digit_def)
next
  case False
  obtain c t where d: "dec i = c # t" by (cases "dec i") auto
  with set_dec_code [of i c] False show ?thesis by (auto simp: py_str_int_def)
qed

lemma literals_num:
  assumes "48 \<le> code c \<and> code c \<le> 57 \<or> c = CHR ''-'' \<and> t \<noteq> [] \<and> is_digit (hd t)"
  shows "parse_literal (c # t @ r) = None"
proof -
  have "\<not> startswith w (c # t @ r)" if "(w, j) \<in> set literals" for w j
  proof (cases "c = CHR ''-''")
    case True
    with assms obtain d u where "t = d # u" and "is_digit d" by (cases t) auto
    moreover from this have "d \<noteq> CHR ''I''" by (auto simp: is_digit_def)
    ultimately show ?thesis using that True by (auto simp: literals_def startswith_def)
  next
    case False
    with assms have "c \<notin> set ''ntfNI-''" by auto
    with that show ?thesis by (auto simp: literals_def startswith_def)
  qed
  then have "find (\<lambda>(w, j). startswith w (c # t @ r)) literals = None" by (auto simp: find_None_iff)
  then show ?thesis by (simp add: parse_literal_def)
qed

lemma parse_value_int:
  assumes "length (dec \<bar>i\<bar>) \<le> 4300" and "value_end r"
  shows "parse_value (Suc n) (py_str_int i @ r) = Some (JInt i, r)"
proof -
  obtain c t where d: "py_str_int i = c # t"
    and c: "48 \<le> code c \<and> code c \<le> 57 \<or> c = CHR ''-'' \<and> t \<noteq> [] \<and> is_digit (hd t)"
    using py_str_int_hd by blast
  from c have "c \<noteq> quote" "c \<noteq> CHR ''{''" "c \<noteq> CHR ''[''" by (auto simp: char_eq_code)
  with parse_number_int [OF assms] literals_num [OF c, of r] d show ?thesis by simp
qed

text \<open>
  The numerals of floats: what Python's \<open>repr\<close> of a float and the JSON grammar agree on, and the three
  words for the values that have no digits.
\<close>

definition float_words :: "string list" where
  "float_words = [''NaN'', ''Infinity'', ''-Infinity'']"

definition float_text :: "string \<Rightarrow> bool" where
  "float_text s \<longleftrightarrow> s \<in> set float_words \<or> parse_number s = Some (JFloat s, [])"

lemma digits_append: "value_end r \<Longrightarrow> digits s = (ds, q) \<Longrightarrow> digits (s @ r) = (ds, q @ r)"
  using value_end_no_number(1,2) [of r] takeWhile_eq_all_conv [of is_digit s]
  by (cases "\<forall>c\<in>set s. is_digit c") (auto simp: digits_def takeWhile_append dropWhile_append)

lemma int_part_append:
  assumes "int_part s = Some (ip, q)" and "value_end r"
  shows "int_part (s @ r) = Some (ip, q @ r)"
proof (cases s)
  case (Cons c t)
  with assms show ?thesis using digits_append [OF assms(2), of s] by (auto simp: int_part_def split: if_splits)
qed (use assms in \<open>simp add: int_part_def\<close>)

lemma frac_part_append:
  assumes "frac_part s = (fp, q)" and "value_end r"
  shows "frac_part (s @ r) = (fp, q @ r)"
proof -
  consider "s = []" | c where "s = [c]" | c d t where "s = c # d # t" by (metis list.exhaust)
  then show ?thesis
  proof cases
    case 1
    with assms value_end_no_number(3) show ?thesis by (simp add: frac_part_def)
  next
    case 2
    with assms value_end_no_number(2) [OF assms(2)] show ?thesis
      by (cases r) (auto simp: frac_part_def split: if_splits)
  next
    case (3 c d t)
    with assms(1) digits_append [OF assms(2), of "d # t"] show ?thesis
      by (auto simp: frac_part_def split: if_splits prod.splits)
  qed
qed

lemma exp_part_append:
  assumes "exp_part s = (ep, q)" and "value_end r"
  shows "exp_part (s @ r) = (ep, q @ r)"
proof -
  consider "s = []" | e where "s = [e]" | e c t where "s = e # c # t" by (metis list.exhaust)
  then show ?thesis
  proof cases
    case 1
    with assms value_end_no_number(4) show ?thesis by (simp add: exp_part_def)
  next
    case (2 e)
    have "c \<noteq> CHR ''+'' \<and> c \<noteq> CHR ''-''" if "r = c # t" for c t
      using assms(2) that by (auto simp: value_end_def)
    with 2 assms digits_append [OF assms(2), of "[]"] show ?thesis
      by (cases r) (auto simp: exp_part_def digits_def split: if_splits)
  next
    case (3 e c t)
    with assms(1) digits_append [OF assms(2), of t] digits_append [OF assms(2), of "c # t"] show ?thesis
      by (auto simp: exp_part_def Let_def split: if_splits prod.splits)
  qed
qed

text \<open>How a float numeral is put together.\<close>

lemma float_numeral:
  assumes "parse_number s = Some (JFloat s, [])"
  obtains sg r0 ip r1 fp r2 ep where "(if startswith ''-'' s then (''-'', tl s) else ([], s)) = (sg, r0)"
    and "int_part r0 = Some (ip, r1)" and "frac_part r1 = (fp, r2)" and "exp_part r2 = (ep, [])"
    and "fp \<noteq> [] \<or> ep \<noteq> []" and "s = sg @ ip @ fp @ ep"
proof -
  obtain sg r0 where s0: "(if startswith ''-'' s then (''-'', tl s) else ([], s)) = (sg, r0)" by fastforce
  with assms obtain ip r1 where i: "int_part r0 = Some (ip, r1)"
    by (auto simp: parse_number_def split: option.splits)
  obtain fp r2 ep r3 where f: "frac_part r1 = (fp, r2)" "exp_part r2 = (ep, r3)" by fastforce
  with assms s0 i have "r3 = []" "fp \<noteq> [] \<or> ep \<noteq> []" "s = sg @ ip @ fp @ ep"
    by (auto simp: parse_number_def Let_def split: if_splits)
  with that [OF s0 i f(1)] f(2) show thesis by blast
qed

lemma parse_number_append:
  assumes "parse_number s = Some (JFloat s, [])" and "value_end r"
  shows "parse_number (s @ r) = Some (JFloat s, r)"
  using assms(1)
proof (rule float_numeral)
  fix sg r0 ip r1 fp r2 ep
  assume s0: "(if startswith ''-'' s then (''-'', tl s) else ([], s)) = (sg, r0)"
    and i: "int_part r0 = Some (ip, r1)" and f: "frac_part r1 = (fp, r2)" and e: "exp_part r2 = (ep, [])"
    and n: "fp \<noteq> [] \<or> ep \<noteq> []" and s: "s = sg @ ip @ fp @ ep"
  have "s \<noteq> []" using s n by auto
  then have "(if startswith ''-'' (s @ r) then (''-'', tl (s @ r)) else ([], s @ r)) = (sg, r0 @ r)"
    using s0 by (cases s) (auto simp: startswith_iff split: if_splits)
  moreover from exp_part_append [OF e assms(2)] have "exp_part (r2 @ r) = (ep, r)" by simp
  ultimately show ?thesis
    using int_part_append [OF i assms(2)] frac_part_append [OF f assms(2)] n s
    by (auto simp: parse_number_def Let_def)
qed

lemma int_part_hd: "int_part s = Some (ip, q) \<Longrightarrow> s \<noteq> [] \<and> is_digit (hd s)"
  by (auto simp: int_part_def is_digit_def split: list.splits if_splits)

lemma float_hd:
  assumes "parse_number s = Some (JFloat s, [])"
  shows "\<exists>c t. s = c # t \<and> (48 \<le> code c \<and> code c \<le> 57 \<or> c = CHR ''-'' \<and> t \<noteq> [] \<and> is_digit (hd t))"
  using assms
proof (rule float_numeral)
  fix sg r0 ip r1
  assume "(if startswith ''-'' s then (''-'', tl s) else ([], s)) = (sg, r0)" and "int_part r0 = Some (ip, r1)"
  with int_part_hd [of r0 ip r1] show ?thesis
    by (cases s) (auto simp: startswith_iff is_digit_def split: if_splits)
qed

lemma float_chars:
  assumes "float_text s" and "c \<in> set s"
  shows "32 \<le> code c \<and> code c < 128"
proof (cases "s \<in> set float_words")
  case True
  have "list_all (list_all (\<lambda>c. 32 \<le> code c \<and> code c < 128)) float_words" by code_simp
  with True assms(2) show ?thesis by (auto simp: list_all_iff)
next
  case False
  with assms(1) have "parse_number s = Some (JFloat s, [])" by (simp add: float_text_def)
  then show ?thesis
  proof (rule float_numeral)
    fix sg r0 ip r1 fp r2 ep
    assume s0: "(if startswith ''-'' s then (''-'', tl s) else ([], s)) = (sg, r0)"
      and i: "int_part r0 = Some (ip, r1)" and f: "frac_part r1 = (fp, r2)" and e: "exp_part r2 = (ep, [])"
      and s: "s = sg @ ip @ fp @ ep"
    have d: "is_digit c \<Longrightarrow> 32 \<le> code c \<and> code c < 128" for c by (auto simp: is_digit_def)
    have dg: "digits t = (ds, q) \<Longrightarrow> c \<in> set ds \<Longrightarrow> 32 \<le> code c \<and> code c < 128" for t ds q
      by (auto simp: digits_def dest!: set_takeWhileD d)
    have lit: "code CHR ''-'' = 45" "code CHR ''+'' = 43" by (simp_all add: code_def)
    from i have "c \<in> set ip \<Longrightarrow> 32 \<le> code c \<and> code c < 128"
      by (auto simp: int_part_def split: list.splits if_splits dest: dg)
    moreover from f have "c \<in> set fp \<Longrightarrow> 32 \<le> code c \<and> code c < 128"
      by (auto simp: frac_part_def split: list.splits if_splits prod.splits dest: dg)
    moreover from e have "c \<in> set ep \<Longrightarrow> 32 \<le> code c \<and> code c < 128"
      by (auto simp: exp_part_def Let_def lit split: list.splits if_splits prod.splits dest: dg)
    moreover from s0 have "c \<in> set sg \<Longrightarrow> 32 \<le> code c \<and> code c < 128" by (auto simp: lit split: if_splits)
    ultimately show ?thesis using s assms(2) by auto
  qed
qed

lemma skip_ws_id: "code c \<notin> {32, 9, 10, 13} \<Longrightarrow> skip_ws (c # s) = c # s"
  by (simp add: skip_ws_def)

lemma quote_neq: "quote \<noteq> CHR '']''"
  by (simp add: char_eq_code)

lemma parse_utf8_char: "parse_string (escape_utf8 c @ r) = map_option (apfst (Cons c)) (parse_string r)"
proof (cases "code c < 127")
  case True
  then have "escape_utf8 c = escape_ascii (code c)"
    by (auto simp: escape_utf8_def escape_ascii_def split: option.split)
  with parse_escaped [of c r] True show ?thesis by simp
next
  case False
  then have "escape_utf8 c = [c]" by (simp add: escape_utf8_def short_escape_def)
  with False show ?thesis by (simp add: char_eq_code)
qed

text \<open>The rest of a string after its opening quote.\<close>

definition spells :: "string \<Rightarrow> string \<Rightarrow> bool" where
  "spells s b \<longleftrightarrow> (\<forall>rest. parse_string (b @ rest) = Some (s, rest))"

lemma dump_string_spells:
  assumes "ea \<Longrightarrow> is_ascii s"
  shows "\<exists>b. dump_string ea s = quote # b \<and> spells s b"
proof (cases ea)
  case True
  with assms parse_dump_string [of s] show ?thesis by (simp add: dump_string_def spells_def)
next
  case False
  have "parse_string (concat (map escape_utf8 s) @ quote # rest) = Some (s, rest)" for rest
    by (induction s) (simp_all add: parse_utf8_char)
  with False show ?thesis by (simp add: dump_string_def spells_def)
qed

section \<open>Texts of a value\<close>

definition blank :: "string \<Rightarrow> bool" where
  "blank s \<longleftrightarrow> (\<forall>c\<in>set s. code c \<in> {32, 9, 10, 13})"

lemma skip_blank: "blank s \<Longrightarrow> skip_ws (s @ r) = skip_ws r"
  by (induction s) (auto simp: blank_def skip_ws_def)

lemma blank_Nil [simp]: "blank []"
  by (simp add: blank_def)

lemma value_end_blank: "blank s \<Longrightarrow> value_end r \<Longrightarrow> value_end (s @ r)"
  by (cases s) (auto simp: blank_def value_end_def)

inductive renders :: "json \<Rightarrow> string \<Rightarrow> bool"
  and renders_items :: "json list \<Rightarrow> string \<Rightarrow> bool"
  and renders_members :: "(string \<times> json) list \<Rightarrow> string \<Rightarrow> bool"
where
  null: "renders JNull ''null''"
| true: "renders (JBool True) ''true''"
| false: "renders (JBool False) ''false''"
| int: "length (dec \<bar>i\<bar>) \<le> 4300 \<Longrightarrow> renders (JInt i) (py_str_int i)"
| float: "float_text s \<Longrightarrow> renders (JFloat s) s"
| str: "spells s b \<Longrightarrow> renders (JStr s) (quote # b)"
| arr0: "blank w \<Longrightarrow> renders (JArr []) (CHR ''['' # w @ '']'')"
| arr: "blank w \<Longrightarrow> renders_items xs t \<Longrightarrow> renders (JArr xs) (CHR ''['' # w @ t)"
| obj0: "blank w \<Longrightarrow> renders (JObj []) (CHR ''{'' # w @ ''}'')"
| obj: "blank w \<Longrightarrow> renders_members ms t \<Longrightarrow> renders (JObj ms) (CHR ''{'' # w @ t)"
| item: "renders v t \<Longrightarrow> blank w \<Longrightarrow> renders_items [v] (t @ w @ '']'')"
| items: "renders v t \<Longrightarrow> blank w \<Longrightarrow> blank w' \<Longrightarrow> renders_items vs u \<Longrightarrow>
    renders_items (v # vs) (t @ w @ CHR '','' # w' @ u)"
| member: "spells k b \<Longrightarrow> blank w \<Longrightarrow> blank w' \<Longrightarrow> renders v t \<Longrightarrow> blank w'' \<Longrightarrow>
    renders_members [(k, v)] (quote # b @ w @ CHR '':'' # w' @ t @ w'' @ ''}'')"
| members: "spells k b \<Longrightarrow> blank w \<Longrightarrow> blank w' \<Longrightarrow> renders v t \<Longrightarrow> blank w'' \<Longrightarrow> blank w3 \<Longrightarrow>
    renders_members ms u \<Longrightarrow> k \<notin> fst ` set ms \<Longrightarrow>
    renders_members ((k, v) # ms) (quote # b @ w @ CHR '':'' # w' @ t @ w'' @ CHR '','' # w3 @ u)"

text \<open>A text of a value starts with neither whitespace nor a closing bracket.\<close>

definition value_start :: "string \<Rightarrow> bool" where
  "value_start t \<longleftrightarrow> (\<exists>c r. t = c # r \<and> code c \<notin> {32, 9, 10, 13} \<and> c \<noteq> CHR '']'')"

lemma value_start_Cons [simp]: "value_start (c # r) \<longleftrightarrow> code c \<notin> {32, 9, 10, 13, 93}"
  by (auto simp: value_start_def char_eq_code)

lemma value_start_append: "value_start t \<Longrightarrow> value_start (t @ r)"
  by (auto simp: value_start_def)

lemma skip_value_start: "value_start t \<Longrightarrow> skip_ws (t @ r) = t @ r"
  by (auto simp: value_start_def skip_ws_id)

lemma not_closed: "value_start t \<Longrightarrow> \<not> startswith '']'' (t @ r)"
  by (auto simp: value_start_def startswith_iff)

lemma renders_start:
  "renders j t \<Longrightarrow> value_start t"
  "renders_items vs t \<Longrightarrow> value_start t"
  "renders_members ms t \<Longrightarrow> (\<exists>u. t = quote # u) \<and> distinct (map fst ms)"
proof (induction rule: renders_renders_items_renders_members.inducts)
  case (int i)
  then show ?case using py_str_int_hd [of i] by auto
next
  case (float s)
  then show ?case using float_hd [of s] by (auto simp: float_text_def float_words_def)
qed (auto intro: value_start_append)

lemma parse_value_word:
  assumes "(w, j) \<in> {(''null'', JNull), (''true'', JBool True), (''false'', JBool False),
      (''NaN'', JFloat ''NaN''), (''Infinity'', JFloat ''Infinity''), (''-Infinity'', JFloat ''-Infinity'')}" and "0 < n"
  shows "parse_value n (w @ r) = Some (j, r)"
  using assms by (cases n) (auto simp: parse_literal_def literals_def startswith_def char_eq_code)

lemma parse_value_float:
  assumes "float_text s" and "value_end r"
  shows "parse_value (Suc n) (s @ r) = Some (JFloat s, r)"
proof (cases "s \<in> set float_words")
  case True
  then show ?thesis by (intro parse_value_word) (auto simp: float_words_def)
next
  case False
  with assms(1) have p: "parse_number s = Some (JFloat s, [])" by (simp add: float_text_def)
  then obtain c t where d: "s = c # t"
    and c: "48 \<le> code c \<and> code c \<le> 57 \<or> c = CHR ''-'' \<and> t \<noteq> [] \<and> is_digit (hd t)" using float_hd by blast
  from c have "c \<noteq> quote" "c \<noteq> CHR ''{''" "c \<noteq> CHR ''[''" by (auto simp: char_eq_code)
  with parse_number_append [OF p assms(2)] literals_num [OF c, of r] d show ?thesis by simp
qed

lemma update_new: "k \<notin> fst ` set acc \<Longrightarrow> AList.update k v acc = acc @ [(k, v)]"
  by (induction acc) auto

text \<open>One member of an object, whatever follows its value.\<close>

lemma parse_member:
  assumes "spells k b" and "blank w" and "blank w'" and "value_start t" and "blank w''"
    and "parse_value n (t @ w'' @ q) = Some (v, w'' @ q)" and "code (hd q) \<notin> {32, 9, 10, 13}" and "q \<noteq> []"
    and "k \<notin> fst ` set acc"
  shows "parse_members (Suc n) acc (quote # b @ w @ CHR '':'' # w' @ t @ w'' @ q) =
    (if startswith '','' q then parse_members n (acc @ [(k, v)]) (skip_ws (tl q))
     else if startswith ''}'' q then Some (acc @ [(k, v)], tl q) else None)"
proof -
  have "parse_string (b @ w @ CHR '':'' # w' @ t @ w'' @ q) = Some (k, w @ CHR '':'' # w' @ t @ w'' @ q)"
    using assms(1) by (simp add: spells_def)
  moreover have "skip_ws (w @ CHR '':'' # w' @ t @ w'' @ q) = CHR '':'' # w' @ t @ w'' @ q"
    using skip_blank [OF assms(2)] by (simp add: skip_ws_id)
  moreover have "skip_ws (w' @ t @ w'' @ q) = t @ w'' @ q"
    using skip_blank [OF assms(3)] skip_value_start [OF assms(4)] by simp
  moreover have "skip_ws (w'' @ q) = q"
    using skip_blank [OF assms(5)] assms(7,8) by (cases q) (simp_all add: skip_ws_id)
  moreover have "startswith '':'' (CHR '':'' # x)" for x by (simp add: startswith_iff)
  ultimately show ?thesis using assms(6) update_new [OF assms(9)] by (simp add: Let_def)
qed

text \<open>Reading a text of a value gives that value.\<close>

lemma renders_parse:
  "renders j t \<Longrightarrow> value_end r \<Longrightarrow> 2 * length (t @ r) < n \<Longrightarrow> parse_value n (t @ r) = Some (j, r)"
  "renders_items vs t \<Longrightarrow> Suc (2 * length (t @ r)) < n \<Longrightarrow> parse_items n (t @ r) = Some (vs, r)"
  "renders_members ms t \<Longrightarrow> fst ` set acc \<inter> fst ` set ms = {} \<Longrightarrow> Suc (2 * length (t @ r)) < n \<Longrightarrow>
     parse_members n acc (t @ r) = Some (acc @ ms, r)"
proof (induction arbitrary: n r and n r and n r acc rule: renders_renders_items_renders_members.inducts)
  case null
  then show ?case by (intro parse_value_word) auto
next
  case true
  then show ?case by (intro parse_value_word) auto
next
  case false
  then show ?case by (intro parse_value_word) auto
next
  case (int i)
  then obtain m where "n = Suc m" by (cases n) auto
  with int show ?case by (simp only: parse_value_int)
next
  case (float s)
  then obtain m where "n = Suc m" by (cases n) auto
  with float show ?case by (simp only: parse_value_float)
next
  case (str s b)
  then obtain m where "n = Suc m" by (cases n) auto
  with str show ?case by (simp add: spells_def)
next
  case (arr0 w)
  then obtain m where "n = Suc m" by (cases n) auto
  with skip_blank [OF arr0(1)] show ?case by (simp add: char_eq_code skip_ws_id startswith_iff)
next
  case (arr w xs t)
  then obtain m where n: "n = Suc m" by (cases n) auto
  have s: "value_start t" using renders_start(2) [OF arr(2)] .
  have "skip_ws (w @ t @ r) = t @ r" using skip_blank [OF arr(1)] skip_value_start [OF s] by simp
  moreover have "parse_items m (t @ r) = Some (xs, r)" using arr n by (intro arr.IH) simp
  ultimately show ?case using n not_closed [OF s, of r] by (simp add: char_eq_code Let_def)
next
  case (obj0 w)
  then obtain m where "n = Suc m" by (cases n) auto
  with skip_blank [OF obj0(1)] show ?case by (simp add: char_eq_code skip_ws_id startswith_iff)
next
  case (obj w ms t)
  then obtain m where n: "n = Suc m" by (cases n) auto
  obtain u where t: "t = quote # u" using renders_start(3) [OF obj(2)] by blast
  have "skip_ws (w @ t @ r) = t @ r" using skip_blank [OF obj(1)] t by (simp add: skip_ws_id)
  moreover have "parse_members m [] (t @ r) = Some ([] @ ms, r)" using obj n by (intro obj.IH) simp_all
  moreover have "\<not> startswith ''}'' (t @ r)" using t by (auto simp: startswith_iff char_eq_code)
  ultimately show ?case using n by (simp add: char_eq_code Let_def)
next
  case (item v t w)
  then obtain m where n: "n = Suc m" by (cases n) auto
  have "parse_value m (t @ w @ CHR '']'' # r) = Some (v, w @ CHR '']'' # r)"
    using item n by (intro item.IH value_end_blank) simp_all
  with skip_blank [OF item(2), of "CHR '']'' # r"] show ?case
    unfolding n by (simp add: skip_ws_id startswith_iff)
next
  case (items v t w w' vs u)
  then obtain m where n: "n = Suc m" by (cases n) auto
  have "parse_value m (t @ w @ CHR '','' # w' @ u @ r) = Some (v, w @ CHR '','' # w' @ u @ r)"
    using items n by (intro items.IH(1) value_end_blank) simp_all
  moreover have "skip_ws (w' @ u @ r) = u @ r"
    using skip_blank [OF items(3)] skip_value_start [OF renders_start(2) [OF items(4)]] by simp
  moreover have "parse_items m (u @ r) = Some (vs, r)" using items n by (intro items.IH(2)) simp
  ultimately show ?case using skip_blank [OF items(2), of "CHR '','' # w' @ u @ r"]
    unfolding n by (simp add: skip_ws_id startswith_iff)
next
  case (member k b w w' v t w'')
  then obtain m where n: "n = Suc m" by (cases n) auto
  have "parse_value m (t @ w'' @ CHR ''}'' # r) = Some (v, w'' @ CHR ''}'' # r)"
    using member n by (intro member.IH value_end_blank) simp_all
  with parse_member [OF member(1-3) renders_start(1) [OF member(4)] member(5) this] member(7)
  show ?case unfolding n by (simp add: startswith_iff)
next
  case (members k b w w' v t w'' w3 ms u)
  then obtain m where n: "n = Suc m" by (cases n) auto
  obtain x where u: "u = quote # x" using renders_start(3) [OF members(7)] by blast
  have "parse_value m (t @ w'' @ CHR '','' # w3 @ u @ r) = Some (v, w'' @ CHR '','' # w3 @ u @ r)"
    using members n by (intro members.IH(1) value_end_blank) simp_all
  moreover have "skip_ws (w3 @ u @ r) = u @ r" using skip_blank [OF members(6)] u by (simp add: skip_ws_id)
  moreover have "parse_members m (acc @ [(k, v)]) (u @ r) = Some ((acc @ [(k, v)]) @ ms, r)"
    using members n by (intro members.IH(2)) auto
  ultimately show ?case
    using parse_member [OF members(1-3) renders_start(1) [OF members(4)] members(5)] members.prems(1)
    unfolding n by (simp add: startswith_iff)
qed

lemma loads_renders:
  assumes "renders j t" and "blank w" and "blank w'"
  shows "loads (w @ t @ w') = Some j"
proof -
  have s: "skip_ws (w @ t @ w') = t @ w'"
    using skip_blank [OF assms(2)] skip_value_start [OF renders_start(1) [OF assms(1)]] by simp
  have "parse_value (Suc (2 * length (w @ t @ w'))) (t @ w') = Some (j, w')"
    using assms(3) value_end_blank [OF assms(3), of "[]"] by (intro renders_parse(1) [OF assms(1)]) simp_all
  moreover have "skip_ws w' = []" using skip_blank [OF assms(3), of "[]"] by (simp add: skip_ws_def)
  ultimately show ?thesis by (simp add: loads_def s del: length_append)
qed

section \<open>The writers\<close>

text \<open>
  The values that are written and read back: strings that are ASCII where the writer escapes the
  rest, integers within the limit of \<open>int\<close>, floats by their numerals, objects with distinct keys.  What is read from a text
  with sorted keys has the keys of every object in order.
\<close>

fun writable :: "bool \<Rightarrow> json \<Rightarrow> bool" where
  "writable ea (JStr s) = (ea \<longrightarrow> is_ascii s)"
| "writable ea (JInt i) = (length (dec \<bar>i\<bar>) \<le> 4300)"
| "writable ea (JFloat s) = float_text s"
| "writable ea (JArr xs) = list_all (writable ea) xs"
| "writable ea (JObj items) =
     (distinct (map fst items) \<and> list_all (\<lambda>(k, v). (ea \<longrightarrow> is_ascii k) \<and> writable ea v) items)"
| "writable ea _ = True"

abbreviation plain :: "json \<Rightarrow> bool" where
  "plain \<equiv> writable True"

fun canon :: "json \<Rightarrow> json" where
  "canon (JArr xs) = JArr (map canon xs)"
| "canon (JObj items) = JObj (sort_key fst (map (\<lambda>(k, v). (k, canon v)) items))"
| "canon j = j"

text \<open>Items and members that are joined with any separator of a comma and whitespace.\<close>

lemma join_items:
  assumes "xs \<noteq> []" and "\<forall>x\<in>set xs. renders (g x) (f x)" and "blank w" and "blank e"
  shows "renders_items (map g xs) (str_join (CHR '','' # w) (map f xs) @ e @ '']'')"
  using assms
proof (induction xs)
  case (Cons x xs)
  show ?case
  proof (cases xs)
    case Nil
    with Cons.prems show ?thesis by (auto intro: renders_renders_items_renders_members.item)
  next
    case (Cons y ys)
    let ?u = "str_join (CHR '','' # w) (map f xs) @ e @ '']''"
    have "renders_items (map g xs) ?u" using Cons Cons.IH Cons.prems by auto
    then have "renders_items (g x # map g xs) (f x @ [] @ CHR '','' # w @ ?u)"
      using Cons.prems by (intro renders_renders_items_renders_members.items) auto
    with Cons show ?thesis by simp
  qed
qed simp

lemma join_members:
  assumes "ms \<noteq> []" and "\<forall>(k, v)\<in>set ms. spells k (b k) \<and> renders (g v) (f v)" and "distinct (map fst ms)"
    and "blank w" and "blank e" and "blank c"
  shows "renders_members (map (\<lambda>(k, v). (k, g v)) ms)
    (str_join (CHR '','' # w) (map (\<lambda>(k, v). (quote # b k) @ (CHR '':'' # c) @ f v) ms) @ e @ ''}'')"
  using assms
proof (induction ms)
  case (Cons m ms)
  obtain k v where m: "m = (k, v)" by (cases m)
  show ?case
  proof (cases ms)
    case Nil
    with Cons.prems m show ?thesis
      using renders_renders_items_renders_members.member [of k "b k" "[]" c "g v" "f v" e] by simp
  next
    case (Cons y ys)
    let ?u = "str_join (CHR '','' # w) (map (\<lambda>(k, v). (quote # b k) @ (CHR '':'' # c) @ f v) ms) @ e @ ''}''"
    have "renders_members (map (\<lambda>(k, v). (k, g v)) ms) ?u"
      using Cons Cons.IH Cons.prems by auto
    moreover have "k \<notin> fst ` set (map (\<lambda>(k, v). (k, g v)) ms)"
      using Cons.prems(3) m by (force simp: image_iff)
    ultimately have "renders_members ((k, g v) # map (\<lambda>(k, v). (k, g v)) ms)
        (quote # b k @ [] @ CHR '':'' # c @ f v @ [] @ CHR '','' # w @ ?u)"
      using Cons.prems m by (intro renders_renders_items_renders_members.members) auto
    with Cons m show ?thesis by simp
  qed
qed simp

lemma str_join_comma: "str_join '','' ws = comma_join ws"
  unfolding comma_join_def by (induction "'',''" ws rule: str_join.induct) auto

lemma insort_key_map: "insort_key f (g x) (map g xs) = map g (insort_key (\<lambda>x. f (g x)) x xs)"
  by (induction xs) auto

lemma sort_key_map: "sort_key f (map g xs) = map g (sort_key (\<lambda>x. f (g x)) xs)"
  by (induction xs) (auto simp: insort_key_map)

lemma dumps_obj:
  "dumps ea (JObj items) =
     CHR ''{'' # comma_join (map (\<lambda>(k, v). dump_string ea k @ CHR '':'' # dumps ea v) (sort_key fst items)) @ ''}''"
  by (simp add: sort_key_map case_prod_beta' comp_def)

lemma canon_obj: "canon (JObj items) = JObj (map (\<lambda>(k, v). (k, canon v)) (sort_key fst items))"
  by (simp add: sort_key_map case_prod_beta)

text \<open>The letters of a key as a writer spells them.\<close>

definition key_body :: "bool \<Rightarrow> string \<Rightarrow> string" where
  "key_body ea k = tl (dump_string ea k)"

lemma dump_key:
  "dump_string ea k = quote # key_body ea k" "(ea \<longrightarrow> is_ascii k) \<Longrightarrow> spells k (key_body ea k)"
  using dump_string_spells [of ea k] by (auto simp: key_body_def dump_string_def)

lemma renders_string: "writable ea (JStr s) \<Longrightarrow> renders (JStr s) (dump_string ea s)"
  using dump_string_spells [of ea s] by (auto intro: renders_renders_items_renders_members.str)

lemmas renders_atoms = renders_renders_items_renders_members.null renders_renders_items_renders_members.true
  renders_renders_items_renders_members.false renders_renders_items_renders_members.int
  renders_renders_items_renders_members.float renders_string

lemma dumps_renders: "writable ea j \<Longrightarrow> renders (canon j) (dumps ea j)"
proof (induction j)
  case (JArr xs)
  show ?case
  proof (cases "xs = []")
    case True
    then show ?thesis using renders_renders_items_renders_members.arr0 [of "[]"] by (simp add: comma_join_def)
  next
    case False
    with JArr have "renders_items (map canon xs) (str_join '','' (map (dumps ea) xs) @ [] @ '']'')"
      by (intro join_items) (auto simp: list_all_iff)
    then have "renders (JArr (map canon xs)) (CHR ''['' # [] @ str_join '','' (map (dumps ea) xs) @ [] @ '']'')"
      by (intro renders_renders_items_renders_members.arr) auto
    then show ?thesis by (simp add: str_join_comma)
  qed
next
  case (JObj items)
  let ?ms = "sort_key fst items"
  show ?case
  proof (cases "items = []")
    case True
    then show ?thesis using renders_renders_items_renders_members.obj0 [of "[]"] by (simp add: comma_join_def)
  next
    case False
    have "renders_members (map (\<lambda>(k, v). (k, canon v)) ?ms)
        (str_join '','' (map (\<lambda>(k, v). (quote # key_body ea k) @ '':'' @ dumps ea v) ?ms) @ [] @ ''}'')"
    proof (rule join_members)
      show "?ms \<noteq> []" using False by (metis length_0_conv length_sort)
      show "\<forall>(k, v)\<in>set ?ms. spells k (key_body ea k) \<and> renders (canon v) (dumps ea v)"
        using JObj by (fastforce simp: list_all_iff dump_key)
      show "distinct (map fst ?ms)" using JObj.prems by (simp add: distinct_map)
    qed simp_all
    then have "renders (JObj (map (\<lambda>(k, v). (k, canon v)) ?ms))
        (CHR ''{'' # [] @ str_join '','' (map (\<lambda>(k, v). (quote # key_body ea k) @ '':'' @ dumps ea v) ?ms) @ [] @ ''}'')"
      by (intro renders_renders_items_renders_members.obj) auto
    then show ?thesis unfolding dumps_obj canon_obj by (simp add: str_join_comma dump_key(1))
  qed
qed (auto intro: renders_atoms)

lemma blank_break [simp]: "blank (line_break ind level)"
  by (auto simp: blank_def line_break_def code_def split: option.split)

lemma item_separator_blank: "\<exists>w. item_separator ind level = CHR '','' # w \<and> blank w"
  by (auto simp: item_separator_def blank_def code_def split: option.split)
    (use blank_break [of ind level] in \<open>auto simp: blank_def code_def\<close>)

lemma dumps_fmt_renders: "writable ea j \<Longrightarrow> renders j (dumps_fmt ea ind level j)"
proof (induction j arbitrary: level)
  case (JArr xs)
  show ?case
  proof (cases "xs = []")
    case True
    then show ?thesis using renders_renders_items_renders_members.arr0 [of "[]"] by simp
  next
    case False
    obtain w where w: "item_separator ind (Suc level) = CHR '','' # w" "blank w" using item_separator_blank by blast
    from False JArr w(2) have "renders_items (map id xs)
        (str_join (CHR '','' # w) (map (dumps_fmt ea ind (Suc level)) xs) @ line_break ind level @ '']'')"
      by (intro join_items) (auto simp: list_all_iff)
    with False w(1) show ?thesis by (auto intro: renders_renders_items_renders_members.arr)
  qed
next
  case (JObj items)
  show ?case
  proof (cases "items = []")
    case True
    then show ?thesis using renders_renders_items_renders_members.obj0 [of "[]"] by simp
  next
    case False
    obtain w where w: "item_separator ind (Suc level) = CHR '','' # w" "blank w" using item_separator_blank by blast
    have "renders_members (map (\<lambda>(k, v). (k, id v)) items)
        (str_join (CHR '','' # w) (map (\<lambda>(k, v). (quote # key_body ea k) @ (CHR '':'' # '' '') @
           dumps_fmt ea ind (Suc level) v) items) @ line_break ind level @ ''}'')"
    proof (rule join_members)
      show "\<forall>(k, v)\<in>set items. spells k (key_body ea k) \<and> renders (id v) (dumps_fmt ea ind (Suc level) v)"
        using JObj by (fastforce simp: list_all_iff dump_key)
      show "blank '' ''" by (simp add: blank_def code_def)
    qed (use False JObj.prems w(2) in simp_all)
    then have "renders_members items (str_join (item_separator ind (Suc level))
        (map (\<lambda>(k, v). dump_string ea k @ '': '' @ dumps_fmt ea ind (Suc level) v) items) @ line_break ind level @ ''}'')"
      by (simp add: w(1) dump_key(1))
    with False show ?thesis by (auto intro: renders_renders_items_renders_members.obj)
  qed
qed (auto intro: renders_atoms)

text \<open>Reading back what a writer wrote.\<close>

lemma loads_dumps: "writable ea j \<Longrightarrow> loads (dumps ea j) = Some (canon j)"
  using loads_renders [OF dumps_renders blank_Nil blank_Nil] by simp

lemma loads_dumps_fmt:
  "writable ea j \<Longrightarrow> blank w \<Longrightarrow> loads (dumps_fmt ea ind level j @ w) = Some j"
  using loads_renders [OF dumps_fmt_renders blank_Nil] by simp

end
