(* ===== verification/S2S_Token.thy ===== *)
theory S2S_Token
  imports Json_Text Pqc_Signing Py_Uuid
begin

text \<open>
  shared/s2s_token.py: the service tokens of the form \<open>header.payload.signature\<close>, three unpadded
  URL-safe base64 parts whose signature is ML-DSA-65.  The clock is the argument \<open>now\<close>, which the
  code takes or measures; \<open>new_id\<close> is the \<open>str(uuid.uuid4())\<close> drawn when no identifier is given,
  \<open>fi\<close> is \<open>int\<close> of a float numeral.
\<close>

definition TOKEN_TYP :: string where "TOKEN_TYP = ''JWT''"

section \<open>Encoding\<close>

definition b64url_json :: "json \<Rightarrow> string" where
  "b64url_json value = b64url_encode (dumps True value)"

definition b64url_from_b64 :: "string \<Rightarrow> string result" where
  "b64url_from_b64 value =
     bindE (of_option ValueError (b64decode True value)) (\<lambda>raw. Inr (b64url_encode raw))"

definition b64_from_b64url :: "string \<Rightarrow> string option" where
  "b64_from_b64url value = map_option b64encode (urlsafe_b64decode (pad_b64 value))"

definition json_from_b64url :: "string \<Rightarrow> string \<Rightarrow> json result" where
  "json_from_b64url value label =
     (case Option.bind (Option.bind (urlsafe_b64decode (pad_b64 value)) utf8_decode) loads of
        None \<Rightarrow> Inl (S2STokenError (''Invalid S2S token '' @ label))
      | Some parsed \<Rightarrow>
          if is_dict parsed then Inr parsed else Inl (S2STokenError (''Invalid S2S token '' @ label)))"

text \<open>\<open>str(names)\<close> of a list of claim names, none of which needs escaping.\<close>

fun commas :: "string list \<Rightarrow> string" where
  "commas [] = []"
| "commas [n] = n"
| "commas (n # m # ns) = n @ '', '' @ commas (m # ns)"

definition names_str :: "string list \<Rightarrow> string" where
  "names_str ns = ''['' @ commas (map (\<lambda>n. char_of (39 :: int) # n @ [char_of (39 :: int)]) ns) @ '']''"

section \<open>Creation\<close>

definition s2s_payload ::
    "string \<Rightarrow> string \<Rightarrow> string \<Rightarrow> string \<Rightarrow> int \<Rightarrow> int \<Rightarrow> string \<Rightarrow> (string \<times> json) list" where
  "s2s_payload issuer subject audience tenant_id ttl_seconds issued_at jti =
     [(''iss'', JStr issuer), (''sub'', JStr subject), (''aud'', JStr audience), (''iat'', JInt issued_at),
      (''exp'', JInt (issued_at + ttl_seconds)), (''jti'', JStr jti), (''tenant_id'', JStr tenant_id)]"

definition s2s_header :: json where
  "s2s_header = JObj [(''alg'', JStr ML_DSA_ALGORITHM), (''typ'', JStr TOKEN_TYP)]"

definition create_s2s_token ::
    "ml_dsa \<Rightarrow> signer \<Rightarrow> string \<Rightarrow> string \<Rightarrow> string \<Rightarrow> string \<Rightarrow> int \<Rightarrow> int \<Rightarrow> string option \<Rightarrow> string \<Rightarrow>
     (string \<times> json) list \<Rightarrow> string result" where
  "create_s2s_token lib s issuer subject audience tenant_id ttl_seconds now jti new_id extra_claims =
     (let payload = s2s_payload issuer subject audience tenant_id ttl_seconds now (str_or jti new_id);
          overlap = filter (\<lambda>k. k \<in> set (map fst payload)) (map fst extra_claims) in
      if overlap \<noteq> []
      then Inl (S2STokenError
             (''extra_claims cannot override protected claims: '' @ names_str (sort overlap)))
      else
        (let signing_input = b64url_json s2s_header @ ''.'' @ b64url_json (JObj (payload @ extra_claims)) in
         bindE (bindE (sign lib s signing_input) b64url_from_b64) (\<lambda>signature.
         Inr (signing_input @ ''.'' @ signature))))"

section \<open>Verification\<close>

definition REQUIRED_S2S_CLAIMS :: "string list" where
  "REQUIRED_S2S_CLAIMS = [''iss'', ''sub'', ''aud'', ''iat'', ''exp'', ''jti'', ''tenant_id'']"

text \<open>Membership in \<open>set(allowed_issuers)\<close> hashes the value: a list or a dict raises.\<close>

definition issuer_allowed :: "json \<Rightarrow> string list \<Rightarrow> bool result" where
  "issuer_allowed v allowed_issuers =
     (case v of
        JStr i \<Rightarrow> Inr (i \<in> set allowed_issuers)
      | JArr _ \<Rightarrow> Inl TypeError | JObj _ \<Rightarrow> Inl TypeError | _ \<Rightarrow> Inr False)"

text \<open>The \<open>try\<close> around \<open>int(payload["exp"])\<close>, which names two of the exceptions \<open>int\<close> may raise.\<close>

definition expires_at_of :: "(string \<Rightarrow> int result) \<Rightarrow> json \<Rightarrow> int result" where
  "expires_at_of fi v =
     catchE (py_int_json fi v) (\<lambda>e.
       if e = TypeError \<or> is_value_error e
       then Inl (S2STokenError ''S2S token exp must be an integer timestamp'') else Inl e)"

definition check_claims ::
    "(string \<Rightarrow> int result) \<Rightarrow> string \<Rightarrow> string list \<Rightarrow> int \<Rightarrow> json \<Rightarrow> json result" where
  "check_claims fi expected_audience allowed_issuers now payload =
     (let missing = sort (filter (\<lambda>k. dict_get payload k = None) REQUIRED_S2S_CLAIMS) in
      if missing \<noteq> []
      then Inl (S2STokenError (''S2S token missing required claims: '' @ names_str missing))
      else
        bindE (expires_at_of fi (the (dict_get payload ''exp''))) (\<lambda>expires_at.
        if expires_at \<le> now then Inl (S2STokenError ''S2S token is expired'')
        else if dict_get payload ''aud'' \<noteq> Some (JStr expected_audience)
        then Inl (S2STokenError ''S2S token audience mismatch'')
        else bindE (issuer_allowed (the (dict_get payload ''iss'')) allowed_issuers) (\<lambda>ok.
          if \<not> ok then Inl (S2STokenError ''S2S token issuer is not allowed'') else Inr payload)))"

definition verify_s2s_token ::
    "ml_dsa \<Rightarrow> (string \<Rightarrow> int result) \<Rightarrow> signer \<Rightarrow> string \<Rightarrow> string list \<Rightarrow> int \<Rightarrow> string \<Rightarrow> json result" where
  "verify_s2s_token lib fi s expected_audience allowed_issuers now token =
     (let parts = split_on CHR ''.'' token in
      if length parts \<noteq> 3 \<or> list_ex (\<lambda>p. p = []) parts
      then Inl (S2STokenError ''Invalid S2S token format'')
      else
        bindE (json_from_b64url (parts ! 0) ''header'') (\<lambda>header.
        if dict_get header ''alg'' \<noteq> Some (JStr ML_DSA_ALGORITHM) \<or> dict_get header ''typ'' \<noteq> Some (JStr TOKEN_TYP)
        then Inl (S2STokenError ''Unsupported S2S token header'')
        else
        bindE (json_from_b64url (parts ! 1) ''payload'') (\<lambda>payload.
        bindE (of_option (S2STokenError ''Invalid S2S token signature encoding'')
                 (b64_from_b64url (parts ! 2))) (\<lambda>signature_b64.
        let signing_input = parts ! 0 @ ''.'' @ parts ! 1 in
        if \<not> is_ascii signing_input then Inl ValueError
        else
        bindE (verify lib s signing_input signature_b64) (\<lambda>ok.
        if \<not> ok then Inl (S2STokenError ''Invalid S2S token signature'')
        else check_claims fi expected_audience allowed_issuers now payload)))))"

section \<open>Lemmas\<close>

lemma utf8_ok_ascii: "\<forall>b\<in>set s. b < 128 \<Longrightarrow> utf8_ok s"
  by (induction s) auto

lemma utf8_decode_ascii: "is_ascii s \<Longrightarrow> utf8_decode s = Some s"
  by (simp add: utf8_decode_def utf8_ok_ascii is_ascii_def list_all_iff)

lemma is_ascii_simps [simp]:
  "is_ascii []" "is_ascii (c # s) \<longleftrightarrow> code c < 128 \<and> is_ascii s"
  "is_ascii (s @ t) \<longleftrightarrow> is_ascii s \<and> is_ascii t"
  by (simp_all add: is_ascii_def)

lemma is_ascii_concat: "\<forall>w\<in>set ws. is_ascii w \<Longrightarrow> is_ascii (concat ws)"
  by (induction ws) auto

lemma is_ascii_hex: "is_ascii (hex_fixed k n)"
  using hex_chars_plain(7) by (fastforce simp: is_ascii_def list_all_iff)

lemma is_ascii_int: "is_ascii (py_str_int i)"
proof -
  have "code CHR ''-'' = 45" by (simp add: code_def)
  moreover have "is_ascii (dec \<bar>i\<bar>)" using set_dec_code [of "\<bar>i\<bar>"] by (fastforce simp: is_ascii_def list_all_iff)
  ultimately show ?thesis by (auto simp: py_str_int_def split: if_splits)
qed

lemma is_ascii_escape: "0 \<le> n \<Longrightarrow> n < 128 \<Longrightarrow> is_ascii (escape_ascii n)"
  by (auto simp: escape_ascii_def short_escape_def u_escape_def is_ascii_hex split: if_splits)

lemma is_ascii_dump_string:
  assumes "is_ascii s"
  shows "is_ascii (dump_string True s)"
proof -
  have "code_points (map code s) = map code s"
    using assms by (intro code_points_ascii) (simp add: is_ascii_def list_all_iff)
  moreover have "is_ascii (escape_ascii (code c))" if "c \<in> set s" for c
    using assms that by (intro is_ascii_escape) (auto simp: is_ascii_def list_all_iff)
  then have "is_ascii (concat (map escape_ascii (map code s)))"
    by (intro is_ascii_concat) auto
  ultimately show ?thesis by (simp add: dump_string_def)
qed

lemma is_ascii_comma_join: "\<forall>w\<in>set ws. is_ascii w \<Longrightarrow> is_ascii (comma_join ws)"
  unfolding str_join_comma [symmetric]
  by (induction "'',''" ws rule: str_join.induct) (auto simp: is_ascii_def code_def)

lemma is_ascii_dumps: "plain j \<Longrightarrow> is_ascii (dumps True j)"
proof (induction j)
  case (JArr xs)
  then show ?case by (auto simp: list_all_iff intro!: is_ascii_comma_join)
next
  case (JObj items)
  have "\<forall>(k, v)\<in>set items. is_ascii (dump_string True k @ CHR '':'' # dumps True v)"
    using JObj by (fastforce simp: list_all_iff is_ascii_dump_string)
  then have "\<forall>w\<in>set (map (\<lambda>(k, v). dump_string True k @ CHR '':'' # dumps True v) (sort_key fst items)). is_ascii w"
    by auto
  from is_ascii_comma_join [OF this] show ?case unfolding dumps_obj by simp
next
  case (JFloat s)
  then show ?case using float_chars [of s] by (auto simp: is_ascii_def list_all_iff)
qed (auto simp: is_ascii_int is_ascii_dump_string code_def)

text \<open>A part that decodes is ASCII, so that encoding the signed text never raises.\<close>

lemma decoded_ascii: "urlsafe_b64decode (pad_b64 v) = Some raw \<Longrightarrow> is_ascii v"
proof -
  assume "urlsafe_b64decode (pad_b64 v) = Some raw"
  then have a: "is_ascii (map of_urlsafe (pad_b64 v))"
    by (auto simp: urlsafe_b64decode_def b64decode_def split: if_splits)
  have "code CHR ''-'' = 45" "code CHR ''_'' = 95" by (simp_all add: code_def)
  then have "code (of_urlsafe c) < 128 \<Longrightarrow> code c < 128" for c
    by (auto simp: of_urlsafe_def split: if_splits)
  with a show ?thesis by (auto simp: is_ascii_def list_all_iff pad_b64_def)
qed

lemma json_part_ascii: "json_from_b64url v label = Inr j \<Longrightarrow> is_ascii v"
  by (auto simp: json_from_b64url_def bind_eq_Some_conv split: option.splits dest: decoded_ascii)

text \<open>A part that encodes a plain value decodes to that value, its members sorted by name.\<close>

lemma json_part_round_trip:
  assumes "plain (JObj items)"
  shows "json_from_b64url (b64url_json (JObj items)) label = Inr (canon (JObj items))"
  using b64url_round_trip [of "dumps True (JObj items)"] utf8_decode_ascii [OF is_ascii_dumps [OF assms]]
    loads_dumps [OF assms]
  by (simp add: json_from_b64url_def b64url_json_def is_dict_def)

lemma b64_signature_round_trip:
  "b64url_from_b64 (b64encode raw) = Inr (b64url_encode raw)"
  "b64_from_b64url (b64url_encode raw) = Some (b64encode raw)"
  by (simp_all add: b64url_from_b64_def b64_from_b64url_def b64url_round_trip)

lemma split_on_three:
  assumes "CHR ''.'' \<notin> set a" and "CHR ''.'' \<notin> set b" and "CHR ''.'' \<notin> set c"
  shows "split_on CHR ''.'' ((a @ ''.'' @ b) @ ''.'' @ c) = [a, b, c]"
  using assms by (simp add: split_on_append split_on_none)

text \<open>Verification reads nothing of the signer but its public key.\<close>

lemma verify_s2s_public:
  assumes "public_key s = public_key s'"
  shows "verify_s2s_token lib fi s = verify_s2s_token lib fi s'"
proof -
  have "verify lib s = verify lib s'"
    using assms by (simp add: verify_def require_public_key_def fun_eq_iff)
  then show ?thesis by (intro ext) (simp only: verify_s2s_token_def)
qed

text \<open>What the checks on the claims let through.\<close>

lemma check_claims_Inr:
  assumes "check_claims fi aud issuers now payload = Inr claims"
  obtains issuer exp_claim expires_at where "claims = payload"
    and "\<forall>k\<in>set REQUIRED_S2S_CLAIMS. dict_get payload k \<noteq> None"
    and "dict_get payload ''exp'' = Some exp_claim" and "py_int_json fi exp_claim = Inr expires_at"
    and "now < expires_at" and "dict_get payload ''aud'' = Some (JStr aud)"
    and "dict_get payload ''iss'' = Some (JStr issuer)" and "issuer \<in> set issuers"
proof -
  let ?missing = "sort (filter (\<lambda>k. dict_get payload k = None) REQUIRED_S2S_CLAIMS)"
  have none: "?missing = []" using assms by (auto simp: check_claims_def Let_def split: if_splits)
  then have "set ?missing = {}" by (simp only: list.set)
  then have req: "\<forall>k\<in>set REQUIRED_S2S_CLAIMS. dict_get payload k \<noteq> None" by auto
  then obtain v w where v: "dict_get payload ''exp'' = Some v" and w: "dict_get payload ''iss'' = Some w"
    by (auto simp: REQUIRED_S2S_CLAIMS_def)
  from assms none v w obtain e where e: "expires_at_of fi v = Inr e" "now < e"
      "dict_get payload ''aud'' = Some (JStr aud)" "issuer_allowed w issuers = Inr True" "claims = payload"
    by (auto simp: check_claims_def Let_def split: if_splits)
  from e(1) have "py_int_json fi v = Inr e"
    by (auto simp: expires_at_of_def catchE_def split: sum.splits if_splits)
  moreover from e(4) obtain i where "w = JStr i" "i \<in> set issuers"
    by (cases w) (auto simp: issuer_allowed_def)
  ultimately show thesis using that req v w e by blast
qed

lemma check_claims_Inl:
  assumes "\<And>x e. fi x = Inl e \<Longrightarrow> e = ValueError \<or> e = OverflowError"
    and "check_claims fi aud issuers now payload = Inl e"
  shows "(\<exists>m. e = S2STokenError m) \<or> e = OverflowError \<or> e = TypeError"
proof -
  have "py_int_json fi v = Inl x \<Longrightarrow> x \<in> {ValueError, OverflowError, TypeError}" for v x
    using assms(1) by (cases v) (auto simp: py_int_json_def of_option_def split: option.splits)
  then have "expires_at_of fi v = Inl x \<Longrightarrow> (\<exists>m. x = S2STokenError m) \<or> x = OverflowError" for v x
    by (fastforce simp: expires_at_of_def catchE_def is_value_error_def split: sum.splits if_splits)
  moreover have "issuer_allowed w issuers = Inl x \<Longrightarrow> x = TypeError" for w x
    by (cases w) (auto simp: issuer_allowed_def)
  ultimately show ?thesis
    using assms(2) by (auto simp: check_claims_def Let_def bindE_def split: if_splits sum.splits)
qed

lemma map_of_canon:
  assumes "distinct (map fst items)"
  shows "dict_get (canon (JObj items)) k = map_option canon (map_of items k)"
proof -
  have "map_of (sort_key fst items) = map_of items"
    using assms by (subst map_of_inject_set) (auto simp: distinct_map)
  then show ?thesis by (simp add: canon_obj map_of_map del: canon.simps)
qed

lemma s2s_header_checked:
  "json_from_b64url (b64url_json s2s_header) label = Inr (canon s2s_header)"
  "dict_get (canon s2s_header) ''alg'' = Some (JStr ML_DSA_ALGORITHM)"
  "dict_get (canon s2s_header) ''typ'' = Some (JStr TOKEN_TYP)"
proof -
  have "plain s2s_header" by code_simp
  then show "json_from_b64url (b64url_json s2s_header) label = Inr (canon s2s_header)"
    unfolding s2s_header_def by (rule json_part_round_trip)
  show "dict_get (canon s2s_header) ''alg'' = Some (JStr ML_DSA_ALGORITHM)"
    "dict_get (canon s2s_header) ''typ'' = Some (JStr TOKEN_TYP)"
    unfolding s2s_header_def by (subst map_of_canon; simp)+
qed

text \<open>A token that was created, seen by the verifier: everything but the claims is in order.\<close>

lemma verify_created:
  assumes "signer_ready lib s"
    and "create_s2s_token lib s issuer subject audience tenant_id ttl t jti new_id extra = Inr token"
    and "plain (JObj (s2s_payload issuer subject audience tenant_id ttl t (str_or jti new_id) @ extra))"
      (is "plain (JObj ?items)")
  shows "verify_s2s_token lib fi s expected issuers now token =
    check_claims fi expected issuers now (canon (JObj ?items))"
proof -
  let ?h = "b64url_json s2s_header" and ?p = "b64url_json (JObj ?items)"
  from sign_verify [OF assms(1), of "?h @ ''.'' @ ?p"] obtain raw
    where sg: "sign lib s (?h @ ''.'' @ ?p) = Inr (b64encode raw)"
      and ok: "verify lib s (?h @ ''.'' @ ?p) (b64encode raw) = Inr True" and "raw \<noteq> []" by blast
  from assms(2) sg have token: "token = (?h @ ''.'' @ ?p) @ ''.'' @ b64url_encode raw"
    by (auto simp: create_s2s_token_def Let_def b64_signature_round_trip split: if_splits)
  have dots: "split_on CHR ''.'' token = [?h, ?p, b64url_encode raw]"
    unfolding token by (rule split_on_three) (simp_all add: b64url_json_def b64url_chars)
  have parts: "json_from_b64url ?h label = Inr (canon s2s_header)"
    "json_from_b64url ?p label = Inr (canon (JObj ?items))" for label
    using s2s_header_checked(1) json_part_round_trip [OF assms(3)] by simp_all
  have ascii: "is_ascii (?h @ ''.'' @ ?p)"
    using parts [THEN json_part_ascii] by (simp add: code_def)
  have "?h \<noteq> []" "?p \<noteq> []" by (simp_all add: b64url_json_def s2s_header_def)
  with dots parts ascii ok \<open>raw \<noteq> []\<close> s2s_header_checked(2,3) show ?thesis
    by (simp add: verify_s2s_token_def b64_signature_round_trip)
qed

text \<open>The claims of a created token, as the verifier checks them.\<close>

lemma check_created_claims:
  assumes "plain (JObj (s2s_payload issuer subject audience tenant_id ttl t jti @ extra))" (is "plain (JObj ?items)")
  shows "check_claims fi expected issuers now (canon (JObj ?items)) =
      (if t + ttl \<le> now then Inl (S2STokenError ''S2S token is expired'')
       else if audience \<noteq> expected then Inl (S2STokenError ''S2S token audience mismatch'')
       else if issuer \<notin> set issuers then Inl (S2STokenError ''S2S token issuer is not allowed'')
       else Inr (canon (JObj ?items)))"
proof -
  define claims where "claims = canon (JObj ?items)"
  have get: "dict_get claims k = map_option canon (map_of ?items k)" for k
    unfolding claims_def using assms by (intro map_of_canon) simp
  have "\<forall>k\<in>set REQUIRED_S2S_CLAIMS. map_of ?items k \<noteq> None"
    by (simp add: s2s_payload_def REQUIRED_S2S_CLAIMS_def)
  then have "filter (\<lambda>k. dict_get claims k = None) REQUIRED_S2S_CLAIMS = []"
    by (simp add: filter_empty_conv get)
  moreover have "dict_get claims ''exp'' = Some (JInt (t + ttl))" "dict_get claims ''aud'' = Some (JStr audience)"
    "dict_get claims ''iss'' = Some (JStr issuer)"
    by (simp_all add: get s2s_payload_def)
  ultimately show ?thesis unfolding claims_def [symmetric]
    by (simp add: check_claims_def expires_at_of_def issuer_allowed_def)
qed

lemma created_claims_accepted:
  assumes "plain (JObj (s2s_payload issuer subject audience tenant_id ttl t jti @ extra))" and "now < t + ttl"
    and "issuer \<in> set issuers"
  shows "\<exists>claims. check_claims fi audience issuers now
    (canon (JObj (s2s_payload issuer subject audience tenant_id ttl t jti @ extra))) = Inr claims"
  unfolding check_created_claims [OF assms(1)] using assms(2,3) by simp

section \<open>Concrete tokens\<close>

definition demo_float :: "string \<Rightarrow> int result" where
  "demo_float x = Inl (if x = ''NaN'' then ValueError else OverflowError)"

text \<open>A token of the gateway for its upstream services, and one that never expires.\<close>

lemma demo_token:
  obtains token where "create_s2s_token demo_dsa demo_signer ''kong-gateway'' ''kong'' ''internal-upstream'' ''t1''
      300 1000 (Some ''j1'') ''j2'' [(''scope'', JStr ''r'')] = Inr token"
    and "plain (JObj (s2s_payload ''kong-gateway'' ''kong'' ''internal-upstream'' ''t1'' 300 1000
      (str_or (Some ''j1'') ''j2'') @ [(''scope'', JStr ''r'')]))"
proof -
  have "plain (JObj (s2s_payload ''kong-gateway'' ''kong'' ''internal-upstream'' ''t1'' 300 1000
      (str_or (Some ''j1'') ''j2'') @ [(''scope'', JStr ''r'')]))" by code_simp
  moreover have "\<exists>token. create_s2s_token demo_dsa demo_signer ''kong-gateway'' ''kong'' ''internal-upstream'' ''t1''
      300 1000 (Some ''j1'') ''j2'' [(''scope'', JStr ''r'')] = Inr token"
    by (simp add: create_s2s_token_def s2s_payload_def Let_def sign_def require_private_key_def demo_signer_def
        demo_dsa_def b64url_from_b64_def del: dumps.simps)
  ultimately show thesis using that by blast
qed

definition endless_token :: string where
  "endless_token =
     (let text = b64url_json s2s_header @ ''.'' @ b64url_json (JObj
        [(''iss'', JNull), (''sub'', JNull), (''aud'', JNull), (''iat'', JNull), (''exp'', JFloat ''Infinity''),
         (''jti'', JNull), (''tenant_id'', JNull)]) in
      text @ ''.'' @ b64url_encode (''SK'' @ text))"

section \<open>Properties\<close>

text \<open>
  C20.  A token from \<open>create_s2s_token\<close> is judged by every verifier that has the creator's public
  key, whatever else its signer holds, by its claims alone: it is accepted if and only if the time is
  before \<open>now + ttl_seconds\<close>, the verifier expects its audience and allows its issuer (and refused with
  the error of the first of these three that fails), as often as it is presented, and an accepted
  token gives exactly the claims it was created with, the extra ones included.  Nothing looks at
  \<open>jti\<close>, so a captured token can be replayed until it expires.  The claims are \<open>plain\<close>: their strings
  are ASCII, their integers have at most 4300 digits, their floats are numerals and the keys of an
  object are distinct.
\<close>

theorem s2s_round_trip:
  assumes "signer_ready lib s" and "public_key v = public_key s"
    and "create_s2s_token lib s issuer subject audience tenant_id ttl t jti new_id extra = Inr token"
    and "plain (JObj (s2s_payload issuer subject audience tenant_id ttl t (str_or jti new_id) @ extra))"
  shows "\<exists>claims. (\<forall>k. dict_get claims k =
        map_option canon (map_of (s2s_payload issuer subject audience tenant_id ttl t (str_or jti new_id) @ extra) k)) \<and>
      verify_s2s_token lib fi v expected issuers now token =
        (if t + ttl \<le> now then Inl (S2STokenError ''S2S token is expired'')
         else if audience \<noteq> expected then Inl (S2STokenError ''S2S token audience mismatch'')
         else if issuer \<notin> set issuers then Inl (S2STokenError ''S2S token issuer is not allowed'')
         else Inr claims)"
proof -
  let ?items = "s2s_payload issuer subject audience tenant_id ttl t (str_or jti new_id) @ extra"
  let ?claims = "canon (JObj ?items)"
  have "dict_get ?claims k = map_option canon (map_of ?items k)" for k
    using assms(4) by (intro map_of_canon) simp
  then show ?thesis
    unfolding verify_s2s_public [OF assms(2)] verify_created [OF assms(1,3,4)] check_created_claims [OF assms(4)]
    by blast
qed

theorem s2s_round_trip_witness:
  "\<exists>token claims. create_s2s_token demo_dsa demo_signer ''kong-gateway'' ''kong'' ''internal-upstream'' ''t1''
      300 1000 (Some ''j1'') ''j2'' [(''scope'', JStr ''r'')] = Inr token \<and>
    verify_s2s_token demo_dsa demo_float (demo_signer\<lparr>private_key := None\<rparr>) ''internal-upstream'' [''kong-gateway''] 1299 token =
      Inr claims \<and>
    dict_get claims ''scope'' = Some (JStr ''r'') \<and>
    verify_s2s_token demo_dsa demo_float (demo_signer\<lparr>private_key := None\<rparr>) ''internal-upstream'' [''kong-gateway''] 1300 token =
      Inl (S2STokenError ''S2S token is expired'')"
proof -
  obtain token where t: "create_s2s_token demo_dsa demo_signer ''kong-gateway'' ''kong'' ''internal-upstream'' ''t1''
      300 1000 (Some ''j1'') ''j2'' [(''scope'', JStr ''r'')] = Inr token"
    and pl: "plain (JObj (s2s_payload ''kong-gateway'' ''kong'' ''internal-upstream'' ''t1'' 300 1000
      (str_or (Some ''j1'') ''j2'') @ [(''scope'', JStr ''r'')]))" by (rule demo_token)
  have "public_key (demo_signer\<lparr>private_key := None\<rparr>) = public_key demo_signer" by simp
  note rt = s2s_round_trip [OF demo_signer_ready this t pl, of demo_float "''internal-upstream''" "[''kong-gateway'']"]
  from rt [of 1299] rt [of 1300] t show ?thesis by (auto simp: s2s_payload_def)
qed

text \<open>
  C15.  What an accepted token proves: it has three parts; the header names ML-DSA-65 and JWT; the
  third part is a signature of the first two, joined by a full stop, under the verifier's public
  key; the returned claims are what the second part encodes, all seven required ones present, not
  yet expired, for the expected audience and from an allowed issuer.
\<close>

theorem s2s_accepted:
  assumes "verify_s2s_token lib fi s audience issuers now token = Inr claims"
  shows "\<exists>h p g header pk raw issuer exp_claim expires_at.
    split_on CHR ''.'' token = [h, p, g] \<and> json_from_b64url h ''header'' = Inr header \<and>
    dict_get header ''alg'' = Some (JStr ML_DSA_ALGORITHM) \<and> dict_get header ''typ'' = Some (JStr TOKEN_TYP) \<and>
    json_from_b64url p ''payload'' = Inr claims \<and> urlsafe_b64decode (pad_b64 g) = Some raw \<and>
    public_key s = Some pk \<and> dsa_verify lib pk (h @ ''.'' @ p) raw = Inr True \<and>
    (\<forall>k\<in>set REQUIRED_S2S_CLAIMS. dict_get claims k \<noteq> None) \<and>
    dict_get claims ''exp'' = Some exp_claim \<and> py_int_json fi exp_claim = Inr expires_at \<and> now < expires_at \<and>
    dict_get claims ''aud'' = Some (JStr audience) \<and>
    dict_get claims ''iss'' = Some (JStr issuer) \<and> issuer \<in> set issuers"
proof -
  let ?parts = "split_on CHR ''.'' token"
  from assms have "length ?parts = 3" by (auto simp: verify_s2s_token_def Let_def split: if_splits)
  then obtain h p g where parts: "?parts = [h, p, g]" by (auto simp: length_Suc_conv numeral_3_eq_3)
  with assms obtain header payload sg where hd: "json_from_b64url h ''header'' = Inr header"
      "dict_get header ''alg'' = Some (JStr ML_DSA_ALGORITHM)" "dict_get header ''typ'' = Some (JStr TOKEN_TYP)"
    and p: "json_from_b64url p ''payload'' = Inr payload" and g: "b64_from_b64url g = Some sg"
    and v: "verify lib s (h @ ''.'' @ p) sg = Inr True"
    and c: "check_claims fi audience issuers now payload = Inr claims"
    by (auto simp: verify_s2s_token_def Let_def split: if_splits)
  from g obtain raw where raw: "urlsafe_b64decode (pad_b64 g) = Some raw" "sg = b64encode raw"
    by (auto simp: b64_from_b64url_def)
  from v raw(2) obtain pk where "public_key s = Some pk" "dsa_verify lib pk (h @ ''.'' @ p) raw = Inr True"
    by (auto elim: verify_Inr_True)
  with parts hd p raw(1) check_claims_Inr [OF c] show ?thesis by metis
qed

theorem s2s_accepted_witness:
  "\<exists>token claims. create_s2s_token demo_dsa demo_signer ''kong-gateway'' ''kong'' ''internal-upstream'' ''t1''
      300 1000 (Some ''j1'') ''j2'' [(''scope'', JStr ''r'')] = Inr token \<and>
    dict_get claims ''aud'' = Some (JStr ''internal-upstream'')"
proof -
  obtain token where t: "create_s2s_token demo_dsa demo_signer ''kong-gateway'' ''kong'' ''internal-upstream'' ''t1''
      300 1000 (Some ''j1'') ''j2'' [(''scope'', JStr ''r'')] = Inr token"
    and pl: "plain (JObj (s2s_payload ''kong-gateway'' ''kong'' ''internal-upstream'' ''t1'' 300 1000
      (str_or (Some ''j1'') ''j2'') @ [(''scope'', JStr ''r'')]))" by (rule demo_token)
  have "''kong-gateway'' \<in> set [''kong-gateway'']" "(1100 :: int) < 1000 + 300" by simp_all
  with verify_created [OF demo_signer_ready t pl] created_claims_accepted [OF pl]
  obtain c where "verify_s2s_token demo_dsa demo_float demo_signer ''internal-upstream'' [''kong-gateway''] 1100 token = Inr c"
    by metis
  from s2s_accepted [OF this] t show ?thesis by blast
qed

text \<open>
  C22.  Whoever does not hold the signing key can make the verifier raise nothing but
  \<open>S2STokenError\<close>: where the signer holds a public key of the right size, any other exception means
  that the token's signature verified under it.  The two such exceptions are \<open>OverflowError\<close>, of an infinite \<open>exp\<close>, and
  \<open>TypeError\<close>, of an \<open>iss\<close> that is a list or an object; the documented contract names only
  \<open>S2STokenError\<close>.
\<close>

theorem s2s_errors:
  assumes "\<And>x e. fi x = Inl e \<Longrightarrow> e = ValueError \<or> e = OverflowError"
    and "public_key s = Some pk" and "length pk = PUBLIC_KEY_SIZE lib"
    and "verify_s2s_token lib fi s audience issuers now token = Inl e" and "\<forall>m. e \<noteq> S2STokenError m"
  shows "\<exists>h p g raw. split_on CHR ''.'' token = [h, p, g] \<and> urlsafe_b64decode (pad_b64 g) = Some raw \<and>
    dsa_verify lib pk (h @ ''.'' @ p) raw = Inr True \<and> (e = OverflowError \<or> e = TypeError)"
proof -
  let ?parts = "split_on CHR ''.'' token"
  from assms(4,5) have "length ?parts = 3" by (auto simp: verify_s2s_token_def Let_def split: if_splits)
  then obtain h p g where parts: "?parts = [h, p, g]" by (auto simp: length_Suc_conv numeral_3_eq_3)
  have no: "json_from_b64url w l \<noteq> Inl e" for w l
    using assms(5) by (auto simp: json_from_b64url_def split: option.splits if_splits)
  with assms(4,5) parts obtain header where hd: "json_from_b64url h ''header'' = Inr header"
    by (cases "json_from_b64url h ''header''") (auto simp: verify_s2s_token_def Let_def split: if_splits)
  with no assms(4,5) parts obtain payload where pl: "json_from_b64url p ''payload'' = Inr payload"
    by (cases "json_from_b64url p ''payload''") (auto simp: verify_s2s_token_def Let_def split: if_splits)
  have ascii: "is_ascii (h @ ''.'' @ p)" using hd pl [THEN json_part_ascii] by (simp add: json_part_ascii code_def)
  from hd pl assms(4,5) parts obtain sg where g: "b64_from_b64url g = Some sg"
    by (cases "b64_from_b64url g") (auto simp: verify_s2s_token_def Let_def split: if_splits)
  then obtain raw where raw: "urlsafe_b64decode (pad_b64 g) = Some raw" "sg = b64encode raw"
    by (auto simp: b64_from_b64url_def)
  obtain ok where ok: "verify lib s (h @ ''.'' @ p) sg = Inr ok"
    using verify_total [OF assms(2,3)] by (meson rangeE)
  with assms(4,5) parts hd pl g ascii have ok_True: "ok"
    and c: "check_claims fi audience issuers now payload = Inl e"
    by (auto simp: verify_s2s_token_def Let_def split: if_splits)
  from ok ok_True raw(2) assms(2) have v: "dsa_verify lib pk (h @ ''.'' @ p) raw = Inr True"
    by (auto elim!: verify_Inr_True)
  have "e = OverflowError \<or> e = TypeError" using check_claims_Inl [OF _ c] assms(1,5) by blast
  with parts raw(1) v show ?thesis by blast
qed

theorem s2s_errors_witness:
  "\<exists>h p g raw. split_on CHR ''.'' endless_token = [h, p, g] \<and> urlsafe_b64decode (pad_b64 g) = Some raw \<and>
    dsa_verify demo_dsa ''P'' (h @ ''.'' @ p) raw = Inr True"
proof -
  have 1: "verify_s2s_token demo_dsa demo_float demo_signer ''a'' [] 1 endless_token = Inl OverflowError"
    by code_simp
  have 2: "public_key demo_signer = Some ''P''" "length ''P'' = PUBLIC_KEY_SIZE demo_dsa"
    by (simp_all add: demo_signer_def demo_dsa_def)
  have 3: "demo_float x = Inl e \<Longrightarrow> e = ValueError \<or> e = OverflowError" for x e
    by (auto simp: demo_float_def split: if_splits)
  from s2s_errors [OF _ 2 1] 3 show ?thesis by blast
qed

end
