(* ===== verification/Mldsa_Mtls.thy ===== *)
theory Mldsa_Mtls
  imports S2S_Token Tenant_Guard
begin

text \<open>
  shared/internal_mldsa_mtls.py and the composition of the application in every main.py: the guard
  that lets only requests with the gateway's ML-DSA assertion through, around the request context
  middleware, around the error handler, around the routes.

  \<open>guarded\<close> is the state of an application process: the signer the guard has cached and the world
  of the services.  \<open>guard_lib\<close> holds what the guard calls outside the repository: the signature
  package, \<open>int\<close> of a float numeral, the file system and the clock.
\<close>

record guard_lib =
  guard_dsa :: ml_dsa
  guard_float :: "string \<Rightarrow> int result"
  read_text :: "string \<Rightarrow> string result"
  guard_clock :: int

record guarded =
  guard_signer :: "signer option"
  inner :: world

section \<open>The guard\<close>

definition is_health_path :: "string \<Rightarrow> bool" where
  "is_health_path path = startswith ''/health/'' path"

text \<open>The key file as a signer without a private key.\<close>

definition load_public_key :: "guard_lib \<Rightarrow> settings \<Rightarrow> signer result" where
  "load_public_key gl s =
     bindE (read_text gl (internal_mldsa_public_key_file s)) (\<lambda>text.
     bindE (of_option ValueError (b64decode True (space_strip text))) (\<lambda>pk.
     Inr \<lparr>key_path = S2S_SIGNING_KEY_PATH, mount_point = DEFAULT_KV_MOUNT,
          public_key = Some pk, private_key = None\<rparr>))"

definition get_signer :: "guard_lib \<Rightarrow> settings \<Rightarrow> (guarded, signer) prog" where
  "get_signer gl s g =
     (case guard_signer g of
        Some sg \<Rightarrow> (Inr sg, g)
      | None \<Rightarrow>
          (case load_public_key gl s of
             Inl e \<Rightarrow> (Inl e, g)
           | Inr sg \<Rightarrow> (Inr sg, g\<lparr>guard_signer := Some sg\<rparr>)))"

text \<open>A program of the services, run by the guard.\<close>

definition in_world :: "(world, 'a) prog \<Rightarrow> (guarded, 'a) prog" where
  "in_world m g = (case m (inner g) of (r, w) \<Rightarrow> (r, g\<lparr>inner := w\<rparr>))"

definition guard_warning :: "string \<Rightarrow> (string \<times> log_value) list \<Rightarrow> request \<Rightarrow> (guarded, unit) prog" where
  "guard_warning event details req =
     in_world (log WARNING event ([(''event'', LStr event), (''path'', LStr (req_path req))] @ details))"

definition unauthorized :: "string \<Rightarrow> 'b response" where
  "unauthorized msg = \<lparr>status_code = 401, body = Detail msg, resp_headers = []\<rparr>"

text \<open>The \<open>try\<close>: the claims of an accepted assertion, or \<open>None\<close> after the warning of the \<open>except\<close>.\<close>

definition assertion_claims ::
    "guard_lib \<Rightarrow> settings \<Rightarrow> request \<Rightarrow> string \<Rightarrow> (guarded, json option) prog" where
  "assertion_claims gl s req token =
     catchM
       (bindM (get_signer gl s) (\<lambda>sg.
        bindM (liftE (verify_s2s_token (guard_dsa gl) (guard_float gl) sg (internal_mldsa_expected_audience s)
                 [internal_mldsa_allowed_issuer s] (guard_clock gl) token)) (\<lambda>claims.
        ret (Some claims))))
       (\<lambda>e. case e of
          PQCKeyError m \<Rightarrow>
            bindM (guard_warning ''internal_mldsa_mtls.invalid'' [(''reason'', LStr m)] req) (\<lambda>_. ret None)
        | S2STokenError m \<Rightarrow>
            bindM (guard_warning ''internal_mldsa_mtls.invalid'' [(''reason'', LStr m)] req) (\<lambda>_. ret None)
        | _ \<Rightarrow> throw e)"

definition mtls_dispatch ::
    "guard_lib \<Rightarrow> settings \<Rightarrow> (request \<Rightarrow> (world, 'b response) prog) \<Rightarrow> request \<Rightarrow> (guarded, 'b response) prog" where
  "mtls_dispatch gl s call_next req =
     (if \<not> internal_mldsa_mtls_required s \<or> is_health_path (req_path req)
      then in_world (in_child_task (call_next req))
      else
        (let token = str_or (req_headers req (internal_mldsa_token_header s)) [] in
         if token = []
         then bindM (guard_warning ''internal_mldsa_mtls.missing'' [] req) (\<lambda>_.
              ret (unauthorized ''Missing ML-DSA upstream client assertion''))
         else bindM (assertion_claims gl s req token) (\<lambda>claims.
              if claims = None then ret (unauthorized ''Invalid ML-DSA upstream client assertion'')
              else in_world (in_child_task (call_next req)))))"

section \<open>The application\<close>

text \<open>
  Starlette runs the middleware added last first: the guard is outermost, the request context
  inside it, the error handler next to the routes.
\<close>

definition serve ::
    "guard_lib \<Rightarrow> settings \<Rightarrow> string \<Rightarrow> string \<Rightarrow> (request \<Rightarrow> (world, 'b response) prog) \<Rightarrow>
     request \<Rightarrow> (guarded, 'b response) prog" where
  "serve gl s new_id latency route req =
     mtls_dispatch gl s (dispatch s new_id latency (with_error_handlers route)) req"

text \<open>The two health routes; \<open>database_ready\<close> is the outcome of \<open>check_database_ready\<close>.\<close>

definition live :: "settings \<Rightarrow> (string \<times> string) list response" where
  "live s = \<lparr>status_code = 200, body = Payload [(''status'', ''live''), (''service'', service_name s)], resp_headers = []\<rparr>"

definition ready :: "settings \<Rightarrow> bool \<Rightarrow> (string \<times> string) list response" where
  "ready s database_ready =
     (if database_ready
      then \<lparr>status_code = 200, body = Payload [(''status'', ''ready''), (''service'', service_name s),
              (''database'', ''ok'')], resp_headers = []\<rparr>
      else \<lparr>status_code = 503, body = Payload [(''status'', ''not_ready''), (''service'', service_name s),
              (''database'', ''unavailable'')], resp_headers = []\<rparr>)"

section \<open>Lemmas\<close>

lemma in_world_eq: "in_world m g = (r, g') \<longleftrightarrow> (\<exists>w. m (inner g) = (r, w) \<and> g' = g\<lparr>inner := w\<rparr>)"
  by (auto simp: in_world_def split: prod.splits)

definition guard_record :: "string \<Rightarrow> (string \<times> log_value) list \<Rightarrow> request \<Rightarrow> log_record" where
  "guard_record ev details req = \<lparr>severity = WARNING, message = ev,
     extra = [(''event'', LStr ev), (''path'', LStr (req_path req))] @ details\<rparr>"

lemma guard_record_severity [simp]: "severity (guard_record ev details req) = WARNING"
  by (simp add: guard_record_def)

lemma guard_warning_eq:
  "guard_warning ev details req g =
     (Inr (), g\<lparr>inner := inner g\<lparr>logs := logs (inner g) @ [guard_record ev details req]\<rparr>\<rparr>)"
  by (simp add: guard_warning_def in_world_def guard_record_def)

lemma get_signer_inner:
  assumes "get_signer gl s g = (r, g')"
  shows "inner g' = inner g"
  using assms by (auto simp: get_signer_def split: option.splits sum.splits)

lemma get_signer_Inr:
  assumes "get_signer gl s g = (Inr sg, g')"
  shows "guard_signer g' = Some sg" and "guard_signer g = Some sg \<or> load_public_key gl s = Inr sg"
  using assms by (auto simp: get_signer_def split: option.splits sum.splits)

text \<open>
  What the \<open>try\<close> comes to: accepted claims and an unchanged world; a refusal that leaves one
  warning; or an exception with the world unchanged.
\<close>

lemma assertion_cases:
  assumes "assertion_claims gl s req token g = (res, g')"
  obtains sg claims where "res = Inr (Some claims)" and "get_signer gl s g = (Inr sg, g')" and "inner g' = inner g"
      and "verify_s2s_token (guard_dsa gl) (guard_float gl) sg (internal_mldsa_expected_audience s)
             [internal_mldsa_allowed_issuer s] (guard_clock gl) token = Inr claims"
  | r where "res = Inr None" and "severity r = WARNING" and "inner g' = inner g\<lparr>logs := logs (inner g) @ [r]\<rparr>"
  | e where "res = Inl e" and "inner g' = inner g"
proof -
  obtain r g1 where gs: "get_signer gl s g = (r, g1)" by fastforce
  note inner = get_signer_inner [OF gs]
  let ?ver = "\<lambda>sg. verify_s2s_token (guard_dsa gl) (guard_float gl) sg (internal_mldsa_expected_audience s)
             [internal_mldsa_allowed_issuer s] (guard_clock gl) token"
  show thesis
  proof (cases "bindE r ?ver")
    case (Inr claims)
    then obtain sg where "r = Inr sg" and "?ver sg = Inr claims" by (cases r) auto
    with assms gs have "res = Inr (Some claims)" "g' = g1" "get_signer gl s g = (Inr sg, g')"
      by (simp_all add: assertion_claims_def catchM_def bindM_def liftE_def)
    with inner that(1) \<open>?ver sg = Inr claims\<close> show thesis by blast
  next
    case (Inl e)
    then have "assertion_claims gl s req token g = (case e of
          PQCKeyError m \<Rightarrow> bindM (guard_warning ''internal_mldsa_mtls.invalid'' [(''reason'', LStr m)] req) (\<lambda>_. ret None)
        | S2STokenError m \<Rightarrow> bindM (guard_warning ''internal_mldsa_mtls.invalid'' [(''reason'', LStr m)] req) (\<lambda>_. ret None)
        | _ \<Rightarrow> throw e) g1"
      using gs by (cases r) (auto simp: assertion_claims_def catchM_def bindM_def liftE_def)
    with assms inner that(2) [OF _ guard_record_severity] that(3) show thesis
      by (cases e) (auto simp: bindM_def guard_warning_eq)
  qed
qed

lemma mtls_refuses_missing:
  assumes "internal_mldsa_mtls_required s" and "\<not> is_health_path (req_path req)"
    and "str_or (req_headers req (internal_mldsa_token_header s)) [] = []"
  shows "\<exists>r. severity r = WARNING \<and> mtls_dispatch gl s call_next req g =
    (Inr (unauthorized ''Missing ML-DSA upstream client assertion''), g\<lparr>inner := inner g\<lparr>logs := logs (inner g) @ [r]\<rparr>\<rparr>)"
  using assms
  by (intro exI [of _ "guard_record ''internal_mldsa_mtls.missing'' [] req"])
    (simp add: mtls_dispatch_def Let_def bindM_def guard_warning_eq)

lemma mtls_with_token:
  assumes "internal_mldsa_mtls_required s" and "\<not> is_health_path (req_path req)"
    and "req_headers req (internal_mldsa_token_header s) = Some token" and "token \<noteq> []"
  shows "mtls_dispatch gl s call_next req = bindM (assertion_claims gl s req token) (\<lambda>claims.
    if claims = None then ret (unauthorized ''Invalid ML-DSA upstream client assertion'')
    else in_world (in_child_task (call_next req)))"
  using assms by (simp add: mtls_dispatch_def Let_def str_or_def truthy_def)

text \<open>The guard has this public key: in its cached signer or, before its first use, in the key file.\<close>

definition holds_key :: "guard_lib \<Rightarrow> settings \<Rightarrow> string \<Rightarrow> guarded \<Rightarrow> bool" where
  "holds_key gl s pk g \<longleftrightarrow>
     (case guard_signer g of
        Some sg \<Rightarrow> public_key sg = Some pk
      | None \<Rightarrow>
          (case read_text gl (internal_mldsa_public_key_file s) of
             Inl _ \<Rightarrow> False | Inr text \<Rightarrow> space_strip text = b64encode pk))"

lemma holds_key_signer:
  assumes "holds_key gl s pk g"
  obtains sg where "get_signer gl s g = (Inr sg, g\<lparr>guard_signer := Some sg\<rparr>)" and "public_key sg = Some pk"
proof (cases "guard_signer g")
  case None
  with assms that show thesis
    by (auto simp: holds_key_def get_signer_def load_public_key_def split: sum.splits)
next
  case (Some sg)
  then have "g\<lparr>guard_signer := Some sg\<rparr> = g" by simp
  with Some assms that [of sg] show thesis by (simp add: holds_key_def get_signer_def)
qed

lemma in_world_signer: "guard_signer (snd (in_world m g)) = guard_signer g"
  by (simp add: in_world_def split: prod.split)

section \<open>A concrete guard\<close>

definition demo_guard :: guard_lib where
  "demo_guard = \<lparr>guard_dsa = demo_dsa, guard_float = demo_float,
     read_text = (\<lambda>_. Inr (b64encode ''P'' @ [char_of (10 :: int)])), guard_clock = 1100\<rparr>"

definition guarded_settings :: settings where
  "guarded_settings = demo_settings\<lparr>internal_mldsa_mtls_required := True,
     internal_mldsa_token_header := ''X-Internal-MLDSA-Token'',
     internal_mldsa_expected_audience := ''internal-upstream'', internal_mldsa_allowed_issuer := ''kong-gateway''\<rparr>"

section \<open>Properties\<close>

text \<open>
  C4.  Where the guard is required, a request outside \<open>/health/\<close> reaches the service only with an
  assertion that verifies under the public key of the key file, for the service's audience and from
  the allowed issuer; it then is served unchanged.  Every other one ends in a 401 that leaves one
  warning in the log, or in an exception that leaves no trace; neither touches the database.
\<close>

theorem only_attested_requests:
  assumes "internal_mldsa_mtls_required s" and "\<not> is_health_path (req_path req)"
    and "serve gl s new_id latency route req g = (res, g')"
  shows "(\<exists>token sg claims. req_headers req (internal_mldsa_token_header s) = Some token \<and>
      (guard_signer g = Some sg \<or> load_public_key gl s = Inr sg) \<and> guard_signer g' = Some sg \<and>
      verify_s2s_token (guard_dsa gl) (guard_float gl) sg (internal_mldsa_expected_audience s)
        [internal_mldsa_allowed_issuer s] (guard_clock gl) token = Inr claims \<and>
      in_child_task (dispatch s new_id latency (with_error_handlers route) req) (inner g) = (res, inner g')) \<or>
    (\<exists>resp r. res = Inr resp \<and> status_code resp = 401 \<and> severity r = WARNING \<and>
      inner g' = inner g\<lparr>logs := logs (inner g) @ [r]\<rparr>) \<or>
    (\<exists>e. res = Inl e \<and> inner g' = inner g)"
proof (cases "str_or (req_headers req (internal_mldsa_token_header s)) [] = []")
  case True
  let ?next = "dispatch s new_id latency (with_error_handlers route)"
  from mtls_refuses_missing [OF assms(1,2) True] obtain r where r: "severity r = WARNING"
    and "mtls_dispatch gl s ?next req g = (Inr (unauthorized ''Missing ML-DSA upstream client assertion''),
      g\<lparr>inner := inner g\<lparr>logs := logs (inner g) @ [r]\<rparr>\<rparr>)" by blast
  with assms(3) have "res = Inr (unauthorized ''Missing ML-DSA upstream client assertion'')"
    and "inner g' = inner g\<lparr>logs := logs (inner g) @ [r]\<rparr>"
    by (auto simp: serve_def)
  with r show ?thesis by (auto simp: unauthorized_def)
next
  case False
  then obtain token where t: "req_headers req (internal_mldsa_token_header s) = Some token" "token \<noteq> []"
    by (auto simp: str_or_def truthy_def split: option.splits if_splits)
  obtain r1 g1 where a: "assertion_claims gl s req token g = (r1, g1)" by fastforce
  let ?next = "dispatch s new_id latency (with_error_handlers route)"
  from assms(3) a mtls_with_token [OF assms(1,2) t, of gl ?next] have m:
    "(case r1 of Inl e \<Rightarrow> (Inl e, g1) | Inr claims \<Rightarrow>
       (if claims = None then ret (unauthorized ''Invalid ML-DSA upstream client assertion'')
        else in_world (in_child_task (?next req))) g1) = (res, g')"
    by (simp add: serve_def bindM_def)
  from a show ?thesis
  proof (cases rule: assertion_cases)
    case (1 sg claims)
    with m t get_signer_Inr [OF 1(2)] have "in_child_task (?next req) (inner g) = (res, inner g')"
      "guard_signer g' = Some sg"
      by (auto simp: in_world_eq)
    with 1 t get_signer_Inr [OF 1(2)] show ?thesis by blast
  next
    case (2 r)
    with m show ?thesis by (auto simp: unauthorized_def)
  next
    case (3 e)
    with m show ?thesis by auto
  qed
qed

theorem only_attested_requests_witness:
  "db (inner (snd (serve demo_guard guarded_settings ''id'' ''0.42'' (\<lambda>_. bindM (modify (db_update (\<lambda>d. d\<lparr>tenants := []\<rparr>))) (\<lambda>_. ret (unauthorized [] :: unit response)))
     \<lparr>req_method = ''GET'', req_path = ''/api/v1/users'', req_headers = (\<lambda>_. None)\<rparr>
     \<lparr>guard_signer = None, inner = demo_world demo_db\<rparr>))) = demo_db"
proof -
  let ?route = "\<lambda>_. bindM (modify (db_update (\<lambda>d. d\<lparr>tenants := []\<rparr>))) (\<lambda>_. ret (unauthorized [] :: unit response))"
  let ?req = "\<lparr>req_method = ''GET'', req_path = ''/api/v1/users'', req_headers = (\<lambda>_. None)\<rparr>"
  let ?g = "\<lparr>guard_signer = None, inner = demo_world demo_db\<rparr>"
  obtain res g' where s: "serve demo_guard guarded_settings ''id'' ''0.42'' ?route ?req ?g = (res, g')" by fastforce
  have "internal_mldsa_mtls_required guarded_settings" "\<not> is_health_path (req_path ?req)"
    by (simp_all add: guarded_settings_def is_health_path_def startswith_def)
  from only_attested_requests [OF this s] have "db (inner g') = demo_db" by (auto simp: demo_world_def)
  then show ?thesis by (simp only: s snd_conv)
qed

text \<open>
  C21.  The gateway gets through, on the first request of a process and on every later one: where the
  guard holds the gateway's public key, in the signer it has cached or, before the first guarded
  request, in the key file, a request with a token that the gateway makes with its signing key, for the
  audience and under the issuer the service expects, and sent before it expires, is served exactly as
  without a guard, and the guard holds the key afterwards too.  The claims of the token are \<open>plain\<close>:
  their strings are ASCII, their integers have at most 4300 digits, their floats are numerals and the
  keys of an object are distinct.
\<close>

theorem gateway_request_served:
  assumes "signer_ready (guard_dsa gl) gateway" and "public_key gateway = Some pk" and "holds_key gl s pk g"
    and "create_s2s_token (guard_dsa gl) gateway (internal_mldsa_allowed_issuer s) subject
      (internal_mldsa_expected_audience s) tenant_id ttl t given_id token_id extras = Inr token"
    and "plain (JObj (s2s_payload (internal_mldsa_allowed_issuer s) subject (internal_mldsa_expected_audience s)
      tenant_id ttl t (str_or given_id token_id) @ extras))"
    and "guard_clock gl < t + ttl"
    and "req_headers req (internal_mldsa_token_header s) = Some token"
  shows "\<exists>g1. inner g1 = inner g \<and> holds_key gl s pk (snd (serve gl s new_id latency route req g)) \<and>
    serve gl s new_id latency route req g =
      in_world (in_child_task (dispatch s new_id latency (with_error_handlers route) req)) g1"
proof (cases "internal_mldsa_mtls_required s \<and> \<not> is_health_path (req_path req)")
  case False
  then have "serve gl s new_id latency route req g =
      in_world (in_child_task (dispatch s new_id latency (with_error_handlers route) req)) g"
    by (auto simp: serve_def mtls_dispatch_def)
  with assms(3) show ?thesis by (intro exI [of _ g]) (simp add: holds_key_def in_world_signer)
next
  case True
  from assms(3) obtain sg where gs: "get_signer gl s g = (Inr sg, g\<lparr>guard_signer := Some sg\<rparr>)"
    and pk: "public_key sg = Some pk" by (rule holds_key_signer)
  have "public_key gateway = public_key sg" using assms(2) pk by simp
  from verify_s2s_public [OF this] verify_created [OF assms(1,4,5)] created_claims_accepted [OF assms(5,6)]
  obtain claims where v: "verify_s2s_token (guard_dsa gl) (guard_float gl) sg (internal_mldsa_expected_audience s)
      [internal_mldsa_allowed_issuer s] (guard_clock gl) token = Inr claims"
    by (metis list.set_intros(1))
  have "token \<noteq> []" using v by (auto simp: verify_s2s_token_def)
  with True assms(7) have "mtls_dispatch gl s (dispatch s new_id latency (with_error_handlers route)) req =
      bindM (assertion_claims gl s req token) (\<lambda>claims.
        if claims = None then ret (unauthorized ''Invalid ML-DSA upstream client assertion'')
        else in_world (in_child_task (dispatch s new_id latency (with_error_handlers route) req)))"
    by (intro mtls_with_token) auto
  moreover have "assertion_claims gl s req token g = (Inr (Some claims), g\<lparr>guard_signer := Some sg\<rparr>)"
    using gs v by (simp add: assertion_claims_def catchM_def bindM_def liftE_def)
  ultimately have "serve gl s new_id latency route req g =
      in_world (in_child_task (dispatch s new_id latency (with_error_handlers route) req)) (g\<lparr>guard_signer := Some sg\<rparr>)"
    by (simp add: serve_def bindM_def)
  with pk show ?thesis
    by (intro exI [of _ "g\<lparr>guard_signer := Some sg\<rparr>"]) (simp add: holds_key_def in_world_signer)
qed

text \<open>The first guarded request of a process, and a later one.\<close>

definition cached_demo_signer :: signer where
  "cached_demo_signer =
     \<lparr>key_path = S2S_SIGNING_KEY_PATH, mount_point = DEFAULT_KV_MOUNT, public_key = Some ''P'', private_key = None\<rparr>"

theorem gateway_request_served_witness:
  "\<exists>token req g1 g2. req = \<lparr>req_method = ''GET'', req_path = ''/api/v1/users'', req_headers = [''X-Internal-MLDSA-Token'' \<mapsto> token]\<rparr> \<and>
    inner g1 = demo_world demo_db \<and> inner g2 = demo_world demo_db \<and>
    serve demo_guard guarded_settings ''id'' ''0.42'' (\<lambda>_. ret (live guarded_settings)) req
      \<lparr>guard_signer = None, inner = demo_world demo_db\<rparr> =
    in_world (in_child_task (dispatch guarded_settings ''id'' ''0.42'' (with_error_handlers (\<lambda>_. ret (live guarded_settings))) req)) g1 \<and>
    serve demo_guard guarded_settings ''id'' ''0.42'' (\<lambda>_. ret (live guarded_settings)) req
      \<lparr>guard_signer = Some cached_demo_signer, inner = demo_world demo_db\<rparr> =
    in_world (in_child_task (dispatch guarded_settings ''id'' ''0.42'' (with_error_handlers (\<lambda>_. ret (live guarded_settings))) req)) g2"
proof -
  obtain token where t: "create_s2s_token demo_dsa demo_signer ''kong-gateway'' ''kong'' ''internal-upstream'' ''t1''
      300 1000 (Some ''j1'') ''j2'' [(''scope'', JStr ''r'')] = Inr token"
    and pl: "plain (JObj (s2s_payload ''kong-gateway'' ''kong'' ''internal-upstream'' ''t1'' 300 1000
      (str_or (Some ''j1'') ''j2'') @ [(''scope'', JStr ''r'')]))" by (rule demo_token)
  let ?req = "\<lparr>req_method = ''GET'', req_path = ''/api/v1/users'', req_headers = [''X-Internal-MLDSA-Token'' \<mapsto> token]\<rparr>"
  have strip: "space_strip (b64encode ''P'' @ [char_of (10 :: int)]) = b64encode ''P''" by code_simp
  have n: "guard_dsa demo_guard = demo_dsa" "internal_mldsa_allowed_issuer guarded_settings = ''kong-gateway''"
    "internal_mldsa_expected_audience guarded_settings = ''internal-upstream''"
    "internal_mldsa_token_header guarded_settings = ''X-Internal-MLDSA-Token''" "guard_clock demo_guard < 1000 + 300"
    by (simp_all add: demo_guard_def guarded_settings_def)
  have pk: "public_key demo_signer = Some ''P''" by (simp add: demo_signer_def)
  have hold: "holds_key demo_guard guarded_settings ''P'' \<lparr>guard_signer = None, inner = demo_world demo_db\<rparr>"
    "holds_key demo_guard guarded_settings ''P'' \<lparr>guard_signer = Some cached_demo_signer, inner = demo_world demo_db\<rparr>"
    using strip by (simp_all add: holds_key_def demo_guard_def cached_demo_signer_def)
  note served = gateway_request_served [where gl = demo_guard and s = guarded_settings and req = ?req,
      unfolded n(1-4), OF demo_signer_ready pk _ t pl n(5)]
  from served [OF hold(1), of "''id''" "''0.42''" "\<lambda>_. ret (live guarded_settings)"]
    served [OF hold(2), of "''id''" "''0.42''" "\<lambda>_. ret (live guarded_settings)"]
  show ?thesis by (intro exI [of _ token] exI [of _ ?req]) auto
qed

end
