(* ===== verification/Applications.thy ===== *)
theory Applications
  imports Mldsa_Mtls Resource_Service User_Service Stripe_Webhook Admin_Service
begin

text \<open>
  The four \<open>main.py\<close>: each application with its health routes, its metadata routes, its API and its
  middleware, as one function of an HTTP request and the state of the process.

  FastAPI turns a request into the call of a route; \<open>call_of\<close> is that step (path, parameters and a
  decoded body; on the left where it answers 404, 405 or 422 itself), \<open>bearer_token\<close> what \<open>HTTPBearer\<close> takes
  out of the request, and \<open>probe\<close> the \<open>SELECT 1\<close> on a connection of its own.
\<close>

section \<open>Routes of an application\<close>

datatype 'r reply = Health "(string \<times> string) list" | Info service_info | Answer 'r

record 'c http_lib =
  bearer_token :: "request \<Rightarrow> string option"
  call_of :: "request \<Rightarrow> (int \<times> string) + 'c"
  probe :: "database \<Rightarrow> unit result"

text \<open>\<open>check_database_ready\<close> of db/database.py: whatever the probe raises is a \<open>False\<close>.\<close>

definition check_database_ready :: "'c http_lib \<Rightarrow> (world, bool) prog" where
  "check_database_ready h w = (case probe h (db w) of Inl _ \<Rightarrow> (Inr False, w) | Inr _ \<Rightarrow> (Inr True, w))"

definition health_response :: "(string \<times> string) list response \<Rightarrow> 'r reply response" where
  "health_response r =
     \<lparr>status_code = status_code r, body = (case body r of Payload p \<Rightarrow> Payload (Health p) | ErrorBody x \<Rightarrow> ErrorBody x | Detail m \<Rightarrow> Detail m
         | Unprocessable \<Rightarrow> Unprocessable),
      resp_headers = resp_headers r\<rparr>"

definition is_get :: "string \<Rightarrow> request \<Rightarrow> bool" where
  "is_get path req \<longleftrightarrow> req_method req = ''GET'' \<and> req_path req = path"

text \<open>
  \<open>infos\<close> are the metadata routes, which need no user; \<open>success\<close> is the declared status of a route.
\<close>

definition app_routes ::
    "settings \<Rightarrow> 'c http_lib \<Rightarrow> (string \<times> service_info) list \<Rightarrow> ('c \<Rightarrow> int) \<Rightarrow> (request \<Rightarrow> 'c \<Rightarrow> (world, 'r) prog) \<Rightarrow>
     request \<Rightarrow> (world, 'r reply response) prog" where
  "app_routes s h infos success run req =
     (if is_get ''/health/live'' req then ret (health_response (live s))
      else if is_get ''/health/ready'' req
      then bindM (check_database_ready h) (\<lambda>ok. ret (health_response (ready s ok)))
      else
        (case find (\<lambda>(path, i). is_get path req) infos of
           Some (path, i) \<Rightarrow> ret \<lparr>status_code = 200, body = Payload (Info i), resp_headers = []\<rparr>
         | None \<Rightarrow>
             (case call_of h req of
                Inl (st, detail) \<Rightarrow> ret \<lparr>status_code = st, body = Detail detail, resp_headers = []\<rparr>
              | Inr call \<Rightarrow>
                  bindM (run req call) (\<lambda>r.
                  ret \<lparr>status_code = success call, body = Payload (Answer r), resp_headers = []\<rparr>))))"

section \<open>The four applications\<close>

fun resource_status :: "'u resource_call \<Rightarrow> int" where
  "resource_status (CreateResource k d) = 201"
| "resource_status (RemoveResource k) = 204"
| "resource_status c = 200"

fun user_status_code :: "user_call \<Rightarrow> int" where
  "user_status_code (CreateUser k d) = 201"
| "user_status_code (DeactivateUser s) = 204"
| "user_status_code c = 200"

fun admin_status :: "admin_call \<Rightarrow> int" where
  "admin_status (OnboardTenant k d) = 201"
| "admin_status c = 200"

text \<open>The payment application has the Stripe webhook beside its API.\<close>

datatype payment_request = ApiCall payment_call | StripeDelivery uuid string

datatype payment_answer = ApiAnswer payment_reply | DeliveryAnswer webhook_ack

fun payment_status :: "payment_request \<Rightarrow> int" where
  "payment_status (ApiCall (CreateIntent ids d)) = 201"
| "payment_status c = 200"

definition user_app ::
    "guard_lib \<Rightarrow> 'k env \<Rightarrow> user_lib \<Rightarrow> user_call http_lib \<Rightarrow> string \<Rightarrow> string \<Rightarrow> request \<Rightarrow>
     (guarded, user_row list reply response) prog" where
  "user_app gl e ul h new_id latency =
     serve gl (env_settings e) new_id latency
       (app_routes (env_settings e) h [(''/api/v1/users/metadata'', users_metadata)] user_status_code
          (\<lambda>req. user_api e ul (bearer_token h req)))"

definition resource_app ::
    "guard_lib \<Rightarrow> 'k env \<Rightarrow> 'u url_lib \<Rightarrow> 'u resource_call http_lib \<Rightarrow> string \<Rightarrow> string \<Rightarrow> request \<Rightarrow>
     (guarded, resource_row list reply response) prog" where
  "resource_app gl e ul h new_id latency =
     serve gl (env_settings e) new_id latency
       (app_routes (env_settings e) h [(''/api/v1/resources/metadata'', resources_metadata)] resource_status
          (\<lambda>req. resource_api e ul (bearer_token h req)))"

definition payment_app ::
    "guard_lib \<Rightarrow> 'k env \<Rightarrow> 'v pay_lib \<Rightarrow> payment_request http_lib \<Rightarrow> string \<Rightarrow> string \<Rightarrow> request \<Rightarrow>
     (guarded, payment_answer reply response) prog" where
  "payment_app gl e pl h new_id latency =
     serve gl (env_settings e) new_id latency
       (app_routes (env_settings e) h
          [(''/api/v1/payments/metadata'', payments_metadata), (''/api/v1/webhooks/metadata'', payments_metadata)]
          payment_status
          (\<lambda>req call. case call of
             ApiCall c \<Rightarrow> bindM (payment_api e pl (bearer_token h req) c) (\<lambda>r. ret (ApiAnswer r))
           | StripeDelivery k payload \<Rightarrow>
               bindM (stripe_webhook pl (env_settings e) (env_verdict e) k (req_headers req ''Stripe-Signature'') payload)
                 (\<lambda>a. ret (DeliveryAnswer a))))"

definition admin_app ::
    "guard_lib \<Rightarrow> 'k env \<Rightarrow> (string \<Rightarrow> int) \<Rightarrow> admin_call http_lib \<Rightarrow> string \<Rightarrow> string \<Rightarrow> request \<Rightarrow>
     (guarded, admin_reply reply response) prog" where
  "admin_app gl e name_rank h new_id latency =
     serve gl (env_settings e) new_id latency
       (app_routes (env_settings e) h [(''/api/v1/admin/metadata'', admin_metadata)] admin_status
          (\<lambda>req. admin_api e name_rank (bearer_token h req)))"

section \<open>Lemmas: what a request can reach\<close>

text \<open>The request carries an assertion that the guard accepts.\<close>

definition attested :: "guard_lib \<Rightarrow> settings \<Rightarrow> guarded \<Rightarrow> request \<Rightarrow> bool" where
  "attested gl s g req \<longleftrightarrow>
     (\<exists>token sg claims. req_headers req (internal_mldsa_token_header s) = Some token \<and>
       (guard_signer g = Some sg \<or> load_public_key gl s = Inr sg) \<and>
       verify_s2s_token (guard_dsa gl) (guard_float gl) sg (internal_mldsa_expected_audience s)
         [internal_mldsa_allowed_issuer s] (guard_clock gl) token = Inr claims)"

lemma dispatch_reaches:
  fixes w :: world
  assumes "dispatch s new_id latency (with_error_handlers route) req w = (r, v)"
  shows "\<exists>w0 r' v'. route req w0 = (r', v') \<and> db w0 = db w \<and> db v = db v'"
proof -
  obtain c where c: "c = \<lparr>request_id_var = Some (str_or (req_headers req (request_id_header s)) new_id),
      tenant_id_var = req_headers req (tenant_id_header s), user_id_var = req_headers req (user_id_header s)\<rparr>" by blast
  let ?w = "w\<lparr>ctx := c\<rparr>"
  obtain r' v' where route: "route req ?w = (r', v')" by fastforce
  have h: "db (snd (error_handlers req e u)) = db u" for e and u :: world
    by (cases e) (simp_all add: error_handlers_def api_error_handler_def bindM_def)
  have "db (snd (with_error_handlers route req ?w)) = db v'"
    using h by (auto simp: with_error_handlers_def catchM_def route split: sum.split)
  then have "db (snd (in_child_task (with_error_handlers route req) ?w)) = db v'"
    by (auto simp: in_child_task_def split: prod.split)
  then have "db (snd (dispatch_body s (str_or (req_headers req (request_id_header s)) new_id) latency
      (with_error_handlers route) req ?w)) = db v'"
    by (auto simp: dispatch_body_def catchM_def bindM_def split: prod.split sum.split)
  with assms have "db v = db v'"
    by (auto simp: dispatch_def set_request_context_def bindM_def Let_def c split: prod.splits)
  with route show ?thesis by (intro exI [of _ ?w] exI [of _ r'] exI [of _ v']) simp
qed

lemma serve_reaches:
  assumes "serve gl s new_id latency route req g = (res, g')"
  obtains "db (inner g') = db (inner g)"
  | w0 r v where "route req w0 = (r, v)" and "db w0 = db (inner g)" and "db v = db (inner g')"
    and "internal_mldsa_mtls_required s \<Longrightarrow> \<not> is_health_path (req_path req) \<Longrightarrow> attested gl s g req"
proof -
  let ?next = "dispatch s new_id latency (with_error_handlers route)"
  have through: "\<exists>w0 r v. route req w0 = (r, v) \<and> db w0 = db (inner g) \<and> db v = db (inner g')"
    if "in_world (in_child_task (?next req)) g1 = (res, g')" and "inner g1 = inner g" for g1
  proof -
    obtain r v where d: "?next req (inner g1) = (r, v)" by fastforce
    with that have "db (inner g') = db v" by (auto simp: in_world_def in_child_task_def)
    with dispatch_reaches [OF d] that(2) show ?thesis by metis
  qed
  show thesis
  proof (cases "internal_mldsa_mtls_required s \<and> \<not> is_health_path (req_path req)")
    case False
    with assms have "in_world (in_child_task (?next req)) g = (res, g')" by (auto simp: serve_def mtls_dispatch_def)
    with through [of g] that(2) False show thesis by blast
  next
    case True
    show thesis
    proof (cases "str_or (req_headers req (internal_mldsa_token_header s)) [] = []")
      case token: True
      with True mtls_refuses_missing [of s req gl ?next g] assms that(1) show thesis
        by (auto simp: serve_def)
    next
      case False
      then obtain token where tk: "req_headers req (internal_mldsa_token_header s) = Some token" "token \<noteq> []"
        by (auto simp: str_or_def truthy_def split: option.splits if_splits)
      obtain r1 g1 where a: "assertion_claims gl s req token g = (r1, g1)" by fastforce
      from assms a mtls_with_token [OF conjunct1 [OF True] conjunct2 [OF True] tk, of gl ?next] have m:
        "(case r1 of Inl e \<Rightarrow> (Inl e, g1) | Inr claims \<Rightarrow>
           (if claims = None then ret (unauthorized ''Invalid ML-DSA upstream client assertion'')
            else in_world (in_child_task (?next req))) g1) = (res, g')"
        by (simp add: serve_def bindM_def)
      from a show thesis
      proof (cases rule: assertion_cases)
        case (1 sg claims)
        with m have "in_world (in_child_task (?next req)) g1 = (res, g')" by simp
        moreover have "attested gl s g req"
          using 1 tk get_signer_Inr [OF 1(2)] by (auto simp: attested_def)
        ultimately show thesis using through [of g1] 1(3) that(2) by blast
      next
        case (2 r)
        with m that(1) show thesis by auto
      next
        case (3 e)
        with m that(1) show thesis by auto
      qed
    qed
  qed
qed

text \<open>Of the routes of an application, only a call of its API can change a table.\<close>

lemma app_routes_reach:
  assumes "app_routes s h infos success run req w = (res, v)" and "db v \<noteq> db w"
  obtains call r where "call_of h req = Inr call" and "run req call w = (r, v)"
proof -
  have "db (snd (check_database_ready h w)) = db w" by (auto simp: check_database_ready_def split: sum.split)
  with assms have "\<not> is_get ''/health/live'' req" "\<not> is_get ''/health/ready'' req"
    by (auto simp: app_routes_def bindM_def check_database_ready_def split: sum.splits if_splits)
  with assms obtain call where c: "call_of h req = Inr call"
    and b: "bindM (run req call) (\<lambda>r. ret \<lparr>status_code = success call, body = Payload (Answer r), resp_headers = []\<rparr>) w = (res, v)"
    by (auto simp: app_routes_def split: option.splits sum.splits)
  from bindM_ret_state [OF b] c that show thesis by blast
qed

lemma app_changes:
  assumes "serve gl s new_id latency (app_routes s h infos success run) req g = (res, g')"
    and "db (inner g') \<noteq> db (inner g)"
  obtains call w r v where "call_of h req = Inr call" and "run req call w = (r, v)"
    and "db w = db (inner g)" and "db v = db (inner g')"
    and "internal_mldsa_mtls_required s \<Longrightarrow> \<not> is_health_path (req_path req) \<Longrightarrow> attested gl s g req"
  using assms(1)
proof (cases rule: serve_reaches)
  case 1
  with assms(2) show thesis by simp
next
  case (2 w0 r v)
  from 2(1) show thesis
  proof (rule app_routes_reach)
    show "db v \<noteq> db w0" using 2 assms(2) by simp
  next
    fix call r'
    assume "call_of h req = Inr call" "run req call w0 = (r', v)"
    with 2 that show thesis by blast
  qed
qed

text \<open>What changes a table is a call of the API, or a delivery.\<close>

lemma user_app_changes:
  assumes "user_app gl e ul h new_id latency req g = (res, g')" and "db (inner g') \<noteq> db (inner g)"
  obtains call w r v where "user_api e ul (bearer_token h req) call w = (r, v)" and "db w = db (inner g)" and "db v = db (inner g')"
  using assms(1) [unfolded user_app_def] assms(2) that by (rule app_changes)

lemma resource_app_changes:
  assumes "resource_app gl e ul h new_id latency req g = (res, g')" and "db (inner g') \<noteq> db (inner g)"
  obtains call w r v where "resource_api e ul (bearer_token h req) call w = (r, v)" and "db w = db (inner g)" and "db v = db (inner g')"
  using assms(1) [unfolded resource_app_def] assms(2) that by (rule app_changes)

lemma admin_app_changes:
  assumes "admin_app gl e name_rank h new_id latency req g = (res, g')" and "db (inner g') \<noteq> db (inner g)"
  obtains call w r v where "admin_api e name_rank (bearer_token h req) call w = (r, v)" and "db w = db (inner g)" and "db v = db (inner g')"
  using assms(1) [unfolded admin_app_def] assms(2) that by (rule app_changes)

lemma payment_app_changes:
  assumes "payment_app gl e pl h new_id latency req g = (res, g')" and "db (inner g') \<noteq> db (inner g)"
  obtains call w r v where "payment_api e pl (bearer_token h req) call w = (r, v)"
      and "db w = db (inner g)" and "db v = db (inner g')"
  | k payload w r v where "stripe_webhook pl (env_settings e) (env_verdict e) k (req_headers req ''Stripe-Signature'') payload w = (r, v)"
      and "db w = db (inner g)" and "db v = db (inner g')"
  using assms(1) [unfolded payment_app_def] assms(2)
proof (rule app_changes)
  fix call w r v
  assume c: "(case call of
             ApiCall c \<Rightarrow> bindM (payment_api e pl (bearer_token h req) c) (\<lambda>r. ret (ApiAnswer r))
           | StripeDelivery k payload \<Rightarrow>
               bindM (stripe_webhook pl (env_settings e) (env_verdict e) k (req_headers req ''Stripe-Signature'') payload)
                 (\<lambda>a. ret (DeliveryAnswer a))) w = (r, v)"
    and d: "db w = db (inner g)" "db v = db (inner g')"
  show thesis
  proof (cases call)
    case (ApiCall x)
    with c have "bindM (payment_api e pl (bearer_token h req) x) (\<lambda>r. ret (ApiAnswer r)) w = (r, v)" by simp
    from bindM_ret_state [OF this] d that(1) show thesis by blast
  next
    case (StripeDelivery k payload)
    with c have "bindM (stripe_webhook pl (env_settings e) (env_verdict e) k (req_headers req ''Stripe-Signature'') payload)
        (\<lambda>a. ret (DeliveryAnswer a)) w = (r, v)" by simp
    from bindM_ret_state [OF this] d that(2) show thesis by blast
  qed
qed

text \<open>FastAPI calls a route of the API only for a path under its prefix, or for the webhook's path.\<close>

definition well_routed :: "'c http_lib \<Rightarrow> bool" where
  "well_routed h \<longleftrightarrow> (\<forall>req c. call_of h req = Inr c \<longrightarrow>
     startswith ''/api/v1/'' (req_path req) \<or> req_path req = ''/webhooks/stripe'')"

lemma well_routed_health: "well_routed h \<Longrightarrow> call_of h req = Inr c \<Longrightarrow> \<not> is_health_path (req_path req)"
  unfolding well_routed_def is_health_path_def startswith_iff by fastforce

text \<open>A health request in front of any application.\<close>

lemma serve_health:
  assumes "is_health_path (req_path req)" and "\<And>w. db w = db (inner g) \<Longrightarrow> route req w = (Inr resp, w)"
  shows "\<exists>hs r. serve gl s new_id latency route req g =
    (Inr (resp\<lparr>resp_headers := hs @ resp_headers resp\<rparr>), g\<lparr>inner := inner g\<lparr>logs := logs (inner g) @ [r]\<rparr>\<rparr>)"
  using assms
  by (auto simp: serve_def mtls_dispatch_def in_world_def in_child_task_def dispatch_def dispatch_body_def
      set_request_context_def bindM_def catchM_def with_error_handlers_def Let_def
      intro!: exI [of _ "[(request_id_header s, str_or (req_headers req (request_id_header s)) new_id)]"])

section \<open>A concrete request\<close>

text \<open>The routing of one call under one path.\<close>

definition demo_http :: "'c \<Rightarrow> string \<Rightarrow> 'c http_lib" where
  "demo_http c path = \<lparr>bearer_token = (\<lambda>req. req_headers req ''Authorization''),
     call_of = (\<lambda>req. if req_path req = path then Inr c else Inl (404, ''Not Found'')),
     probe = (\<lambda>_. Inl OSError)\<rparr>"

definition guarded_env :: "string env" where
  "guarded_env = (demo_env (demo_user 1 [''tenant_user'']))\<lparr>env_settings := guarded_settings\<rparr>"

definition demo_creation :: "string resource_call http_lib" where
  "demo_creation = demo_http (CreateResource 14 (demo_body ''notes'')) ''/api/v1/resources''"

text \<open>A creation with a token of the gateway and a bearer token.\<close>

definition demo_request :: request where
  "demo_request = \<lparr>req_method = ''POST'', req_path = ''/api/v1/resources'', req_headers =
    [''X-Internal-MLDSA-Token'' \<mapsto>
       (case create_s2s_token demo_dsa demo_signer ''kong-gateway'' ''kong'' ''internal-upstream'' ''t1'' 300 1000
          (Some ''j1'') ''j2'' [] of Inr t \<Rightarrow> t | Inl _ \<Rightarrow> []),
     ''Authorization'' \<mapsto> ''good'']\<rparr>"

section \<open>Properties\<close>

text \<open>
  C1.  Two locks in front of the tenants' data: where the guard is required, a request to the resource
  application leaves the tables different only if it carries an assertion of the gateway that
  verifies, and a token of a user of some tenant, whom the identity provider gave a role for it; and
  then nothing but resources of a tenant that this user may access differs.  Neither lock opens the
  other: no path, header or failure of a request gets around either.
\<close>

theorem resource_app_two_locks:
  assumes "internal_mldsa_mtls_required (env_settings e)" and "well_routed h" and "schema_ok (db (inner g))"
    and "resource_app gl e ul h new_id latency req g = (res, g')" and "db (inner g') \<noteq> db (inner g)"
  shows "attested gl (env_settings e) g req \<and>
    (\<exists>u w w1 t. db w = db (inner g) \<and> login e (bearer_token h req) w = (Inr u, w1) \<and> may_access u t \<and>
       (has_role ''tenant_user'' u \<or> has_role ''tenant_admin'' u) \<and>
       (\<forall>t'. t' \<noteq> t \<longrightarrow> tenant_resources t' (db (inner g')) = tenant_resources t' (db (inner g))) \<and>
       tenants (db (inner g')) = tenants (db (inner g)) \<and> users (db (inner g')) = users (db (inner g)) \<and>
       payments (db (inner g')) = payments (db (inner g)) \<and> events (db (inner g')) = events (db (inner g)))"
  using assms(4) [unfolded resource_app_def] assms(5)
proof (rule app_changes)
  fix call w r v
  assume c: "call_of h req = Inr call" and run: "resource_api e ul (bearer_token h req) call w = (r, v)"
    and d: "db w = db (inner g)" "db v = db (inner g')"
    and at: "internal_mldsa_mtls_required (env_settings e) \<Longrightarrow> \<not> is_health_path (req_path req) \<Longrightarrow>
      attested gl (env_settings e) g req"
  from d assms(3,5) resource_api_authorized [OF run] have "authorized_write e (bearer_token h req) w v" by simp
  then obtain u w1 t where "login e (bearer_token h req) (end_transaction w) = (Inr u, w1)" "may_access u t"
      "has_role ''tenant_user'' u \<or> has_role ''tenant_admin'' u" "writes_only t w v"
    unfolding authorized_write_def by blast
  with d at [OF assms(1) well_routed_health [OF assms(2) c]] show ?thesis
    unfolding writes_only_def by (intro conjI exI [of _ u] exI [of _ "end_transaction w"] exI [of _ w1] exI [of _ t]) simp_all
qed

theorem resource_app_two_locks_witness:
  "\<exists>res g' t. resource_app demo_guard guarded_env demo_urls demo_creation ''id'' ''0.42'' demo_request
       \<lparr>guard_signer = None, inner = demo_world demo_resources\<rparr> = (res, g') \<and>
     length (resources (db (inner g'))) = 4 \<and>
     (\<forall>t'. t' \<noteq> t \<longrightarrow> tenant_resources t' (db (inner g')) = tenant_resources t' demo_resources)"
    (is "\<exists>res g' t. ?run = _ \<and> _")
proof -
  have "case ?run of (res, g') \<Rightarrow> length (resources (db (inner g'))) = 4" by code_simp
  then obtain res g' where run: "?run = (res, g')" and l: "length (resources (db (inner g'))) = 4" by (elim runE)
  let ?g = "\<lparr>guard_signer = None, inner = demo_world demo_resources\<rparr>"
  have d: "db (inner ?g) = demo_resources" by (simp add: demo_world_def)
  have "length (resources demo_resources) = 3" by code_simp
  with l d have ne: "db (inner g') \<noteq> db (inner ?g)" by auto
  have m: "internal_mldsa_mtls_required (env_settings guarded_env)" by (simp add: guarded_env_def guarded_settings_def)
  have r: "well_routed demo_creation"
    by (simp add: well_routed_def demo_creation_def demo_http_def startswith_def)
  have ok: "schema_ok (db (inner ?g))" unfolding d by code_simp
  from resource_app_two_locks [OF m r ok run ne] obtain t
    where "\<forall>t'. t' \<noteq> t \<longrightarrow> tenant_resources t' (db (inner g')) = tenant_resources t' (db (inner ?g))" by blast
  with run l d show ?thesis by (intro exI [of _ res] exI [of _ g'] exI [of _ t]) simp
qed

text \<open>
  The orchestrator always gets an answer: the health routes of every application answer any
  request, without assertion, token or database, and never raise; liveness is 200, readiness is 200
  exactly when the probe of the database succeeded and 503 otherwise; the tables, the context and the
  guard's signer are as they were, and one line is logged.
\<close>

theorem health_routes_answer:
  fixes run :: "request \<Rightarrow> 'c \<Rightarrow> (world, 'r) prog"
  assumes "req_method req = ''GET''" and "req_path req \<in> {''/health/live'', ''/health/ready''}"
  shows "\<exists>resp r. serve gl s new_id latency (app_routes s h infos success run) req g =
      (Inr resp, g\<lparr>inner := inner g\<lparr>logs := logs (inner g) @ [r]\<rparr>\<rparr>) \<and>
    (\<exists>p. body resp = Payload (Health p) \<and> map_of p ''service'' = Some (service_name s)) \<and>
    status_code resp =
      (if req_path req = ''/health/ready'' \<and> probe h (db (inner g)) \<noteq> Inr () then 503 else 200)"
proof -
  have path: "is_health_path (req_path req)" using assms(2) by (auto simp: is_health_path_def startswith_iff)
  have ne: "''/health/live'' \<noteq> ''/health/ready''" by simp
  define resp :: "'r reply response" where "resp = health_response
    (if req_path req = ''/health/ready'' then ready s (probe h (db (inner g)) = Inr ()) else live s)"
  have app: "app_routes s h infos success run req w = (Inr resp, w)" if "db w = db (inner g)" for w
    using assms that ne
    by (auto simp: resp_def app_routes_def is_get_def check_database_ready_def bindM_def split: sum.split)
  have "\<exists>hs r. serve gl s new_id latency (app_routes s h infos success run) req g =
    (Inr (resp\<lparr>resp_headers := hs @ resp_headers resp\<rparr>), g\<lparr>inner := inner g\<lparr>logs := logs (inner g) @ [r]\<rparr>\<rparr>)"
    by (rule serve_health [OF path]) (rule app)
  then obtain hs r where "serve gl s new_id latency (app_routes s h infos success run) req g =
    (Inr (resp\<lparr>resp_headers := hs @ resp_headers resp\<rparr>), g\<lparr>inner := inner g\<lparr>logs := logs (inner g) @ [r]\<rparr>\<rparr>)" by blast
  moreover have "\<exists>p. body resp = Payload (Health p) \<and> map_of p ''service'' = Some (service_name s)"
    "status_code resp = (if req_path req = ''/health/ready'' \<and> probe h (db (inner g)) \<noteq> Inr () then 503 else 200)"
    by (auto simp: resp_def health_response_def live_def ready_def)
  ultimately show ?thesis
    by (intro exI [of _ "resp\<lparr>resp_headers := hs @ resp_headers resp\<rparr>"] exI [of _ r]) simp
qed

theorem health_routes_answer_witness:
  "\<exists>resp r. admin_app demo_guard guarded_env (\<lambda>_. 0) (demo_http ListTenants ''/api/v1/admin/tenants'') ''id'' ''0.42''
       \<lparr>req_method = ''GET'', req_path = ''/health/ready'', req_headers = (\<lambda>_. None)\<rparr>
       \<lparr>guard_signer = None, inner = demo_world demo_db\<rparr> =
     (Inr resp, \<lparr>guard_signer = None, inner = (demo_world demo_db)\<lparr>logs := [r]\<rparr>\<rparr>) \<and> status_code resp = 503"
proof -
  let ?req = "\<lparr>req_method = ''GET'', req_path = ''/health/ready'', req_headers = (\<lambda>_. None)\<rparr>"
  let ?h = "demo_http ListTenants ''/api/v1/admin/tenants''"
  have "req_method ?req = ''GET''" "req_path ?req \<in> {''/health/live'', ''/health/ready''}" by simp_all
  from health_routes_answer [OF this, where gl = demo_guard and s = guarded_settings and new_id = "''id''"
      and latency = "''0.42''" and h = ?h and infos = "[(''/api/v1/admin/metadata'', admin_metadata)]"
      and success = admin_status and run = "\<lambda>req. admin_api guarded_env (\<lambda>_. 0) (bearer_token ?h req)"
      and g = "\<lparr>guard_signer = None, inner = demo_world demo_db\<rparr>"]
  have "\<exists>resp r. admin_app demo_guard guarded_env (\<lambda>_. 0) ?h ''id'' ''0.42'' ?req
       \<lparr>guard_signer = None, inner = demo_world demo_db\<rparr> =
     (Inr resp, \<lparr>guard_signer = None, inner = (demo_world demo_db)\<lparr>logs := [r]\<rparr>\<rparr>) \<and> status_code resp = 503"
    by (auto simp: admin_app_def guarded_env_def demo_world_def demo_http_def)
  then show ?thesis .
qed

end
