(* ===== verification/Platform.thy ===== *)
theory Platform
  imports Table_Owners Applications
begin

text \<open>
  The four services as transition systems on a database: by calls of their APIs and deliveries of the
  webhook (\<open>platform_step\<close>), and by HTTP requests to their applications (\<open>http_step\<close>), with the rules
  that lift what a commit or a change keeps to whole runs.
\<close>

section \<open>The services as one system\<close>

text \<open>
  What the services run with at some moment: the environments of the four processes and the
  libraries they call.  A run may go through any of a set of them, as time passes, keys rotate and
  settings change.
\<close>

record ('k, 'u, 'v) platform =
  users_env :: "'k env"
  resources_env :: "'k env"
  payments_env :: "'k env"
  admin_env :: "'k env"
  user_rules :: user_lib
  url_rules :: "'u url_lib"
  pay_rules :: "'v pay_lib"
  name_order :: "string \<Rightarrow> int"

definition verdicts :: "('k, 'u, 'v) platform \<Rightarrow> verdict set" where
  "verdicts p = (env_verdict \<circ> (\<lambda>f. f p)) ` {users_env, resources_env, payments_env, admin_env}"

text \<open>
  One request to one of the services, whatever the state of that process besides the tables (its
  caches, context and log), however the request ends.
\<close>

inductive platform_step :: "('k, 'u, 'v) platform set \<Rightarrow> database \<Rightarrow> database \<Rightarrow> bool" for Ps where
  user_request: "p \<in> Ps \<Longrightarrow> user_api (users_env p) (user_rules p) cred call w = (res, v) \<Longrightarrow>
    platform_step Ps (db w) (db v)"
| resource_request: "p \<in> Ps \<Longrightarrow> resource_api (resources_env p) (url_rules p) cred call' w = (res', v) \<Longrightarrow>
    platform_step Ps (db w) (db v)"
| payment_request: "p \<in> Ps \<Longrightarrow> payment_api (payments_env p) (pay_rules p) cred call'' w = (res'', v) \<Longrightarrow>
    platform_step Ps (db w) (db v)"
| stripe_delivery: "p \<in> Ps \<Longrightarrow>
    stripe_webhook (pay_rules p) (env_settings (payments_env p)) (env_verdict (payments_env p)) new_id sig payload w =
      (res''', v) \<Longrightarrow> platform_step Ps (db w) (db v)"
| admin_request: "p \<in> Ps \<Longrightarrow> admin_api (admin_env p) (name_order p) cred call4 w = (res4, v) \<Longrightarrow>
    platform_step Ps (db w) (db v)"

inductive platform_run :: "('k, 'u, 'v) platform set \<Rightarrow> database \<Rightarrow> database \<Rightarrow> bool" for Ps where
  start: "platform_run Ps d d"
| request: "platform_run Ps d d' \<Longrightarrow> platform_step Ps d' d'' \<Longrightarrow> platform_run Ps d d''"

text \<open>
  The same at the level of HTTP: any request to the application of one service, through its guard and
  middleware, in whatever state the process is.
\<close>

inductive served :: "('k, 'u, 'v) platform \<Rightarrow> service \<Rightarrow> database \<Rightarrow> database \<Rightarrow> bool" for p where
  user_http: "user_app gl (users_env p) (user_rules p) h new_id latency req g = (res, g') \<Longrightarrow>
    served p UserService (db (inner g)) (db (inner g'))"
| resource_http: "resource_app gl (resources_env p) (url_rules p) h' new_id latency req g = (res', g') \<Longrightarrow>
    served p ResourceService (db (inner g)) (db (inner g'))"
| payment_http: "payment_app gl (payments_env p) (pay_rules p) h'' new_id latency req g = (res'', g') \<Longrightarrow>
    served p PaymentService (db (inner g)) (db (inner g'))"
| admin_http: "admin_app gl (admin_env p) (name_order p) h4 new_id latency req g = (res4, g') \<Longrightarrow>
    served p AdminService (db (inner g)) (db (inner g'))"

inductive http_step :: "('k, 'u, 'v) platform set \<Rightarrow> database \<Rightarrow> database \<Rightarrow> bool" for Ps where
  request_served: "p \<in> Ps \<Longrightarrow> served p s d d' \<Longrightarrow> http_step Ps d d'"

inductive http_run :: "('k, 'u, 'v) platform set \<Rightarrow> database \<Rightarrow> database \<Rightarrow> bool" for Ps where
  http_start: "http_run Ps d d"
| http_request: "http_run Ps d d' \<Longrightarrow> http_step Ps d' d'' \<Longrightarrow> http_run Ps d d''"

section \<open>Lemmas\<close>

text \<open>
  An HTTP request changes nothing or is a call of the service's API, or a delivery: it is a step of the
  services that writes the service's own tables only.
\<close>

lemma served_step:
  assumes "served p s d d'" and "d' \<noteq> d" and "p \<in> Ps"
  shows "platform_step Ps d d' \<and> besides s d' = besides s d"
  using assms(1)
proof cases
  case (user_http gl h new_id latency req g res g')
  with assms(2) have ne: "db (inner g') \<noteq> db (inner g)" by simp
  from user_app_changes [OF user_http(4) ne] user_http(1-3) user_request [OF assms(3)] user_api_owns show ?thesis
    by metis
next
  case (resource_http gl h new_id latency req g res g')
  with assms(2) have ne: "db (inner g') \<noteq> db (inner g)" by simp
  from resource_app_changes [OF resource_http(4) ne] resource_http(1-3) resource_request [OF assms(3)] resource_api_owns
  show ?thesis by metis
next
  case (payment_http gl h new_id latency req g res g')
  with assms(2) have ne: "db (inner g') \<noteq> db (inner g)" by simp
  from payment_http(4) ne show ?thesis
  proof (rule payment_app_changes)
    fix call w r v
    assume "payment_api (payments_env p) (pay_rules p) (bearer_token h req) call w = (r, v)"
      and "db w = db (inner g)" "db v = db (inner g')"
    with payment_request [OF assms(3), of "bearer_token h req" call w r v] payment_api_owns payment_http(1-3)
    show ?thesis by metis
  next
    fix k payload w r v
    assume "stripe_webhook (pay_rules p) (env_settings (payments_env p)) (env_verdict (payments_env p)) k
        (req_headers req ''Stripe-Signature'') payload w = (r, v)"
      and "db w = db (inner g)" "db v = db (inner g')"
    with stripe_delivery [OF assms(3), of k "req_headers req ''Stripe-Signature''" payload w r v] stripe_webhook_owns
      payment_http(1-3) show ?thesis by metis
  qed
next
  case (admin_http gl h new_id latency req g res g')
  with assms(2) have ne: "db (inner g') \<noteq> db (inner g)" by simp
  from admin_app_changes [OF admin_http(4) ne] admin_http(1-3) admin_request [OF assms(3)] admin_api_owns show ?thesis
    by metis
qed

lemma served_besides:
  assumes "served p s d d'"
  shows "besides s d' = besides s d"
  using served_step [OF assms _ singletonI] by (cases "d' = d") simp_all

lemma http_step_refines:
  assumes "http_step Ps d d'" and "d' \<noteq> d"
  shows "platform_step Ps d d'"
  using assms(1) by cases (rule served_step [OF _ assms(2), THEN conjunct1])

lemma http_run_refines: "http_run Ps d d' \<Longrightarrow> platform_run Ps d d'"
proof (induction rule: http_run.induct)
  case (http_start d)
  show ?case by (rule start)
next
  case (http_request d d' d'')
  show ?case
  proof (cases "d'' = d'")
    case True
    with http_request show ?thesis by simp
  next
    case False
    from request [OF http_request(3) http_step_refines [OF http_request(2) False]] show ?thesis .
  qed
qed

text \<open>What every commit maintains, every step and so every run of the system maintains.\<close>

definition all_maintain :: "('k, 'u, 'v) platform set \<Rightarrow> (database \<Rightarrow> bool) \<Rightarrow> bool" where
  "all_maintain Ps J \<longleftrightarrow> (\<forall>p\<in>Ps. \<forall>chk\<in>verdicts p. maintains chk J)"

lemma all_maintainD:
  assumes "all_maintain Ps J" and "p \<in> Ps"
  shows "maintains (env_verdict (users_env p)) J" "maintains (env_verdict (resources_env p)) J"
    "maintains (env_verdict (payments_env p)) J" "maintains (env_verdict (admin_env p)) J"
  using assms by (auto simp: all_maintain_def verdicts_def)

lemma step_invariant:
  assumes "platform_step Ps d d'" and "all_maintain Ps J" and "J d"
  shows "J d'"
  using assms(1)
proof cases
  case (user_request p cred call w res v)
  with assms(3) prog_invariant [OF preserves_user_api [OF all_maintainD(1) [OF assms(2)]]] show ?thesis by blast
next
  case (resource_request p cred call w res v)
  with assms(3) prog_invariant [OF preserves_resource_api [OF all_maintainD(2) [OF assms(2)]]] show ?thesis by blast
next
  case (payment_request p cred call w res v)
  with assms(3) prog_invariant [OF preserves_payment_api [OF all_maintainD(3) [OF assms(2)]]] show ?thesis by blast
next
  case (stripe_delivery p new_id sig payload w res v)
  with assms(3) prog_invariant [OF preserves_stripe_webhook [OF all_maintainD(3) [OF assms(2)]]] show ?thesis by blast
next
  case (admin_request p cred call w res v)
  with assms(3) prog_invariant [OF preserves_admin_api [OF all_maintainD(4) [OF assms(2)]]] show ?thesis by blast
qed

lemma run_invariant: "platform_run Ps d d' \<Longrightarrow> all_maintain Ps J \<Longrightarrow> J d \<Longrightarrow> J d'"
  by (induction rule: platform_run.induct) (auto intro: step_invariant)

lemma run_schema:
  assumes "platform_run Ps d d'" and "schema_ok d" and "\<And>p chk. p \<in> Ps \<Longrightarrow> chk \<in> verdicts p \<Longrightarrow> enforces chk"
  shows "schema_ok d'"
proof (rule run_invariant [where J = schema_ok, OF assms(1) _ assms(2)])
  show "all_maintain Ps schema_ok"
    unfolding all_maintain_def using assms(3) maintains_schema by blast
qed

lemma run_grows:
  assumes "platform_run Ps d d'"
  shows "grows d d'"
  by (rule run_invariant [OF assms]) (simp_all add: all_maintain_def maintains_history)

text \<open>What only the services' own writes keep, they keep together.\<close>

lemma step_typed:
  assumes "platform_step Ps d d'" and "\<And>p. p \<in> Ps \<Longrightarrow> user_rules p = ul \<and> url_rules p = urls"
    and "stored_typed ul urls d"
  shows "stored_typed ul urls d'"
  using assms(1)
proof cases
  case (user_request p cred call w res v)
  with assms(2,3) prog_invariant [OF typed.user_api_keeps] show ?thesis by metis
next
  case (resource_request p cred call w res v)
  with assms(2,3) prog_invariant [OF typed.resource_api_keeps] show ?thesis by metis
next
  case (payment_request p cred call w res v)
  with assms(3) prog_invariant [OF typed.payment_api_keeps] show ?thesis by metis
next
  case (stripe_delivery p new_id sig payload w res v)
  with assms(3) prog_invariant [OF typed.stripe_webhook_keeps] show ?thesis by metis
next
  case (admin_request p cred call w res v)
  with assms(3) prog_invariant [OF typed.admin_api_keeps] show ?thesis by metis
qed

lemma run_typed:
  assumes "platform_run Ps d d'" and "\<And>p. p \<in> Ps \<Longrightarrow> user_rules p = ul \<and> url_rules p = urls"
    and "stored_typed ul urls d"
  shows "stored_typed ul urls d'"
  using assms(1,3) by (induction rule: platform_run.induct) (auto intro: step_typed [OF _ assms(2)])

text \<open>
  Where a stored payment has its status from: the intent that Stripe made when a logged in user of the
  payment's tenant created it, or an event about that intent that Stripe's library accepted.
\<close>

definition created_by_user :: "('k, 'u, 'v) platform \<Rightarrow> payment_row \<Rightarrow> bool" where
  "created_by_user p q \<longleftrightarrow>
     (\<exists>cred w u w1 ids intent. login (payments_env p) cred w = (Inr u, w1) \<and>
        (has_role ''tenant_user'' u \<or> has_role ''tenant_admin'' u) \<and>
        required_tenant_id u = Inr (p_tenant_id q) \<and> p_user_id q = cu_user_id u \<and>
        create_stripe_payment_intent (pay_rules p) (env_settings (payments_env p)) ids (p_amount q) (p_currency q)
          [(''tenant_id'', uuid_str (p_tenant_id q)), (''user_id'', cu_user_id u)] = Inr intent \<and>
        dict_get intent ''id'' = Some (JStr (p_stripe_payment_intent_id q)) \<and>
        (case dict_get intent ''status'' of
           None \<Rightarrow> p_status q = ''requires_payment_method'' | Some x \<Rightarrow> x = JStr (p_status q)))"

definition reported_by_stripe :: "('k, 'u, 'v) platform \<Rightarrow> payment_row \<Rightarrow> bool" where
  "reported_by_stripe p q \<longleftrightarrow>
     (\<exists>signature payload ev t pi. delivered (pay_rules p) (env_settings (payments_env p)) signature payload = Some ev \<and>
        stripe_value ev ''type'' None = Inr (JStr t) \<and> stripe_nested_object ev = Inr pi \<and>
        stripe_value pi ''id'' None = Inr (JStr (p_stripe_payment_intent_id q)) \<and>
        status_from_event_type (JStr t) = Some (p_status q))"

lemma payment_effect_source:
  assumes "payment_effect ev t ps qs" and "q \<in> set qs" and "q \<notin> set ps"
  shows "\<exists>pi. stripe_nested_object ev = Inr pi \<and> stripe_value pi ''id'' None = Inr (JStr (p_stripe_payment_intent_id q)) \<and>
    status_from_event_type (JStr t) = Some (p_status q)"
  using assms unfolding payment_effect_def by auto

lemma step_payment_source:
  assumes "platform_step Ps d d'" and "\<And>p chk. p \<in> Ps \<Longrightarrow> chk \<in> verdicts p \<Longrightarrow> enforces chk"
    and "q \<in> set (payments d')" and "q \<notin> set (payments d)"
  shows "\<exists>p\<in>Ps. created_by_user p q \<or> reported_by_stripe p q"
  using assms(1)
proof cases
  case (user_request p cred call w res v)
  with user_api_owns assms(3,4) show ?thesis by (fastforce simp: besides_same)
next
  case (resource_request p cred call w res v)
  with resource_api_owns assms(3,4) show ?thesis by (fastforce simp: besides_same)
next
  case (admin_request p cred call w res v)
  with admin_api_owns assms(3,4) show ?thesis by (fastforce simp: besides_same)
next
  case (stripe_delivery p new_id sig payload w res v)
  have "env_verdict (payments_env p) \<in> verdicts p" by (simp add: verdicts_def)
  with assms(2) stripe_delivery(3) have e: "enforces (env_verdict (payments_env p))" by blast
  have "db v \<noteq> db w" using assms(3,4) stripe_delivery(1,2) by auto
  from stripe_webhook_cases [OF stripe_delivery(4) this] obtain ev k t pid w1
    where ev: "delivered (pay_rules p) (env_settings (payments_env p)) sig payload = Some ev"
      "stripe_value ev ''type'' None = Inr (JStr t)"
      and ch: "event_changes (pay_rules p) new_id ev t (end_transaction w) w1"
      and f: "flush_result (env_verdict (payments_env p))
        (w1\<lparr>pending := pending w1 @ [InsertEvent (event_row_of k t pid)]\<rparr>) = Inr (db v)" by blast
  from recorded_effect [OF ch _ e f] have "payment_effect ev t (payments (db w)) (payments (db v))" by simp
  from payment_effect_source [OF this] assms(3,4) stripe_delivery(1,2) ev stripe_delivery(3) show ?thesis
    unfolding reported_by_stripe_def by blast
next
  case (payment_request p cred call w res v)
  with assms(3,4) obtain ids body r where "create_payment_intent_route (payments_env p) (pay_rules p) ids cred body w = (r, v)"
    by (cases call) (auto dest!: bindM_ret_state keepsD [OF list_payments_route_db] keepsD [OF get_payment_route_db])
  from create_payment_route_effect [OF this] assms(3,4) payment_request(1,2) obtain u w1 t pid st intent
    where l: "login (payments_env p) cred (end_transaction w) = (Inr u, w1)"
      "has_role ''tenant_user'' u \<or> has_role ''tenant_admin'' u" "required_tenant_id u = Inr t"
      "intent_of (pay_rules p) (env_settings (payments_env p)) ids body t (cu_user_id u) pid st intent"
      and q: "q = intent_row ids body t (cu_user_id u) pid st (db_now w)" by auto
  from q have "p_tenant_id q = t" "p_user_id q = cu_user_id u" "p_amount q = pc_amount body"
    "p_currency q = py_lower (pc_currency body)" "p_stripe_payment_intent_id q = pid" "p_status q = st"
    by (simp_all add: intent_row_def)
  with l have "created_by_user p q" unfolding created_by_user_def intent_of_def by metis
  with payment_request(3) show ?thesis by blast
qed

lemma run_payment_source:
  assumes "platform_run Ps d d'" and "\<And>p chk. p \<in> Ps \<Longrightarrow> chk \<in> verdicts p \<Longrightarrow> enforces chk"
    and "q \<in> set (payments d')"
  shows "q \<in> set (payments d) \<or> (\<exists>p\<in>Ps. created_by_user p q \<or> reported_by_stripe p q)"
  using assms(1,3)
proof (induction rule: platform_run.induct)
  case (request d d' d'')
  show ?case
  proof (cases "q \<in> set (payments d')")
    case True
    with request(3) show ?thesis by blast
  next
    case False
    from step_payment_source [OF request(2) _ request.prems this] assms(2) show ?thesis by blast
  qed
qed simp

section \<open>Concrete runs\<close>

text \<open>One platform at two moments, the second of which has a webhook to deliver.\<close>

definition demo_platform :: "(string, string, unit) platform" where
  "demo_platform =
     \<lparr>users_env = demo_env (demo_user 1 [''tenant_admin'']), resources_env = demo_env (demo_user 1 [''tenant_admin'']),
      payments_env = demo_env (demo_user 1 [''tenant_user'']), admin_env = demo_env (demo_user 1 [''platform_admin'']),
      user_rules = demo_user_lib, url_rules = demo_urls, pay_rules = demo_pay, name_order = (\<lambda>_. 0)\<rparr>"

lemma demo_verdicts: "verdicts demo_platform = {schema_verdict}"
  by (simp add: verdicts_def demo_platform_def demo_env_def)

lemma demo_removal_step:
  "\<exists>d. platform_step {demo_platform} demo_resources d \<and> map r_id (resources d) = [11, 12]"
proof -
  let ?run = "resource_api (resources_env demo_platform) (url_rules demo_platform) (Some ''good'') (RemoveResource 13)
    (demo_world demo_resources)"
  have "case ?run of (res, v) \<Rightarrow> map r_id (resources (db v)) = [11, 12]" by code_simp
  then obtain res v where run: "?run = (res, v)" and r: "map r_id (resources (db v)) = [11, 12]" by (elim runE)
  have "platform_step {demo_platform} (db (demo_world demo_resources)) (db v)"
    by (rule resource_request [OF _ run]) (rule singletonI)
  with r show ?thesis by (auto simp: demo_world_def)
qed

lemma demo_platform_payments:
  "pay_rules demo_platform = demo_pay" "env_settings (payments_env demo_platform) = demo_settings"
  "env_verdict (payments_env demo_platform) = schema_verdict"
  by (simp_all add: demo_platform_def demo_env_def)

end
