(* ===== verification/Deployment.thy ===== *)
theory Deployment
  imports Platform
begin

text \<open>
  The deployment: every service has the database that its \<open>core/config.py\<close> names, all four with the
  schema of scripts/db-init.sql.  A database URL leads to a database by \<open>loc\<close>, which is the driver's
  and the server's; a state of the deployment gives the tables of each database.
\<close>

section \<open>Four databases\<close>

fun service_env :: "('k, 'u, 'v) platform \<Rightarrow> service \<Rightarrow> 'k env" where
  "service_env p UserService = users_env p"
| "service_env p ResourceService = resources_env p"
| "service_env p PaymentService = payments_env p"
| "service_env p AdminService = admin_env p"

text \<open>The arguments of each service's \<open>settings\<close> object.\<close>

fun service_init :: "service \<Rightarrow> source" where
  "service_init UserService = user_service_init"
| "service_init ResourceService = resource_service_init"
| "service_init PaymentService = payment_service_init"
| "service_init AdminService = admin_service_init"

type_synonym 'n locator = "string option \<Rightarrow> 'n"

definition home :: "'n locator \<Rightarrow> service \<Rightarrow> 'n" where
  "home loc s = loc (service_init s ''DATABASE_URL'')"

text \<open>\<open>create_async_engine(settings.database_url)\<close>: where a process of a service finds its tables.\<close>

definition connected :: "'n locator \<Rightarrow> 'k env \<Rightarrow> 'n" where
  "connected loc e = loc (database_url (env_settings e))"

text \<open>The processes run with settings made by their \<open>core/config.py\<close>, in whatever environment.\<close>

definition shipped :: "('k, 'u, 'v) platform \<Rightarrow> bool" where
  "shipped p \<longleftrightarrow> (\<forall>s. \<exists>parse_int parse_bool env dotenv.
     env_settings (service_env p s) = load_settings parse_int parse_bool (service_init s) env dotenv)"

inductive deployment_run ::
    "('k, 'u, 'v) platform set \<Rightarrow> 'n locator \<Rightarrow> ('n \<Rightarrow> database) \<Rightarrow> ('n \<Rightarrow> database) \<Rightarrow> bool" for Ps loc where
  deployed: "deployment_run Ps loc D D"
| request_handled: "deployment_run Ps loc D D' \<Longrightarrow> p \<in> Ps \<Longrightarrow> n = connected loc (service_env p s) \<Longrightarrow>
    served p s (D' n) d \<Longrightarrow> deployment_run Ps loc D (D'(n := d))"

text \<open>The four services have databases of their own.\<close>

definition separate :: "'n locator \<Rightarrow> bool" where
  "separate loc \<longleftrightarrow> distinct (map (home loc) [UserService, ResourceService, PaymentService, AdminService])"

section \<open>Lemmas\<close>

lemma shipped_url:
  "database_url (load_settings parse_int parse_bool (service_init s) env dotenv) = service_init s ''DATABASE_URL''"
  by (cases s) (simp_all add: load_settings_database_url setting_value_def user_service_init_def
      resource_service_init_def payment_service_init_def admin_service_init_def)

lemma shipped_home: "shipped p \<Longrightarrow> connected loc (service_env p s) = home loc s"
  unfolding shipped_def connected_def home_def by (metis shipped_url)

lemma default_urls_differ: "service_init s ''DATABASE_URL'' = service_init s' ''DATABASE_URL'' \<Longrightarrow> s = s'"
  by (cases s; cases s') (simp_all add: user_service_init_def resource_service_init_def payment_service_init_def
      admin_service_init_def)

lemma separate_homes: "separate loc \<Longrightarrow> home loc s = home loc s' \<Longrightarrow> s = s'"
  by (cases s; cases s') (auto simp: separate_def)

lemma separate_id: "separate (\<lambda>url. url)"
  by (simp add: separate_def home_def user_service_init_def resource_service_init_def payment_service_init_def
      admin_service_init_def)

text \<open>Seen from one database, a run of the deployment is a run of requests.\<close>

lemma deployment_projects: "deployment_run Ps loc D D' \<Longrightarrow> http_run Ps (D n) (D' n)"
proof (induction rule: deployment_run.induct)
  case (deployed D)
  show ?case by (rule http_start)
next
  case (request_handled D D' p m s d)
  show ?case
  proof (cases "n = m")
    case True
    with request_handled http_request [OF request_handled(5) request_served [OF request_handled(2)]] show ?thesis by simp
  next
    case False
    with request_handled(5) show ?thesis by simp
  qed
qed

lemma deployment_owners:
  assumes "deployment_run Ps loc D D'" and "\<And>p. p \<in> Ps \<Longrightarrow> shipped p" and "separate loc"
  shows "besides s (D' (home loc s)) = besides s (D (home loc s))"
  using assms(1)
proof (induction rule: deployment_run.induct)
  case (request_handled D D' p m s' d)
  from request_handled(3) assms(2) [OF request_handled(2)] have m: "m = home loc s'" by (simp add: shipped_home)
  show ?case
  proof (cases "s' = s")
    case True
    with request_handled served_besides [OF request_handled(4)] m show ?thesis by simp
  next
    case False
    with separate_homes [OF assms(3)] m have "home loc s \<noteq> m" by blast
    with request_handled show ?thesis by simp
  qed
qed simp

lemma deployment_elsewhere:
  assumes "deployment_run Ps loc D D'" and "\<And>p. p \<in> Ps \<Longrightarrow> shipped p" and "n \<notin> range (home loc)"
  shows "D' n = D n"
  using assms(1)
proof (induction rule: deployment_run.induct)
  case (request_handled D D' p m s d)
  from request_handled(3) shipped_home [OF assms(2) [OF request_handled(2)]] assms(3) have "n \<noteq> m" by auto
  with request_handled show ?case by simp
qed simp

text \<open>A row of a tenant needs the tenant in its own database.\<close>

lemma unknown_tenant_rows:
  assumes "schema_ok d" and "\<not> has_tenant d k"
  shows "tenant_users k d = []" "tenant_resources k d = []" "filter (\<lambda>p. p_tenant_id p = k) (payments d) = []"
  using assms
  by (auto simp: schema_ok_def users_ok_def resources_ok_def payments_ok_def list_all_iff tenant_users_def
      tenant_resources_def filter_empty_conv)

section \<open>A concrete run\<close>

text \<open>The services with their own settings, in an empty environment.\<close>

definition shipped_env :: "service \<Rightarrow> string env \<Rightarrow> string env" where
  "shipped_env s e = e\<lparr>env_settings := load_settings (\<lambda>_. 300) (\<lambda>_. True) (service_init s) Map.empty Map.empty\<rparr>"

definition demo_shipped :: "(string, string, unit) platform" where
  "demo_shipped = demo_platform\<lparr>
     users_env := shipped_env UserService (users_env demo_platform),
     resources_env := shipped_env ResourceService (resources_env demo_platform),
     payments_env := shipped_env PaymentService (payments_env demo_platform),
     admin_env := shipped_env AdminService (admin_env demo_platform)\<rparr>"

lemma demo_shipped: "shipped demo_shipped"
  unfolding shipped_def
proof
  fix s
  show "\<exists>parse_int parse_bool env dotenv. env_settings (service_env demo_shipped s) =
      load_settings parse_int parse_bool (service_init s) env dotenv"
    by (cases s) (simp_all add: demo_shipped_def shipped_env_def, blast+)
qed

lemma demo_shipped_verdicts: "verdicts demo_shipped = {schema_verdict}"
  by (simp add: verdicts_def demo_shipped_def shipped_env_def demo_platform_def demo_env_def)

text \<open>Every database starts with two tenants; the platform administrator onboards a third.\<close>

lemma demo_onboarding:
  "\<exists>d. deployment_run {demo_shipped} (\<lambda>url. url) (\<lambda>_. demo_db)
      ((\<lambda>_. demo_db)(home (\<lambda>url. url) AdminService := d)) \<and> tenants d = demo_tenants @
        [\<lparr>t_id = 3, t_name = ''gamma'', t_status = ''active'', t_created_at = 7\<rparr>]"
proof -
  let ?h = "demo_http (OnboardTenant 3 \<lparr>tc_name = ''gamma''\<rparr>) ''/api/v1/admin/tenants''"
  let ?req = "\<lparr>req_method = ''POST'', req_path = ''/api/v1/admin/tenants'', req_headers = [''Authorization'' \<mapsto> ''good'']\<rparr>"
  let ?g = "\<lparr>guard_signer = None, inner = demo_world demo_db\<rparr>"
  let ?run = "admin_app demo_guard (admin_env demo_shipped) (name_order demo_shipped) ?h ''id'' ''0.42'' ?req ?g"
  have "case ?run of (res, g) \<Rightarrow> tenants (db (inner g)) = demo_tenants @
      [\<lparr>t_id = 3, t_name = ''gamma'', t_status = ''active'', t_created_at = 7\<rparr>]" by code_simp
  then obtain res g where run: "?run = (res, g)" and t: "tenants (db (inner g)) = demo_tenants @
      [\<lparr>t_id = 3, t_name = ''gamma'', t_status = ''active'', t_created_at = 7\<rparr>]" by (elim runE)
  have "db (inner ?g) = demo_db" by (simp add: demo_world_def)
  with admin_http [OF run] have "served demo_shipped AdminService demo_db (db (inner g))" by simp
  moreover have "home (\<lambda>url. url) AdminService = connected (\<lambda>url. url) (service_env demo_shipped AdminService)"
    by (rule shipped_home [OF demo_shipped, symmetric])
  ultimately have "deployment_run {demo_shipped} (\<lambda>url. url) (\<lambda>_. demo_db)
      ((\<lambda>_. demo_db)(home (\<lambda>url. url) AdminService := db (inner g)))"
    by (intro request_handled [OF deployed singletonI, where s = AdminService])
  with t show ?thesis by blast
qed

lemma demo_home_differs: "home (\<lambda>url. url) UserService \<noteq> home (\<lambda>url. url) AdminService"
  using separate_homes [OF separate_id] by blast

end
