(* ===== verification/Schema_Models.thy ===== *)
theory Schema_Models
  imports Tables Json_Parse
begin

text \<open>
  The declarations of the tables as data: the \<open>CREATE TABLE\<close> statements of scripts/db-init.sql and the
  SQLAlchemy models of the services' db/models.py, with what both say of the stored rows.  The
  constraints of theory \<open>Database\<close> are what the statements declare, and the models are checked
  against the statements.
\<close>

section \<open>Values, columns and constraints\<close>

datatype sql_type = Uuid | Text | Integer | Jsonb | Timestamp

datatype sql_value =
  SqlNull | SqlUuid uuid | SqlText string | SqlInt int | SqlJson json | SqlTime int

fun has_type :: "sql_type \<Rightarrow> sql_value \<Rightarrow> bool" where
  "has_type Uuid (SqlUuid _) = True"
| "has_type Text (SqlText _) = True"
| "has_type Integer (SqlInt i) = (- (2 ^ 31) \<le> i \<and> i < 2 ^ 31)"
| "has_type Jsonb (SqlJson _) = True"
| "has_type Timestamp (SqlTime _) = True"
| "has_type _ _ = False"

type_synonym sql_row = "(string \<times> sql_value) list"

type_synonym sql_tables = "string \<Rightarrow> sql_row list"

definition cell :: "string \<Rightarrow> sql_row \<Rightarrow> sql_value" where
  "cell c r = (case map_of r c of None \<Rightarrow> SqlNull | Some v \<Rightarrow> v)"

datatype default_value = Now | Literal string

text \<open>A column's type and whether it is \<open>NOT NULL\<close>; \<open>PRIMARY KEY\<close> implies it.\<close>

record sql_column =
  sc_name :: string
  sc_type :: sql_type
  sc_not_null :: bool

datatype constraint =
    Unique "string list"
  | References string string string
  | InList string "string list"
  | Positive string
  | LowerCase string

record sql_table =
  st_name :: string
  st_columns :: "sql_column list"
  st_constraints :: "constraint list"
  st_defaults :: "(string \<times> default_value) list"

definition column_ok :: "sql_row \<Rightarrow> sql_column \<Rightarrow> bool" where
  "column_ok r c \<longleftrightarrow>
     (if cell (sc_name c) r = SqlNull then \<not> sc_not_null c else has_type (sc_type c) (cell (sc_name c) r))"

text \<open>Rows with a null among the columns of a \<open>UNIQUE\<close> do not count; a null satisfies any \<open>CHECK\<close>.\<close>

fun constraint_ok :: "sql_tables \<Rightarrow> sql_row list \<Rightarrow> constraint \<Rightarrow> bool" where
  "constraint_ok D rs (Unique cs) \<longleftrightarrow> distinct (filter (\<lambda>k. SqlNull \<notin> set k) (map (\<lambda>r. map (\<lambda>c. cell c r) cs) rs))"
| "constraint_ok D rs (References c t k) \<longleftrightarrow>
     list_all (\<lambda>r. cell c r = SqlNull \<or> cell c r \<in> set (map (cell k) (D t))) rs"
| "constraint_ok D rs (InList c vs) \<longleftrightarrow> list_all (\<lambda>r. cell c r = SqlNull \<or> cell c r \<in> set (map SqlText vs)) rs"
| "constraint_ok D rs (Positive c) \<longleftrightarrow>
     list_all (\<lambda>r. case cell c r of SqlNull \<Rightarrow> True | SqlInt i \<Rightarrow> 0 < i | _ \<Rightarrow> False) rs"
| "constraint_ok D rs (LowerCase c) \<longleftrightarrow>
     list_all (\<lambda>r. case cell c r of SqlNull \<Rightarrow> True | SqlText s \<Rightarrow> s = py_lower s | _ \<Rightarrow> False) rs"

definition table_ok :: "sql_tables \<Rightarrow> sql_table \<Rightarrow> bool" where
  "table_ok D t \<longleftrightarrow> list_all (\<lambda>r. list_all (column_ok r) (st_columns t)) (D (st_name t)) \<and>
     list_all (constraint_ok D (D (st_name t))) (st_constraints t)"

section \<open>The statements of db-init.sql\<close>

abbreviation column :: "string \<Rightarrow> sql_type \<Rightarrow> sql_column" where
  "column n ty \<equiv> \<lparr>sc_name = n, sc_type = ty, sc_not_null = True\<rparr>"

definition tenants_table :: sql_table where
  "tenants_table =
     \<lparr>st_name = ''tenants'',
      st_columns = [column ''id'' Uuid, column ''name'' Text, column ''status'' Text,
        column ''created_at'' Timestamp, column ''updated_at'' Timestamp],
      st_constraints = [Unique [''id''], Unique [''name''], InList ''status'' [''active'', ''suspended'', ''deleted'']],
      st_defaults = [(''status'', Literal ''active''), (''created_at'', Now), (''updated_at'', Now)]\<rparr>"

definition users_table :: sql_table where
  "users_table =
     \<lparr>st_name = ''users'',
      st_columns = [column ''id'' Uuid, column ''keycloak_user_id'' Text, column ''tenant_id'' Uuid,
        column ''email'' Text, column ''role'' Text, column ''status'' Text,
        column ''created_at'' Timestamp, column ''updated_at'' Timestamp],
      st_constraints = [Unique [''id''], Unique [''keycloak_user_id''], References ''tenant_id'' ''tenants'' ''id'',
        Unique [''tenant_id'', ''email''], InList ''role'' [''tenant_admin'', ''tenant_user'', ''platform_admin''],
        InList ''status'' [''active'', ''disabled'', ''deleted'']],
      st_defaults = [(''status'', Literal ''active''), (''created_at'', Now), (''updated_at'', Now)]\<rparr>"

definition resources_table :: sql_table where
  "resources_table =
     \<lparr>st_name = ''resources'',
      st_columns = [column ''id'' Uuid, column ''tenant_id'' Uuid, column ''owner_user_id'' Text,
        column ''name'' Text, column ''data'' Jsonb, (column ''url'' Text)\<lparr>sc_not_null := False\<rparr>,
        column ''created_at'' Timestamp, column ''updated_at'' Timestamp],
      st_constraints = [Unique [''id''], References ''tenant_id'' ''tenants'' ''id'', Unique [''tenant_id'', ''name'']],
      st_defaults = [(''data'', Literal ''{}''), (''created_at'', Now), (''updated_at'', Now)]\<rparr>"

definition payments_table :: sql_table where
  "payments_table =
     \<lparr>st_name = ''payments'',
      st_columns = [column ''id'' Uuid, column ''tenant_id'' Uuid, column ''user_id'' Text,
        column ''stripe_payment_intent_id'' Text, column ''amount'' Integer, column ''currency'' Text,
        column ''status'' Text, column ''created_at'' Timestamp, column ''updated_at'' Timestamp],
      st_constraints = [Unique [''id''], References ''tenant_id'' ''tenants'' ''id'',
        Unique [''stripe_payment_intent_id''], Positive ''amount'', LowerCase ''currency'',
        InList ''status'' [''requires_payment_method'', ''requires_confirmation'', ''processing'', ''succeeded'',
          ''canceled'', ''failed'']],
      st_defaults = [(''currency'', Literal ''usd''), (''created_at'', Now), (''updated_at'', Now)]\<rparr>"

definition events_table :: sql_table where
  "events_table =
     \<lparr>st_name = ''stripe_webhook_events'',
      st_columns = [column ''event_id'' Text, column ''event_type'' Text,
        (column ''payment_intent_id'' Text)\<lparr>sc_not_null := False\<rparr>, column ''processed_at'' Timestamp],
      st_constraints = [Unique [''event_id'']],
      st_defaults = [(''processed_at'', Now)]\<rparr>"

definition db_init_tables :: "sql_table list" where
  "db_init_tables = [tenants_table, users_table, resources_table, payments_table, events_table]"

definition db_init_indexes :: "(string \<times> string list) list" where
  "db_init_indexes =
     [(''users'', [''tenant_id'']), (''users'', [''tenant_id'', ''email'']), (''resources'', [''tenant_id'']),
      (''resources'', [''tenant_id'', ''owner_user_id'']), (''payments'', [''tenant_id'']),
      (''payments'', [''tenant_id'', ''user_id'']), (''stripe_webhook_events'', [''payment_intent_id''])]"

section \<open>The models of the services\<close>

text \<open>\<open>mapped_column\<close> with its arguments; every column of the code says whether it is nullable, but keys.\<close>

record mapped_column =
  mc_name :: string
  mc_type :: sql_type
  mc_primary_key :: bool
  mc_unique :: bool
  mc_nullable :: bool
  mc_foreign_key :: "string option"
  mc_index :: bool
  mc_default :: "default_value option"
  mc_server_default :: "default_value option"

abbreviation mapped :: "string \<Rightarrow> sql_type \<Rightarrow> mapped_column" where
  "mapped n ty \<equiv> \<lparr>mc_name = n, mc_type = ty, mc_primary_key = False, mc_unique = False, mc_nullable = False,
     mc_foreign_key = None, mc_index = False, mc_default = None, mc_server_default = None\<rparr>"

abbreviation primary_id :: mapped_column where
  "primary_id \<equiv> (mapped ''id'' Uuid)\<lparr>mc_primary_key := True\<rparr>"

abbreviation tenant_reference :: mapped_column where
  "tenant_reference \<equiv> (mapped ''tenant_id'' Uuid)\<lparr>mc_foreign_key := Some ''tenants.id'', mc_index := True\<rparr>"

abbreviation timestamp_now :: "string \<Rightarrow> mapped_column" where
  "timestamp_now n \<equiv> (mapped n Timestamp)\<lparr>mc_server_default := Some Now\<rparr>"

record orm_model =
  om_table :: string
  om_columns :: "mapped_column list"

definition tenant_model :: orm_model where
  "tenant_model = \<lparr>om_table = ''tenants'', om_columns =
     [primary_id, (mapped ''name'' Text)\<lparr>mc_unique := True\<rparr>,
      (mapped ''status'' Text)\<lparr>mc_default := Some (Literal ''active'')\<rparr>,
      timestamp_now ''created_at'', timestamp_now ''updated_at'']\<rparr>"

definition user_model :: orm_model where
  "user_model = \<lparr>om_table = ''users'', om_columns =
     [primary_id, (mapped ''keycloak_user_id'' Text)\<lparr>mc_unique := True\<rparr>, tenant_reference,
      mapped ''email'' Text, mapped ''role'' Text, (mapped ''status'' Text)\<lparr>mc_default := Some (Literal ''active'')\<rparr>,
      timestamp_now ''created_at'', timestamp_now ''updated_at'']\<rparr>"

definition resource_model :: orm_model where
  "resource_model = \<lparr>om_table = ''resources'', om_columns =
     [primary_id, tenant_reference, mapped ''owner_user_id'' Text, mapped ''name'' Text,
      (mapped ''data'' Jsonb)\<lparr>mc_server_default := Some (Literal ''{}'')\<rparr>, (mapped ''url'' Text)\<lparr>mc_nullable := True\<rparr>,
      timestamp_now ''created_at'', timestamp_now ''updated_at'']\<rparr>"

definition payment_model :: orm_model where
  "payment_model = \<lparr>om_table = ''payments'', om_columns =
     [primary_id, tenant_reference, mapped ''user_id'' Text,
      (mapped ''stripe_payment_intent_id'' Text)\<lparr>mc_unique := True\<rparr>, mapped ''amount'' Integer,
      (mapped ''currency'' Text)\<lparr>mc_default := Some (Literal ''usd'')\<rparr>, mapped ''status'' Text,
      timestamp_now ''created_at'', timestamp_now ''updated_at'']\<rparr>"

definition event_model :: orm_model where
  "event_model = \<lparr>om_table = ''stripe_webhook_events'', om_columns =
     [(mapped ''event_id'' Text)\<lparr>mc_primary_key := True\<rparr>, mapped ''event_type'' Text,
      (mapped ''payment_intent_id'' Text)\<lparr>mc_nullable := True, mc_index := True\<rparr>, timestamp_now ''processed_at'']\<rparr>"

definition user_service_models :: "orm_model list" where
  "user_service_models = [tenant_model, user_model]"

definition resource_service_models :: "orm_model list" where
  "resource_service_models = [tenant_model, resource_model]"

definition payment_service_models :: "orm_model list" where
  "payment_service_models = [tenant_model, payment_model, event_model]"

definition admin_service_models :: "orm_model list" where
  "admin_service_models = [tenant_model, user_model, resource_model, payment_model]"

text \<open>The statement that a model stands for.\<close>

definition model_column :: "mapped_column \<Rightarrow> sql_column" where
  "model_column c = \<lparr>sc_name = mc_name c, sc_type = mc_type c, sc_not_null = mc_primary_key c \<or> \<not> mc_nullable c\<rparr>"

definition model_constraints :: "mapped_column \<Rightarrow> constraint list" where
  "model_constraints c =
     (if mc_primary_key c \<or> mc_unique c then [Unique [mc_name c]] else []) @
     (case mc_foreign_key c of
        None \<Rightarrow> []
      | Some target \<Rightarrow> (case split_on CHR ''.'' target of [t, k] \<Rightarrow> [References (mc_name c) t k] | _ \<Rightarrow> []))"

text \<open>
  \<open>server_default\<close> is the \<open>DEFAULT\<close> of the column; \<open>default\<close> is a value of the client, which SQLAlchemy
  puts into an \<open>INSERT\<close> and no statement declares.
\<close>

definition server_defaults :: "orm_model \<Rightarrow> (string \<times> default_value) list" where
  "server_defaults m =
     concat (map (\<lambda>c. case mc_server_default c of Some v \<Rightarrow> [(mc_name c, v)] | None \<Rightarrow> []) (om_columns m))"

definition client_defaults :: "orm_model \<Rightarrow> (string \<times> default_value) list" where
  "client_defaults m =
     concat (map (\<lambda>c. case mc_default c of Some v \<Rightarrow> [(mc_name c, v)] | None \<Rightarrow> []) (om_columns m))"

definition model_table :: "orm_model \<Rightarrow> sql_table" where
  "model_table m =
     \<lparr>st_name = om_table m, st_columns = map model_column (om_columns m),
      st_constraints = concat (map model_constraints (om_columns m)),
      st_defaults = server_defaults m\<rparr>"

definition model_indexes :: "orm_model \<Rightarrow> (string \<times> string list) list" where
  "model_indexes m = map (\<lambda>c. (om_table m, [mc_name c])) (filter mc_index (om_columns m))"

text \<open>
  A model agrees with a statement: the same table with the same columns, and no constraint and no
  \<open>DEFAULT\<close> that is not declared.
\<close>

definition declares :: "sql_table \<Rightarrow> sql_table \<Rightarrow> bool" where
  "declares t m \<longleftrightarrow> st_name m = st_name t \<and> st_columns m = st_columns t \<and>
     list_all (\<lambda>c. c \<in> set (st_constraints t)) (st_constraints m) \<and>
     list_all (\<lambda>x. x \<in> set (st_defaults t)) (st_defaults m)"

section \<open>The rows of the model as rows of the tables\<close>

text \<open>\<open>st\<close> gives the \<open>updated_at\<close> of a row, which the records do not keep.\<close>

definition tenant_cells :: "(string \<Rightarrow> uuid \<Rightarrow> int) \<Rightarrow> tenant_row \<Rightarrow> sql_row" where
  "tenant_cells st t =
     [(''id'', SqlUuid (t_id t)), (''name'', SqlText (t_name t)), (''status'', SqlText (t_status t)),
      (''created_at'', SqlTime (t_created_at t)), (''updated_at'', SqlTime (st ''tenants'' (t_id t)))]"

definition user_cells :: "(string \<Rightarrow> uuid \<Rightarrow> int) \<Rightarrow> user_row \<Rightarrow> sql_row" where
  "user_cells st u =
     [(''id'', SqlUuid (u_id u)), (''keycloak_user_id'', SqlText (u_keycloak_user_id u)),
      (''tenant_id'', SqlUuid (u_tenant_id u)), (''email'', SqlText (u_email u)), (''role'', SqlText (u_role u)),
      (''status'', SqlText (u_status u)), (''created_at'', SqlTime (u_created_at u)),
      (''updated_at'', SqlTime (st ''users'' (u_id u)))]"

definition resource_cells :: "(string \<Rightarrow> uuid \<Rightarrow> int) \<Rightarrow> resource_row \<Rightarrow> sql_row" where
  "resource_cells st r =
     [(''id'', SqlUuid (r_id r)), (''tenant_id'', SqlUuid (r_tenant_id r)), (''owner_user_id'', SqlText (r_owner_user_id r)),
      (''name'', SqlText (r_name r)), (''data'', SqlJson (r_data r)),
      (''url'', case r_url r of None \<Rightarrow> SqlNull | Some u \<Rightarrow> SqlText u), (''created_at'', SqlTime (r_created_at r)),
      (''updated_at'', SqlTime (st ''resources'' (r_id r)))]"

definition payment_cells :: "(string \<Rightarrow> uuid \<Rightarrow> int) \<Rightarrow> payment_row \<Rightarrow> sql_row" where
  "payment_cells st p =
     [(''id'', SqlUuid (p_id p)), (''tenant_id'', SqlUuid (p_tenant_id p)), (''user_id'', SqlText (p_user_id p)),
      (''stripe_payment_intent_id'', SqlText (p_stripe_payment_intent_id p)), (''amount'', SqlInt (p_amount p)),
      (''currency'', SqlText (p_currency p)), (''status'', SqlText (p_status p)),
      (''created_at'', SqlTime (p_created_at p)), (''updated_at'', SqlTime (st ''payments'' (p_id p)))]"

definition event_cells :: "event_row \<Rightarrow> sql_row" where
  "event_cells e =
     [(''event_id'', SqlText (e_event_id e)), (''event_type'', SqlText (e_event_type e)),
      (''payment_intent_id'', case e_payment_intent_id e of None \<Rightarrow> SqlNull | Some i \<Rightarrow> SqlText i),
      (''processed_at'', SqlTime (e_processed_at e))]"

definition tables_of :: "(string \<Rightarrow> uuid \<Rightarrow> int) \<Rightarrow> database \<Rightarrow> sql_tables" where
  "tables_of st d name =
     (if name = ''tenants'' then map (tenant_cells st) (tenants d)
      else if name = ''users'' then map (user_cells st) (users d)
      else if name = ''resources'' then map (resource_cells st) (resources d)
      else if name = ''payments'' then map (payment_cells st) (payments d)
      else if name = ''stripe_webhook_events'' then map event_cells (events d) else [])"

section \<open>Insertion\<close>

text \<open>
  What an \<open>INSERT\<close> of a model stores: the attributes that are given; else the model's client-side
  default, which the library sends; else the \<open>DEFAULT\<close> of the table, which the server fills in; else
  null.
\<close>

fun default_cell :: "int \<Rightarrow> sql_type \<Rightarrow> default_value \<Rightarrow> sql_value" where
  "default_cell now ty Now = SqlTime now"
| "default_cell now Text (Literal s) = SqlText s"
| "default_cell now Jsonb (Literal s) = (case loads s of Some j \<Rightarrow> SqlJson j | None \<Rightarrow> SqlNull)"
| "default_cell now ty (Literal s) = SqlNull"

definition table_default :: "string \<Rightarrow> string \<Rightarrow> default_value option" where
  "table_default table column_name =
     Option.bind (find (\<lambda>t. st_name t = table) db_init_tables) (\<lambda>t. map_of (st_defaults t) column_name)"

definition insert_row :: "int \<Rightarrow> orm_model \<Rightarrow> sql_row \<Rightarrow> sql_row" where
  "insert_row now m given = map (\<lambda>c. (mc_name c,
     case map_of given (mc_name c) of
       Some v \<Rightarrow> v
     | None \<Rightarrow> (case (case mc_default c of Some d \<Rightarrow> Some d | None \<Rightarrow> table_default (om_table m) (mc_name c)) of
         Some d \<Rightarrow> default_cell now (mc_type c) d | None \<Rightarrow> SqlNull))) (om_columns m)"

text \<open>The attributes that the services give a new row.\<close>

fun insertion :: "change \<Rightarrow> (orm_model \<times> sql_row) option" where
  "insertion (InsertTenant t) = Some (tenant_model,
     [(''id'', SqlUuid (t_id t)), (''name'', SqlText (t_name t)), (''status'', SqlText (t_status t))])"
| "insertion (InsertUser u) = Some (user_model,
     [(''id'', SqlUuid (u_id u)), (''keycloak_user_id'', SqlText (u_keycloak_user_id u)),
      (''tenant_id'', SqlUuid (u_tenant_id u)), (''email'', SqlText (u_email u)), (''role'', SqlText (u_role u)),
      (''status'', SqlText (u_status u))])"
| "insertion (InsertResource r) = Some (resource_model,
     [(''id'', SqlUuid (r_id r)), (''tenant_id'', SqlUuid (r_tenant_id r)), (''owner_user_id'', SqlText (r_owner_user_id r)),
      (''name'', SqlText (r_name r)), (''data'', SqlJson (r_data r)),
      (''url'', case r_url r of None \<Rightarrow> SqlNull | Some u \<Rightarrow> SqlText u)])"
| "insertion (InsertPayment p) = Some (payment_model,
     [(''id'', SqlUuid (p_id p)), (''tenant_id'', SqlUuid (p_tenant_id p)), (''user_id'', SqlText (p_user_id p)),
      (''stripe_payment_intent_id'', SqlText (p_stripe_payment_intent_id p)), (''amount'', SqlInt (p_amount p)),
      (''currency'', SqlText (p_currency p)), (''status'', SqlText (p_status p))])"
| "insertion (InsertEvent e) = Some (event_model,
     [(''event_id'', SqlText (e_event_id e)), (''event_type'', SqlText (e_event_type e)),
      (''payment_intent_id'', case e_payment_intent_id e of None \<Rightarrow> SqlNull | Some i \<Rightarrow> SqlText i)])"
| "insertion c = None"

section \<open>Lemmas\<close>

lemmas cells_defs = tenant_cells_def user_cells_def resource_cells_def payment_cells_def event_cells_def

lemma distinct_keys:
  "distinct (map (\<lambda>x. [SqlUuid (f x)]) xs) \<longleftrightarrow> distinct (map f xs)"
  "distinct (map (\<lambda>x. [SqlText (h x)]) xs) \<longleftrightarrow> distinct (map h xs)"
  "distinct (map (\<lambda>x. [SqlUuid (f x), SqlText (h x)]) xs) \<longleftrightarrow> distinct (map (\<lambda>x. (f x, h x)) xs)"
  by (auto simp: distinct_map inj_on_def)

lemmas table_simps = table_ok_def column_ok_def cell_def tables_of_def cells_defs list_all_iff distinct_keys comp_def
  filter_map

lemma tenants_table_ok: "table_ok (tables_of st d) tenants_table \<longleftrightarrow> tenants_ok (tenants d)"
  by (auto simp: tenants_table_def tenants_ok_def table_simps)

lemma users_table_ok: "table_ok (tables_of st d) users_table \<longleftrightarrow> users_ok d"
  by (auto simp: users_table_def users_ok_def has_tenant_def table_simps)

lemma resources_table_ok: "table_ok (tables_of st d) resources_table \<longleftrightarrow> resources_ok d"
  by (auto simp: resources_table_def resources_ok_def has_tenant_def table_simps split: option.splits)

lemma payments_table_ok: "table_ok (tables_of st d) payments_table \<longleftrightarrow> amounts_fit d \<and> payments_ok d"
  by (auto simp: payments_table_def payments_ok_def amounts_fit_def has_tenant_def PAYMENT_STATUSES_def table_simps)

lemma events_table_ok: "table_ok (tables_of st d) events_table \<longleftrightarrow> events_ok (events d)"
  by (auto simp: events_table_def events_ok_def table_simps split: option.splits)

lemma declares_ok: "declares t m \<Longrightarrow> table_ok D t \<Longrightarrow> table_ok D m"
  by (auto simp: declares_def table_ok_def list_all_iff)

lemma models_declared:
  "declares tenants_table (model_table tenant_model)" "declares users_table (model_table user_model)"
  "declares resources_table (model_table resource_model)" "declares payments_table (model_table payment_model)"
  "declares events_table (model_table event_model)"
  by code_simp+

lemma model_defaults_declared:
  "set (st_defaults tenants_table) = set (server_defaults tenant_model) \<union> set (client_defaults tenant_model)"
  "set (st_defaults users_table) = set (server_defaults user_model) \<union> set (client_defaults user_model)"
  "set (st_defaults resources_table) = set (server_defaults resource_model) \<union> set (client_defaults resource_model)"
  "set (st_defaults payments_table) = set (server_defaults payment_model) \<union> set (client_defaults payment_model)"
  "set (st_defaults events_table) = set (server_defaults event_model) \<union> set (client_defaults event_model)"
  by code_simp+

lemma table_defaults:
  "table_default ''tenants'' = map_of (st_defaults tenants_table)"
  "table_default ''users'' = map_of (st_defaults users_table)"
  "table_default ''resources'' = map_of (st_defaults resources_table)"
  "table_default ''payments'' = map_of (st_defaults payments_table)"
  "table_default ''stripe_webhook_events'' = map_of (st_defaults events_table)"
  by (simp_all add: fun_eq_iff table_default_def db_init_tables_def tenants_table_def users_table_def
      resources_table_def payments_table_def events_table_def)

lemmas service_models = user_service_models_def resource_service_models_def payment_service_models_def
  admin_service_models_def

lemma verdict_tables: "schema_verdict d = None \<longleftrightarrow> list_all (table_ok (tables_of st d)) db_init_tables"
  by (simp add: db_init_tables_def tenants_table_ok users_table_ok resources_table_ok payments_table_ok
      events_table_ok schema_verdict_def schema_ok_def)

lemma literal_object: "loads ''{}'' = Some (JObj [])"
  by code_simp

section \<open>Properties\<close>

text \<open>
  C30.  No service believes more of the stored rows than the server enforces: every model of every
  service has exactly the columns of its table, with their types and nullability, declares only
  constraints and server-side defaults that the script declares, and so holds of every database that
  the server takes; what a model fills in on the client's side is what the table's own \<open>DEFAULT\<close>
  would give, and a column with a \<open>DEFAULT\<close> has a default of one of the two kinds in the model; and
  among the indexes of the script is one for each column that a model declares indexed.
\<close>

theorem models_match_schema:
  assumes "m \<in> set (user_service_models @ resource_service_models @ payment_service_models @ admin_service_models)"
  shows "(\<exists>t\<in>set db_init_tables. declares t (model_table m) \<and>
      set (st_defaults t) = set (server_defaults m) \<union> set (client_defaults m)) \<and>
    set (model_indexes m) \<subseteq> set db_init_indexes \<and>
    (schema_verdict d = None \<longrightarrow> table_ok (tables_of st d) (model_table m))"
proof -
  have m: "m \<in> {tenant_model, user_model, resource_model, payment_model, event_model}"
    using assms by (auto simp: service_models)
  have t: "\<exists>t\<in>set db_init_tables. declares t (model_table m) \<and>
      set (st_defaults t) = set (server_defaults m) \<union> set (client_defaults m)"
    using m models_declared model_defaults_declared by (auto simp: db_init_tables_def)
  have "list_all (\<lambda>m. list_all (\<lambda>i. i \<in> set db_init_indexes) (model_indexes m))
      [tenant_model, user_model, resource_model, payment_model, event_model]" by code_simp
  with m have "set (model_indexes m) \<subseteq> set db_init_indexes" by (auto simp: list_all_iff)
  moreover have "table_ok (tables_of st d) (model_table m)" if "schema_verdict d = None"
  proof -
    from that have "list_all (table_ok (tables_of st d)) db_init_tables" by (rule verdict_tables [THEN iffD1])
    with t declares_ok show ?thesis by (auto simp: list_all_iff)
  qed
  ultimately show ?thesis using t by blast
qed

theorem models_match_schema_witness:
  "schema_verdict empty_db = None \<and> table_ok (tables_of (\<lambda>_ _. 0) empty_db) (model_table event_model) \<and>
    (''stripe_webhook_events'', [''payment_intent_id'']) \<in> set db_init_indexes"
proof -
  have m: "event_model \<in> set (user_service_models @ resource_service_models @ payment_service_models @ admin_service_models)"
    by (simp add: service_models)
  have ok: "schema_verdict empty_db = None" by code_simp
  have "(''stripe_webhook_events'', [''payment_intent_id'']) \<in> set (model_indexes event_model)" by code_simp
  with models_match_schema [OF m, of empty_db "\<lambda>_ _. 0"] ok show ?thesis by blast
qed

text \<open>
  An insertion stores what the model says: of a new row the services give some columns, and the row
  that appears in the table, last, is the given values completed by the defaults of the columns; nothing
  the table requires is left to null.
\<close>

theorem insertion_stores_model:
  assumes "insertion c = Some (m, given)" and "apply_change now c d = Inr d'"
    and "\<And>k. map_of given ''id'' = Some (SqlUuid k) \<Longrightarrow> st (om_table m) k = now"
  shows "tables_of st d' (om_table m) = tables_of st d (om_table m) @ [insert_row now m given] \<and>
    list_all (column_ok (insert_row now m given)) (filter (\<lambda>c. sc_type c \<noteq> Integer) (st_columns (model_table m)))"
  using assms
  by (cases c)
    (auto simp: tables_of_def insert_row_def cells_defs tenant_model_def user_model_def resource_model_def
      payment_model_def event_model_def table_defaults tenants_table_def users_table_def resources_table_def
      payments_table_def events_table_def model_table_def model_column_def column_ok_def cell_def
      split: option.splits)

theorem insertion_stores_model_witness:
  "insert_row 7 tenant_model [(''id'', SqlUuid 3), (''name'', SqlText ''gamma''), (''status'', SqlText ''active'')] =
    last (tables_of (\<lambda>_ _. 7) (empty_db\<lparr>tenants := [\<lparr>t_id = 3, t_name = ''gamma'', t_status = ''active'', t_created_at = 7\<rparr>]\<rparr>)
      ''tenants'')"
proof -
  let ?t = "\<lparr>t_id = 3, t_name = ''gamma'', t_status = ''active'', t_created_at = 0\<rparr>"
  have "insertion (InsertTenant ?t) =
      Some (tenant_model, [(''id'', SqlUuid 3), (''name'', SqlText ''gamma''), (''status'', SqlText ''active'')])" by simp
  moreover have "apply_change 7 (InsertTenant ?t) empty_db =
      Inr (empty_db\<lparr>tenants := [\<lparr>t_id = 3, t_name = ''gamma'', t_status = ''active'', t_created_at = 7\<rparr>]\<rparr>)"
    by (simp add: empty_db_def)
  ultimately show ?thesis
    using insertion_stores_model [of "InsertTenant ?t" tenant_model _ 7 empty_db _ "\<lambda>_ _. 7"]
    by (simp add: tenant_model_def)
qed

end
