(* ===== verification/Claims_Check.thy ===== *)
theory Claims_Check
  imports Json_Text S2S_Token Auth
begin

text \<open>
  scripts/test-keycloak-claims.py: the check of a deployed Keycloak, which logs in, reads the claims
  of the token it gets without verifying the signature, and asserts what the services rely on; and
  the parts of Python's library it uses: \<open>urlencode\<close> and \<open>json.loads\<close> of bytes.

  The server is the function \<open>urlopen\<close> of the number of earlier requests and the request, with the
  body of the answer as its result.  The state of a run is what was sent and printed.
\<close>

section \<open>json.loads of bytes\<close>

datatype encoding = Utf8 | Utf16 bool | Utf32 bool

text \<open>
  \<open>json.detect_encoding\<close> and the byte-order mark that the codec takes away; the flag of a wide
  encoding tells whether it is big-endian.
\<close>

definition detect_encoding :: "int list \<Rightarrow> encoding \<times> int list" where
  "detect_encoding b =
     (if take 4 b = [0, 0, 254, 255] then (Utf32 True, drop 4 b)
      else if take 4 b = [255, 254, 0, 0] then (Utf32 False, drop 4 b)
      else if take 2 b = [254, 255] then (Utf16 True, drop 2 b)
      else if take 2 b = [255, 254] then (Utf16 False, drop 2 b)
      else if take 3 b = [239, 187, 191] then (Utf8, drop 3 b)
      else if length b \<ge> 4 \<and> b ! 0 = 0 then (if b ! 1 \<noteq> 0 then Utf16 True else Utf32 True, b)
      else if length b \<ge> 4 \<and> b ! 1 = 0 then (if b ! 2 \<noteq> 0 \<or> b ! 3 \<noteq> 0 then Utf16 False else Utf32 False, b)
      else if length b = 2 \<and> b ! 0 = 0 then (Utf16 True, b)
      else if length b = 2 \<and> b ! 1 = 0 then (Utf16 False, b)
      else (Utf8, b))"

text \<open>UTF-8 with \<open>surrogatepass\<close>: the three-byte form of a lone surrogate is taken too.\<close>

fun utf8_pass :: "int list \<Rightarrow> bool" where
  "utf8_pass [] = True"
| "utf8_pass (a # s) =
     (if a < 128 then utf8_pass s
      else if 194 \<le> a \<and> a < 224 then (case s of b # s' \<Rightarrow> is_cont b \<and> utf8_pass s' | _ \<Rightarrow> False)
      else if 224 \<le> a \<and> a < 240 then
        (case s of b # c # s' \<Rightarrow> is_cont b \<and> is_cont c \<and> (a = 224 \<longrightarrow> 160 \<le> b) \<and> utf8_pass s' | _ \<Rightarrow> False)
      else if 240 \<le> a \<and> a < 245 then
        (case s of b # c # d # s' \<Rightarrow>
            is_cont b \<and> is_cont c \<and> is_cont d \<and> (a = 240 \<longrightarrow> 144 \<le> b) \<and> (a = 244 \<longrightarrow> b < 144) \<and> utf8_pass s'
         | _ \<Rightarrow> False)
      else False)"

fun units16 :: "bool \<Rightarrow> int list \<Rightarrow> int list option" where
  "units16 big [] = Some []"
| "units16 big [a] = None"
| "units16 big (a # b # s) = map_option (Cons (if big then a * 256 + b else b * 256 + a)) (units16 big s)"

fun join_surrogates :: "int list \<Rightarrow> int list" where
  "join_surrogates (h # l # s) =
     (if 55296 \<le> h \<and> h < 56320 \<and> 56320 \<le> l \<and> l < 57344
      then (65536 + (h - 55296) * 1024 + (l - 56320)) # join_surrogates s
      else h # join_surrogates (l # s))"
| "join_surrogates s = s"

fun points32 :: "bool \<Rightarrow> int list \<Rightarrow> int list option" where
  "points32 big [] = Some []"
| "points32 big (a # b # c # d # s) =
     (let n = (if big then ((a * 256 + b) * 256 + c) * 256 + d else ((d * 256 + c) * 256 + b) * 256 + a) in
      if n \<le> 1114111 then map_option (Cons n) (points32 big s) else None)"
| "points32 big _ = None"

definition bytes_text :: "string \<Rightarrow> string option" where
  "bytes_text raw =
     (case detect_encoding (map code raw) of
        (Utf8, b) \<Rightarrow> if utf8_pass b then Some (map char_of b) else None
      | (Utf16 big, b) \<Rightarrow> map_option (\<lambda>us. concat (map utf8_char (join_surrogates us))) (units16 big b)
      | (Utf32 big, b) \<Rightarrow> map_option (\<lambda>ps. concat (map utf8_char ps)) (points32 big b))"

definition loads_bytes :: "string \<Rightarrow> json result" where
  "loads_bytes raw = of_option ValueError (Option.bind (bytes_text raw) loads)"

section \<open>urlencode\<close>

definition quote_char :: "char \<Rightarrow> string" where
  "quote_char c =
     (if 48 \<le> code c \<and> code c \<le> 57 \<or> 65 \<le> code c \<and> code c \<le> 90 \<or> 97 \<le> code c \<and> code c \<le> 122 \<or> c \<in> set ''_.-~''
      then [c] else if c = CHR '' '' then ''+'' else CHR ''%'' # map upper_char (hex_fixed 2 (code c)))"

definition quote_plus :: "string \<Rightarrow> string" where
  "quote_plus s = concat (map quote_char s)"

definition urlencode :: "(string \<times> string) list \<Rightarrow> string" where
  "urlencode query = str_join ''&'' (map (\<lambda>(k, v). quote_plus k @ ''='' @ quote_plus v) query)"

section \<open>The script\<close>

definition getenv :: "source \<Rightarrow> string \<Rightarrow> string \<Rightarrow> string" where
  "getenv environ key d = (case environ key of Some v \<Rightarrow> v | None \<Rightarrow> d)"

definition KEYCLOAK_URL :: "source \<Rightarrow> string" where
  "KEYCLOAK_URL environ = getenv environ ''KEYCLOAK_URL'' ''http://localhost:18080''"

definition REALM :: "source \<Rightarrow> string" where
  "REALM environ = getenv environ ''KEYCLOAK_REALM'' ''saas-platform''"

definition PASSWORD :: "source \<Rightarrow> string" where
  "PASSWORD environ = getenv environ ''KEYCLOAK_LAB_USER_PASSWORD'' ''TestPass123!''"

definition CLIENT_ID :: "source \<Rightarrow> string" where
  "CLIENT_ID environ = getenv environ ''KEYCLOAK_TEST_CLIENT_ID'' ''saas-spa''"

record url_request =
  url_of :: string
  data_of :: "string option"
  headers_of :: "(string \<times> string) list"
  method_of :: string

type_synonym url_opener = "nat \<Rightarrow> url_request \<Rightarrow> string result"

record claims_run =
  sent :: "url_request list"
  shown :: "string list"

definition urlopen :: "url_opener \<Rightarrow> url_request \<Rightarrow> (claims_run, string) prog" where
  "urlopen net req w = (net (length (sent w)) req, w\<lparr>sent := sent w @ [req]\<rparr>)"

text \<open>\<open>v[key]\<close> of a parsed value.\<close>

definition subscript :: "json \<Rightarrow> string \<Rightarrow> json result" where
  "subscript v key = (if is_dict v then of_option KeyError (dict_get v key) else Inl TypeError)"

definition fetch_token :: "source \<Rightarrow> url_opener \<Rightarrow> string \<Rightarrow> (claims_run, json) prog" where
  "fetch_token environ net username =
     (let payload = urlencode
            [(''grant_type'', ''password''), (''client_id'', CLIENT_ID environ), (''username'', username),
             (''password'', PASSWORD environ), (''scope'', ''openid profile email'')];
          request =
            \<lparr>url_of = KEYCLOAK_URL environ @ ''/realms/'' @ REALM environ @ ''/protocol/openid-connect/token'',
             data_of = Some payload, headers_of = [(''Content-Type'', ''application/x-www-form-urlencoded'')],
             method_of = ''POST''\<rparr> in
      bindM (urlopen net request) (\<lambda>response.
      bindM (liftE (loads_bytes response)) (\<lambda>j.
      liftE (subscript j ''access_token''))))"

text \<open>\<open>token.split\<close> is an attribute of a \<open>str\<close> only.\<close>

definition decode_payload :: "json \<Rightarrow> json result" where
  "decode_payload token =
     (case token of
        JStr t \<Rightarrow>
          (case split_on CHR ''.'' t of
             a # payload # rest \<Rightarrow> bindE (of_option ValueError (urlsafe_b64decode (pad_b64 payload))) loads_bytes
           | _ \<Rightarrow> Inl (OtherError ''IndexError''))
      | _ \<Rightarrow> Inl AttributeError)"

text \<open>\<open>v.get(key, default)\<close> and \<open>x in v\<close> of parsed values.\<close>

definition get_or :: "json \<Rightarrow> string \<Rightarrow> json \<Rightarrow> json result" where
  "get_or v key d =
     (if is_dict v then Inr (case dict_get v key of Some x \<Rightarrow> x | None \<Rightarrow> d) else Inl AttributeError)"

definition member_of :: "string \<Rightarrow> json \<Rightarrow> bool result" where
  "member_of x v =
     (case v of
        JArr xs \<Rightarrow> Inr (JStr x \<in> set xs) | JObj items \<Rightarrow> Inr (x \<in> set (map fst items))
      | JStr s \<Rightarrow> Inr (contains x s) | _ \<Rightarrow> Inl TypeError)"

definition assert_that :: "bool \<Rightarrow> unit result" where
  "assert_that b = (if b then Inr () else Inl (OtherError ''AssertionError''))"

definition check_token_claims :: "json \<Rightarrow> string \<Rightarrow> string \<Rightarrow> unit result" where
  "check_token_claims claims tenant_id role =
     bindE (get_or claims ''aud'' (JArr [])) (\<lambda>aud.
     let audience = (case aud of JStr s \<Rightarrow> JArr [JStr s] | a \<Rightarrow> a) in
     bindE (subscript claims ''tenant_id'') (\<lambda>t.
     bindE (assert_that (t = JStr tenant_id)) (\<lambda>_.
     bindE (member_of ''saas-api'' audience) (\<lambda>a.
     bindE (assert_that a) (\<lambda>_.
     bindE (get_or claims ''realm_access'' (JObj [])) (\<lambda>ra.
     bindE (get_or ra ''roles'' (JArr [])) (\<lambda>roles.
     bindE (member_of role roles) (\<lambda>r.
     bindE (assert_that r) (\<lambda>_.
     bindE (get_or claims ''exp'' JNull) (\<lambda>x.
     bindE (assert_that (py_true x)) (\<lambda>_.
     bindE (get_or claims ''jti'' JNull) (\<lambda>x.
     assert_that (py_true x)))))))))))))"

definition show_line :: "string \<Rightarrow> (claims_run, unit) prog" where
  "show_line s = modify (\<lambda>w. w\<lparr>shown := shown w @ [s]\<rparr>)"

definition assert_token :: "source \<Rightarrow> url_opener \<Rightarrow> string \<Rightarrow> string \<Rightarrow> string \<Rightarrow> (claims_run, unit) prog" where
  "assert_token environ net username tenant_id role =
     bindM (fetch_token environ net username) (\<lambda>token.
     bindM (liftE (decode_payload token)) (\<lambda>claims.
     bindM (liftE (check_token_claims claims tenant_id role)) (\<lambda>_.
     show_line (username @ '': OK''))))"

definition assert_jwks :: "source \<Rightarrow> url_opener \<Rightarrow> (claims_run, unit) prog" where
  "assert_jwks environ net =
     bindM (urlopen net \<lparr>url_of = KEYCLOAK_URL environ @ ''/realms/'' @ REALM environ @ ''/protocol/openid-connect/certs'',
       data_of = None, headers_of = [], method_of = ''GET''\<rparr>) (\<lambda>response.
     bindM (liftE (loads_bytes response)) (\<lambda>jwks.
     bindM (liftE (get_or jwks ''keys'' JNull)) (\<lambda>keys.
     bindM (liftE (assert_that (py_true keys))) (\<lambda>_.
     show_line ''jwks: OK''))))"

definition claims_main :: "source \<Rightarrow> url_opener \<Rightarrow> (claims_run, unit) prog" where
  "claims_main environ net =
     bindM (assert_token environ net ''alpha-user@example.com'' ''11111111-1111-1111-1111-111111111111'' ''tenant_user'') (\<lambda>_.
     bindM (assert_token environ net ''beta-admin@example.com'' ''22222222-2222-2222-2222-222222222222'' ''tenant_admin'') (\<lambda>_.
     assert_jwks environ net))"

section \<open>Lemmas\<close>

lemma utf8_pass_ascii: "\<forall>b\<in>set s. b < 128 \<Longrightarrow> utf8_pass s"
  by (induction s) auto

lemma detect_utf8: "0 < a \<Longrightarrow> a < 128 \<Longrightarrow> 0 < c \<Longrightarrow> detect_encoding (a # c # r) = (Utf8, a # c # r)"
  by (simp add: detect_encoding_def)

lemma chars_of_codes: "map char_of (map code s) = s"
  by (simp add: code_def comp_def)

lemma object_text:
  "\<exists>c r. dumps True (JObj items) = CHR ''{'' # c # r \<and> 0 < code c"
proof (cases "sort_key fst items")
  case Nil
  then show ?thesis unfolding dumps_obj by (simp add: comma_join_def code_def)
next
  case (Cons kv rest)
  then obtain k v where "sort_key fst items = (k, v) # rest" by (cases kv) auto
  then show ?thesis unfolding dumps_obj by (cases rest) (auto simp: comma_join_def dump_string_def)
qed

text \<open>A dict that \<open>json.dumps\<close> wrote is taken for UTF-8 and read back.\<close>

lemma loads_bytes_dumps:
  assumes "plain (JObj items)"
  shows "loads_bytes (dumps True (JObj items)) = Inr (canon (JObj items))"
proof -
  let ?s = "dumps True (JObj items)"
  obtain c r where s: "?s = CHR ''{'' # c # r" and c: "0 < code c" using object_text by blast
  have "code CHR ''{'' = 123" by (simp add: code_def)
  with s c have "detect_encoding (map code ?s) = (Utf8, map code ?s)" by (simp add: detect_utf8)
  moreover have "utf8_pass (map code ?s)"
    using is_ascii_dumps [OF assms] by (intro utf8_pass_ascii) (simp add: is_ascii_def list_all_iff)
  moreover have "map char_of (map code ?s) = ?s" by (rule chars_of_codes)
  ultimately have "bytes_text ?s = Some ?s" by (simp add: bytes_text_def)
  with loads_dumps [OF assms] show ?thesis by (simp add: loads_bytes_def)
qed

text \<open>The claims of any token of the form \<open>header.payload.signature\<close>, with the padding left out.\<close>

lemma decode_minted:
  assumes "plain (JObj items)" and "CHR ''.'' \<notin> set header"
  shows "decode_payload (JStr (header @ ''.'' @ b64url_json (JObj items) @ ''.'' @ sig)) = Inr (canon (JObj items))"
  using assms b64url_chars [of "dumps True (JObj items)"] loads_bytes_dumps [OF assms(1)]
  by (cases "split_on CHR ''.'' sig") (simp_all add: decode_payload_def split_on_append b64url_json_def b64url_round_trip)

lemma check_token_claims_Inr:
  assumes "check_token_claims claims tenant_id role = Inr ()"
  shows "dict_get claims ''tenant_id'' = Some (JStr tenant_id)"
    and "\<exists>ra roles. get_or claims ''realm_access'' (JObj []) = Inr ra \<and> get_or ra ''roles'' (JArr []) = Inr roles \<and>
      member_of role roles = Inr True"
  using assms
  by (auto simp: check_token_claims_def bindE_eq_Inr subscript_def assert_that_def Let_def split: if_splits option.splits)

text \<open>
  What PyJWT returns after its own checks: the claims that the payload of the token holds, of which
  the services read the tenant and the roles.
\<close>

definition reads_as :: "json \<Rightarrow> claims \<Rightarrow> bool" where
  "reads_as j c \<longleftrightarrow> dict_get j ''tenant_id'' = map_option JStr (claim_tenant_id c) \<and>
     (\<forall>ra roles. get_or j ''realm_access'' (JObj []) = Inr ra \<longrightarrow> get_or ra ''roles'' (JArr []) = Inr roles \<longrightarrow>
        roles = JArr (map JStr (roles_of c)))"

definition reads_payload :: "'k jwt_lib \<Rightarrow> bool" where
  "reads_payload lib \<longleftrightarrow> (\<forall>token k algs aud iss required c.
     decode lib token k algs aud iss required = Inr c \<longrightarrow> (\<exists>j. decode_payload (JStr token) = Inr j \<and> reads_as j c))"

lemma verified_payload:
  assumes "reads_payload lib" and "verify_jwt_token lib n s token a = (Inr u, b)"
  shows "\<exists>j c. decode_payload (JStr token) = Inr j \<and> reads_as j c \<and> u = user_of_claims c"
  using assms
  by (fastforce simp: verify_jwt_token_def decode_token_def reads_payload_def bindM_eq_Inr catchM_def liftE_def
      split: prod.splits sum.splits)

section \<open>Properties\<close>

text \<open>
  C29.  What the check of the deployment is worth: if it passes for a user, a tenant and a role, then
  whoever the services take the bearer of that very token for, once its signature verifies, belongs to
  that tenant and has that role.
\<close>

theorem checked_token_serves:
  assumes "reads_payload lib" and "assert_token environ net username tenant_id role w = (Inr (), w')"
    and "fetch_token environ net username w = (Inr (JStr token), w1)"
    and "verify_jwt_token lib n s token a = (Inr u, b)"
  shows "cu_tenant_id u = Some tenant_id \<and> has_role role u \<and> shown w' = shown w1 @ [username @ '': OK'']"
proof -
  obtain j c where j: "decode_payload (JStr token) = Inr j" and c: "reads_as j c" and u: "u = user_of_claims c"
    using verified_payload [OF assms(1,4)] by blast
  have ok: "check_token_claims j tenant_id role = Inr ()" and w': "shown w' = shown w1 @ [username @ '': OK'']"
    using assms(2,3) j by (auto simp: assert_token_def bindM_eq_Inr liftE_def show_line_def modify_def)
  from check_token_claims_Inr(1) [OF ok] c have "claim_tenant_id c = Some tenant_id"
    by (cases "claim_tenant_id c") (auto simp: reads_as_def)
  moreover from check_token_claims_Inr(2) [OF ok] c have "role \<in> set (roles_of c)"
    by (auto simp: reads_as_def member_of_def)
  ultimately show ?thesis using u w' by (simp add: user_of_claims_def has_role_def)
qed

definition demo_minted :: string where
  "demo_minted = ''h.'' @ b64url_json (JObj
     [(''aud'', JStr ''saas-api''), (''exp'', JInt 9), (''jti'', JStr ''j1''),
      (''realm_access'', JObj [(''roles'', JArr [JStr ''tenant_user''])]), (''tenant_id'', JStr ''t1'')]) @ ''.s''"

definition demo_keycloak :: url_opener where
  "demo_keycloak n req = Inr (dumps True (JObj [(''access_token'', JStr demo_minted)]))"

definition minted_lib :: "string jwt_lib" where
  "minted_lib = (demo_lib (demo_claims ''u1'' (Some ''t1'') [''tenant_user'']))\<lparr>decode := (\<lambda>t k algs aud iss required.
     if t = demo_minted then Inr (demo_claims ''u1'' (Some ''t1'') [''tenant_user'']) else Inl InvalidTokenError)\<rparr>"

theorem checked_token_serves_witness:
  "\<exists>u b. verify_jwt_token minted_lib demo_net demo_settings demo_minted demo_app = (Inr u, b) \<and>
    cu_tenant_id u = Some ''t1'' \<and> has_role ''tenant_user'' u"
proof -
  have "decode_payload (JStr demo_minted) = Inr (JObj
     [(''aud'', JStr ''saas-api''), (''exp'', JInt 9), (''jti'', JStr ''j1''),
      (''realm_access'', JObj [(''roles'', JArr [JStr ''tenant_user''])]), (''tenant_id'', JStr ''t1'')])" by code_simp
  then have "reads_payload minted_lib"
    by (auto simp: reads_payload_def minted_lib_def reads_as_def get_or_def is_dict_def demo_claims_def roles_of_def
        split: if_splits)
  moreover have "assert_token Map.empty demo_keycloak ''u1'' ''t1'' ''tenant_user'' \<lparr>sent = [], shown = []\<rparr> =
      (Inr (), snd (assert_token Map.empty demo_keycloak ''u1'' ''t1'' ''tenant_user'' \<lparr>sent = [], shown = []\<rparr>))"
    by (rule prod_eqI) (code_simp, simp)
  moreover have "fetch_token Map.empty demo_keycloak ''u1'' \<lparr>sent = [], shown = []\<rparr> =
      (Inr (JStr demo_minted), snd (fetch_token Map.empty demo_keycloak ''u1'' \<lparr>sent = [], shown = []\<rparr>))"
    by (rule prod_eqI) (code_simp, simp)
  moreover have "case verify_jwt_token minted_lib demo_net demo_settings demo_minted demo_app of (r, b) \<Rightarrow>
      (case r of Inl _ \<Rightarrow> False | Inr u \<Rightarrow> True)" by code_simp
  then obtain u b where "verify_jwt_token minted_lib demo_net demo_settings demo_minted demo_app = (Inr u, b)"
    by (elim runE) (auto split: sum.splits)
  ultimately show ?thesis using checked_token_serves by blast
qed

end
