(* ===== verification/Key_Cache.thy ===== *)
theory Key_Cache
  imports Auth
begin

text \<open>
  The JWKS cache of shared/security_middleware.py over many lookups: how old the key set is
  that an answer comes from, and how often the cache goes to the network.
\<close>

section \<open>Runs of lookups\<close>

text \<open>The outcomes of a sequence of \<open>get_key\<close> calls on one cache.\<close>

fun lookups ::
    "'k jwt_lib \<Rightarrow> net \<Rightarrow> settings \<Rightarrow> string list \<Rightarrow> 'z app_scheme \<Rightarrow> 'k result list \<times> 'z app_scheme" where
  "lookups lib n s [] a = ([], a)"
| "lookups lib n s (k # ks) a =
     (case get_key lib n s k a of (r, b) \<Rightarrow> apfst (Cons r) (lookups lib n s ks b))"

text \<open>The state before the \<open>i\<close>-th lookup of a run, and how far its loads and clock readings went.\<close>

definition at_lookup ::
    "'k jwt_lib \<Rightarrow> net \<Rightarrow> settings \<Rightarrow> string list \<Rightarrow> 'z app_scheme \<Rightarrow> nat \<Rightarrow> 'z app_scheme" where
  "at_lookup lib n s kids a i = snd (lookups lib n s (take i kids) a)"

text \<open>The identity provider serves one key set at every load.\<close>

definition serves :: "net \<Rightarrow> settings \<Rightarrow> jwk list \<Rightarrow> bool" where
  "serves n s ks \<longleftrightarrow> (\<forall>i. load_jwks n i (jwks_url s) = Inr ks)"

text \<open>What it holds does not expire at any moment of the clock.\<close>

definition fresh :: "net \<Rightarrow> 'z app_scheme \<Rightarrow> bool" where
  "fresh n a \<longleftrightarrow> (\<forall>t. clock n t < expires_at (cache a))"

definition short_run :: "net \<Rightarrow> settings \<Rightarrow> bool" where
  "short_run n s \<longleftrightarrow> (\<forall>t u. clock n t < clock n u + jwks_cache_ttl_seconds s)"

section \<open>Lemmas\<close>

lemma get_jwks_fresh:
  assumes "serves n s ks" and "short_run n s" and "jwks (cache a) = None \<or> jwks (cache a) = Some ks \<and> fresh n a"
    and "get_jwks n s a = (r, b)"
  shows "r = Inr ks \<and> jwks (cache b) = Some ks \<and> fresh n b \<and>
    fetches b = fetches a + (if jwks (cache a) = None then 1 else 0)"
  using assms
  by (auto simp: serves_def short_run_def fresh_def get_jwks_def read_clock_def bindM_def refresh_apply
      linorder_not_less [symmetric] split: if_splits)

lemma get_key_fresh:
  assumes "serves n s ks" and "short_run n s" and "jwks (cache a) = None \<or> jwks (cache a) = Some ks \<and> fresh n a"
    and "get_key lib n s k a = (r, b)"
  shows "jwks (cache b) = Some ks \<and> fresh n b \<and>
    fetches b = fetches a + (if jwks (cache a) = None then 1 else 0) + (if find_key ks k = None then 1 else 0)"
proof -
  obtain q a1 where j: "get_jwks n s a = (q, a1)" by fastforce
  from get_jwks_fresh [OF assms(1-3) j] have "q = Inr ks" "jwks (cache a1) = Some ks" "fresh n a1"
    "fetches a1 = fetches a + (if jwks (cache a) = None then 1 else 0)" by auto
  with assms(1,2,4) j show ?thesis
    by (auto simp: get_key_def bindM_def refresh_apply serves_def fresh_def short_run_def split: option.splits)
qed

lemma fetches_held:
  assumes "serves n s ks" and "short_run n s" and "jwks (cache a) = Some ks" and "fresh n a"
    and "lookups lib n s kids a = (rs, b)"
  shows "fetches b = fetches a + length (filter (\<lambda>k. find_key ks k = None) kids)"
  using assms(3-5)
proof (induction kids arbitrary: a rs)
  case (Cons k kids)
  obtain r a1 where g: "get_key lib n s k a = (r, a1)" by fastforce
  from g Cons.prems(3) obtain rs1 where l: "lookups lib n s kids a1 = (rs1, b)"
    by (cases "lookups lib n s kids a1") auto
  from get_key_fresh [OF assms(1,2) _ g] Cons.prems(1,2) have "jwks (cache a1) = Some ks" "fresh n a1"
    "fetches a1 = fetches a + (if find_key ks k = None then 1 else 0)" by auto
  with Cons.IH [OF this(1,2) l] show ?case by simp
qed simp

text \<open>
  \<open>dated_load n s a b f t ks\<close>: between \<open>a\<close> and \<open>b\<close> the key set \<open>ks\<close> came with load \<open>f\<close>, and \<open>t\<close> was the
  last clock reading; \<open>dated n s ks t\<close> is the cache that this leaves; \<open>no_load n s f a\<close>: up to \<open>a\<close>
  there was no successful load from the \<open>f\<close>-th on.
\<close>

definition dated_load :: "net \<Rightarrow> settings \<Rightarrow> 'z app_scheme \<Rightarrow> 'z app_scheme \<Rightarrow> nat \<Rightarrow> nat \<Rightarrow> jwk list \<Rightarrow> bool" where
  "dated_load n s a b f t ks \<longleftrightarrow>
     fetches a \<le> f \<and> f < fetches b \<and> Suc t = ticks b \<and> load_jwks n f (jwks_url s) = Inr ks"

definition dated :: "net \<Rightarrow> settings \<Rightarrow> jwk list \<Rightarrow> nat \<Rightarrow> jwks_cache" where
  "dated n s ks t = \<lparr>jwks = Some ks, expires_at = clock n t + jwks_cache_ttl_seconds s\<rparr>"

definition no_load :: "net \<Rightarrow> settings \<Rightarrow> nat \<Rightarrow> 'z app_scheme \<Rightarrow> bool" where
  "no_load n s f a \<longleftrightarrow> (\<forall>g. f \<le> g \<and> g < fetches a \<longrightarrow> load_jwks n g (jwks_url s) \<notin> range Inr)"

text \<open>One lookup: it leaves a cache it has just loaded, or the one it found.\<close>

lemma refresh_dated:
  assumes "refresh n s a = (r, b)"
  shows "(\<exists>ks. r = Inr ks \<and> fetches b = Suc (fetches a) \<and> ticks b = Suc (ticks a) \<and>
      load_jwks n (fetches a) (jwks_url s) = Inr ks \<and> cache b = dated n s ks (ticks a)) \<or>
    (\<exists>e. r = Inl e \<and> fetches b = Suc (fetches a) \<and> ticks b = ticks a \<and> cache b = cache a \<and>
      load_jwks n (fetches a) (jwks_url s) = Inl e)"
proof (cases "load_jwks n (fetches a) (jwks_url s)")
  case (Inl e)
  from assms have "r = Inl e" "b = a\<lparr>fetches := Suc (fetches a)\<rparr>" by (simp_all add: refresh_apply Inl)
  with Inl show ?thesis by simp
next
  case (Inr ks)
  with assms show ?thesis unfolding refresh_apply by (auto simp: dated_def)
qed

lemma get_jwks_dated:
  assumes "get_jwks n s a = (r, b)"
  shows "(\<exists>ks t. r = Inr ks \<and> fetches b = Suc (fetches a) \<and> Suc t = ticks b \<and>
      load_jwks n (fetches a) (jwks_url s) = Inr ks \<and> cache b = dated n s ks t) \<or>
    (\<exists>e. r = Inl e \<and> fetches b = Suc (fetches a) \<and> cache b = cache a \<and>
      load_jwks n (fetches a) (jwks_url s) = Inl e) \<or>
    (\<exists>ks. r = Inr ks \<and> jwks (cache a) = Some ks \<and> clock n (ticks a) < expires_at (cache a) \<and>
      b = a\<lparr>ticks := Suc (ticks a)\<rparr>)"
  using assms
  by (cases "load_jwks n (fetches a) (jwks_url s)")
    (auto simp: get_jwks_def read_clock_def bindM_def refresh_apply dated_def split: option.splits if_splits)

lemma no_load_trans: "no_load n s f a \<Longrightarrow> no_load n s (fetches a) b \<Longrightarrow> no_load n s f b"
  unfolding no_load_def by (meson not_less)

lemma get_key_steps:
  assumes "get_key lib n s k a = (r, b)" and "get_jwks n s a = (q, c)"
  shows "b = c \<and> (q \<in> range Inl \<longrightarrow> r \<in> range Inl) \<or>
    (\<exists>q'. refresh n s c = (q', b) \<and> (q' \<in> range Inl \<longrightarrow> r \<in> range Inl))"
proof (cases q)
  case (Inr ks)
  with assms show ?thesis
    by (cases "refresh n s c"; cases "fst (refresh n s c)")
      (auto simp: get_key_def bindM_def split: option.splits)
qed (use assms in \<open>auto simp: get_key_def bindM_def\<close>)

lemma get_key_dated:
  assumes "get_key lib n s k a = (r, b)"
  shows "(\<exists>f t ks. dated_load n s a b f t ks \<and> cache b = dated n s ks t \<and> no_load n s (Suc f) b) \<or>
    (cache b = cache a \<and> no_load n s (fetches a) b \<and>
      (r \<in> range Inr \<longrightarrow> clock n (ticks a) < expires_at (cache a)))"
proof -
  obtain q c where j: "get_jwks n s a = (q, c)" by fastforce
  have new: "dated_load n s a c (fetches a) t ks" "no_load n s (Suc (fetches a)) c"
    if "fetches c = Suc (fetches a)" "Suc t = ticks c" "load_jwks n (fetches a) (jwks_url s) = Inr ks" for t ks
    using that by (auto simp: dated_load_def no_load_def)
  from get_key_steps [OF assms j] show ?thesis
  proof (elim disjE exE conjE)
    assume "b = c" "q \<in> range Inl \<longrightarrow> r \<in> range Inl"
    from get_jwks_dated [OF j] show ?thesis
    proof (elim disjE exE conjE)
      fix ks t
      assume "fetches c = Suc (fetches a)" "Suc t = ticks c" "load_jwks n (fetches a) (jwks_url s) = Inr ks"
        "cache c = dated n s ks t"
      with new [of t ks] \<open>b = c\<close> show ?thesis by blast
    next
      fix e
      assume "q = Inl e" "fetches c = Suc (fetches a)" "cache c = cache a"
        "load_jwks n (fetches a) (jwks_url s) = Inl e"
      with \<open>b = c\<close> \<open>q \<in> range Inl \<longrightarrow> r \<in> range Inl\<close> show ?thesis by (auto simp: no_load_def less_Suc_eq)
    next
      fix ks
      assume "clock n (ticks a) < expires_at (cache a)" "c = a\<lparr>ticks := Suc (ticks a)\<rparr>"
      with \<open>b = c\<close> show ?thesis by (auto simp: no_load_def)
    qed
  next
    fix q'
    assume f: "refresh n s c = (q', b)" and q': "q' \<in> range Inl \<longrightarrow> r \<in> range Inl"
    from get_jwks_dated [OF j] refresh_dated [OF f] have "fetches a \<le> fetches c" by auto
    from refresh_dated [OF f] show ?thesis
    proof (elim disjE exE conjE)
      fix ks
      assume "q' = Inr ks" "fetches b = Suc (fetches c)" "ticks b = Suc (ticks c)"
        "load_jwks n (fetches c) (jwks_url s) = Inr ks" "cache b = dated n s ks (ticks c)"
      with \<open>fetches a \<le> fetches c\<close> show ?thesis
        by (intro disjI1 exI [of _ "fetches c"] exI [of _ "ticks c"] exI [of _ ks])
          (auto simp: dated_load_def no_load_def)
    next
      fix e
      assume e: "q' = Inl e" "fetches b = Suc (fetches c)" "ticks b = ticks c" "cache b = cache c"
        "load_jwks n (fetches c) (jwks_url s) = Inl e"
      have "r \<in> range Inl" using q' e(1) by simp
      then have "r \<notin> range Inr" by auto
      from e have n: "no_load n s (fetches c) b" by (auto simp: no_load_def less_Suc_eq)
      from get_jwks_dated [OF j] show ?thesis
      proof (elim disjE exE conjE)
        fix ks t
        assume h: "fetches c = Suc (fetches a)" "Suc t = ticks c" "load_jwks n (fetches a) (jwks_url s) = Inr ks"
          "cache c = dated n s ks t"
        from new [OF h(1-3)] no_load_trans [OF _ n] h e show ?thesis
          by (intro disjI1 exI [of _ "fetches a"] exI [of _ t] exI [of _ ks]) (auto simp: dated_load_def)
      qed (use e n \<open>r \<notin> range Inr\<close> in \<open>auto simp: no_load_def less_Suc_eq\<close>)
    qed
  qed
qed

text \<open>The run, lookup by lookup.\<close>

lemma lookups_nth:
  assumes "lookups lib n s kids a = (rs, b)" and "i < length kids"
  shows "get_key lib n s (kids ! i) (at_lookup lib n s kids a i) = (rs ! i, at_lookup lib n s kids a (Suc i))"
  using assms
proof (induction kids arbitrary: a rs i)
  case (Cons k kids)
  obtain r c where g: "get_key lib n s k a = (r, c)" by fastforce
  obtain rs' where l: "lookups lib n s kids c = (rs', b)" "rs = r # rs'"
    using Cons.prems(1) g by (cases "lookups lib n s kids c") auto
  show ?case
  proof (cases i)
    case 0
    with g l show ?thesis by (simp add: at_lookup_def)
  next
    case (Suc i')
    with Cons.IH [OF l(1), of i'] Cons.prems(2) g l(2) show ?thesis
      by (simp add: at_lookup_def split: prod.splits)
  qed
qed simp

lemma at_lookup_dated:
  assumes "jwks (cache a) = None" and "i \<le> length kids"
  shows "jwks (cache (at_lookup lib n s kids a i)) = None \<or>
    (\<exists>m<i. \<exists>f t ks. dated_load n s (at_lookup lib n s kids a m) (at_lookup lib n s kids a (Suc m)) f t ks \<and>
       cache (at_lookup lib n s kids a i) = dated n s ks t \<and> no_load n s (Suc f) (at_lookup lib n s kids a i))"
  using assms(2)
proof (induction i)
  case 0
  with assms(1) show ?case by (simp add: at_lookup_def)
next
  case (Suc i)
  let ?a = "at_lookup lib n s kids a"
  obtain rs b where l: "lookups lib n s kids a = (rs, b)" by fastforce
  from Suc.prems have i: "i < length kids" by simp
  from get_key_dated [OF lookups_nth [OF l i]] show ?case
  proof (elim disjE exE conjE)
    fix f t ks
    assume "dated_load n s (?a i) (?a (Suc i)) f t ks" "cache (?a (Suc i)) = dated n s ks t"
      "no_load n s (Suc f) (?a (Suc i))"
    then show ?thesis by (intro disjI2) blast
  next
    assume h: "cache (?a (Suc i)) = cache (?a i)" "no_load n s (fetches (?a i)) (?a (Suc i))"
    with Suc show ?thesis by (metis Suc_leD less_SucI no_load_trans)
  qed
qed

section \<open>Properties\<close>

text \<open>
  C24.  No key is older than the lifetime of the cache.  In a run of lookups on a cache that starts
  empty, whatever keys the identity provider serves at each load and however the clock goes, a key
  that the \<open>i\<close>-th lookup answers is the one for its \<open>kid\<close> in the key set of a load \<open>f\<close> that some
  lookup \<open>m\<close> up to the \<open>i\<close>-th made: it is the newest key set that could be loaded until then, and
  either it was loaded for this very lookup or the clock, as read by this lookup, is less than
  \<open>jwks_cache_ttl_seconds\<close> past the last reading of lookup \<open>m\<close>, which is the one it made right after
  that load.
\<close>

theorem key_answers_fresh:
  fixes a :: "'z app_scheme"
  assumes "jwks (cache a) = None" and "lookups lib n s kids a = (rs, b)"
    and "i < length kids" and "rs ! i = Inr key"
  shows "\<exists>m f t ks j. m \<le> i \<and>
    fetches (at_lookup lib n s kids a m) \<le> f \<and> f < fetches (at_lookup lib n s kids a (Suc m)) \<and>
    Suc t = ticks (at_lookup lib n s kids a (Suc m)) \<and>
    load_jwks n f (jwks_url s) = Inr ks \<and>
    (\<forall>g. f < g \<and> g < fetches (at_lookup lib n s kids a (Suc i)) \<longrightarrow> load_jwks n g (jwks_url s) \<notin> range Inr) \<and>
    find_key ks (kids ! i) = Some j \<and> from_jwk lib j = Inr key \<and>
    (m = i \<or> clock n (ticks (at_lookup lib n s kids a i)) < clock n t + jwks_cache_ttl_seconds s)"
proof -
  let ?a = "at_lookup lib n s kids a"
  from lookups_nth [OF assms(2,3)] assms(4) have g: "get_key lib n s (kids ! i) (?a i) = (Inr key, ?a (Suc i))"
    by simp
  from at_lookup_dated [OF assms(1), of i kids lib n s] assms(3)
  have d: "jwks (cache (?a i)) = None \<or> (\<exists>m<i. \<exists>f t ks. dated_load n s (?a m) (?a (Suc m)) f t ks \<and>
      cache (?a i) = dated n s ks t \<and> no_load n s (Suc f) (?a i))" by simp
  from get_key_Inr [OF g] obtain ks j where k: "jwks (cache (?a (Suc i))) = Some ks"
    "find_key ks (kids ! i) = Some j" "from_jwk lib j = Inr key" by blast
  from get_key_dated [OF g] show ?thesis
  proof (elim disjE exE conjE)
    fix f t ks'
    assume l: "dated_load n s (?a i) (?a (Suc i)) f t ks'" "cache (?a (Suc i)) = dated n s ks' t"
      and "no_load n s (Suc f) (?a (Suc i))"
    moreover from l(2) k(1) have "ks' = ks" by (simp add: dated_def)
    ultimately show ?thesis using k(2,3) unfolding dated_load_def no_load_def Suc_le_eq by blast
  next
    assume h: "cache (?a (Suc i)) = cache (?a i)" "no_load n s (fetches (?a i)) (?a (Suc i))"
      "Inr key \<in> range Inr \<longrightarrow> clock n (ticks (?a i)) < expires_at (cache (?a i))"
    with k(1) d obtain m f t where m: "m < i" "dated_load n s (?a m) (?a (Suc m)) f t ks"
      "cache (?a i) = dated n s ks t" "no_load n s (Suc f) (?a i)" by (auto simp: dated_def)
    have "no_load n s (Suc f) (?a (Suc i))" using no_load_trans m(4) h(2) by blast
    moreover have "m \<le> i" and "clock n (ticks (?a i)) < clock n t + jwks_cache_ttl_seconds s"
      using m(1,3) h(3) by (simp_all add: dated_def)
    ultimately show ?thesis using m(2) k(2,3) unfolding dated_load_def no_load_def Suc_le_eq by blast
  qed
qed

text \<open>
  A provider that rotates its key at the second load, in a run longer than the lifetime of the cache:
  the first two lookups are answered from the first load, the third from the second.
\<close>

definition rotating_net :: net where
  "rotating_net =
     \<lparr>http_get = (\<lambda>i _. Inr (if i = 0 then ''old'' else ''new'')),
      response_json = (\<lambda>text. Inr [\<lparr>kid = Some ''k1'', jwk_json = text\<rparr>]),
      clock = (\<lambda>t. 200 * int t)\<rparr>"

theorem key_answers_fresh_witness:
  "fst (lookups (demo_lib (demo_claims ''u'' None [])) rotating_net demo_settings [''k1'', ''k1'', ''k1''] demo_app) =
     [Inr ''old'', Inr ''old'', Inr ''new''] \<and>
   (\<exists>f ks. find_key ks ''k1'' = Some ''new'' \<and> load_jwks rotating_net f (jwks_url demo_settings) = Inr ks \<and> 0 < f)"
proof -
  let ?lib = "demo_lib (demo_claims ''u'' None [])"
  have ttl: "jwks_cache_ttl_seconds demo_settings = 300" by code_simp
  obtain b where l: "lookups ?lib rotating_net demo_settings [''k1'', ''k1'', ''k1''] demo_app =
      ([Inr ''old'', Inr ''old'', Inr ''new''], b)"
    by (simp add: get_key_def get_jwks_def read_clock_def refresh_apply load_jwks_def rotating_net_def
        find_key_def demo_lib_def demo_app_def new_cache_def bindM_def ttl)
  have "jwks (cache demo_app) = None" by (simp add: demo_app_def new_cache_def)
  from key_answers_fresh [OF this l, of 2] l show ?thesis
    by (auto simp: load_jwks_def rotating_net_def find_key_def demo_lib_def split: if_splits)
qed

text \<open>
  C33.  How often the network is asked: in a run that is shorter than the lifetime of the cache, a new
  cache loads the key set once, and once more for every lookup of an id that the set does not have,
  and not otherwise.  So a client pays one request to the identity provider for every made-up \<open>kid\<close>
  it sends, whether its token is any good or not.
\<close>

theorem key_fetches_bounded:
  fixes a :: "'z app_scheme"
  assumes "serves n s ks" and "short_run n s" and "jwks (cache a) = None"
    and "lookups lib n s kids a = (rs, b)" and "kids \<noteq> []"
  shows "fetches b = fetches a + 1 + length (filter (\<lambda>k. find_key ks k = None) kids)"
proof -
  from assms(5) obtain k kids' where kids: "kids = k # kids'" by (cases kids) auto
  obtain r a1 where g: "get_key lib n s k a = (r, a1)" by fastforce
  obtain rs1 b1 where l: "lookups lib n s kids' a1 = (rs1, b1)" by fastforce
  from get_key_fresh [OF assms(1,2) _ g] assms(3) have "jwks (cache a1) = Some ks" "fresh n a1"
    "fetches a1 = fetches a + 1 + (if find_key ks k = None then 1 else 0)" by auto
  with fetches_held [OF assms(1,2) this(1,2) l] assms(4) g l kids show ?thesis by auto
qed

theorem key_fetches_bounded_witness:
  "fetches (snd (lookups (demo_lib (demo_claims ''u'' None [])) (demo_net\<lparr>clock := (\<lambda>_. 7)\<rparr>) demo_settings
     [''k1'', ''k9'', ''k1'', ''k8''] demo_app)) = 3"
proof -
  let ?ks = "[\<lparr>kid = Some ''k1'', jwk_json = ''pem1''\<rparr>]" and ?n = "demo_net\<lparr>clock := (\<lambda>_. 7)\<rparr>"
  obtain rs b where l: "lookups (demo_lib (demo_claims ''u'' None [])) ?n demo_settings
      [''k1'', ''k9'', ''k1'', ''k8''] demo_app = (rs, b)" by fastforce
  have "jwks_cache_ttl_seconds demo_settings = 300" by code_simp
  then have "serves ?n demo_settings ?ks" "short_run ?n demo_settings" "jwks (cache demo_app) = None"
    by (simp_all add: serves_def load_jwks_def demo_net_def short_run_def demo_app_def new_cache_def)
  from key_fetches_bounded [OF this l] l show ?thesis
    by (simp add: find_key_def demo_app_def)
qed

end
