(* ===== verification/Key_Provisioning.thy ===== *)
theory Key_Provisioning
  imports Payment_Service
begin

text \<open>
  scripts/generate_mldsa_keys.py: the script that creates the ML-DSA keys and stores them in Vault,
  against the services that load them.

  The state of a run is the server's and the lines printed so far.  The options of the command line
  are given as \<open>argparse\<close> reads them: the values of the single options and the list of the repeated
  one.  The randomness of the i-th key pair is \<open>seeds i\<close>.
\<close>

section \<open>The script\<close>

definition DEFAULT_VAULT_ADDR :: string where "DEFAULT_VAULT_ADDR = ''http://localhost:8200''"
definition DEFAULT_VAULT_TOKEN :: string where "DEFAULT_VAULT_TOKEN = ''root-token-for-lab-only''"

record script_args =
  arg_vault_addr :: string
  arg_vault_token :: string
  arg_mount_point :: string
  arg_key_paths :: "string list"

definition parse_args :: "source \<Rightarrow> source \<Rightarrow> string list \<Rightarrow> script_args" where
  "parse_args environ options key_paths =
     (let opt = (\<lambda>name d. case options name of Some v \<Rightarrow> v | None \<Rightarrow> d) in
      \<lparr>arg_vault_addr = opt ''--vault-addr''
         (case environ ''VAULT_ADDR'' of Some v \<Rightarrow> v | None \<Rightarrow> DEFAULT_VAULT_ADDR),
       arg_vault_token = opt ''--vault-token'' (str_or (env_or environ ''VAULT_TOKEN'' ''VAULT_DEV_TOKEN'') DEFAULT_VAULT_TOKEN),
       arg_mount_point = opt ''--mount-point'' ''secret'',
       arg_key_paths = key_paths\<rparr>)"

record 'v console =
  server :: 'v
  printed :: "string list"

definition on_server :: "('v, 'a) prog \<Rightarrow> ('v console, 'a) prog" where
  "on_server m w = (case m (server w) of (r, v) \<Rightarrow> (r, w\<lparr>server := v\<rparr>))"

definition print_line :: "string \<Rightarrow> ('v console, unit) prog" where
  "print_line s = modify (\<lambda>w. w\<lparr>printed := printed w @ [s]\<rparr>)"

definition size_of :: "(string \<times> nat) list \<Rightarrow> string \<Rightarrow> string" where
  "size_of sizes k = (case map_of sizes k of Some n \<Rightarrow> py_str_int (int n) | None \<Rightarrow> [])"

definition stored_line :: "ml_dsa \<Rightarrow> string \<Rightarrow> string \<Rightarrow> string" where
  "stored_line lib mount path =
     ''stored '' @ mount @ ''/'' @ path @ '' algorithm='' @ ML_DSA_ALGORITHM @
     '' public_key_bytes='' @ size_of (key_sizes lib) ''public_key_bytes'' @
     '' private_key_bytes='' @ size_of (key_sizes lib) ''private_key_bytes'' @
     '' signature_bytes='' @ size_of (key_sizes lib) ''signature_bytes''"

fun store_keys ::
    "ml_dsa \<Rightarrow> 'v hvac \<Rightarrow> vault_client \<Rightarrow> string \<Rightarrow> (nat \<Rightarrow> nat) \<Rightarrow> string list \<Rightarrow> ('v console, unit) prog" where
  "store_keys lib hv c mount seeds [] = ret ()"
| "store_keys lib hv c mount seeds (path # paths) =
     bindM (on_server (put_secret hv c path (generate_mldsa_keypair_secret lib (seeds 0)) mount)) (\<lambda>_.
     bindM (print_line (stored_line lib mount path)) (\<lambda>_.
     store_keys lib hv c mount (\<lambda>i. seeds (Suc i)) paths))"

definition script_paths :: "script_args \<Rightarrow> string list" where
  "script_paths a =
     (if arg_key_paths a = [] then [S2S_SIGNING_KEY_PATH, WEBHOOK_SIGNING_KEY_PATH] else arg_key_paths a)"

definition script_client :: "settings \<Rightarrow> script_args \<Rightarrow> vault_client" where
  "script_client s a = new_vault_client s (Some (arg_vault_addr a)) (Some (arg_vault_token a))"

definition generate_keys ::
    "ml_dsa \<Rightarrow> 'v hvac \<Rightarrow> settings \<Rightarrow> script_args \<Rightarrow> (nat \<Rightarrow> nat) \<Rightarrow> ('v console, int) prog" where
  "generate_keys lib hv s a seeds =
     bindM (store_keys lib hv (script_client s a) (arg_mount_point a) seeds (script_paths a)) (\<lambda>_.
     bindM (print_line ''ML-DSA private keys were written to Vault only and were not printed.'') (\<lambda>_.
     ret 0))"

section \<open>What Vault's key-value store promises\<close>

text \<open>\<open>r\<close> is the response to a read of a secret whose current version is \<open>x\<close>.\<close>

definition kv_holds :: "json result \<Rightarrow> json \<Rightarrow> bool" where
  "kv_holds r x \<longleftrightarrow> (\<exists>resp d. r = Inr resp \<and> item resp ''data'' = Inr d \<and> item d ''data'' = Inr x)"

text \<open>
  Client \<open>c\<close> may write every secret and client \<open>d\<close> may read them: a write returns, then a read
  gives what was written, and reads of other paths give what they gave before.
\<close>

definition kv_store :: "'v hvac \<Rightarrow> vault_client \<Rightarrow> vault_client \<Rightarrow> bool" where
  "kv_store hv c d \<longleftrightarrow>
     (\<forall>st m p x. \<exists>st'. kv_write hv c m p x st = (Inr (), st') \<and> kv_holds (kv_read hv st' d m p) x \<and>
        (\<forall>m' p'. (m', p') \<noteq> (m, p) \<longrightarrow> kv_read hv st' d m' p' = kv_read hv st d m' p'))"

section \<open>Lemmas\<close>

lemma get_secret_dict_iff: "get_secret_dict hv st c path mount = Inr x \<longleftrightarrow>
    kv_holds (kv_read hv st c mount (clean_kv_path path)) x"
  by (auto simp: get_secret_dict_def kv_holds_def)

lemma put_secret_stores:
  assumes "kv_store hv c d"
  obtains st' where "put_secret hv c path x mount st = (Inr (), st')"
    and "get_secret_dict hv st' d path mount = Inr x"
    and "\<And>path'. clean_kv_path path' \<noteq> clean_kv_path path \<Longrightarrow>
      get_secret_dict hv st' d path' mount = get_secret_dict hv st d path' mount"
proof -
  from assms obtain st' where "kv_write hv c mount (clean_kv_path path) x st = (Inr (), st')"
      "kv_holds (kv_read hv st' d mount (clean_kv_path path)) x"
      and o: "\<And>m' p'. (m', p') \<noteq> (mount, clean_kv_path path) \<Longrightarrow> kv_read hv st' d m' p' = kv_read hv st d m' p'"
    unfolding kv_store_def by metis
  with that show thesis by (simp add: put_secret_def get_secret_dict_iff) (simp add: get_secret_dict_def)
qed

text \<open>A secret that the generator made.\<close>

definition provisioned :: "ml_dsa \<Rightarrow> 'v hvac \<Rightarrow> 'v \<Rightarrow> vault_client \<Rightarrow> string \<Rightarrow> string \<Rightarrow> bool" where
  "provisioned lib hv st d mount path \<longleftrightarrow>
     (\<exists>seed. get_secret_dict hv st d path mount = Inr (generate_mldsa_keypair_secret lib seed))"

lemma put_secret_provisions:
  assumes "kv_store hv c d"
  obtains st' where "put_secret hv c path (generate_mldsa_keypair_secret lib seed) mount st = (Inr (), st')"
    and "provisioned lib hv st' d mount path"
    and "\<And>q. provisioned lib hv st d mount q \<Longrightarrow> provisioned lib hv st' d mount q"
proof -
  obtain st' where p: "put_secret hv c path (generate_mldsa_keypair_secret lib seed) mount st = (Inr (), st')"
      and s: "get_secret_dict hv st' d path mount = Inr (generate_mldsa_keypair_secret lib seed)"
      and o: "\<And>path'. clean_kv_path path' \<noteq> clean_kv_path path \<Longrightarrow>
      get_secret_dict hv st' d path' mount = get_secret_dict hv st d path' mount"
    using put_secret_stores [OF assms] by blast
  have "provisioned lib hv st' d mount q" if "provisioned lib hv st d mount q" for q
  proof (cases "clean_kv_path q = clean_kv_path path")
    case True
    with s show ?thesis by (auto simp: provisioned_def get_secret_dict_iff)
  next
    case False
    with that o show ?thesis by (simp add: provisioned_def)
  qed
  with p s that show thesis by (auto simp: provisioned_def)
qed

lemma store_keys_provisions:
  assumes "kv_store hv c d"
  shows "\<exists>v. store_keys lib hv c mount seeds paths w = (Inr (), v) \<and>
     (\<forall>q. provisioned lib hv (server w) d mount q \<or> q \<in> set paths \<longrightarrow> provisioned lib hv (server v) d mount q) \<and>
     printed v = printed w @ map (stored_line lib mount) paths"
proof (induction paths arbitrary: seeds w)
  case (Cons path paths)
  obtain st' where p: "put_secret hv c path (generate_mldsa_keypair_secret lib (seeds 0)) mount (server w) = (Inr (), st')"
      "provisioned lib hv st' d mount path"
      "\<And>q. provisioned lib hv (server w) d mount q \<Longrightarrow> provisioned lib hv st' d mount q"
    using put_secret_provisions [OF assms] by blast
  from Cons.IH [of "\<lambda>i. seeds (Suc i)" "w\<lparr>server := st', printed := printed w @ [stored_line lib mount path]\<rparr>"]
    p show ?case
    by (auto simp: bindM_def on_server_def print_line_def)
qed simp

lemma script_run:
  assumes "kv_store hv (script_client s a) d"
  obtains v where "generate_keys lib hv s a seeds w = (Inr 0, v)"
    and "\<And>q. q \<in> set (script_paths a) \<Longrightarrow> provisioned lib hv (server v) d (arg_mount_point a) q"
    and "printed v = printed w @ map (stored_line lib (arg_mount_point a)) (script_paths a) @
           [''ML-DSA private keys were written to Vault only and were not printed.'']"
proof -
  from store_keys_provisions [OF assms, of lib "arg_mount_point a" seeds "script_paths a" w]
  obtain u where u: "store_keys lib hv (script_client s a) (arg_mount_point a) seeds (script_paths a) w = (Inr (), u)"
      "\<And>q. q \<in> set (script_paths a) \<Longrightarrow> provisioned lib hv (server u) d (arg_mount_point a) q"
      "printed u = printed w @ map (stored_line lib (arg_mount_point a)) (script_paths a)"
    by blast
  then have "generate_keys lib hv s a seeds w =
      (Inr 0, u\<lparr>printed := printed u @ [''ML-DSA private keys were written to Vault only and were not printed.'']\<rparr>)"
    by (simp add: generate_keys_def bindM_def print_line_def)
  with u that show thesis by simp
qed

section \<open>Properties\<close>

text \<open>
  C31.  The script provisions what the services load: with a key-value store that keeps what is
  written, it returns 0, and then a service's signer loads from every path the script was given (by
  default the two the services use), ready to sign and to be verified.  What the script prints does
  not depend on any key: the paths and the sizes of the scheme.
\<close>

theorem provisioned_keys_load:
  assumes "kv_store hv (script_client s a) d" and "generates lib"
  shows "\<exists>v. generate_keys lib hv s a seeds w = (Inr 0, v) \<and>
    (\<forall>path\<in>set (script_paths a). \<exists>sg. signer_from_vault lib hv (server v) d path (arg_mount_point a) = Inr sg \<and>
       signer_ready lib sg \<and> key_path sg = path) \<and>
    printed v = printed w @ map (stored_line lib (arg_mount_point a)) (script_paths a) @
      [''ML-DSA private keys were written to Vault only and were not printed.'']"
proof -
  obtain v where run: "generate_keys lib hv s a seeds w = (Inr 0, v)"
    and p: "\<And>q. q \<in> set (script_paths a) \<Longrightarrow> provisioned lib hv (server v) d (arg_mount_point a) q"
    and out: "printed v = printed w @ map (stored_line lib (arg_mount_point a)) (script_paths a) @
           [''ML-DSA private keys were written to Vault only and were not printed.'']"
    using script_run [OF assms(1)] by blast
  have "\<exists>sg. signer_from_vault lib hv (server v) d q (arg_mount_point a) = Inr sg \<and> signer_ready lib sg \<and> key_path sg = q"
    if "q \<in> set (script_paths a)" for q
  proof -
    from p [OF that] obtain i where
      "get_secret_dict hv (server v) d q (arg_mount_point a) = Inr (generate_mldsa_keypair_secret lib i)"
      by (auto simp: provisioned_def)
    from signer_from_secret [OF this assms(2)] show ?thesis by blast
  qed
  with run out show ?thesis by blast
qed

text \<open>A store whose state is the map from mount and path to the current version.\<close>

definition demo_kv :: "((string \<times> string) \<Rightarrow> json option) hvac" where
  "demo_kv = \<lparr>approle_login = (\<lambda>_ _ _ _. Inl HTTPError),
     kv_read = (\<lambda>st c m p. case st (m, p) of
        None \<Rightarrow> Inl HTTPError
      | Some x \<Rightarrow> Inr (JObj [(''data'', JObj [(''data'', x), (''metadata'', JNull)])])),
     kv_write = (\<lambda>c m p x st. (Inr (), st((m, p) \<mapsto> x))),
     transit_encrypt = (\<lambda>_ _ _ _ _. Inl HTTPError), transit_decrypt = (\<lambda>_ _ _ _ _. Inl HTTPError),
     pki_generate = (\<lambda>_ _ _ _ _ _. Inl HTTPError)\<rparr>"

lemma demo_kv_store: "kv_store demo_kv c d"
  by (simp add: kv_store_def demo_kv_def kv_holds_def)

lemma demo_generates: "generates demo_dsa"
  by (simp add: generates_def keys_match_def demo_dsa_def)

theorem provisioned_keys_load_witness:
  "let a = parse_args (\<lambda>_. None) (\<lambda>_. None) [] in
   \<exists>v. generate_keys demo_dsa demo_kv demo_settings a (\<lambda>i. i) \<lparr>server = (\<lambda>_. None), printed = []\<rparr> = (Inr 0, v) \<and>
     (\<exists>sg. signer_from_vault demo_dsa demo_kv (server v) \<lparr>vault_url = ''http://vault:8200'', vault_token = Some ''svc''\<rparr>
        ''pqc/webhook-signing'' ''secret'' = Inr sg \<and> signer_ready demo_dsa sg) \<and>
     hd (printed v) = ''stored secret/pqc/s2s-signing algorithm=ML-DSA-65 public_key_bytes=1 private_key_bytes=2 signature_bytes=2''"
proof -
  let ?a = "parse_args (\<lambda>_. None) (\<lambda>_. None) []"
  have p: "script_paths ?a = [''pqc/s2s-signing'', ''pqc/webhook-signing'']" "arg_mount_point ?a = ''secret''"
    by code_simp+
  moreover have "stored_line demo_dsa ''secret'' ''pqc/s2s-signing'' =
      ''stored secret/pqc/s2s-signing algorithm=ML-DSA-65 public_key_bytes=1 private_key_bytes=2 signature_bytes=2''"
    by code_simp
  ultimately show ?thesis
    using provisioned_keys_load [of demo_kv demo_settings ?a
        "\<lparr>vault_url = ''http://vault:8200'', vault_token = Some ''svc''\<rparr>" demo_dsa "\<lambda>i. i"
        "\<lparr>server = (\<lambda>_. None), printed = []\<rparr>", OF demo_kv_store demo_generates]
    by (simp only: Let_def p) fastforce
qed

end
