(* ===== verification/Log_Format.thy ===== *)
theory Log_Format
  imports Request_Context "HOL-Library.AList"
begin

text \<open>
  shared/logging_config.py: what \<open>JsonFormatter.format\<close> puts into the JSON object of a log line,
  and which values it redacts.

  The payload is a Python dict, modelled as an association list in insertion order;
  \<open>AList.update\<close> is \<open>payload[key] = value\<close>.  A log record's \<open>extra\<close> holds the attributes that
  \<open>logging\<close> added to the record from the \<open>extra\<close> argument of the call.
\<close>

definition REDACTED :: string where
  "REDACTED = ''[REDACTED]''"

definition SENSITIVE_KEY_PARTS :: "string list" where
  "SENSITIVE_KEY_PARTS = [''authorization'', ''token'', ''password'', ''secret'', ''api_key'']"

text \<open>The attributes of \<open>logging.makeLogRecord({})\<close> in Python 3.11, the services' image.\<close>

definition STANDARD_LOG_RECORD_KEYS :: "string list" where
  "STANDARD_LOG_RECORD_KEYS =
     [''name'', ''msg'', ''args'', ''levelname'', ''levelno'', ''pathname'', ''filename'', ''module'',
      ''exc_info'', ''exc_text'', ''stack_info'', ''lineno'', ''funcName'', ''created'', ''msecs'',
      ''relativeCreated'', ''thread'', ''threadName'', ''processName'', ''process'']"

definition is_sensitive :: "string \<Rightarrow> bool" where
  "is_sensitive key \<longleftrightarrow> list_ex (\<lambda>part. contains part (py_lower key)) SENSITIVE_KEY_PARTS"

definition redact_value :: "string \<Rightarrow> log_value \<Rightarrow> log_value" where
  "redact_value key value = (if is_sensitive key then LStr REDACTED else value)"

definition severity_name :: "severity \<Rightarrow> string" where
  "severity_name s = (case s of INFO \<Rightarrow> ''INFO'' | WARNING \<Rightarrow> ''WARNING'' | ERROR \<Rightarrow> ''ERROR'')"

fun add_extras :: "(string \<times> log_value) list \<Rightarrow> (string \<times> log_value) list \<Rightarrow>
    (string \<times> log_value) list" where
  "add_extras payload [] = payload"
| "add_extras payload ((key, value) # rest) =
     (if key \<notin> set STANDARD_LOG_RECORD_KEYS \<and> \<not> startswith ''_'' key
      then add_extras (AList.update key (redact_value key value) payload) rest
      else add_extras payload rest)"

definition base_payload ::
    "string \<Rightarrow> string \<Rightarrow> log_record \<Rightarrow> 'z task_scheme \<Rightarrow> (string \<times> log_value) list" where
  "base_payload service timestamp r t =
     [(''timestamp'', LStr timestamp),
      (''level'', LStr (severity_name (severity r))),
      (''service'', LStr service),
      (''message'', LStr (message r)),
      (''request_id'', log_opt (get_request_id t)),
      (''tenant_id'', log_opt (get_tenant_id t)),
      (''user_id'', log_opt (get_user_id t))]"

text \<open>
  \<open>timestamp\<close> is \<open>datetime.now(UTC).isoformat()\<close>, \<open>exception\<close> the formatted traceback of a record
  that carries one.
\<close>

definition format_payload ::
    "string \<Rightarrow> string \<Rightarrow> string option \<Rightarrow> log_record \<Rightarrow> 'z task_scheme \<Rightarrow>
     (string \<times> log_value) list" where
  "format_payload service timestamp exc r t =
     (let payload = add_extras (base_payload service timestamp r t) (extra r) in
      case exc of None \<Rightarrow> payload | Some e \<Rightarrow> AList.update ''exception'' (LStr e) payload)"

section \<open>Lemmas\<close>

definition is_extra_key :: "string \<Rightarrow> bool" where
  "is_extra_key key \<longleftrightarrow> key \<notin> set STANDARD_LOG_RECORD_KEYS \<and> \<not> startswith ''_'' key"

lemma add_extras_Cons:
  "add_extras payload ((key, value) # rest) =
     (if is_extra_key key then add_extras (AList.update key (redact_value key value) payload) rest
      else add_extras payload rest)"
  by (simp add: is_extra_key_def)

lemma map_of_add_extras:
  "distinct (map fst ex) \<Longrightarrow>
     map_of (add_extras payload ex) k =
       (case map_of ex k of
          Some v \<Rightarrow> if is_extra_key k then Some (redact_value k v) else map_of payload k
        | None \<Rightarrow> map_of payload k)"
proof (induction ex arbitrary: payload k)
  case Nil
  then show ?case by simp
next
  case (Cons kv rest)
  obtain key v where kv: "kv = (key, v)" by (cases kv)
  with Cons.prems have "key \<notin> set (map fst rest)" "distinct (map fst rest)" by simp_all
  then have none: "map_of rest key = None" by (simp add: map_of_eq_None_iff)
  note IH = Cons.IH [OF \<open>distinct (map fst rest)\<close>]
  show ?case
    unfolding kv add_extras_Cons using none
    by (cases "k = key") (auto simp: IH update_conv' split: option.splits)
qed

lemma map_of_format_payload:
  "distinct (map fst (extra r)) \<Longrightarrow>
     map_of (format_payload service timestamp exc r t) k =
       (case exc of
          Some e \<Rightarrow> if k = ''exception'' then Some (LStr e)
                    else map_of (add_extras (base_payload service timestamp r t) (extra r)) k
        | None \<Rightarrow> map_of (add_extras (base_payload service timestamp r t) (extra r)) k)"
  by (auto simp: format_payload_def update_conv' split: option.splits)

text \<open>
  C40.  Secrets do not reach the log: whatever a call passes under a key that contains, in any
  letter case, one of the sensitive parts (\<open>authorization\<close>, \<open>token\<close>, \<open>password\<close>, \<open>secret\<close>,
  \<open>api_key\<close>), the log line either does not have the key or has \<open>[REDACTED]\<close> there, and every
  other extra value (other than one named \<open>exception\<close> of a record with a traceback) is logged as
  it is under its own key.
\<close>

theorem log_line_redacts:
  assumes "distinct (map fst (extra r))" and "map_of (extra r) k = Some v"
    and "is_extra_key k" and "k \<noteq> ''exception''"
  shows "map_of (format_payload service timestamp exc r t) k =
    Some (if list_ex (\<lambda>part. contains part (py_lower k)) SENSITIVE_KEY_PARTS
          then LStr REDACTED else v)"
  using assms
  by (auto simp: map_of_format_payload map_of_add_extras redact_value_def is_sensitive_def
      split: option.splits)

theorem log_line_redacts_witness:
  "map_of (format_payload ''svc'' ''now'' None
     \<lparr>severity = INFO, message = ''m'',
      extra = [(''Stripe-API_Key'', LStr ''sk_live''), (''path'', LStr ''/x'')]\<rparr>
     \<lparr>ctx = empty_context, logs = []\<rparr>) ''Stripe-API_Key'' = Some (LStr ''[REDACTED]'')"
proof -
  let ?r = "\<lparr>severity = INFO, message = ''m'',
      extra = [(''Stripe-API_Key'', LStr ''sk_live''), (''path'', LStr ''/x'')]\<rparr>"
  have k: "is_extra_key ''Stripe-API_Key''" by code_simp
  have s: "list_ex (\<lambda>part. contains part (py_lower ''Stripe-API_Key'')) SENSITIVE_KEY_PARTS"
    by code_simp
  have "map_of (format_payload ''svc'' ''now'' None ?r \<lparr>ctx = empty_context, logs = []\<rparr>)
      ''Stripe-API_Key'' = Some (if list_ex (\<lambda>part. contains part (py_lower ''Stripe-API_Key''))
        SENSITIVE_KEY_PARTS then LStr REDACTED else LStr ''sk_live'')"
    by (rule log_line_redacts) (use k in simp_all)
  with s show ?thesis by (simp add: REDACTED_def)
qed

end
