(* ===== verification/Log_Lines.thy ===== *)
theory Log_Lines
  imports Log_Format Json_Text
begin

text \<open>
  The rest of shared/logging_config.py and the \<open>core/logging.py\<close> of the services: the text of a log
  line, the configuration of the root logger, and what a configured process writes.

  The root logger of Python's \<open>logging\<close> is its handlers and its level; a record that reaches it is
  written by every handler as one line if its severity is at least that level (the services' own
  loggers leave their level unset).  The configured level name is taken to be ASCII.
\<close>

section \<open>The text of a record\<close>

definition log_json :: "log_value \<Rightarrow> json" where
  "log_json v = (case v of LValue j \<Rightarrow> j | LObject s \<Rightarrow> JStr s)"

definition payload_json :: "(string \<times> log_value) list \<Rightarrow> json" where
  "payload_json payload = JObj (map (\<lambda>(k, v). (k, log_json v)) payload)"

definition format_line ::
    "string \<Rightarrow> string \<Rightarrow> string option \<Rightarrow> log_record \<Rightarrow> 'z task_scheme \<Rightarrow> string" where
  "format_line service timestamp exc r t =
     dumps_fmt False None 0 (payload_json (format_payload service timestamp exc r t))"

section \<open>The root logger\<close>

datatype stream = Stdout | Stream nat

record handler =
  h_stream :: stream
  h_service :: string

record root_logger =
  root_handlers :: "handler list"
  root_level :: int

definition LEVELS :: "(string \<times> int) list" where
  "LEVELS = [(''CRITICAL'', 50), (''FATAL'', 50), (''ERROR'', 40), (''WARN'', 30), (''WARNING'', 30),
     (''INFO'', 20), (''DEBUG'', 10), (''NOTSET'', 0)]"

definition configure_logging :: "string \<Rightarrow> string \<Rightarrow> stream option \<Rightarrow> (root_logger, unit) prog" where
  "configure_logging service level st =
     (let h = \<lparr>h_stream = (case st of None \<Rightarrow> Stdout | Some x \<Rightarrow> x), h_service = service\<rparr> in
      bindM (modify (root_handlers_update (\<lambda>_. []))) (\<lambda>_.
      bindM (modify (root_handlers_update (\<lambda>hs. hs @ [h]))) (\<lambda>_.
      bindM (liftE (of_option ValueError (map_of LEVELS (map upper_char level)))) (\<lambda>n.
      modify (root_level_update (\<lambda>_. n))))))"

definition configure_service_logging :: "settings \<Rightarrow> (root_logger, unit) prog" where
  "configure_service_logging s = configure_logging (service_name s) (log_level s) None"

text \<open>What arrives at the root logger: the record, its time, its traceback and the state of its task.\<close>

record 'z arrival =
  arr_time :: string
  arr_exc :: "string option"
  arr_record :: log_record
  arr_task :: "'z task_scheme"

definition level_of :: "severity \<Rightarrow> int" where
  "level_of s = (case s of INFO \<Rightarrow> 20 | WARNING \<Rightarrow> 30 | ERROR \<Rightarrow> 40)"

definition newline :: char where
  "newline = char_of (10 :: int)"

definition written :: "handler \<Rightarrow> 'z arrival \<Rightarrow> string" where
  "written h a = format_line (h_service h) (arr_time a) (arr_exc a) (arr_record a) (arr_task a) @ [newline]"

text \<open>The text that a sequence of records puts on a stream.\<close>

definition stream_output :: "root_logger \<Rightarrow> stream \<Rightarrow> 'z arrival list \<Rightarrow> string" where
  "stream_output g st as =
     concat (map (\<lambda>a. if root_level g \<le> level_of (severity (arr_record a))
       then concat (map (\<lambda>h. written h a) (filter (\<lambda>h. h_stream h = st) (root_handlers g))) else []) as)"

section \<open>Lemmas: a record is one line\<close>

definition printable :: "string \<Rightarrow> bool" where
  "printable s \<longleftrightarrow> (\<forall>c\<in>set s. 32 \<le> code c)"

lemma printable_simps [simp]:
  "printable []" "printable (c # s) \<longleftrightarrow> 32 \<le> code c \<and> printable s"
  "printable (s @ t) \<longleftrightarrow> printable s \<and> printable t"
  by (auto simp: printable_def)

lemma printable_hex: "printable (hex_fixed k n)"
  using set_hex_fixed_code by (fastforce simp: printable_def)

lemma printable_utf8: "printable (concat (map escape_utf8 s))"
proof (induction s)
  case (Cons c s)
  have "printable (escape_utf8 c)"
    by (auto simp: escape_utf8_def short_escape_def u_escape_def printable_hex backslash_def quote_def
        split: option.splits if_splits)
  with Cons show ?case by simp
qed simp

lemma printable_string: "printable (dump_string False s)"
  by (simp add: dump_string_def printable_utf8 quote_def)

lemma printable_int: "printable (py_str_int i)"
  using set_dec_code [of "\<bar>i\<bar>"] by (fastforce simp: printable_def py_str_int_def code_def)

lemma printable_join: "printable sep \<Longrightarrow> \<forall>w\<in>set ws. printable w \<Longrightarrow> printable (str_join sep ws)"
  by (induction sep ws rule: str_join.induct) auto

lemma printable_line_break: "printable (line_break None level)"
  by (simp add: line_break_def)

lemma printable_item_separator: "printable (item_separator None level)"
  by (simp add: item_separator_def code_def)

lemma printable_json: "writable False j \<Longrightarrow> printable (dumps_fmt False None level j)"
proof (induction j arbitrary: level)
  case (JArr xs)
  then have "printable (str_join (item_separator None (Suc level)) (map (dumps_fmt False None (Suc level)) xs))"
    by (intro printable_join printable_item_separator) (auto simp: list_all_iff)
  then show ?case by (simp add: printable_line_break code_def)
next
  case (JObj items)
  then have "printable (str_join (item_separator None (Suc level))
      (map (\<lambda>(k, v). dump_string False k @ '': '' @ dumps_fmt False None (Suc level) v) items))"
    by (intro printable_join printable_item_separator) (fastforce simp: list_all_iff printable_string code_def)
  then show ?case by (simp add: printable_line_break code_def)
next
  case (JFloat s)
  then show ?case using float_chars [of s] by (auto simp: printable_def)
qed (auto simp: printable_string printable_int code_def)

lemma newline_not_printable: "printable s \<Longrightarrow> newline \<notin> set s"
  by (auto simp: printable_def newline_def)

text \<open>The keys of a payload are distinct, so a line is read back as the payload.\<close>

lemma distinct_add_extras: "distinct (map fst p) \<Longrightarrow> distinct (map fst (add_extras p ex))"
  by (induction p ex rule: add_extras.induct) (auto simp: distinct_update)

lemma distinct_payload: "distinct (map fst (format_payload service ts exc r t))"
proof -
  have "distinct (map fst (base_payload service ts r t))" by (simp add: base_payload_def)
  from distinct_add_extras [OF this] show ?thesis
    by (auto simp: format_payload_def Let_def distinct_update split: option.split)
qed

text \<open>
  The values of a record that JSON has a text for, which Python reads back: integers of at most 4300
  digits, floats by their numerals, dicts with distinct names.  The records of the services are
  such: they hold strings, \<open>None\<close>, a status and a latency, and the names in a verified event.
\<close>

definition value_fits :: "log_value \<Rightarrow> bool" where
  "value_fits v \<longleftrightarrow> writable False (log_json v)"

definition record_fits :: "log_record \<Rightarrow> bool" where
  "record_fits r \<longleftrightarrow> (\<forall>(k, v)\<in>set (extra r). value_fits v)"

lemma value_fits_simps [simp]:
  "value_fits (LStr s)" "value_fits LNone" "value_fits (log_opt x)" "value_fits (LObject s)"
  "value_fits (LInt i) \<longleftrightarrow> length (dec \<bar>i\<bar>) \<le> 4300" "value_fits (LFloat s) \<longleftrightarrow> float_text s"
  by (auto simp: value_fits_def log_json_def log_opt_def split: option.split)

lemma set_update: "x \<in> set (AList.update k v al) \<Longrightarrow> x = (k, v) \<or> x \<in> set al"
  by (induction al) (auto split: if_splits)

lemma add_extras_fit:
  assumes "x \<in> set (add_extras p ex)"
  shows "x \<in> set p \<or> (\<exists>v. (fst x, v) \<in> set ex \<and> snd x = redact_value (fst x) v)"
  using assms
proof (induction p ex rule: add_extras.induct)
  case (2 p key v rest)
  then show ?case by (auto split: if_splits dest!: set_update)
qed simp

lemma payload_fits:
  assumes "record_fits r" and "(k, v) \<in> set (format_payload service ts exc r t)"
  shows "value_fits v"
proof -
  from assms(2) have "(\<exists>e. v = LStr e) \<or> (k, v) \<in> set (add_extras (base_payload service ts r t) (extra r))"
    by (auto simp: format_payload_def Let_def split: option.splits dest!: set_update)
  then consider (str) e where "v = LStr e" | (base) "(k, v) \<in> set (base_payload service ts r t)"
    | (extra) x where "(k, x) \<in> set (extra r)" "v = redact_value k x"
    using add_extras_fit by fastforce
  then show ?thesis
  proof cases
    case extra
    with assms(1) show ?thesis by (auto simp: record_fits_def redact_value_def)
  qed (auto simp: base_payload_def)
qed

lemma payload_writable:
  assumes "record_fits r"
  shows "writable False (payload_json (format_payload service ts exc r t))"
  using distinct_payload [of service ts exc r t] payload_fits [OF assms, of _ _ service ts exc t]
  by (auto simp: payload_json_def list_all_iff value_fits_def comp_def case_prod_beta)

lemma format_line_one_line: "record_fits r \<Longrightarrow> newline \<notin> set (format_line service ts exc r t)"
  unfolding format_line_def by (intro newline_not_printable printable_json payload_writable)

lemma line_loads:
  "record_fits r \<Longrightarrow> loads (format_line service ts exc r t) = Some (payload_json (format_payload service ts exc r t))"
  using loads_dumps_fmt [OF payload_writable blank_Nil] by (simp add: format_line_def)

lemma split_lines:
  assumes "\<forall>l\<in>set ls. newline \<notin> set l"
  shows "split_on newline (concat (map (\<lambda>l. l @ [newline]) ls)) = ls @ [[]]"
  using assms by (induction ls) (simp_all add: split_on_append)

section \<open>Properties\<close>

text \<open>
  C23.  The log of a service can be trusted line by line: once \<open>configure_service_logging\<close> returned,
  whatever was configured before, what goes to standard output splits at its line breaks into exactly
  one line for each record of sufficient severity, in order, and \<open>json.loads\<close> turns each line back
  into that record's payload, with the service's name.  No text that a client gets into a message, an
  identifier or an extra field (line breaks, quotes, any bytes) can end a line or forge a field.  The
  extra values of the records are ones that JSON has a text for (\<open>record_fits\<close>): strings, \<open>None\<close>,
  booleans, integers of at most 4300 digits, floats such as the \<open>latency_ms\<close> of every
  \<open>api.request\<close>, lists and dicts of these, and objects that \<open>default=str\<close> writes.
\<close>

theorem log_stream_reads_back:
  assumes "configure_service_logging s g = (Inr (), g')" and "\<And>a. a \<in> set as \<Longrightarrow> record_fits (arr_record a)"
  shows "\<exists>lines. split_on newline (stream_output g' Stdout as) = lines @ [[]] \<and>
    map loads lines =
      map (\<lambda>a. Some (payload_json (format_payload (service_name s) (arr_time a) (arr_exc a) (arr_record a) (arr_task a))))
        (filter (\<lambda>a. root_level g' \<le> level_of (severity (arr_record a))) as)"
proof -
  let ?line = "\<lambda>a. format_line (service_name s) (arr_time a) (arr_exc a) (arr_record a) (arr_task a)"
  let ?as = "filter (\<lambda>a. root_level g' \<le> level_of (severity (arr_record a))) as"
  from assms(1) have h: "root_handlers g' = [\<lparr>h_stream = Stdout, h_service = service_name s\<rparr>]"
    by (auto simp: configure_service_logging_def configure_logging_def bindM_eq_Inr Let_def)
  have "stream_output g' Stdout as = concat (map (\<lambda>l. l @ [newline]) (map ?line ?as))"
    unfolding stream_output_def by (induction as) (simp_all add: written_def h)
  moreover have "\<forall>l\<in>set (map ?line ?as). newline \<notin> set l" using assms(2) by (auto simp: format_line_one_line)
  ultimately have "split_on newline (stream_output g' Stdout as) = map ?line ?as @ [[]]"
    by (simp only: split_lines)
  moreover have "map loads (map ?line ?as) = map (\<lambda>a. Some (payload_json (format_payload (service_name s)
      (arr_time a) (arr_exc a) (arr_record a) (arr_task a)))) ?as"
    using assms(2) by (auto simp: line_loads)
  ultimately show ?thesis by blast
qed

text \<open>A message with a line break that tries to look like a record of its own.\<close>

definition forging :: "unit arrival" where
  "forging = \<lparr>arr_time = ''now'', arr_exc = None,
     arr_record = \<lparr>severity = WARNING, message = ''x'' @ [newline, quote], extra = [(''status_code'', LInt 401)]\<rparr>,
     arr_task = \<lparr>ctx = empty_context, logs = []\<rparr>\<rparr>"

definition demo_log_settings :: settings where
  "demo_log_settings = load_settings (\<lambda>_. 0) (\<lambda>_. False) user_service_init (\<lambda>_. None) (\<lambda>_. None)"

text \<open>The record that the middleware logs for a request.\<close>

definition answered :: "unit arrival" where
  "answered = \<lparr>arr_time = ''now'', arr_exc = None,
     arr_record = last (logs (snd (dispatch demo_log_settings ''id'' ''0.42''
       (\<lambda>_. ret \<lparr>status_code = 200, body = Payload (), resp_headers = []\<rparr>)
       \<lparr>req_method = ''GET'', req_path = ''/'', req_headers = Map.empty\<rparr> \<lparr>ctx = empty_context, logs = []\<rparr>))),
     arr_task = \<lparr>ctx = empty_context, logs = []\<rparr>\<rparr>"

lemma answered_record:
  "severity (arr_record answered) = INFO"
  "extra (arr_record answered) = [(''event'', LStr ''api.request''), (''method'', LStr ''GET''),
     (''path'', LStr ''/''), (''status_code'', LInt 200), (''latency_ms'', LFloat ''0.42'')]"
  by (simp_all add: answered_def dispatch_def dispatch_body_def set_request_context_def in_child_task_def
      bindM_def catchM_def Let_def)

lemma demo_arrivals_fit: "a \<in> set [forging, answered] \<Longrightarrow> record_fits (arr_record a)"
proof -
  have "length (dec 401) \<le> 4300" "length (dec 200) \<le> 4300" "float_text ''0.42''" by code_simp+
  then show "a \<in> set [forging, answered] \<Longrightarrow> record_fits (arr_record a)"
    by (auto simp: record_fits_def forging_def answered_record)
qed

theorem log_stream_reads_back_witness:
  "\<exists>g' l1 l2 p. configure_service_logging demo_log_settings
       \<lparr>root_handlers = [\<lparr>h_stream = Stream 3, h_service = ''old''\<rparr>], root_level = 50\<rparr> = (Inr (), g') \<and>
     split_on newline (stream_output g' Stdout [forging, answered]) = [l1, l2, []] \<and>
     loads l2 = Some p \<and> dict_get p ''latency_ms'' = Some (JFloat ''0.42'')"
    (is "\<exists>g' l1 l2 p. ?run = _ \<and> _")
proof -
  let ?p = "payload_json (format_payload (service_name demo_log_settings) (arr_time answered) (arr_exc answered)
      (arr_record answered) (arr_task answered))"
  have "case ?run of (r, g) \<Rightarrow> r = Inr () \<and> root_level g = 20" by code_simp
  then obtain g' where run: "?run = (Inr (), g')" and l: "root_level g' = 20" by (elim run_to)
  have shown: "filter (\<lambda>a. root_level g' \<le> level_of (severity (arr_record a))) [forging, answered] = [forging, answered]"
    using l by (simp add: answered_record level_of_def forging_def)
  from log_stream_reads_back [OF run demo_arrivals_fit, of "[forging, answered]"]
  obtain lines where s: "split_on newline (stream_output g' Stdout [forging, answered]) = lines @ [[]]"
    and m: "map loads lines = map (\<lambda>a. Some (payload_json (format_payload (service_name demo_log_settings)
      (arr_time a) (arr_exc a) (arr_record a) (arr_task a)))) [forging, answered]"
    unfolding shown by blast
  from m obtain l1 l2 where "lines = [l1, l2]" and "loads l2 = Some ?p"
    by (auto simp: map_eq_Cons_conv)
  moreover have "dict_get ?p ''latency_ms'' = Some (JFloat ''0.42'')" by code_simp
  ultimately show ?thesis using run s by auto
qed

end
