(* ===== verification/Zap_Openapi.thy ===== *)
theory Zap_Openapi
  imports Json_Text
begin

text \<open>
  scripts/generate-zap-openapi.py: the OpenAPI document that the security scan of the gateway runs
  on, and the script that writes it.

  A path is the list of its parts, as \<open>pathlib\<close> splits it; the file system is the set of directories
  and the texts of the files.  \<open>path_text\<close>, a path as it is printed, and the parsing of the command line
  are Python's.
\<close>

section \<open>The document\<close>

definition described :: "string \<Rightarrow> json" where
  "described d = JObj [(''description'', JStr d)]"

definition get_operation :: "string \<Rightarrow> string \<Rightarrow> json" where
  "get_operation summary ok =
     JObj [(''get'', JObj
       [(''summary'', JStr summary),
        (''responses'', JObj
          [(''200'', described ok), (''401'', described ''Authentication required''),
           (''403'', described ''Access denied'')]),
        (''security'', JArr [JObj [(''bearerAuth'', JArr [])]])])]"

definition webhook_operation :: json where
  "webhook_operation =
     JObj [(''post'', JObj
       [(''summary'', JStr ''Stripe webhook endpoint''),
        (''requestBody'', JObj
          [(''required'', JBool True),
           (''content'', JObj
             [(''application/json'', JObj
               [(''schema'', JObj
                 [(''type'', JStr ''object''),
                  (''additionalProperties'', JBool True),
                  (''example'', JObj
                    [(''id'', JStr ''evt_zap_smoke''),
                     (''type'', JStr ''payment_intent.succeeded''),
                     (''data'', JObj [(''object'', JObj [(''id'', JStr ''pi_zap_smoke'')])])])])])])]),
        (''parameters'', JArr
          [JObj
            [(''name'', JStr ''Stripe-Signature''),
             (''in'', JStr ''header''),
             (''required'', JBool False),
             (''schema'', JObj [(''type'', JStr ''string'')])]]),
        (''responses'', JObj
          [(''200'', described ''Webhook accepted''), (''400'', described ''Invalid Stripe signature'')])])]"

definition build_openapi :: "string \<Rightarrow> json" where
  "build_openapi server_url =
     JObj
      [(''openapi'', JStr ''3.0.3''),
       (''info'', JObj
         [(''title'', JStr ''NT219 SaaS Gateway ZAP Scan''),
          (''version'', JStr ''1.0.0''),
          (''description'', JStr ''Gateway-facing API surface used for local OWASP ZAP API scans.'')]),
       (''servers'', JArr [JObj [(''url'', JStr (rstrip ''/'' server_url))]]),
       (''paths'', JObj
         [(''/api/v1/resources'', get_operation ''List tenant resources'' ''Resource list''),
          (''/api/v1/payments'', get_operation ''List tenant payments'' ''Payment list''),
          (''/api/v1/admin/tenants'', get_operation ''List tenants'' ''Tenant list''),
          (''/webhooks/stripe'', webhook_operation)]),
       (''components'', JObj
         [(''securitySchemes'', JObj
           [(''bearerAuth'', JObj
             [(''type'', JStr ''http''), (''scheme'', JStr ''bearer''), (''bearerFormat'', JStr ''JWT'')])])])]"

section \<open>The script\<close>

type_synonym path = "string list"

record files =
  directories :: "path set"
  texts :: "path \<Rightarrow> string option"
  console_lines :: "string list"

text \<open>\<open>mkdir(parents=True, exist_ok=True)\<close>: a file in the way is an error.\<close>

fun make_dirs :: "path \<Rightarrow> path \<Rightarrow> (files, unit) prog" where
  "make_dirs done [] = ret ()"
| "make_dirs done (part # rest) =
     bindM (gets (\<lambda>f. texts f (done @ [part]))) (\<lambda>file.
     case file of
       Some _ \<Rightarrow> throw OSError
     | None \<Rightarrow>
         bindM (modify (directories_update (insert (done @ [part])))) (\<lambda>_. make_dirs (done @ [part]) rest))"

definition write_text :: "path \<Rightarrow> string \<Rightarrow> (files, unit) prog" where
  "write_text path t =
     bindM (gets (\<lambda>f. path \<in> directories f)) (\<lambda>dir.
     if dir then throw OSError else modify (texts_update (\<lambda>m. m(path \<mapsto> t))))"

definition zap_main :: "(path \<Rightarrow> string) \<Rightarrow> string \<Rightarrow> path \<Rightarrow> (files, unit) prog" where
  "zap_main path_text server_url out =
     bindM (make_dirs [] (butlast out)) (\<lambda>_.
     bindM (write_text out (dumps_fmt True (Some 2) 0 (build_openapi server_url) @ [char_of (10 :: int)])) (\<lambda>_.
     modify (console_lines_update (\<lambda>ls. ls @
       [''wrote '' @ path_text out @ '' server_url='' @ rstrip ''/'' server_url]))))"

section \<open>Lemmas\<close>

lemma make_dirs_texts: "keeps texts (make_dirs done parts)"
  by (induction parts arbitrary: "done") (auto intro!: keeps_intros)

lemma rstrip_no_slash: "\<not> endswith ''/'' (rstrip ''/'' s)"
proof (cases "dropWhile (\<lambda>c. c \<in> set ''/'') (rev s)")
  case Nil
  then show ?thesis by (simp only: endswith_def rstrip_def startswith_def rev_rev_ident) simp
next
  case (Cons c r)
  then have "c \<notin> set ''/''" by (metis dropWhile_eq_Cons_conv)
  with Cons show ?thesis by (simp only: endswith_def rstrip_def startswith_def rev_rev_ident) simp
qed

lemma openapi_writable:
  assumes "is_ascii server_url"
  shows "writable True (build_openapi server_url)"
proof -
  obtain cs where "server_url = rstrip ''/'' server_url @ cs" using rstrip_suffix by blast
  with assms have "is_ascii (rstrip ''/'' server_url)" by (metis is_ascii_def list_all_append)
  then show ?thesis
    by (simp add: build_openapi_def get_operation_def webhook_operation_def described_def is_ascii_def code_def)
qed

text \<open>The names of the security schemes that the operations of a document require.\<close>

fun schemes_used :: "json \<Rightarrow> string list" where
  "schemes_used (JArr xs) = concat (map schemes_used xs)"
| "schemes_used (JObj items) =
     concat (map (\<lambda>(k, v). if k = ''security'' then (case v of JArr rs \<Rightarrow>
         concat (map (\<lambda>r. case r of JObj ss \<Rightarrow> map fst ss | _ \<Rightarrow> []) rs) | _ \<Rightarrow> []) else schemes_used v) items)"
| "schemes_used j = []"

definition declared_schemes :: "json \<Rightarrow> string list" where
  "declared_schemes doc =
     (case Option.bind (dict_get doc ''components'') (\<lambda>c. dict_get c ''securitySchemes'') of
        Some (JObj ss) \<Rightarrow> map fst ss | _ \<Rightarrow> [])"

lemma openapi_schemes:
  "set (schemes_used (build_openapi server_url)) = {''bearerAuth''}"
  "declared_schemes (build_openapi server_url) = [''bearerAuth'']"
  by (simp_all add: build_openapi_def get_operation_def webhook_operation_def described_def declared_schemes_def)

lemma make_dirs_clear:
  assumes "\<forall>n \<le> length parts. texts f (done @ take n parts) = None"
  shows "\<exists>f'. make_dirs done parts f = (Inr (), f') \<and> texts f' = texts f \<and> console_lines f' = console_lines f \<and>
    directories f' \<subseteq> directories f \<union> {p. length p \<le> length done + length parts}"
  using assms
proof (induction parts arbitrary: "done" f)
  case (Cons part rest)
  let ?f = "directories_update (insert (done @ [part])) f"
  have "texts f (done @ [part]) = None" using Cons.prems [rule_format, of 1] by simp
  moreover have "\<forall>n \<le> length rest. texts ?f ((done @ [part]) @ take n rest) = None"
  proof (intro allI impI)
    fix n assume "n \<le> length rest"
    then show "texts ?f ((done @ [part]) @ take n rest) = None" using Cons.prems [rule_format, of "Suc n"] by simp
  qed
  from Cons.IH [OF this] obtain f' where "make_dirs (done @ [part]) rest ?f = (Inr (), f')" "texts f' = texts f"
    "console_lines f' = console_lines f"
    "directories f' \<subseteq> insert (done @ [part]) (directories f) \<union> {p. length p \<le> Suc (length done) + length rest}" by auto
  ultimately show ?case by (intro exI [of _ f']) auto
qed simp

section \<open>Properties\<close>

text \<open>
  The scan gets a well-formed document: when no file is in the way of the output path, the script
  succeeds and leaves every other file alone; the file it writes is JSON, that is read back as the
  document of \<open>build_openapi\<close> in its order; the server URL in it does not end in a slash; and the
  security schemes that the operations require are exactly the declared ones.
\<close>

theorem zap_document_reads_back:
  assumes "\<forall>n < length out. texts f (take n out) = None" and "out \<notin> directories f" and "out \<noteq> []"
    and "is_ascii server_url"
  shows "\<exists>f' t. zap_main path_text server_url out f = (Inr (), f') \<and> texts f' = (texts f)(out \<mapsto> t) \<and>
    loads t = Some (build_openapi server_url) \<and> \<not> endswith ''/'' (rstrip ''/'' server_url) \<and>
    set (schemes_used (build_openapi server_url)) = set (declared_schemes (build_openapi server_url))"
proof -
  let ?t = "dumps_fmt True (Some 2) 0 (build_openapi server_url) @ [char_of (10 :: int)]"
  have "\<forall>n \<le> length (butlast out). texts f ([] @ take n (butlast out)) = None"
  proof (intro allI impI)
    fix n assume "n \<le> length (butlast out)"
    with assms(3) have "n < length out" by (cases "length out") auto
    with assms(1) show "texts f ([] @ take n (butlast out)) = None" by (simp add: take_butlast)
  qed
  from make_dirs_clear [OF this] obtain f1 where m: "make_dirs [] (butlast out) f = (Inr (), f1)" "texts f1 = texts f"
    "directories f1 \<subseteq> directories f \<union> {p. length p \<le> length (butlast out)}" by auto
  from assms(3) have "length (butlast out) < length out" by (cases "length out") auto
  with m(3) assms(2) have "out \<notin> directories f1" by fastforce
  with m have "\<exists>f'. zap_main path_text server_url out f = (Inr (), f') \<and> texts f' = (texts f)(out \<mapsto> ?t)"
    by (simp add: zap_main_def write_text_def bindM_def)
  moreover have "blank [char_of (10 :: int)]" by (simp add: blank_def)
  from loads_dumps_fmt [OF openapi_writable [OF assms(4)] this]
  have "loads ?t = Some (build_openapi server_url)" .
  moreover note rstrip_no_slash [of server_url]
  moreover have "set (schemes_used (build_openapi server_url)) = set (declared_schemes (build_openapi server_url))"
    by (simp add: openapi_schemes)
  ultimately show ?thesis by blast
qed

theorem zap_document_reads_back_witness:
  "\<exists>f' t. zap_main concat ''https://gw:8443//'' [''tests'', ''reports'', ''zap.json'']
       \<lparr>directories = {[''tests'']}, texts = (\<lambda>_. None), console_lines = []\<rparr> = (Inr (), f') \<and>
     texts f' [''tests'', ''reports'', ''zap.json''] = Some t \<and> loads t = Some (build_openapi ''https://gw:8443//'')"
proof -
  let ?f = "\<lparr>directories = {[''tests'']}, texts = (\<lambda>_. None), console_lines = []\<rparr>"
  let ?out = "[''tests'', ''reports'', ''zap.json'']"
  have "is_ascii ''https://gw:8443//''" by code_simp
  with zap_document_reads_back [of ?out ?f "''https://gw:8443//''" concat]
  obtain f' t where "zap_main concat ''https://gw:8443//'' ?out ?f = (Inr (), f')" "texts f' = [?out \<mapsto> t]"
    "loads t = Some (build_openapi ''https://gw:8443//'')" by auto
  then show ?thesis by auto
qed

end
